(* ===== verification/Prelude.thy ===== *)
theory Prelude
  imports Complex_Main
begin

text \<open>
  Vocabulary shared by every theory of the development.

  \<^item> Python strings: a string is the list of its code points (\<open>pystr\<close>), because several
    validators and the comparison of tag values look at code points beyond ASCII. An ASCII
    literal of the source is written \<open>lit ''...''\<close>.
  \<^item> Python exceptions: a computation that may raise has type \<open>'e + 'a\<close>, with \<open>Inl\<close> for
    the exception; \<open>r_bind\<close>, \<open>r_map\<close> and \<open>r_fold\<close> are sequencing, a comprehension and a
    loop over such computations, each of which stops at the first exception.
  \<^item> \<open>dedup\<close> is \<open>list(dict.fromkeys(xs))\<close>; \<open>dict_index\<close> is a dict comprehension
    keyed by a function of the element, where a later element wins.
  \<^item> \<open>show_nat\<close>, \<open>show_int\<close> are \<open>str\<close> on integers, \<open>join\<close> is \<open>str.join\<close>.
\<close>

named_theorems py_simps \<open>unfolding rules for the Python vocabulary\<close>
named_theorems inv_intros \<open>introduction rules for the invariants of the components\<close>
named_theorems frame_simps \<open>what an operation leaves unchanged\<close>

section \<open>Strings\<close>

type_synonym pystr = "nat list"

definition lit :: "string \<Rightarrow> pystr" where
  "lit s = map of_char s"

lemma lit_eq_iff [simp]: "lit s = lit t \<longleftrightarrow> s = t"
  by (auto simp: lit_def inj_map_eq_map inj_on_def)

lemma lit_Nil [simp]: "lit [] = []"
  by (simp add: lit_def)

lemma lit_eq_Nil [simp]: "lit s = [] \<longleftrightarrow> s = []" "[] = lit s \<longleftrightarrow> s = []"
  by (auto simp: lit_def)

lemma length_lit [simp]: "length (lit s) = length s"
  by (simp add: lit_def)

lemma lit_append: "lit (s @ t) = lit s @ lit t"
  by (simp add: lit_def)

lemma lit_Cons: "lit (c # s) = of_char c # lit s"
  by (simp add: lit_def)

text \<open>\<open>sep.join(parts)\<close>.\<close>

fun join :: "pystr \<Rightarrow> pystr list \<Rightarrow> pystr" where
  "join sep [] = []"
| "join sep [p] = p"
| "join sep (p # q # ps) = p @ sep @ join sep (q # ps)"

text \<open>Prefix test and substring test on strings (\<open>startswith\<close>, \<open>in\<close>).\<close>

fun starts_with :: "pystr \<Rightarrow> pystr \<Rightarrow> bool" where
  "starts_with s [] = True"
| "starts_with [] (c # p) = False"
| "starts_with (d # s) (c # p) = (d = c \<and> starts_with s p)"

lemma starts_with_iff: "starts_with s p \<longleftrightarrow> (\<exists>r. s = p @ r)"
  by (induction s p rule: starts_with.induct) auto

definition ends_with :: "pystr \<Rightarrow> pystr \<Rightarrow> bool" where
  "ends_with s p \<longleftrightarrow> starts_with (rev s) (rev p)"

lemma ends_with_iff: "ends_with s p \<longleftrightarrow> (\<exists>r. s = r @ p)"
  unfolding ends_with_def starts_with_iff
  by (metis rev_append rev_rev_ident)

fun contains_str :: "pystr \<Rightarrow> pystr \<Rightarrow> bool" where
  "contains_str [] p = (p = [])"
| "contains_str (c # s) p = (starts_with (c # s) p \<or> contains_str s p)"

lemma contains_str_append: "contains_str (a @ p @ b) p"
proof (induction a)
  case Nil
  have "starts_with (p @ b) p" by (auto simp: starts_with_iff)
  then show ?case by (cases "p @ b") auto
next
  case (Cons c a)
  then show ?case by simp
qed

lemma contains_str_iff: "contains_str s p \<longleftrightarrow> (\<exists>a b. s = a @ p @ b)"
proof
  show "contains_str s p \<Longrightarrow> \<exists>a b. s = a @ p @ b"
  proof (induction s)
    case Nil
    then show ?case by auto
  next
    case (Cons c s)
    from Cons.prems consider "starts_with (c # s) p" | "contains_str s p" by auto
    then show ?case
    proof cases
      case 1
      then show ?thesis unfolding starts_with_iff by (metis append_Nil)
    next
      case 2
      then obtain a b where "s = a @ p @ b" using Cons.IH by blast
      then have "c # s = (c # a) @ p @ b" by simp
      then show ?thesis by blast
    qed
  qed
qed (auto simp: contains_str_append)

section \<open>Integers as text\<close>

fun show_nat :: "nat \<Rightarrow> pystr" where
  "show_nat n = (if n < 10 then [48 + n] else show_nat (n div 10) @ [48 + n mod 10])"

declare show_nat.simps [simp del]

definition show_int :: "int \<Rightarrow> pystr" where
  "show_int i = (if i < 0 then 45 # show_nat (nat (- i)) else show_nat (nat i))"

text \<open>The inverse reading of a run of decimal digits.\<close>

definition digits_value :: "pystr \<Rightarrow> nat" where
  "digits_value ds = foldl (\<lambda>v c. 10 * v + (c - 48)) 0 ds"

lemma digits_value_snoc: "digits_value (ds @ [c]) = 10 * digits_value ds + (c - 48)"
  by (simp add: digits_value_def)

lemma digits_value_show_nat: "digits_value (show_nat n) = n"
proof (induction n rule: show_nat.induct)
  case (1 n)
  show ?case
  proof (cases "n < 10")
    case True
    then show ?thesis by (simp add: show_nat.simps [of n] digits_value_def)
  next
    case False
    with 1 have "digits_value (show_nat n) = 10 * (n div 10) + n mod 10"
      by (simp add: show_nat.simps [of n] digits_value_snoc)
    then show ?thesis by simp
  qed
qed

lemma show_nat_inj [simp]: "show_nat m = show_nat n \<longleftrightarrow> m = n"
  by (metis digits_value_show_nat)

lemma show_nat_digits: "c \<in> set (show_nat n) \<Longrightarrow> 48 \<le> c \<and> c \<le> 57"
proof (induction n rule: show_nat.induct)
  case (1 n)
  then show ?case by (subst (asm) (2) show_nat.simps) (auto split: if_splits)
qed

lemma show_nat_nonempty [simp]: "show_nat n \<noteq> []"
  by (subst show_nat.simps) simp

section \<open>Computations that may raise\<close>

fun r_bind :: "'e + 'a \<Rightarrow> ('a \<Rightarrow> 'e + 'b) \<Rightarrow> 'e + 'b" where
  "r_bind (Inl e) f = Inl e"
| "r_bind (Inr x) f = f x"

fun r_map :: "('a \<Rightarrow> 'e + 'b) \<Rightarrow> 'a list \<Rightarrow> 'e + 'b list" where
  "r_map f [] = Inr []"
| "r_map f (x # xs) = r_bind (f x) (\<lambda>y. r_bind (r_map f xs) (\<lambda>ys. Inr (y # ys)))"

fun r_fold :: "('s \<Rightarrow> 'a \<Rightarrow> 'e + 's) \<Rightarrow> 's \<Rightarrow> 'a list \<Rightarrow> 'e + 's" where
  "r_fold f s [] = Inr s"
| "r_fold f s (x # xs) = r_bind (f s x) (\<lambda>s'. r_fold f s' xs)"

definition r_ok :: "'e + 'a \<Rightarrow> bool" where
  "r_ok r = (case r of Inl _ \<Rightarrow> False | Inr _ \<Rightarrow> True)"

lemma r_ok_simps [simp]: "\<not> r_ok (Inl e)" "r_ok (Inr x)"
  by (simp_all add: r_ok_def)

lemma r_ok_iff: "r_ok r \<longleftrightarrow> (\<exists>x. r = Inr x)"
  by (cases r) auto

lemma r_ok_bind: "r_ok (r_bind r f) \<longleftrightarrow> (\<exists>x. r = Inr x \<and> r_ok (f x))"
  by (cases r) auto

lemma r_ok_bind_Inr [simp]: "r_ok (r_bind r (\<lambda>x. Inr (f x))) \<longleftrightarrow> r_ok r"
  by (cases r) auto

lemma r_bind_Inr: "r_bind r f = Inr y \<longleftrightarrow> (\<exists>x. r = Inr x \<and> f x = Inr y)"
  by (cases r) auto

lemma r_bind_Inl: "r_bind r f = Inl e \<longleftrightarrow> r = Inl e \<or> (\<exists>x. r = Inr x \<and> f x = Inl e)"
  by (cases r) auto

lemma r_bind_InrE [elim!]:
  assumes "r_bind r f = Inr y"
  obtains x where "r = Inr x" and "f x = Inr y"
  using assms by (auto simp: r_bind_Inr)

lemma r_map_Inr_length: "r_map f xs = Inr ys \<Longrightarrow> length ys = length xs"
  by (induction xs arbitrary: ys) auto

lemma r_map_Inr_map: "r_map (\<lambda>x. Inr (g x)) xs = Inr (map g xs)"
  by (induction xs) auto

lemma r_map_Inr_set:
  assumes "r_map f xs = Inr ys" and "y \<in> set ys"
  shows "\<exists>x \<in> set xs. f x = Inr y"
  using assms by (induction xs arbitrary: ys) auto

lemma r_map_Inr_all2: "r_map f xs = Inr ys \<longleftrightarrow> list_all2 (\<lambda>x y. f x = Inr y) xs ys"
proof (induction xs arbitrary: ys)
  case Nil
  then show ?case by auto
next
  case (Cons x xs)
  then show ?case by (cases ys) (auto simp: r_bind_Inr)
qed

lemma r_fold_append: "r_fold f s (xs @ ys) = r_bind (r_fold f s xs) (\<lambda>t. r_fold f t ys)"
proof (induction xs arbitrary: s)
  case Nil
  then show ?case by simp
next
  case (Cons x xs)
  then show ?case by (cases "f s x") simp_all
qed

lemma r_fold_invariant:
  assumes "r_fold f s xs = Inr t" and "P s"
    and "\<And>u x v. P u \<Longrightarrow> x \<in> set xs \<Longrightarrow> f u x = Inr v \<Longrightarrow> P v"
  shows "P t"
  using assms
proof (induction xs arbitrary: s)
  case Nil
  then show ?case by simp
next
  case (Cons x xs)
  from Cons.prems(1) obtain u where u: "f s x = Inr u" and rest: "r_fold f u xs = Inr t"
    by auto
  have "P u" using Cons.prems(2,3) u by (meson list.set_intros(1))
  then show ?case using Cons.IH [OF rest] Cons.prems(3) by (meson list.set_intros(2))
qed

text \<open>The same with a state: what a computation did before it raised stays done.\<close>

definition s_bind ::
  "('s \<Rightarrow> 's \<times> ('e + 'a)) \<Rightarrow> ('a \<Rightarrow> 's \<Rightarrow> 's \<times> ('e + 'b)) \<Rightarrow> 's \<Rightarrow> 's \<times> ('e + 'b)" where
  "s_bind m f s = (case m s of (s', Inl e) \<Rightarrow> (s', Inl e) | (s', Inr x) \<Rightarrow> f x s')"

definition s_lift :: "'e + 'a \<Rightarrow> 's \<Rightarrow> 's \<times> ('e + 'a)" where
  "s_lift r s = (s, r)"

fun s_map :: "('a \<Rightarrow> 's \<Rightarrow> 's \<times> ('e + 'b)) \<Rightarrow> 'a list \<Rightarrow> 's \<Rightarrow> 's \<times> ('e + 'b list)" where
  "s_map f [] = s_lift (Inr [])"
| "s_map f (x # xs) = s_bind (f x) (\<lambda>y. s_bind (s_map f xs) (\<lambda>ys. s_lift (Inr (y # ys))))"

lemma s_lift_apply [simp]: "s_lift r s = (s, r)"
  by (simp add: s_lift_def)

lemma s_bind_Inr: "s_bind m f s = (s', Inr y) \<longleftrightarrow> (\<exists>t x. m s = (t, Inr x) \<and> f x t = (s', Inr y))"
  by (auto simp: s_bind_def split: prod.splits sum.splits)

lemma s_bind_step [simp]:
  "m s = (t, Inr x) \<Longrightarrow> s_bind m f s = f x t"
  "m s = (t, Inl e) \<Longrightarrow> s_bind m f s = (t, Inl e)"
  by (simp_all add: s_bind_def)

lemma list_all2_in_set2: "list_all2 P xs ys \<Longrightarrow> y \<in> set ys \<Longrightarrow> \<exists>x \<in> set xs. P x y"
  by (induction xs ys rule: list_all2_induct) auto

lemma list_all2_in_set1: "list_all2 P xs ys \<Longrightarrow> x \<in> set xs \<Longrightarrow> \<exists>y \<in> set ys. P x y"
  by (induction xs ys rule: list_all2_induct) auto

lemma map_fixed: "map f xs = xs \<Longrightarrow> x \<in> set xs \<Longrightarrow> f x = x"
  by (induction xs) auto

section \<open>Dictionaries and deduplication\<close>

fun dedup_from :: "'a set \<Rightarrow> 'a list \<Rightarrow> 'a list" where
  "dedup_from seen [] = []"
| "dedup_from seen (x # xs) =
     (if x \<in> seen then dedup_from seen xs else x # dedup_from (insert x seen) xs)"

definition dedup :: "'a list \<Rightarrow> 'a list" where
  "dedup xs = dedup_from {} xs"

lemma set_dedup_from: "set (dedup_from seen xs) = set xs - seen"
  by (induction xs arbitrary: seen) auto

lemma distinct_dedup_from: "distinct (dedup_from seen xs)"
  by (induction xs arbitrary: seen) (auto simp: set_dedup_from)

lemma set_dedup [simp]: "set (dedup xs) = set xs"
  by (simp add: dedup_def set_dedup_from)

lemma distinct_dedup [simp]: "distinct (dedup xs)"
  by (simp add: dedup_def distinct_dedup_from)

lemma dedup_from_id: "distinct xs \<Longrightarrow> set xs \<inter> seen = {} \<Longrightarrow> dedup_from seen xs = xs"
  by (induction xs arbitrary: seen) auto

lemma dedup_id: "distinct xs \<Longrightarrow> dedup xs = xs"
  by (simp add: dedup_def dedup_from_id)

lemma dedup_eq_Nil [simp]: "dedup xs = [] \<longleftrightarrow> xs = []"
  by (metis set_dedup set_empty)

text \<open>\<open>{key(x): x for x in xs}\<close>: the last element with a key is the one stored.\<close>

definition dict_index :: "('a \<Rightarrow> 'k) \<Rightarrow> 'a list \<Rightarrow> ('k \<rightharpoonup> 'a)" where
  "dict_index key xs = map_of (rev (map (\<lambda>x. (key x, x)) xs))"

lemma dict_index_Some: "dict_index key xs k = Some x \<Longrightarrow> x \<in> set xs \<and> key x = k"
  unfolding dict_index_def by (auto dest!: map_of_SomeD)

lemma dom_dict_index: "dom (dict_index key xs) = key ` set xs"
  unfolding dict_index_def by (auto simp: dom_map_of_conv_image_fst image_image)

lemma dict_index_None: "dict_index key xs k = None \<longleftrightarrow> k \<notin> key ` set xs"
  using dom_dict_index [of key xs] by (metis domIff)

lemma dict_index_distinct:
  assumes "distinct (map key xs)" and "x \<in> set xs"
  shows "dict_index key xs (key x) = Some x"
proof -
  have "distinct (map fst (rev (map (\<lambda>x. (key x, x)) xs)))"
    using assms(1) by (simp add: rev_map [symmetric] comp_def)
  then show ?thesis unfolding dict_index_def using assms(2) by (intro map_of_is_SomeI) auto
qed

text \<open>Python truthiness of an optional string: \<open>None\<close> and the empty string are false.\<close>

fun truthy :: "pystr option \<Rightarrow> bool" where
  "truthy None = False"
| "truthy (Some s) = (s \<noteq> [])"

end
