(* ===== verification/Enums.thy ===== *)
theory Enums
  imports Prelude
begin

text \<open>
  The string enumerations of \<open>app/core/enums.py\<close>: one datatype per \<open>StrEnum\<close>, its
  \<open>.value\<close> function, and for the two enumerations that the code parses back from a database
  column (\<open>DetectorType(...)\<close>, \<open>ResourceType(...)\<close>) the parser, which raises \<open>ValueError\<close>
  (here \<open>None\<close>) on any other string.
\<close>

section \<open>The enumerations\<close>

datatype mode = DEMO | LIVE

datatype resource_type = EBS_VOLUME | ELASTIC_IP | EC2_INSTANCE | EBS_SNAPSHOT

datatype detector_type =
    UNATTACHED_EBS_VOLUME
  | UNASSOCIATED_ELASTIC_IP
  | STOPPED_EC2_INSTANCE
  | SNAPSHOT_MISSING_SOURCE_VOLUME

datatype finding_status = OPEN | DISMISSED | RESOLVED | IGNORED

datatype persistence_state = NEWLY_OBSERVED | PERSISTENT

datatype detection_confidence = DC_HIGH | DC_MEDIUM | DC_LOW

datatype remediation_risk = RISK_LOW | RISK_REVIEW | RISK_HIGH

datatype cost_confidence = COST_HIGH | COST_MEDIUM | COST_LOW | COST_UNAVAILABLE

datatype ownership_status = OWN_CONFIRMED | OWN_LIKELY | OWN_UNKNOWN

datatype scan_status = SCAN_RUNNING | SCAN_COMPLETED | SCAN_PARTIAL | SCAN_FAILED

datatype region_coverage_status =
  REGION_COMPLETE | REGION_PARTIAL | REGION_FAILED | REGION_SKIPPED

datatype detector_coverage_status =
  CELL_COMPLETE | CELL_MISSING_PERMISSION | CELL_FAILED | CELL_SKIPPED

datatype script_kind = GUARDED_REMEDIATION | INVESTIGATION

section \<open>Their values\<close>

fun mode_value :: "mode \<Rightarrow> pystr" where
  "mode_value DEMO = lit ''demo''"
| "mode_value LIVE = lit ''live''"

fun resource_type_value :: "resource_type \<Rightarrow> pystr" where
  "resource_type_value EBS_VOLUME = lit ''ebs_volume''"
| "resource_type_value ELASTIC_IP = lit ''elastic_ip''"
| "resource_type_value EC2_INSTANCE = lit ''ec2_instance''"
| "resource_type_value EBS_SNAPSHOT = lit ''ebs_snapshot''"

fun detector_type_value :: "detector_type \<Rightarrow> pystr" where
  "detector_type_value UNATTACHED_EBS_VOLUME = lit ''unattached_ebs_volume''"
| "detector_type_value UNASSOCIATED_ELASTIC_IP = lit ''unassociated_elastic_ip''"
| "detector_type_value STOPPED_EC2_INSTANCE = lit ''stopped_ec2_instance''"
| "detector_type_value SNAPSHOT_MISSING_SOURCE_VOLUME = lit ''snapshot_missing_source_volume''"

fun finding_status_value :: "finding_status \<Rightarrow> pystr" where
  "finding_status_value OPEN = lit ''open''"
| "finding_status_value DISMISSED = lit ''dismissed''"
| "finding_status_value RESOLVED = lit ''resolved''"
| "finding_status_value IGNORED = lit ''ignored''"

fun script_kind_value :: "script_kind \<Rightarrow> pystr" where
  "script_kind_value GUARDED_REMEDIATION = lit ''guarded_remediation''"
| "script_kind_value INVESTIGATION = lit ''investigation''"

fun persistence_state_value :: "persistence_state \<Rightarrow> pystr" where
  "persistence_state_value NEWLY_OBSERVED = lit ''newly_observed''"
| "persistence_state_value PERSISTENT = lit ''persistent''"

fun detection_confidence_value :: "detection_confidence \<Rightarrow> pystr" where
  "detection_confidence_value DC_HIGH = lit ''HIGH''"
| "detection_confidence_value DC_MEDIUM = lit ''MEDIUM''"
| "detection_confidence_value DC_LOW = lit ''LOW''"

fun remediation_risk_value :: "remediation_risk \<Rightarrow> pystr" where
  "remediation_risk_value RISK_LOW = lit ''LOW''"
| "remediation_risk_value RISK_REVIEW = lit ''REVIEW''"
| "remediation_risk_value RISK_HIGH = lit ''HIGH''"

fun cost_confidence_value :: "cost_confidence \<Rightarrow> pystr" where
  "cost_confidence_value COST_HIGH = lit ''HIGH''"
| "cost_confidence_value COST_MEDIUM = lit ''MEDIUM''"
| "cost_confidence_value COST_LOW = lit ''LOW''"
| "cost_confidence_value COST_UNAVAILABLE = lit ''UNAVAILABLE''"

fun ownership_status_value :: "ownership_status \<Rightarrow> pystr" where
  "ownership_status_value OWN_CONFIRMED = lit ''CONFIRMED''"
| "ownership_status_value OWN_LIKELY = lit ''LIKELY''"
| "ownership_status_value OWN_UNKNOWN = lit ''UNKNOWN''"

definition detector_types :: "detector_type list" where
  "detector_types =
     [UNATTACHED_EBS_VOLUME, UNASSOCIATED_ELASTIC_IP, STOPPED_EC2_INSTANCE,
      SNAPSHOT_MISSING_SOURCE_VOLUME]"

definition resource_types :: "resource_type list" where
  "resource_types = [EBS_VOLUME, ELASTIC_IP, EC2_INSTANCE, EBS_SNAPSHOT]"

definition parse_detector_type :: "pystr \<Rightarrow> detector_type option" where
  "parse_detector_type s = find (\<lambda>d. detector_type_value d = s) detector_types"

definition parse_resource_type :: "pystr \<Rightarrow> resource_type option" where
  "parse_resource_type s = find (\<lambda>r. resource_type_value r = s) resource_types"

lemma detector_types_complete: "d \<in> set detector_types"
  by (cases d) (simp_all add: detector_types_def)

lemma parse_detector_type_value [simp]: "parse_detector_type (detector_type_value d) = Some d"
  by (cases d) (simp_all add: parse_detector_type_def detector_types_def)

lemma parse_resource_type_value [simp]: "parse_resource_type (resource_type_value r) = Some r"
  by (cases r) (simp_all add: parse_resource_type_def resource_types_def)

lemma detector_type_value_inj [simp]: "detector_type_value d = detector_type_value e \<longleftrightarrow> d = e"
  by (metis option.inject parse_detector_type_value)

lemma resource_type_value_inj [simp]: "resource_type_value r = resource_type_value s \<longleftrightarrow> r = s"
  by (metis option.inject parse_resource_type_value)

lemma finding_status_value_inj [simp]:
  "finding_status_value s = finding_status_value t \<longleftrightarrow> s = t"
  by (cases s; cases t) simp_all

section \<open>The order on remediation risk\<close>

text \<open>
  \<open>_RISK_ORDER\<close> of \<open>app/scanner/classification.py\<close> ranks the three risks; the rank makes
  them a linear order of the library.
\<close>

fun risk_order :: "remediation_risk \<Rightarrow> nat" where
  "risk_order RISK_LOW = 0"
| "risk_order RISK_REVIEW = 1"
| "risk_order RISK_HIGH = 2"

lemma risk_order_inj [simp]: "risk_order a = risk_order b \<longleftrightarrow> a = b"
  by (cases a; cases b) simp_all

instantiation remediation_risk :: linorder
begin

definition less_eq_remediation_risk :: "remediation_risk \<Rightarrow> remediation_risk \<Rightarrow> bool" where
  "less_eq_remediation_risk a b \<longleftrightarrow> risk_order a \<le> risk_order b"

definition less_remediation_risk :: "remediation_risk \<Rightarrow> remediation_risk \<Rightarrow> bool" where
  "less_remediation_risk a b \<longleftrightarrow> risk_order a < risk_order b"

instance
  by standard (auto simp: less_eq_remediation_risk_def less_remediation_risk_def)

end

lemma risk_le_HIGH [simp]: "r \<le> RISK_HIGH"
  by (cases r) (simp_all add: less_eq_remediation_risk_def)

lemma risk_LOW_le [simp]: "RISK_LOW \<le> r"
  by (cases r) (simp_all add: less_eq_remediation_risk_def)

end
