(* ===== verification/PyTime.thy ===== *)
theory PyTime
  imports Prelude
begin

text \<open>
  Python's \<open>datetime\<close> as the code uses it (\<open>app/core/clock.py\<close>, \<open>app/persistence/types.py\<close>,
  the \<open>_days\<close> helpers of the router, the narrative and the CLI).

  A \<open>datetime\<close> is the reading of its wall clock, in microseconds since
  0001-01-01T00:00:00, and its \<open>utcoffset()\<close> in microseconds (\<open>None\<close> for a naive value, the
  case the code tests with \<open>tzinfo is None or utcoffset() is None\<close>). Two aware values compare
  and subtract by their instant in UTC. Rows of the database hold UTC datetimes, which are
  determined by that instant: the other theories use \<open>instant\<close> for them. The bounds of
  \<open>datetime\<close> (years 1 to 9999) are not modelled.
\<close>

section \<open>Datetimes\<close>

type_synonym instant = int

record datetime =
  wall :: int
  utcoffset :: "int option"

definition aware :: "datetime \<Rightarrow> bool" where
  "aware d \<longleftrightarrow> utcoffset d \<noteq> None"

definition instant_of :: "datetime \<Rightarrow> instant" where
  "instant_of d = wall d - (case utcoffset d of None \<Rightarrow> 0 | Some o' \<Rightarrow> o')"

definition utc :: "instant \<Rightarrow> datetime" where
  "utc t = \<lparr>wall = t, utcoffset = Some 0\<rparr>"

text \<open>\<open>d.astimezone(UTC)\<close> of an aware value and \<open>d.replace(tzinfo=UTC)\<close>.\<close>

definition astimezone_utc :: "datetime \<Rightarrow> datetime" where
  "astimezone_utc d = utc (instant_of d)"

definition replace_utc :: "datetime \<Rightarrow> datetime" where
  "replace_utc d = d\<lparr>utcoffset := Some 0\<rparr>"

lemma aware_utc [simp]: "aware (utc t)"
  by (simp add: aware_def utc_def)

lemma instant_utc [simp]: "instant_of (utc t) = t"
  by (simp add: instant_of_def utc_def)

lemma instant_astimezone [simp]: "instant_of (astimezone_utc d) = instant_of d"
  by (simp add: astimezone_utc_def)

lemma utc_inj [simp]: "utc s = utc t \<longleftrightarrow> s = t"
  by (auto simp: utc_def)

section \<open>Durations\<close>

definition us_per_second :: int where "us_per_second = 1000000"
definition us_per_day :: int where "us_per_day = 86400000000"

text \<open>\<open>timedelta.days\<close> is the floor of the duration in days.\<close>

definition td_days :: "int \<Rightarrow> int" where
  "td_days d = d div us_per_day"

text \<open>\<open>max((end - start).days, 0)\<close>: \<open>_days\<close>, \<open>_days_since\<close> and \<open>_relative_days\<close>.\<close>

definition days_between :: "instant \<Rightarrow> instant \<Rightarrow> int" where
  "days_between start end' = max (td_days (end' - start)) 0"

lemma us_per_day_pos [simp]: "0 < us_per_day"
  by (simp add: us_per_day_def)

lemma td_days_mono: "d \<le> e \<Longrightarrow> td_days d \<le> td_days e"
  by (simp add: td_days_def zdiv_mono1)

lemma td_days_ge_iff: "n \<le> td_days d \<longleftrightarrow> n * us_per_day \<le> d"
  unfolding td_days_def us_per_day_def by linarith

lemma td_days_nonneg_iff [simp]: "0 \<le> td_days d \<longleftrightarrow> 0 \<le> d"
  using td_days_ge_iff [of 0 d] by simp

lemma td_days_zero [simp]: "td_days 0 = 0"
  by (simp add: td_days_def)

lemma days_between_nonneg [simp]: "0 \<le> days_between s e"
  by (simp add: days_between_def)

section \<open>\<open>FixedClock\<close>\<close>

text \<open>\<open>FixedClock.__init__\<close> and \<open>advance_to\<close> raise \<open>ValueError\<close> on a naive value.\<close>

record fixed_clock =
  fc_at :: datetime

definition fixed_clock_init :: "datetime \<Rightarrow> pystr + fixed_clock" where
  "fixed_clock_init d =
     (if \<not> aware d then Inl (lit ''FixedClock requires a timezone-aware datetime'')
      else Inr \<lparr>fc_at = astimezone_utc d\<rparr>)"

definition clock_now :: "fixed_clock \<Rightarrow> datetime" where
  "clock_now c = fc_at c"

definition advance_to :: "fixed_clock \<Rightarrow> datetime \<Rightarrow> pystr + fixed_clock" where
  "advance_to c d =
     (if \<not> aware d then Inl (lit ''FixedClock requires a timezone-aware datetime'')
      else Inr (c\<lparr>fc_at := astimezone_utc d\<rparr>))"

section \<open>The column type \<open>UtcDateTime\<close>\<close>

definition process_bind_param :: "datetime option \<Rightarrow> pystr + datetime option" where
  "process_bind_param v =
     (case v of
        None \<Rightarrow> Inr None
      | Some d \<Rightarrow>
          if \<not> aware d then Inl (lit ''UtcDateTime requires a timezone-aware datetime'')
          else Inr (Some (astimezone_utc d)))"

definition process_result_value :: "datetime option \<Rightarrow> datetime option" where
  "process_result_value v =
     (case v of
        None \<Rightarrow> None
      | Some d \<Rightarrow> if \<not> aware d then Some (replace_utc d) else Some (astimezone_utc d))"

text \<open>
  What a driver may hand back for a stored UTC value: SQLite drops the zone and returns the
  naive wall clock; PostgreSQL returns an aware value of the same instant in the session's
  zone.
\<close>

inductive driver_returns :: "datetime \<Rightarrow> datetime \<Rightarrow> bool" where
  sqlite: "driver_returns d \<lparr>wall = wall d, utcoffset = None\<rparr>"
| postgres: "aware e \<Longrightarrow> instant_of e = instant_of d \<Longrightarrow> driver_returns d e"

lemma result_of_driver:
  assumes "driver_returns (utc t) e"
  shows "process_result_value (Some e) = Some (utc t)"
  using assms
  by (cases rule: driver_returns.cases)
     (auto simp: process_result_value_def aware_def replace_utc_def utc_def astimezone_utc_def
        instant_of_def)

section \<open>ISO dates\<close>

text \<open>
  \<open>date().isoformat()\<close> of a UTC datetime, by the proleptic Gregorian calendar, as
  \<open>_ord2ymd\<close> of the standard library computes it: split the day number into 400-year,
  100-year, 4-year and single-year cycles, then find the month.
\<close>

definition is_leap :: "int \<Rightarrow> bool" where
  "is_leap y \<longleftrightarrow> y mod 4 = 0 \<and> (y mod 100 \<noteq> 0 \<or> y mod 400 = 0)"

definition days_before_year :: "int \<Rightarrow> int" where
  "days_before_year y = (let z = y - 1 in z * 365 + z div 4 - z div 100 + z div 400)"

definition month_lengths :: "int \<Rightarrow> int list" where
  "month_lengths y = [31, if is_leap y then 29 else 28, 31, 30, 31, 30, 31, 31, 30, 31, 30, 31]"

fun find_month :: "int list \<Rightarrow> int \<Rightarrow> int \<Rightarrow> int \<times> int" where
  "find_month [] m d = (m, d)"
| "find_month (l # ls) m d = (if d < l then (m, d + 1) else find_month ls (m + 1) (d - l))"

definition ymd_of_day :: "int \<Rightarrow> int \<times> int \<times> int" where
  "ymd_of_day n0 =
     (let n400 = n0 div 146097; a = n0 mod 146097;
          n100 = a div 36524; b = a mod 36524;
          n4 = b div 1461; c = b mod 1461;
          n1 = c div 365; d = c mod 365;
          year = n400 * 400 + 1 + n100 * 100 + n4 * 4 + n1
      in if n1 = 4 \<or> n100 = 4 then (year - 1, 12, 31)
         else (case find_month (month_lengths year) 1 d of (m, dd) \<Rightarrow> (year, m, dd)))"

definition pad :: "nat \<Rightarrow> int \<Rightarrow> pystr" where
  "pad w i = (let s = show_int i in replicate (w - length s) 48 @ s)"

definition date_iso :: "instant \<Rightarrow> pystr" where
  "date_iso t =
     (case ymd_of_day (t div us_per_day) of
        (y, m, d) \<Rightarrow> pad 4 y @ lit ''-'' @ pad 2 m @ lit ''-'' @ pad 2 d)"

definition time_hms :: "instant \<Rightarrow> int \<times> int \<times> int \<times> int" where
  "time_hms t =
     (let us = t mod us_per_day; s = us div us_per_second
      in (s div 3600, (s div 60) mod 60, s mod 60, us mod us_per_second))"

text \<open>\<open>datetime.isoformat()\<close> of a UTC value; the microseconds are printed only when nonzero.\<close>

definition datetime_iso_utc :: "instant \<Rightarrow> pystr" where
  "datetime_iso_utc t =
     (case time_hms t of
        (h, m, s, us) \<Rightarrow>
          date_iso t @ lit ''T'' @ pad 2 h @ lit '':'' @ pad 2 m @ lit '':'' @ pad 2 s @
          (if us = 0 then [] else lit ''.'' @ pad 6 us) @ lit ''+00:00'')"

text \<open>\<open>strftime("%Y-%m-%dT%H:%M:%SZ")\<close>: the script generator's \<open>_timestamp\<close>.\<close>

definition timestamp_z :: "instant \<Rightarrow> pystr" where
  "timestamp_z t =
     (case time_hms t of
        (h, m, s, us) \<Rightarrow>
          date_iso t @ lit ''T'' @ pad 2 h @ lit '':'' @ pad 2 m @ lit '':'' @ pad 2 s @ lit ''Z'')"

lemma date_iso_example: "date_iso (738733 * us_per_day) = lit ''2023-08-02''"
  by code_simp

end
