(* ===== verification/PyDecimal.thy ===== *)
theory PyDecimal
  imports Prelude
begin

text \<open>
  Python's \<open>decimal.Decimal\<close> under the default context (28 digits, \<open>ROUND_HALF_EVEN\<close>), as the
  pricing code uses it: construction from an integer, multiplication, addition, and the sum of
  a generator from \<open>Decimal("0")\<close>. A finite decimal is a coefficient and an exponent; its
  value is the rational \<open>coeff * 10^expo\<close>. Every operation computes the exact result and
  rounds it to 28 digits (\<open>dec_fix\<close>), so \<open>Decimal(str(d))\<close>, which reprints and rereads
  the same coefficient and exponent, is the identity. Not modelled: NaN and infinities (the
  code rejects non-finite prices when it reads them), the sign of zero, and the exponent range
  (\<open>Emax\<close> = 999999).
\<close>

section \<open>Decimals\<close>

datatype decimal = Dec (coeff: int) (expo: int)

definition ten_pow :: "int \<Rightarrow> rat" where
  "ten_pow e = (if 0 \<le> e then 10 ^ nat e else 1 / 10 ^ nat (- e))"

definition dec_val :: "decimal \<Rightarrow> rat" where
  "dec_val d = rat_of_int (coeff d) * ten_pow (expo d)"

definition dec_of_int :: "int \<Rightarrow> decimal" where
  "dec_of_int n = Dec n 0"

definition dec_zero :: decimal where
  "dec_zero = Dec 0 0"

fun ndigits :: "nat \<Rightarrow> nat" where
  "ndigits n = (if n < 10 then 1 else Suc (ndigits (n div 10)))"

declare ndigits.simps [simp del]

definition prec :: nat where "prec = 28"

text \<open>Rounding a natural coefficient by \<open>k\<close> digits, half to even.\<close>

definition round_half_even :: "nat \<Rightarrow> nat \<Rightarrow> nat" where
  "round_half_even n k =
     (let q = n div 10 ^ k; r = n mod 10 ^ k
      in if 2 * r > 10 ^ k \<or> (2 * r = 10 ^ k \<and> odd q) then q + 1 else q)"

definition dec_fix :: "decimal \<Rightarrow> decimal" where
  "dec_fix d =
     (let c = nat \<bar>coeff d\<bar>; n = ndigits c
      in if n \<le> prec then d
         else (let k = n - prec; q = round_half_even c k;
                   q' = (if ndigits q > prec then q div 10 else q);
                   e' = expo d + int k + (if ndigits q > prec then 1 else 0)
               in Dec (if coeff d < 0 then - int q' else int q') e'))"

definition dec_mul :: "decimal \<Rightarrow> decimal \<Rightarrow> decimal" where
  "dec_mul a b = dec_fix (Dec (coeff a * coeff b) (expo a + expo b))"

definition dec_add :: "decimal \<Rightarrow> decimal \<Rightarrow> decimal" where
  "dec_add a b =
     (let e = min (expo a) (expo b)
      in dec_fix (Dec (coeff a * 10 ^ nat (expo a - e) + coeff b * 10 ^ nat (expo b - e)) e))"

text \<open>\<open>sum(xs, Decimal("0"))\<close>.\<close>

definition dec_sum :: "decimal list \<Rightarrow> decimal" where
  "dec_sum ds = foldl dec_add dec_zero ds"

section \<open>Exactness\<close>

lemma ndigits_le: "n < 10 ^ Suc k \<Longrightarrow> ndigits n \<le> Suc k"
proof (induction k arbitrary: n)
  case 0
  then show ?case by (simp add: ndigits.simps)
next
  case (Suc k)
  show ?case
  proof (cases "n < 10")
    case True
    then show ?thesis by (simp add: ndigits.simps [of n])
  next
    case False
    have "n div 10 < 10 ^ Suc k"
      using Suc.prems by (simp add: less_mult_imp_div_less mult.commute)
    with Suc.IH False show ?thesis by (simp add: ndigits.simps [of n])
  qed
qed

text \<open>A result of at most 28 digits is not rounded.\<close>

lemma dec_fix_small:
  assumes "\<bar>coeff d\<bar> < 10 ^ 28"
  shows "dec_fix d = d"
proof -
  have "nat \<bar>coeff d\<bar> < 10 ^ Suc 27"
    using assms by (simp add: nat_less_iff)
  then have "ndigits (nat \<bar>coeff d\<bar>) \<le> 28"
    using ndigits_le [of "nat \<bar>coeff d\<bar>" 27] by simp
  then show ?thesis by (simp add: dec_fix_def prec_def Let_def)
qed

lemma ten_pow_add: "ten_pow (a + b) = ten_pow a * ten_pow b"
proof -
  have *: "ten_pow e = 10 powi e" for e
    by (simp add: ten_pow_def power_int_def inverse_eq_divide power_divide)
  show ?thesis by (simp add: * power_int_add)
qed

lemma ten_pow_pos [simp]: "0 < ten_pow e"
  by (simp add: ten_pow_def)

lemma ten_pow_nonneg: "0 \<le> e \<Longrightarrow> ten_pow e = rat_of_int (10 ^ nat e)"
  by (simp add: ten_pow_def)

lemma dec_val_scale:
  assumes "e \<le> expo d"
  shows "rat_of_int (coeff d * 10 ^ nat (expo d - e)) * ten_pow e = dec_val d"
proof -
  have "ten_pow (expo d) = ten_pow (expo d - e) * ten_pow e"
    by (simp flip: ten_pow_add)
  then show ?thesis
    using assms by (simp add: dec_val_def ten_pow_nonneg)
qed

text \<open>
  The coefficients a sequence of operations meets stay small when every operand is a multiple
  of a common power of ten and the values are bounded: \<open>fits k b d\<close> says that \<open>d\<close> has
  exponent at least \<open>-k\<close> and that its coefficient, on the scale \<open>10^-k\<close>, is at most \<open>b\<close>.
\<close>

definition on_scale :: "nat \<Rightarrow> decimal \<Rightarrow> int" where
  "on_scale k d = coeff d * 10 ^ nat (expo d + int k)"

definition fits :: "nat \<Rightarrow> int \<Rightarrow> decimal \<Rightarrow> bool" where
  "fits k b d \<longleftrightarrow> - int k \<le> expo d \<and> expo d \<le> 0 \<and> \<bar>on_scale k d\<bar> \<le> b"

lemma fits_coeff:
  assumes "fits k b d"
  shows "\<bar>coeff d\<bar> \<le> b"
proof -
  have "\<bar>coeff d\<bar> * 1 \<le> \<bar>coeff d\<bar> * 10 ^ nat (expo d + int k)"
    by (intro mult_left_mono) auto
  also have "\<dots> = \<bar>on_scale k d\<bar>"
    by (simp add: on_scale_def abs_mult)
  finally show ?thesis using assms by (simp add: fits_def)
qed

lemma fits_mono: "fits k b d \<Longrightarrow> b \<le> b' \<Longrightarrow> fits k b' d"
  by (auto simp: fits_def)

lemma dec_add_exact:
  assumes "fits k b1 x" and "fits k b2 y" and "b1 + b2 < 10 ^ 28"
  shows "dec_val (dec_add x y) = dec_val x + dec_val y" and "fits k (b1 + b2) (dec_add x y)"
proof -
  define e where "e = min (expo x) (expo y)"
  define c where "c = coeff x * 10 ^ nat (expo x - e) + coeff y * 10 ^ nat (expo y - e)"
  have e: "e \<le> expo x" "e \<le> expo y" "- int k \<le> e" "e \<le> 0"
    using assms(1,2) by (auto simp: e_def fits_def)
  have sx: "coeff x * 10 ^ nat (expo x - e) * 10 ^ nat (e + int k) = on_scale k x"
    using e by (simp add: on_scale_def mult.assoc flip: power_add nat_add_distrib)
  have sy: "coeff y * 10 ^ nat (expo y - e) * 10 ^ nat (e + int k) = on_scale k y"
    using e by (simp add: on_scale_def mult.assoc flip: power_add nat_add_distrib)
  have scale: "on_scale k (Dec c e) = on_scale k x + on_scale k y"
    unfolding on_scale_def [of k "Dec c e"] by (simp only: decimal.sel c_def distrib_right sx sy)
  then have fit: "fits k (b1 + b2) (Dec c e)"
    using assms(1,2) e by (auto simp: fits_def)
  from fits_coeff [OF fit] assms(3) have "\<bar>c\<bar> < 10 ^ 28" by simp
  then have "dec_add x y = Dec c e"
    by (simp add: dec_add_def dec_fix_small Let_def c_def e_def)
  moreover have "dec_val (Dec c e) = dec_val x + dec_val y"
    unfolding dec_val_scale [OF e(1), symmetric] dec_val_scale [OF e(2), symmetric]
    by (simp only: dec_val_def decimal.sel c_def of_int_add distrib_right)
  ultimately show "dec_val (dec_add x y) = dec_val x + dec_val y"
    and "fits k (b1 + b2) (dec_add x y)" using fit by simp_all
qed

text \<open>Multiplying an integer quantity by a price on the scale.\<close>

lemma dec_mul_int_exact:
  assumes "fits k b p" and "\<bar>n\<bar> \<le> m" and "m * b < 10 ^ 28"
  shows "dec_val (dec_mul (dec_of_int n) p) = rat_of_int n * dec_val p"
    and "fits k (m * b) (dec_mul (dec_of_int n) p)"
proof -
  have b: "0 \<le> b" and m: "0 \<le> m" using assms(1,2) by (auto simp: fits_def)
  have "\<bar>n * coeff p\<bar> \<le> m * b"
    unfolding abs_mult using assms(2) fits_coeff [OF assms(1)] b m by (intro mult_mono) auto
  then have small: "\<bar>n * coeff p\<bar> < 10 ^ 28" using assms(3) by linarith
  then have eq: "dec_mul (dec_of_int n) p = Dec (n * coeff p) (expo p)"
    by (simp add: dec_mul_def dec_of_int_def dec_fix_small)
  then show "dec_val (dec_mul (dec_of_int n) p) = rat_of_int n * dec_val p"
    by (simp add: dec_val_def)
  have "\<bar>n * on_scale k p\<bar> \<le> m * b"
    unfolding abs_mult using assms(1,2) b m by (intro mult_mono) (auto simp: fits_def)
  then show "fits k (m * b) (dec_mul (dec_of_int n) p)"
    using assms(1) by (simp add: eq fits_def on_scale_def mult.assoc)
qed

lemma fits_zero [simp]: "0 \<le> b \<Longrightarrow> fits k b dec_zero"
  by (simp add: fits_def dec_zero_def on_scale_def)

lemma dec_val_zero [simp]: "dec_val dec_zero = 0"
  by (simp add: dec_val_def dec_zero_def)

lemma dec_fold_exact:
  assumes "\<forall>d \<in> set ds. fits k b d" and "0 \<le> b" and "fits k a acc"
    and "a + int (length ds) * b < 10 ^ 28"
  shows "dec_val (foldl dec_add acc ds) = dec_val acc + sum_list (map dec_val ds)
    \<and> fits k (a + int (length ds) * b) (foldl dec_add acc ds)"
  using assms
proof (induction ds arbitrary: acc a)
  case Nil
  then show ?case by simp
next
  case (Cons d ds)
  have bnd: "a + b < 10 ^ 28"
    using Cons.prems(2,4) mult_nonneg_nonneg [of "int (length ds)" b]
    by (simp add: distrib_right del: mult_nonneg_nonneg)
  from Cons.prems have "fits k b d" by simp
  note add = dec_add_exact [OF Cons.prems(3) this bnd]
  have "a + b + int (length ds) * b < 10 ^ 28"
    using Cons.prems(4) by (simp add: distrib_right)
  from Cons.IH [OF _ Cons.prems(2) add(2) this] Cons.prems(1) add(1)
  show ?case by (simp add: distrib_right add.assoc)
qed

lemma dec_sum_exact:
  assumes "\<forall>d \<in> set ds. fits k b d" and "0 \<le> b" and "int (length ds) * b < 10 ^ 28"
  shows "dec_val (dec_sum ds) = sum_list (map dec_val ds)"
    and "fits k (int (length ds) * b) (dec_sum ds)"
  using dec_fold_exact [OF assms(1,2), of 0 dec_zero] assms(3) by (simp_all add: dec_sum_def)

end
