(* ===== verification/ProviderBase.thy ===== *)
theory ProviderBase
  imports Enums PyTime PyDecimal
begin

text \<open>
  The provider boundary: the exceptions of \<open>app/providers/errors.py\<close> and the frozen records
  and abstract class of \<open>app/providers/base.py\<close>.

  The exception classes form one hierarchy under \<open>ProviderError\<close>; \<open>py_exc\<close> adds every other
  Python exception, by class name and message. A provider is the record of its methods, each
  a function that raises or returns: the caller of a scan sees every provider through the
  memoising wrapper, which gives one outcome per call and region. Tag mappings keep their
  order and are association lists.
\<close>

section \<open>Exceptions\<close>

datatype provider_error =
    ProviderError pystr
  | ProviderCredentialsError pystr
  | ProviderPermissionError (err_operation: pystr) "pystr option"
  | ProviderRegionUnavailableError "pystr option"
  | ProviderThrottledError pystr
  | ProviderTransientError pystr
  | ProviderMalformedResponseError pystr
  | OperationNotAllowedError pystr

datatype py_exc =
    Prov provider_error
  | PyExc (exc_type: pystr) (exc_msg: pystr)

text \<open>\<open>str(exc)\<close>.\<close>

fun provider_error_str :: "provider_error \<Rightarrow> pystr" where
  "provider_error_str (ProviderError m) = m"
| "provider_error_str (ProviderCredentialsError m) = m"
| "provider_error_str (ProviderPermissionError op region) =
     lit ''permission denied for '' @ op @
     (if truthy region then lit '' in '' @ the region else [])"
| "provider_error_str (ProviderRegionUnavailableError region) =
     lit ''region unavailable'' @
     (if truthy region then lit '' ('' @ the region @ lit '')'' else [])"
| "provider_error_str (ProviderThrottledError m) = m"
| "provider_error_str (ProviderTransientError m) = m"
| "provider_error_str (ProviderMalformedResponseError m) = m"
| "provider_error_str (OperationNotAllowedError op) =
     lit ''AWS operation is not allow-listed: '' @ op"

fun provider_error_class :: "provider_error \<Rightarrow> pystr" where
  "provider_error_class (ProviderError m) = lit ''ProviderError''"
| "provider_error_class (ProviderCredentialsError m) = lit ''ProviderCredentialsError''"
| "provider_error_class (ProviderPermissionError op r) = lit ''ProviderPermissionError''"
| "provider_error_class (ProviderRegionUnavailableError r) =
     lit ''ProviderRegionUnavailableError''"
| "provider_error_class (ProviderThrottledError m) = lit ''ProviderThrottledError''"
| "provider_error_class (ProviderTransientError m) = lit ''ProviderTransientError''"
| "provider_error_class (ProviderMalformedResponseError m) =
     lit ''ProviderMalformedResponseError''"
| "provider_error_class (OperationNotAllowedError op) = lit ''OperationNotAllowedError''"

text \<open>\<open>f"{type(exc).__name__}: {exc}"\<close>.\<close>

fun exc_text :: "py_exc \<Rightarrow> pystr" where
  "exc_text (Prov e) = provider_error_class e @ lit '': '' @ provider_error_str e"
| "exc_text (PyExc t m) = t @ lit '': '' @ m"

section \<open>Domain records\<close>

type_synonym tags = "(pystr \<times> pystr) list"

datatype identity_type = ID_ROLE | ID_USER | ID_ASSUMED_ROLE | ID_ROOT | ID_UNKNOWN

record identity =
  id_account_id :: pystr
  id_principal_arn :: pystr
  id_identity_type :: identity_type
  id_user_id :: pystr

datatype opt_in_status = OPT_IN_NOT_REQUIRED | OPTED_IN | NOT_OPTED_IN

record region_info =
  ri_name :: pystr
  ri_opt_in_status :: opt_in_status

record attachment =
  at_instance_id :: pystr
  at_device :: pystr
  at_state :: pystr

record volume =
  v_volume_id :: pystr
  v_state :: pystr
  v_volume_type :: pystr
  v_size_gib :: int
  v_iops :: "int option"
  v_throughput_mibps :: "int option"
  v_encrypted :: bool
  v_created_at :: instant
  v_snapshot_id :: "pystr option"
  v_attachments :: "attachment list"
  v_tags :: tags
  v_availability_zone :: pystr

record address =
  ad_allocation_id :: "pystr option"
  ad_public_ip :: pystr
  ad_association_id :: "pystr option"
  ad_instance_id :: "pystr option"
  ad_network_interface_id :: "pystr option"
  ad_domain :: pystr
  ad_tags :: tags

record block_device =
  bd_device_name :: pystr
  bd_volume_id :: pystr
  bd_status :: pystr

record ec2_instance =
  in_instance_id :: pystr
  in_state :: pystr
  in_instance_type :: pystr
  in_launched_at :: instant
  in_block_devices :: "block_device list"
  in_tags :: tags
  in_platform :: "pystr option"

record snapshot =
  sn_snapshot_id :: pystr
  sn_volume_id :: "pystr option"
  sn_owner_id :: pystr
  sn_state :: pystr
  sn_started_at :: instant
  sn_volume_size_gib :: int
  sn_storage_tier :: pystr
  sn_encrypted :: bool
  sn_description :: pystr
  sn_tags :: tags

record image =
  im_image_id :: pystr
  im_name :: pystr
  im_state :: pystr
  im_snapshot_ids :: "pystr list"
  im_tags :: tags

record snapshot_attributes =
  sa_snapshot_id :: pystr
  sa_shared_user_ids :: "pystr list"
  sa_shared_groups :: "pystr list"

datatype lock_state = LOCK_COMPLIANCE | LOCK_GOVERNANCE | LOCK_COMPLIANCE_COOLOFF | LOCK_EXPIRED

fun lock_state_value :: "lock_state \<Rightarrow> pystr" where
  "lock_state_value LOCK_COMPLIANCE = lit ''compliance''"
| "lock_state_value LOCK_GOVERNANCE = lit ''governance''"
| "lock_state_value LOCK_COMPLIANCE_COOLOFF = lit ''compliance-cooloff''"
| "lock_state_value LOCK_EXPIRED = lit ''expired''"

record snapshot_lock =
  sl_snapshot_id :: pystr
  sl_lock_state :: "lock_state option"

record stack_resource =
  sr_region :: pystr
  sr_stack_name :: pystr
  sr_stack_id :: pystr
  sr_logical_id :: pystr
  sr_physical_id :: "pystr option"
  sr_resource_type :: pystr
  sr_resource_status :: pystr

section \<open>Structured data\<close>

text \<open>
  The JSON-like values of the evidence columns and of the price documents; a floating-point
  number is kept by its \<open>repr\<close>.
\<close>

datatype json =
    JNull
  | JBool bool
  | JInt int
  | JFloat pystr
  | JStr pystr
  | JList "json list"
  | JDict "(pystr \<times> json) list"

fun j_opt_str :: "pystr option \<Rightarrow> json" where
  "j_opt_str None = JNull"
| "j_opt_str (Some s) = JStr s"

fun j_opt_int :: "int option \<Rightarrow> json" where
  "j_opt_int None = JNull"
| "j_opt_int (Some i) = JInt i"

definition j_tags :: "tags \<Rightarrow> json" where
  "j_tags ts = JDict (map (\<lambda>(k, v). (k, JStr v)) ts)"

section \<open>The abstract provider\<close>

record cloud_provider =
  cp_mode :: mode
  get_identity :: "py_exc + identity"
  list_regions :: "py_exc + region_info list"
  list_volumes :: "pystr \<Rightarrow> py_exc + volume list"
  list_addresses :: "pystr \<Rightarrow> py_exc + address list"
  list_instances :: "pystr \<Rightarrow> py_exc + ec2_instance list"
  list_snapshots :: "pystr \<Rightarrow> py_exc + snapshot list"
  list_images :: "pystr \<Rightarrow> py_exc + image list"
  get_snapshot_attributes :: "pystr \<Rightarrow> pystr \<Rightarrow> py_exc + snapshot_attributes"
  get_snapshot_locks :: "pystr \<Rightarrow> pystr list \<Rightarrow> py_exc + snapshot_lock list"
  list_stack_resources :: "pystr \<Rightarrow> py_exc + stack_resource list"
  get_prices :: "pystr \<Rightarrow> (pystr \<times> pystr) list \<Rightarrow> py_exc + json list"

end
