(* ===== verification/Domain.thy ===== *)
theory Domain
  imports ProviderBase
begin

text \<open>
  The models of \<open>app/models/domain.py\<close>: the application settings with their defaults, known
  dependencies, ownership, pricing requests and results, and the finding candidate that a
  detector emits and the engine enriches.
\<close>

section \<open>Settings\<close>

datatype pricing_mode = PM_AUTO | PM_FALLBACK_ONLY | PM_DISABLED

record app_settings =
  st_regions :: "pystr list option"
  st_thresholds_days :: "detector_type \<rightharpoonup> int"
  st_min_consecutive_observations :: int
  st_ignore_tag_key :: pystr
  st_ignore_tag_value :: pystr
  st_ignore_reason_tag_key :: pystr
  st_pricing_mode :: pricing_mode
  st_pricing_cache_ttl_seconds :: int
  st_max_region_concurrency :: int
  st_demo_anchor_at :: "datetime option"

definition default_thresholds :: "detector_type \<rightharpoonup> int" where
  "default_thresholds =
     [UNATTACHED_EBS_VOLUME \<mapsto> 7, UNASSOCIATED_ELASTIC_IP \<mapsto> 1, STOPPED_EC2_INSTANCE \<mapsto> 7,
      SNAPSHOT_MISSING_SOURCE_VOLUME \<mapsto> 30]"

definition default_settings :: app_settings where
  "default_settings =
     \<lparr>st_regions = None,
      st_thresholds_days = default_thresholds,
      st_min_consecutive_observations = 2,
      st_ignore_tag_key = lit ''cloudzombie:ignore'',
      st_ignore_tag_value = lit ''true'',
      st_ignore_reason_tag_key = lit ''cloudzombie:reason'',
      st_pricing_mode = PM_AUTO,
      st_pricing_cache_ttl_seconds = 86400,
      st_max_region_concurrency = 3,
      st_demo_anchor_at = None\<rparr>"

text \<open>Every detector has a threshold: what the defaults give and the settings API keeps.\<close>

definition thresholds_total :: "app_settings \<Rightarrow> bool" where
  "thresholds_total st \<longleftrightarrow> dom (st_thresholds_days st) = UNIV"

lemma default_thresholds_total: "thresholds_total default_settings"
proof -
  have "default_thresholds d \<noteq> None" for d
    by (cases d) (simp_all add: default_thresholds_def)
  then show ?thesis by (auto simp: thresholds_total_def default_settings_def)
qed

section \<open>Dependencies and ownership\<close>

record known_dependency =
  kd_kind :: pystr
  kd_target_id :: "pystr option"
  kd_description :: pystr
  kd_blocks_remediation :: bool

datatype ownership_source = STACK_RESOURCE_INDEX | TAGS

record ownership =
  ow_status :: ownership_status
  ow_stack_name :: "pystr option"
  ow_stack_id :: "pystr option"
  ow_logical_id :: "pystr option"
  ow_source :: "ownership_source option"
  ow_notes :: "pystr list"

definition default_ownership :: ownership where
  "default_ownership =
     \<lparr>ow_status = OWN_UNKNOWN, ow_stack_name = None, ow_stack_id = None, ow_logical_id = None,
      ow_source = None, ow_notes = []\<rparr>"

section \<open>Pricing requests and results\<close>

record ebs_pricing_request =
  er_region :: pystr
  er_volume_type :: pystr
  er_size_gib :: int
  er_iops :: "int option"
  er_throughput_mibps :: "int option"

datatype pricing_request =
    EbsVolumePricingRequest ebs_pricing_request
  | ElasticIpPricingRequest pystr
  | SnapshotPricingRequest pystr int pystr
  | StoppedInstancePricingRequest pystr "ebs_pricing_request list" int

fun request_region :: "pricing_request \<Rightarrow> pystr" where
  "request_region (EbsVolumePricingRequest r) = er_region r"
| "request_region (ElasticIpPricingRequest region) = region"
| "request_region (SnapshotPricingRequest region size_gib tier) = region"
| "request_region (StoppedInstancePricingRequest region volumes n) = region"

record line_item =
  li_label :: pystr
  li_quantity :: decimal
  li_unit :: pystr
  li_unit_price :: decimal
  li_monthly_cost :: decimal

datatype pricing_source = AWS_PRICING_API | FALLBACK_TABLE | PRICE_UNAVAILABLE

record pricing_result =
  pr_estimated_monthly_cost :: "decimal option"
  pr_cost_confidence :: cost_confidence
  pr_explanation :: pystr
  pr_source :: pricing_source
  pr_pricing_timestamp :: "instant option"
  pr_line_items :: "line_item list"
  pr_upper_bound :: bool
  pr_warnings :: "pystr list"

section \<open>Finding candidates and coverage\<close>

record finding_candidate =
  fc_account_id :: pystr
  fc_region :: pystr
  fc_resource_type :: resource_type
  fc_resource_id :: pystr
  fc_detector_type :: detector_type
  fc_title :: pystr
  fc_summary :: pystr
  fc_resource_created_at :: "instant option"
  fc_evidence :: "(pystr \<times> json) list"
  fc_known_dependencies :: "known_dependency list"
  fc_related_resource_ids :: "pystr list"
  fc_tags :: tags
  fc_ignored :: bool
  fc_ignore_reason :: "pystr option"
  fc_pricing_request :: "pricing_request option"
  fc_detection_confidence :: detection_confidence
  fc_warnings :: "pystr list"
  fc_ownership :: ownership
  fc_pricing_result :: "pricing_result option"

record coverage_cell =
  cc_status :: detector_coverage_status
  cc_error_code :: "pystr option"
  cc_message :: "pystr option"
  cc_missing_operation :: "pystr option"

record region_coverage =
  rc_status :: region_coverage_status
  rc_detectors :: "(detector_type \<times> coverage_cell) list"
  rc_warnings :: "pystr list"

end
