(* ===== verification/Dependencies.thy ===== *)
theory Dependencies
  imports Domain
begin

text \<open>
  Known dependencies: the pure checks of \<open>app/dependencies\<close> and the registry of supported
  checks. \<open>registered kind rt b\<close> reads the registry: a dependency of that kind on that
  resource type is registered with blocking flag \<open>b\<close>. The lemmas show that each check emits
  only kinds the registry lists for its resource type, with the registry's blocking flag, and
  characterise when a check emits a blocking dependency.
\<close>

section \<open>The registry\<close>

record dependency_check_info =
  dc_kind :: pystr
  dc_applies_to :: resource_type
  dc_description :: pystr
  dc_blocks_remediation :: bool

definition check_info :: "pystr \<Rightarrow> resource_type \<Rightarrow> pystr \<Rightarrow> bool \<Rightarrow> dependency_check_info" where
  "check_info k r d b =
     \<lparr>dc_kind = k, dc_applies_to = r, dc_description = d, dc_blocks_remediation = b\<rparr>"

definition supported_dependency_checks :: "dependency_check_info list" where
  "supported_dependency_checks =
     [check_info (lit ''ebs_attachment'') EBS_VOLUME
        (lit ''Checks whether an EBS volume is attached to an EC2 instance.'') True,
      check_info (lit ''eip_association'') ELASTIC_IP
        (lit ''Checks whether an Elastic IP is associated with an instance or network interface.'')
        True,
      check_info (lit ''attached_ebs_volume'') EC2_INSTANCE
        (lit ''Reports attached EBS volumes that continue to be billed for a stopped instance.'')
        False,
      check_info (lit ''associated_elastic_ip'') EC2_INSTANCE
        (lit ''Reports public IPv4 addresses associated with a stopped instance.'') False,
      check_info (lit ''registered_ami'') EBS_SNAPSHOT
        (lit ''Checks whether a snapshot is referenced by a registered AMI.'') True,
      check_info (lit ''shared_snapshot'') EBS_SNAPSHOT
        (lit ''Checks whether a snapshot is shared with AWS accounts.'') True,
      check_info (lit ''public_snapshot'') EBS_SNAPSHOT
        (lit ''Checks whether a snapshot is shared publicly.'') True,
      check_info (lit ''snapshot_lock'') EBS_SNAPSHOT
        (lit ''Checks whether an EBS snapshot lock protects the snapshot.'') True,
      check_info (lit ''aws_backup_managed'') EBS_SNAPSHOT
        (lit ''Checks whether snapshot metadata indicates AWS Backup management.'') True]"

definition registered :: "resource_type \<Rightarrow> known_dependency \<Rightarrow> bool" where
  "registered rt d \<longleftrightarrow>
     (\<exists>i \<in> set supported_dependency_checks.
        dc_kind i = kd_kind d \<and> dc_applies_to i = rt \<and>
        dc_blocks_remediation i = kd_blocks_remediation d)"

definition dependency :: "pystr \<Rightarrow> pystr option \<Rightarrow> pystr \<Rightarrow> bool \<Rightarrow> known_dependency" where
  "dependency k t d b =
     \<lparr>kd_kind = k, kd_target_id = t, kd_description = d, kd_blocks_remediation = b\<rparr>"

lemma dependency_simps [simp]:
  "kd_kind (dependency k t d b) = k" "kd_target_id (dependency k t d b) = t"
  "kd_description (dependency k t d b) = d" "kd_blocks_remediation (dependency k t d b) = b"
  by (simp_all add: dependency_def)

definition blocking :: "known_dependency list \<Rightarrow> bool" where
  "blocking ds \<longleftrightarrow> (\<exists>d \<in> set ds. kd_blocks_remediation d)"

lemma blocking_simps [simp]:
  "\<not> blocking []"
  "blocking (d # ds) \<longleftrightarrow> kd_blocks_remediation d \<or> blocking ds"
  "blocking (xs @ ys) \<longleftrightarrow> blocking xs \<or> blocking ys"
  by (auto simp: blocking_def)

section \<open>The checks\<close>

definition attachment_dependencies :: "volume \<Rightarrow> known_dependency list" where
  "attachment_dependencies v =
     map (\<lambda>a. dependency (lit ''ebs_attachment'') (Some (at_instance_id a))
            (lit ''Volume is attached to instance '' @ at_instance_id a @ lit '' as '' @
             at_device a @ lit ''.'') True)
       (v_attachments v)"

definition association_dependencies :: "address \<Rightarrow> known_dependency list" where
  "association_dependencies a =
     (if truthy (ad_instance_id a)
      then [dependency (lit ''eip_association'') (ad_instance_id a)
              (lit ''Elastic IP is associated with instance '' @ the (ad_instance_id a) @
               lit ''.'') True]
      else []) @
     (if truthy (ad_network_interface_id a)
      then [dependency (lit ''eip_association'') (ad_network_interface_id a)
              (lit ''Elastic IP is associated with network interface '' @
               the (ad_network_interface_id a) @ lit ''.'') True]
      else [])"

definition stopped_instance_dependencies ::
  "ec2_instance \<Rightarrow> volume list \<Rightarrow> address list \<Rightarrow> known_dependency list" where
  "stopped_instance_dependencies i volumes addresses =
     map (\<lambda>v. dependency (lit ''attached_ebs_volume'') (Some (v_volume_id v))
            (lit ''Attached EBS volume '' @ v_volume_id v @ lit '' ('' @ show_int (v_size_gib v) @
             lit '' GiB '' @ v_volume_type v @
             lit '') continues to be billed while the instance is stopped.'') False)
       volumes @
     map (\<lambda>a. dependency (lit ''associated_elastic_ip'') (ad_allocation_id a)
            (lit ''Associated Elastic IP '' @ the (ad_allocation_id a) @
             lit '' continues to be billed while instance '' @ in_instance_id i @
             lit '' is stopped.'') False)
       (filter (\<lambda>a. ad_allocation_id a \<noteq> None) addresses)"

definition lock_active :: "snapshot_lock option \<Rightarrow> bool" where
  "lock_active lock \<longleftrightarrow>
     (case lock of
        None \<Rightarrow> False
      | Some l \<Rightarrow> sl_lock_state l \<notin> {None, Some LOCK_EXPIRED})"

definition snapshot_dependencies ::
  "snapshot \<Rightarrow> image list \<Rightarrow> snapshot_attributes option \<Rightarrow> snapshot_lock option \<Rightarrow> bool \<Rightarrow>
   known_dependency list" where
  "snapshot_dependencies s images attributes lock aws_backup =
     map (\<lambda>im. dependency (lit ''registered_ami'') (Some (im_image_id im))
            (lit ''Snapshot is referenced by registered AMI '' @ im_image_id im @ lit ''.'') True)
       images @
     (case attributes of
        None \<Rightarrow> []
      | Some at' \<Rightarrow>
          (if sa_shared_user_ids at' \<noteq> []
           then [dependency (lit ''shared_snapshot'') None
                   (lit ''Snapshot is shared with one or more AWS accounts.'') True]
           else []) @
          (if lit ''all'' \<in> set (sa_shared_groups at')
           then [dependency (lit ''public_snapshot'') None
                   (lit ''Snapshot is shared publicly.'') True]
           else [])) @
     (if lock_active lock
      then [dependency (lit ''snapshot_lock'') (Some (sn_snapshot_id s))
              (lit ''Snapshot lock state is '' @
               lock_state_value (the (sl_lock_state (the lock))) @ lit ''.'') True]
      else []) @
     (if aws_backup
      then [dependency (lit ''aws_backup_managed'') (Some (sn_snapshot_id s))
              (lit ''Snapshot appears to be managed by AWS Backup.'') True]
      else [])"

section \<open>What the checks report\<close>

lemma registered_kinds:
  "registered EBS_VOLUME (dependency (lit ''ebs_attachment'') t d True)"
  "registered ELASTIC_IP (dependency (lit ''eip_association'') t d True)"
  "registered EC2_INSTANCE (dependency (lit ''attached_ebs_volume'') t d False)"
  "registered EC2_INSTANCE (dependency (lit ''associated_elastic_ip'') t d False)"
  "registered EBS_SNAPSHOT (dependency (lit ''registered_ami'') t d True)"
  "registered EBS_SNAPSHOT (dependency (lit ''shared_snapshot'') t d True)"
  "registered EBS_SNAPSHOT (dependency (lit ''public_snapshot'') t d True)"
  "registered EBS_SNAPSHOT (dependency (lit ''snapshot_lock'') t d True)"
  "registered EBS_SNAPSHOT (dependency (lit ''aws_backup_managed'') t d True)"
  by (simp_all add: registered_def supported_dependency_checks_def check_info_def)

lemma attachment_registered: "d \<in> set (attachment_dependencies v) \<Longrightarrow> registered EBS_VOLUME d"
  by (auto simp: attachment_dependencies_def registered_kinds)

lemma association_registered: "d \<in> set (association_dependencies a) \<Longrightarrow> registered ELASTIC_IP d"
  by (auto simp: association_dependencies_def registered_kinds)

lemma stopped_instance_registered:
  "d \<in> set (stopped_instance_dependencies i vs ads) \<Longrightarrow> registered EC2_INSTANCE d"
  by (auto simp: stopped_instance_dependencies_def registered_kinds)

lemma snapshot_registered:
  "d \<in> set (snapshot_dependencies s ims at' l b) \<Longrightarrow> registered EBS_SNAPSHOT d"
  by (auto simp: snapshot_dependencies_def registered_kinds split: option.splits if_splits)

lemma attachment_blocking: "blocking (attachment_dependencies v) \<longleftrightarrow> v_attachments v \<noteq> []"
  by (cases "v_attachments v") (auto simp: attachment_dependencies_def)

lemma association_blocking:
  "blocking (association_dependencies a) \<longleftrightarrow>
     truthy (ad_instance_id a) \<or> truthy (ad_network_interface_id a)"
  by (simp add: association_dependencies_def)

lemma stopped_instance_not_blocking: "\<not> blocking (stopped_instance_dependencies i vs ads)"
  by (auto simp: stopped_instance_dependencies_def blocking_def)

lemma snapshot_blocking:
  "blocking (snapshot_dependencies s ims at' lock b) \<longleftrightarrow>
     ims \<noteq> [] \<or>
     (\<exists>a. at' = Some a \<and> (sa_shared_user_ids a \<noteq> [] \<or> lit ''all'' \<in> set (sa_shared_groups a))) \<or>
     lock_active lock \<or> b"
  by (cases ims; cases at') (auto simp: snapshot_dependencies_def)

end
