(* ===== verification/Regex.thy ===== *)
theory Regex
  imports Prelude
begin

text \<open>
  \<open>re.fullmatch\<close> on the patterns of the program, which use character classes, sequences,
  alternatives and bounded repetition. Anchors are no-ops under \<open>fullmatch\<close>. \<open>lang\<close> gives the
  meaning of a pattern; \<open>fullmatch\<close> decides it by derivatives, and \<open>fullmatch_lang\<close> shows
  that the two agree.
\<close>

section \<open>Patterns and their language\<close>

datatype rx =
    RNone
  | REmpty
  | RClass "nat \<Rightarrow> bool"
  | RSeq rx rx
  | RAlt rx rx
  | RRep rx nat nat

fun lang :: "rx \<Rightarrow> pystr set" where
  "lang RNone = {}"
| "lang REmpty = {[]}"
| "lang (RClass p) = {[c] |c. p c}"
| "lang (RSeq r s) = {u @ v |u v. u \<in> lang r \<and> v \<in> lang s}"
| "lang (RAlt r s) = lang r \<union> lang s"
| "lang (RRep r lo hi) =
     {concat ws |ws. lo \<le> length ws \<and> length ws \<le> hi \<and> set ws \<subseteq> lang r}"

definition RLit :: "pystr \<Rightarrow> rx" where
  "RLit s = foldr (\<lambda>c r. RSeq (RClass (\<lambda>x. x = c)) r) s REmpty"

definition ROpt :: "rx \<Rightarrow> rx" where
  "ROpt r = RAlt r REmpty"

definition RExact :: "rx \<Rightarrow> nat \<Rightarrow> rx" where
  "RExact r n = RRep r n n"

section \<open>The matcher\<close>

fun nullable :: "rx \<Rightarrow> bool" where
  "nullable RNone = False"
| "nullable REmpty = True"
| "nullable (RClass p) = False"
| "nullable (RSeq r s) = (nullable r \<and> nullable s)"
| "nullable (RAlt r s) = (nullable r \<or> nullable s)"
| "nullable (RRep r lo hi) = (lo = 0 \<or> (lo \<le> hi \<and> nullable r))"

fun deriv :: "nat \<Rightarrow> rx \<Rightarrow> rx" where
  "deriv c RNone = RNone"
| "deriv c REmpty = RNone"
| "deriv c (RClass p) = (if p c then REmpty else RNone)"
| "deriv c (RSeq r s) =
     (if nullable r then RAlt (RSeq (deriv c r) s) (deriv c s) else RSeq (deriv c r) s)"
| "deriv c (RAlt r s) = RAlt (deriv c r) (deriv c s)"
| "deriv c (RRep r lo hi) =
     (if hi = 0 \<or> hi < lo then RNone else RSeq (deriv c r) (RRep r (lo - 1) (hi - 1)))"

fun fullmatch :: "rx \<Rightarrow> pystr \<Rightarrow> bool" where
  "fullmatch r [] = nullable r"
| "fullmatch r (c # s) = fullmatch (deriv c r) s"

section \<open>Correctness of the matcher\<close>

lemma nullable_lang: "nullable r \<longleftrightarrow> [] \<in> lang r"
proof (induction r)
  case (RRep r lo hi)
  show ?case
  proof
    assume n: "nullable (RRep r lo hi)"
    show "[] \<in> lang (RRep r lo hi)"
    proof (cases "lo = 0")
      case True
      then show ?thesis by (auto intro!: exI [of _ "[]"])
    next
      case False
      with n RRep have "[] \<in> lang r" and "lo \<le> hi" by auto
      then have "set (replicate lo []) \<subseteq> lang r" by auto
      moreover have "concat (replicate lo []) = ([] :: pystr)" by (induction lo) auto
      moreover have "length (replicate lo ([] :: pystr)) = lo" by simp
      ultimately show ?thesis using \<open>lo \<le> hi\<close> unfolding lang.simps
        by (metis (mono_tags, lifting) CollectI order_refl)
    qed
  next
    assume "[] \<in> lang (RRep r lo hi)"
    then obtain ws where ws: "concat ws = []" "lo \<le> length ws" "length ws \<le> hi" "set ws \<subseteq> lang r"
      by auto
    show "nullable (RRep r lo hi)"
    proof (cases ws)
      case Nil
      then show ?thesis using ws by simp
    next
      case (Cons w ws')
      then have "[] \<in> lang r" using ws by auto
      then show ?thesis using RRep ws by auto
    qed
  qed
qed auto

lemma rep_pad:
  assumes "[] \<in> lang r" and "set ws \<subseteq> lang r" and "length ws \<le> hi" and "lo \<le> hi"
  shows "concat ws \<in> lang (RRep r lo hi)"
proof -
  let ?vs = "ws @ replicate (hi - length ws) []"
  have "concat ?vs = concat ws" by (induction "hi - length ws") auto
  moreover have "length ?vs = hi" and "set ?vs \<subseteq> lang r" using assms by auto
  ultimately show ?thesis using assms(4) unfolding lang.simps by (metis (mono_tags, lifting) CollectI order_refl)
qed

text \<open>A nonempty word of a repetition starts inside its first nonempty factor.\<close>

lemma rep_cons:
  assumes "set ws \<subseteq> lang r" and "concat ws = c # s" and "lo \<le> length ws" and "length ws \<le> hi"
  shows "\<exists>u v. s = u @ v \<and> c # u \<in> lang r \<and> v \<in> lang (RRep r (lo - 1) (hi - 1))"
  using assms
proof (induction ws arbitrary: lo hi)
  case Nil
  then show ?case by simp
next
  case (Cons w ws)
  show ?case
  proof (cases w)
    case Nil
    then have e: "[] \<in> lang r" using Cons.prems by auto
    have "set ws \<subseteq> lang r" and "concat ws = c # s" and "lo - 1 \<le> length ws"
      and "length ws \<le> hi - 1"
      using Cons.prems Nil by auto
    from Cons.IH [OF this] obtain u v where uv: "s = u @ v" "c # u \<in> lang r"
      and v: "v \<in> lang (RRep r (lo - 1 - 1) (hi - 1 - 1))" by blast
    from v obtain vs where "concat vs = v" "set vs \<subseteq> lang r" "length vs \<le> hi - 1 - 1" by auto
    then have "v \<in> lang (RRep r (lo - 1) (hi - 1))"
      using rep_pad [OF e, of vs "hi - 1" "lo - 1"] Cons.prems by auto
    with uv show ?thesis by blast
  next
    case (Cons d u)
    with Cons.prems have "s = u @ concat ws" and "c # u \<in> lang r" by auto
    moreover have "concat ws \<in> lang (RRep r (lo - 1) (hi - 1))"
      using Cons.prems by auto
    ultimately show ?thesis by blast
  qed
qed

lemma deriv_lang: "s \<in> lang (deriv c r) \<longleftrightarrow> c # s \<in> lang r"
proof (induction r arbitrary: s)
  case (RSeq r1 r2)
  show ?case
  proof
    assume "s \<in> lang (deriv c (RSeq r1 r2))"
    then consider u v where "s = u @ v" "u \<in> lang (deriv c r1)" "v \<in> lang r2"
      | "nullable r1" "s \<in> lang (deriv c r2)" by (auto split: if_splits)
    then show "c # s \<in> lang (RSeq r1 r2)"
    proof cases
      case 1
      then have "c # s = (c # u) @ v" and "c # u \<in> lang r1" using RSeq.IH(1) by auto
      with 1 show ?thesis unfolding lang.simps by blast
    next
      case 2
      then have "c # s = [] @ (c # s)" and "[] \<in> lang r1" and "c # s \<in> lang r2"
        using RSeq.IH(2) nullable_lang by auto
      then show ?thesis unfolding lang.simps by blast
    qed
  next
    assume "c # s \<in> lang (RSeq r1 r2)"
    then obtain u v where uv: "c # s = u @ v" "u \<in> lang r1" "v \<in> lang r2" by auto
    show "s \<in> lang (deriv c (RSeq r1 r2))"
    proof (cases u)
      case Nil
      then show ?thesis using uv RSeq.IH(2) nullable_lang by auto
    next
      case (Cons d u')
      then show ?thesis using uv RSeq.IH(1) by auto
    qed
  qed
next
  case (RRep r lo hi)
  show ?case
  proof
    assume "s \<in> lang (deriv c (RRep r lo hi))"
    then obtain u ws where *: "hi \<noteq> 0" "lo \<le> hi" "s = u @ concat ws" "u \<in> lang (deriv c r)"
      "lo - 1 \<le> length ws" "length ws \<le> hi - 1" "set ws \<subseteq> lang r" by (auto split: if_splits)
    then have "c # s = concat ((c # u) # ws)" and "set ((c # u) # ws) \<subseteq> lang r"
      and "lo \<le> length ((c # u) # ws)" and "length ((c # u) # ws) \<le> hi"
      using RRep.IH by auto
    then show "c # s \<in> lang (RRep r lo hi)" unfolding lang.simps by blast
  next
    assume "c # s \<in> lang (RRep r lo hi)"
    then obtain ws where ws: "concat ws = c # s" "lo \<le> length ws" "length ws \<le> hi"
      "set ws \<subseteq> lang r" by auto
    then have "hi \<noteq> 0" and "\<not> hi < lo" by (cases ws; auto)+
    moreover from rep_cons [OF ws(4,1,2,3)] obtain u v where
      "s = u @ v" "c # u \<in> lang r" "v \<in> lang (RRep r (lo - 1) (hi - 1))" by blast
    ultimately show "s \<in> lang (deriv c (RRep r lo hi))" using RRep.IH by auto
  qed
qed auto

theorem fullmatch_lang: "fullmatch r s \<longleftrightarrow> s \<in> lang r"
  by (induction s arbitrary: r) (simp_all add: nullable_lang deriv_lang)

section \<open>Languages of the common shapes\<close>

lemma concat_singletons: "(\<forall>w \<in> set ws. \<exists>c. w = [c] \<and> p c) \<Longrightarrow>
  length (concat ws) = length ws \<and> (\<forall>c \<in> set (concat ws). p c)"
  by (induction ws) auto

lemma lang_rep_class [simp]:
  "s \<in> lang (RRep (RClass p) lo hi) \<longleftrightarrow> lo \<le> length s \<and> length s \<le> hi \<and> (\<forall>c \<in> set s. p c)"
proof
  assume "s \<in> lang (RRep (RClass p) lo hi)"
  then obtain ws where "s = concat ws" "lo \<le> length ws" "length ws \<le> hi"
    "\<forall>w \<in> set ws. \<exists>c. w = [c] \<and> p c" by auto
  then show "lo \<le> length s \<and> length s \<le> hi \<and> (\<forall>c \<in> set s. p c)"
    using concat_singletons by metis
next
  assume *: "lo \<le> length s \<and> length s \<le> hi \<and> (\<forall>c \<in> set s. p c)"
  have "concat (map (\<lambda>c. [c]) s) = s" by simp
  moreover have "set (map (\<lambda>c. [c]) s) \<subseteq> lang (RClass p)" using * by auto
  moreover have "length (map (\<lambda>c. [c]) s) = length s" by simp
  ultimately show "s \<in> lang (RRep (RClass p) lo hi)"
    using * unfolding lang.simps(6) by (metis (mono_tags, lifting) CollectI)
qed

lemma lang_lit [simp]: "lang (RLit s) = {s}"
  by (induction s) (auto simp: RLit_def)

text \<open>Every character of a match is one the pattern's classes allow.\<close>

fun rx_chars :: "rx \<Rightarrow> nat \<Rightarrow> bool" where
  "rx_chars RNone c = False"
| "rx_chars REmpty c = False"
| "rx_chars (RClass p) c = p c"
| "rx_chars (RSeq r s) c = (rx_chars r c \<or> rx_chars s c)"
| "rx_chars (RAlt r s) c = (rx_chars r c \<or> rx_chars s c)"
| "rx_chars (RRep r lo hi) c = rx_chars r c"

lemma lang_chars: "s \<in> lang r \<Longrightarrow> c \<in> set s \<Longrightarrow> rx_chars r c"
proof (induction r arbitrary: s)
  case (RSeq r1 r2)
  from RSeq.prems obtain u v where "u \<in> lang r1" "v \<in> lang r2" "c \<in> set u \<or> c \<in> set v" by auto
  then show ?case using RSeq.IH by auto
next
  case (RRep r lo hi)
  from RRep.prems obtain ws w where "set ws \<subseteq> lang r" "w \<in> set ws" "c \<in> set w" by auto
  then have "w \<in> lang r" "c \<in> set w" by auto
  then show ?case using RRep.IH by auto
qed auto

lemma fullmatch_chars: "fullmatch r s \<Longrightarrow> c \<in> set s \<Longrightarrow> rx_chars r c"
  using lang_chars by (simp add: fullmatch_lang)

lemma rx_chars_RLit [simp]: "rx_chars (RLit s) c \<longleftrightarrow> c \<in> set s"
  by (induction s) (auto simp: RLit_def)

section \<open>Resource ids of AWS\<close>

definition hex_class :: rx where
  "hex_class = RClass (\<lambda>c. (48 \<le> c \<and> c \<le> 57) \<or> (97 \<le> c \<and> c \<le> 102))"

text \<open>\<open>^<prefix>[0-9a-f]{8}(?:[0-9a-f]{9})?$\<close>.\<close>

definition aws_id_rx :: "pystr \<Rightarrow> rx" where
  "aws_id_rx prefix =
     RSeq (RLit prefix) (RSeq (RExact hex_class 8) (ROpt (RExact hex_class 9)))"

lemma lang_hex [simp]:
  "s \<in> lang (RExact hex_class n) \<longleftrightarrow>
     length s = n \<and> (\<forall>c \<in> set s. (48 \<le> c \<and> c \<le> 57) \<or> (97 \<le> c \<and> c \<le> 102))"
  by (auto simp: RExact_def hex_class_def simp del: lang.simps)

lemma aws_id_chars:
  assumes "fullmatch (aws_id_rx p) s" and "c \<in> set s"
  shows "c \<in> set p \<or> (48 \<le> c \<and> c \<le> 57) \<or> (97 \<le> c \<and> c \<le> 102)"
  using fullmatch_chars [OF assms]
  by (auto simp: aws_id_rx_def RExact_def ROpt_def hex_class_def)

end
