(* ===== verification/Unicode.thy ===== *)
theory Unicode
  imports Prelude
begin

text \<open>
  The tables of the Unicode database (version 15.0, the one of Python 3.12) that the code
  relies on through the standard library: the decimal digits, which the class \<open>\d\<close> of a
  string pattern matches, white space, which \<open>str.strip\<close> removes, and full case folding, which
  \<open>str.casefold\<close> applies. Decimal digits come in runs of ten, given by their zeros. Case
  folding is ASCII lower-casing below 128, a list of code points that fold to several, and
  ranges (first, last, step, offset) that fold to one.
\<close>

section \<open>Decimal digits\<close>

definition nd_zeros :: "nat list" where
  "nd_zeros =
    [
      48, 1632, 1776, 1984, 2406, 2534, 2662, 2790, 2918, 3046, 3174, 3302, 3430, 3558,
      3664, 3792, 3872, 4160, 4240, 6112, 6160, 6470, 6608, 6784, 6800, 6992, 7088, 7232,
      7248, 42528, 43216, 43264, 43472, 43504, 43600, 44016, 65296, 66720, 68912, 69734,
      69872, 69942, 70096, 70384, 70736, 70864, 71248, 71360, 71472, 71904, 72016, 72784,
      73040, 73120, 73552, 92768, 92864, 93008, 120782, 120792, 120802, 120812, 120822,
      123200, 123632, 124144, 125264, 130032
    ]"

definition unicode_digit :: "nat \<Rightarrow> bool" where
  "unicode_digit c \<longleftrightarrow> list_ex (\<lambda>z. z \<le> c \<and> c < z + 10) nd_zeros"

definition ascii_digit :: "nat \<Rightarrow> bool" where
  "ascii_digit c \<longleftrightarrow> 48 \<le> c \<and> c \<le> 57"

lemma ascii_digit_unicode: "ascii_digit c \<Longrightarrow> unicode_digit c"
  by (simp add: ascii_digit_def unicode_digit_def nd_zeros_def)

lemma nd_zeros_ascii: "\<forall>z \<in> set nd_zeros. z = 48 \<or> 128 \<le> z"
  by (simp add: nd_zeros_def)

lemma unicode_digit_ascii: "unicode_digit c \<Longrightarrow> c < 128 \<Longrightarrow> ascii_digit c"
  using nd_zeros_ascii by (fastforce simp: ascii_digit_def unicode_digit_def list_ex_iff)

section \<open>White space\<close>

text \<open>\<open>str.isspace\<close>, and \<open>str.strip\<close> without an argument.\<close>

definition py_space :: "nat \<Rightarrow> bool" where
  "py_space c \<longleftrightarrow>
     (9 \<le> c \<and> c \<le> 13) \<or> (28 \<le> c \<and> c \<le> 32) \<or> c = 133 \<or> c = 160 \<or> c = 5760 \<or>
     (8192 \<le> c \<and> c \<le> 8202) \<or> c = 8232 \<or> c = 8233 \<or> c = 8239 \<or> c = 8287 \<or> c = 12288"

definition strip :: "pystr \<Rightarrow> pystr" where
  "strip s = rev (dropWhile py_space (rev (dropWhile py_space s)))"

section \<open>Case folding\<close>

definition fold_multi :: "(nat \<times> nat list) list" where
  "fold_multi =
    [
      (223, [115, 115]), (304, [105, 775]), (329, [700, 110]), (496, [106, 780]),
      (912, [953, 776, 769]), (944, [965, 776, 769]), (1415, [1381, 1410]),
      (7830, [104, 817]), (7831, [116, 776]), (7832, [119, 778]), (7833, [121, 778]),
      (7834, [97, 702]), (7838, [115, 115]), (8016, [965, 787]), (8018, [965, 787, 768]),
      (8020, [965, 787, 769]), (8022, [965, 787, 834]), (8064, [7936, 953]),
      (8065, [7937, 953]), (8066, [7938, 953]), (8067, [7939, 953]), (8068, [7940, 953]),
      (8069, [7941, 953]), (8070, [7942, 953]), (8071, [7943, 953]), (8072, [7936, 953]),
      (8073, [7937, 953]), (8074, [7938, 953]), (8075, [7939, 953]), (8076, [7940, 953]),
      (8077, [7941, 953]), (8078, [7942, 953]), (8079, [7943, 953]), (8080, [7968, 953]),
      (8081, [7969, 953]), (8082, [7970, 953]), (8083, [7971, 953]), (8084, [7972, 953]),
      (8085, [7973, 953]), (8086, [7974, 953]), (8087, [7975, 953]), (8088, [7968, 953]),
      (8089, [7969, 953]), (8090, [7970, 953]), (8091, [7971, 953]), (8092, [7972, 953]),
      (8093, [7973, 953]), (8094, [7974, 953]), (8095, [7975, 953]), (8096, [8032, 953]),
      (8097, [8033, 953]), (8098, [8034, 953]), (8099, [8035, 953]), (8100, [8036, 953]),
      (8101, [8037, 953]), (8102, [8038, 953]), (8103, [8039, 953]), (8104, [8032, 953]),
      (8105, [8033, 953]), (8106, [8034, 953]), (8107, [8035, 953]), (8108, [8036, 953]),
      (8109, [8037, 953]), (8110, [8038, 953]), (8111, [8039, 953]), (8114, [8048, 953]),
      (8115, [945, 953]), (8116, [940, 953]), (8118, [945, 834]), (8119, [945, 834, 953]),
      (8124, [945, 953]), (8130, [8052, 953]), (8131, [951, 953]), (8132, [942, 953]),
      (8134, [951, 834]), (8135, [951, 834, 953]), (8140, [951, 953]),
      (8146, [953, 776, 768]), (8147, [953, 776, 769]), (8150, [953, 834]),
      (8151, [953, 776, 834]), (8162, [965, 776, 768]), (8163, [965, 776, 769]),
      (8164, [961, 787]), (8166, [965, 834]), (8167, [965, 776, 834]),
      (8178, [8060, 953]), (8179, [969, 953]), (8180, [974, 953]), (8182, [969, 834]),
      (8183, [969, 834, 953]), (8188, [969, 953]), (64256, [102, 102]),
      (64257, [102, 105]), (64258, [102, 108]), (64259, [102, 102, 105]),
      (64260, [102, 102, 108]), (64261, [115, 116]), (64262, [115, 116]),
      (64275, [1396, 1398]), (64276, [1396, 1381]), (64277, [1396, 1387]),
      (64278, [1406, 1398]), (64279, [1396, 1389])
    ]"

definition fold_ranges :: "(nat \<times> nat \<times> nat \<times> int) list" where
  "fold_ranges =
    [
      (181, 181, 1, 775), (192, 214, 1, 32), (216, 222, 1, 32), (256, 302, 2, 1),
      (306, 310, 2, 1), (313, 327, 2, 1), (330, 374, 2, 1), (376, 376, 1, - 121),
      (377, 381, 2, 1), (383, 383, 1, - 268), (385, 385, 1, 210), (386, 388, 2, 1),
      (390, 390, 1, 206), (391, 391, 1, 1), (393, 394, 1, 205), (395, 395, 1, 1),
      (398, 398, 1, 79), (399, 399, 1, 202), (400, 400, 1, 203), (401, 401, 1, 1),
      (403, 403, 1, 205), (404, 404, 1, 207), (406, 406, 1, 211), (407, 407, 1, 209),
      (408, 408, 1, 1), (412, 412, 1, 211), (413, 413, 1, 213), (415, 415, 1, 214),
      (416, 420, 2, 1), (422, 422, 1, 218), (423, 423, 1, 1), (425, 425, 1, 218),
      (428, 428, 1, 1), (430, 430, 1, 218), (431, 431, 1, 1), (433, 434, 1, 217),
      (435, 437, 2, 1), (439, 439, 1, 219), (440, 440, 1, 1), (444, 444, 1, 1),
      (452, 452, 1, 2), (453, 453, 1, 1), (455, 455, 1, 2), (456, 456, 1, 1),
      (458, 458, 1, 2), (459, 475, 2, 1), (478, 494, 2, 1), (497, 497, 1, 2),
      (498, 500, 2, 1), (502, 502, 1, - 97), (503, 503, 1, - 56), (504, 542, 2, 1),
      (544, 544, 1, - 130), (546, 562, 2, 1), (570, 570, 1, 10795), (571, 571, 1, 1),
      (573, 573, 1, - 163), (574, 574, 1, 10792), (577, 577, 1, 1), (579, 579, 1, - 195),
      (580, 580, 1, 69), (581, 581, 1, 71), (582, 590, 2, 1), (837, 837, 1, 116),
      (880, 882, 2, 1), (886, 886, 1, 1), (895, 895, 1, 116), (902, 902, 1, 38),
      (904, 906, 1, 37), (908, 908, 1, 64), (910, 911, 1, 63), (913, 929, 1, 32),
      (931, 939, 1, 32), (962, 962, 1, 1), (975, 975, 1, 8), (976, 976, 1, - 30),
      (977, 977, 1, - 25), (981, 981, 1, - 15), (982, 982, 1, - 22), (984, 1006, 2, 1),
      (1008, 1008, 1, - 54), (1009, 1009, 1, - 48), (1012, 1012, 1, - 60),
      (1013, 1013, 1, - 64), (1015, 1015, 1, 1), (1017, 1017, 1, - 7), (1018, 1018, 1, 1),
      (1021, 1023, 1, - 130), (1024, 1039, 1, 80), (1040, 1071, 1, 32),
      (1120, 1152, 2, 1), (1162, 1214, 2, 1), (1216, 1216, 1, 15), (1217, 1229, 2, 1),
      (1232, 1326, 2, 1), (1329, 1366, 1, 48), (4256, 4293, 1, 7264),
      (4295, 4295, 1, 7264), (4301, 4301, 1, 7264), (5112, 5117, 1, - 8),
      (7296, 7296, 1, - 6222), (7297, 7297, 1, - 6221), (7298, 7298, 1, - 6212),
      (7299, 7300, 1, - 6210), (7301, 7301, 1, - 6211), (7302, 7302, 1, - 6204),
      (7303, 7303, 1, - 6180), (7304, 7304, 1, 35267), (7312, 7354, 1, - 3008),
      (7357, 7359, 1, - 3008), (7680, 7828, 2, 1), (7835, 7835, 1, - 58),
      (7840, 7934, 2, 1), (7944, 7951, 1, - 8), (7960, 7965, 1, - 8),
      (7976, 7983, 1, - 8), (7992, 7999, 1, - 8), (8008, 8013, 1, - 8),
      (8025, 8031, 2, - 8), (8040, 8047, 1, - 8), (8120, 8121, 1, - 8),
      (8122, 8123, 1, - 74), (8126, 8126, 1, - 7173), (8136, 8139, 1, - 86),
      (8152, 8153, 1, - 8), (8154, 8155, 1, - 100), (8168, 8169, 1, - 8),
      (8170, 8171, 1, - 112), (8172, 8172, 1, - 7), (8184, 8185, 1, - 128),
      (8186, 8187, 1, - 126), (8486, 8486, 1, - 7517), (8490, 8490, 1, - 8383),
      (8491, 8491, 1, - 8262), (8498, 8498, 1, 28), (8544, 8559, 1, 16),
      (8579, 8579, 1, 1), (9398, 9423, 1, 26), (11264, 11311, 1, 48),
      (11360, 11360, 1, 1), (11362, 11362, 1, - 10743), (11363, 11363, 1, - 3814),
      (11364, 11364, 1, - 10727), (11367, 11371, 2, 1), (11373, 11373, 1, - 10780),
      (11374, 11374, 1, - 10749), (11375, 11375, 1, - 10783), (11376, 11376, 1, - 10782),
      (11378, 11378, 1, 1), (11381, 11381, 1, 1), (11390, 11391, 1, - 10815),
      (11392, 11490, 2, 1), (11499, 11501, 2, 1), (11506, 11506, 1, 1),
      (42560, 42604, 2, 1), (42624, 42650, 2, 1), (42786, 42798, 2, 1),
      (42802, 42862, 2, 1), (42873, 42875, 2, 1), (42877, 42877, 1, - 35332),
      (42878, 42886, 2, 1), (42891, 42891, 1, 1), (42893, 42893, 1, - 42280),
      (42896, 42898, 2, 1), (42902, 42920, 2, 1), (42922, 42922, 1, - 42308),
      (42923, 42923, 1, - 42319), (42924, 42924, 1, - 42315), (42925, 42925, 1, - 42305),
      (42926, 42926, 1, - 42308), (42928, 42928, 1, - 42258), (42929, 42929, 1, - 42282),
      (42930, 42930, 1, - 42261), (42931, 42931, 1, 928), (42932, 42946, 2, 1),
      (42948, 42948, 1, - 48), (42949, 42949, 1, - 42307), (42950, 42950, 1, - 35384),
      (42951, 42953, 2, 1), (42960, 42960, 1, 1), (42966, 42968, 2, 1),
      (42997, 42997, 1, 1), (43888, 43967, 1, - 38864), (65313, 65338, 1, 32),
      (66560, 66599, 1, 40), (66736, 66771, 1, 40), (66928, 66938, 1, 39),
      (66940, 66954, 1, 39), (66956, 66962, 1, 39), (66964, 66965, 1, 39),
      (68736, 68786, 1, 64), (71840, 71871, 1, 32), (93760, 93791, 1, 32),
      (125184, 125217, 1, 34)
    ]"

definition casefold_char :: "nat \<Rightarrow> pystr" where
  "casefold_char c =
     (if c < 128 then (if 65 \<le> c \<and> c \<le> 90 then [c + 32] else [c])
      else (case map_of fold_multi c of
              Some cs \<Rightarrow> cs
            | None \<Rightarrow>
                (case find (\<lambda>(lo, hi, st, d). lo \<le> c \<and> c \<le> hi \<and> (c - lo) mod st = 0)
                        fold_ranges of
                   Some (lo, hi, st, d) \<Rightarrow> [nat (int c + d)]
                 | None \<Rightarrow> [c])))"

definition casefold :: "pystr \<Rightarrow> pystr" where
  "casefold s = concat (map casefold_char s)"

text \<open>\<open>str.lower\<close> on ASCII text (every use in the code compares with ASCII text).\<close>

definition lower_char :: "nat \<Rightarrow> nat" where
  "lower_char c = (if 65 \<le> c \<and> c \<le> 90 then c + 32 else c)"

definition is_ascii :: "pystr \<Rightarrow> bool" where
  "is_ascii s \<longleftrightarrow> (\<forall>c \<in> set s. c < 128)"

lemma casefold_ascii: "is_ascii s \<Longrightarrow> casefold s = map lower_char s"
  by (induction s) (auto simp: casefold_def is_ascii_def casefold_char_def lower_char_def)

lemma casefold_append [simp]: "casefold (s @ t) = casefold s @ casefold t"
  by (simp add: casefold_def)

end
