(* ===== verification/Detectors.thy ===== *)
theory Detectors
  imports Dependencies Regex Unicode
begin

text \<open>
  The four detectors of \<open>app/detectors\<close>, the ignore-tag decision and the registry.

  A detector is a function from a provider, a region and a scan context to candidates, or to
  the exception the scan of that cell raised. The locale \<open>detector\<close> is the contract the engine
  relies on (identity fields, detection confidence, registered dependencies, ignore decision);
  it is interpreted for each of the four detectors, and the engine's lemmas about candidates
  are proved once from it.
\<close>

section \<open>Context and the ignore decision\<close>

record scan_context =
  sc_account_id :: pystr
  sc_region :: pystr
  sc_observed_at :: instant
  sc_settings :: app_settings

record ignore_decision =
  ig_ignored :: bool
  ig_reason :: "pystr option"

definition evaluate_ignore :: "tags \<Rightarrow> app_settings \<Rightarrow> ignore_decision" where
  "evaluate_ignore tags st =
     (let ignored = (case map_of tags (st_ignore_tag_key st) of
                       None \<Rightarrow> False
                     | Some value \<Rightarrow> casefold value = casefold (st_ignore_tag_value st))
      in if \<not> ignored then \<lparr>ig_ignored = False, ig_reason = None\<rparr>
         else \<lparr>ig_ignored = True, ig_reason = map_of tags (st_ignore_reason_tag_key st)\<rparr>)"

lemma ignored_iff:
  "ig_ignored (evaluate_ignore tags st) \<longleftrightarrow>
     (\<exists>v. map_of tags (st_ignore_tag_key st) = Some v \<and>
          casefold v = casefold (st_ignore_tag_value st))"
  by (auto simp: evaluate_ignore_def Let_def split: option.splits)

lemma ignore_reason:
  "ig_reason (evaluate_ignore tags st) =
     (if ig_ignored (evaluate_ignore tags st) then map_of tags (st_ignore_reason_tag_key st)
      else None)"
  by (simp add: evaluate_ignore_def Let_def)

text \<open>The candidate of a detector before the engine enriches it.\<close>

definition candidate ::
  "scan_context \<Rightarrow> pystr \<Rightarrow> resource_type \<Rightarrow> pystr \<Rightarrow> detector_type \<Rightarrow> pystr \<Rightarrow> pystr \<Rightarrow>
   instant option \<Rightarrow> (pystr \<times> json) list \<Rightarrow> known_dependency list \<Rightarrow> pystr list \<Rightarrow> tags \<Rightarrow>
   pricing_request \<Rightarrow> pystr list \<Rightarrow> finding_candidate" where
  "candidate ctx region rt rid dt title summary created evidence deps related tags request warnings =
     (let ignore = evaluate_ignore tags (sc_settings ctx)
      in \<lparr>fc_account_id = sc_account_id ctx, fc_region = region, fc_resource_type = rt,
          fc_resource_id = rid, fc_detector_type = dt, fc_title = title, fc_summary = summary,
          fc_resource_created_at = created, fc_evidence = evidence,
          fc_known_dependencies = deps, fc_related_resource_ids = related, fc_tags = tags,
          fc_ignored = ig_ignored ignore, fc_ignore_reason = ig_reason ignore,
          fc_pricing_request = Some request, fc_detection_confidence = DC_HIGH,
          fc_warnings = warnings, fc_ownership = default_ownership,
          fc_pricing_result = None\<rparr>)"

lemma candidate_simps [simp]:
  "fc_account_id (candidate c rg rt rid dt ti su cr ev de re ta rq wa) = sc_account_id c"
  "fc_region (candidate c rg rt rid dt ti su cr ev de re ta rq wa) = rg"
  "fc_resource_type (candidate c rg rt rid dt ti su cr ev de re ta rq wa) = rt"
  "fc_resource_id (candidate c rg rt rid dt ti su cr ev de re ta rq wa) = rid"
  "fc_detector_type (candidate c rg rt rid dt ti su cr ev de re ta rq wa) = dt"
  "fc_known_dependencies (candidate c rg rt rid dt ti su cr ev de re ta rq wa) = de"
  "fc_tags (candidate c rg rt rid dt ti su cr ev de re ta rq wa) = ta"
  "fc_warnings (candidate c rg rt rid dt ti su cr ev de re ta rq wa) = wa"
  "fc_pricing_request (candidate c rg rt rid dt ti su cr ev de re ta rq wa) = Some rq"
  "fc_detection_confidence (candidate c rg rt rid dt ti su cr ev de re ta rq wa) = DC_HIGH"
  "fc_ignored (candidate c rg rt rid dt ti su cr ev de re ta rq wa) =
     ig_ignored (evaluate_ignore ta (sc_settings c))"
  "fc_ignore_reason (candidate c rg rt rid dt ti su cr ev de re ta rq wa) =
     ig_reason (evaluate_ignore ta (sc_settings c))"
  "fc_evidence (candidate c rg rt rid dt ti su cr ev de re ta rq wa) = ev"
  "fc_related_resource_ids (candidate c rg rt rid dt ti su cr ev de re ta rq wa) = re"
  "fc_resource_created_at (candidate c rg rt rid dt ti su cr ev de re ta rq wa) = cr"
  by (simp_all add: candidate_def Let_def)

text \<open>
  \<open>except ProviderPermissionError\<close> and \<open>except ProviderError\<close> around one provider call, with
  the value the code falls back to; every other exception propagates.
\<close>

fun or_if_denied :: "py_exc + 'a \<Rightarrow> py_exc + 'a option" where
  "or_if_denied (Inr x) = Inr (Some x)"
| "or_if_denied (Inl (Prov (ProviderPermissionError op r))) = Inr None"
| "or_if_denied (Inl e) = Inl e"

fun or_if_provider_error :: "py_exc + 'a \<Rightarrow> py_exc + 'a option" where
  "or_if_provider_error (Inr x) = Inr (Some x)"
| "or_if_provider_error (Inl (Prov e)) = Inr None"
| "or_if_provider_error (Inl (PyExc t m)) = Inl (PyExc t m)"

lemma or_if_provider_error_Inr:
  "or_if_provider_error r = Inr v \<longleftrightarrow>
     (\<exists>x. r = Inr x \<and> v = Some x) \<or> (\<exists>e. r = Inl (Prov e) \<and> v = None)"
  by (cases r rule: or_if_provider_error.cases) auto

definition name_tag :: "tags \<Rightarrow> json" where
  "name_tag tags = j_opt_str (map_of tags (lit ''Name''))"

section \<open>Unattached EBS volumes\<close>

definition ebs_condition :: "volume \<Rightarrow> bool" where
  "ebs_condition v \<longleftrightarrow> \<not> (v_state v \<noteq> lit ''available'' \<or> v_attachments v \<noteq> [])"

definition ebs_evidence :: "volume \<Rightarrow> (pystr \<times> json) list" where
  "ebs_evidence v =
     [(lit ''volume_id'', JStr (v_volume_id v)),
      (lit ''availability_zone'', JStr (v_availability_zone v)),
      (lit ''state'', JStr (v_state v)),
      (lit ''volume_type'', JStr (v_volume_type v)),
      (lit ''size_gib'', JInt (v_size_gib v)),
      (lit ''iops'', j_opt_int (v_iops v)),
      (lit ''throughput_mibps'', j_opt_int (v_throughput_mibps v)),
      (lit ''encrypted'', JBool (v_encrypted v)),
      (lit ''created_at'', JStr (datetime_iso_utc (v_created_at v))),
      (lit ''origin_snapshot_id'', j_opt_str (v_snapshot_id v)),
      (lit ''attachment_count'', JInt (int (length (v_attachments v)))),
      (lit ''tags'', j_tags (v_tags v)),
      (lit ''name_tag'', name_tag (v_tags v))]"

definition ebs_request :: "pystr \<Rightarrow> volume \<Rightarrow> ebs_pricing_request" where
  "ebs_request region v =
     \<lparr>er_region = region, er_volume_type = v_volume_type v, er_size_gib = v_size_gib v,
      er_iops = v_iops v, er_throughput_mibps = v_throughput_mibps v\<rparr>"

definition ebs_candidate :: "scan_context \<Rightarrow> pystr \<Rightarrow> volume \<Rightarrow> finding_candidate" where
  "ebs_candidate ctx region v =
     candidate ctx region EBS_VOLUME (v_volume_id v) UNATTACHED_EBS_VOLUME
       (lit ''Unattached EBS volume '' @ v_volume_id v)
       (lit ''This '' @ show_int (v_size_gib v) @ lit '' GiB '' @ v_volume_type v @
        lit '' volume is currently in state 'available' with no attachments.'')
       (Some (v_created_at v)) (ebs_evidence v) (attachment_dependencies v) [] (v_tags v)
       (EbsVolumePricingRequest (ebs_request region v)) []"

definition ebs_scan ::
  "cloud_provider \<Rightarrow> pystr \<Rightarrow> scan_context \<Rightarrow> py_exc + finding_candidate list" where
  "ebs_scan P region ctx =
     r_bind (list_volumes P region)
       (\<lambda>vs. Inr (map (ebs_candidate ctx region) (filter ebs_condition vs)))"

section \<open>Unassociated Elastic IPs\<close>

definition eip_condition :: "address \<Rightarrow> bool" where
  "eip_condition a \<longleftrightarrow>
     \<not> (ad_allocation_id a = None \<or> ad_association_id a \<noteq> None \<or> ad_instance_id a \<noteq> None \<or>
        ad_network_interface_id a \<noteq> None)"

definition eip_evidence :: "address \<Rightarrow> (pystr \<times> json) list" where
  "eip_evidence a =
     [(lit ''allocation_id'', j_opt_str (ad_allocation_id a)),
      (lit ''public_ip'', JStr (ad_public_ip a)),
      (lit ''domain'', JStr (ad_domain a)),
      (lit ''association_id'', j_opt_str (ad_association_id a)),
      (lit ''instance_id'', j_opt_str (ad_instance_id a)),
      (lit ''network_interface_id'', j_opt_str (ad_network_interface_id a)),
      (lit ''tags'', j_tags (ad_tags a)),
      (lit ''name_tag'', name_tag (ad_tags a))]"

definition eip_candidate :: "scan_context \<Rightarrow> pystr \<Rightarrow> address \<Rightarrow> finding_candidate" where
  "eip_candidate ctx region a =
     (let alloc = the (ad_allocation_id a)
      in candidate ctx region ELASTIC_IP alloc UNASSOCIATED_ELASTIC_IP
           (lit ''Unassociated Elastic IP '' @ alloc)
           (lit ''This Elastic IP address (allocation '' @ alloc @
            lit '') is currently not associated with any instance or network interface. AWS charges for public IPv4 addresses whether or not they are in use.'')
           None (eip_evidence a) (association_dependencies a) [] (ad_tags a)
           (ElasticIpPricingRequest region) [])"

definition eip_scan ::
  "cloud_provider \<Rightarrow> pystr \<Rightarrow> scan_context \<Rightarrow> py_exc + finding_candidate list" where
  "eip_scan P region ctx =
     r_bind (list_addresses P region)
       (\<lambda>as. Inr (map (eip_candidate ctx region) (filter eip_condition as)))"

section \<open>Stopped EC2 instances\<close>

definition ec2_condition :: "ec2_instance \<Rightarrow> bool" where
  "ec2_condition i \<longleftrightarrow> in_state i = lit ''stopped''"

definition attached_volumes :: "(pystr \<rightharpoonup> volume) \<Rightarrow> ec2_instance \<Rightarrow> volume list" where
  "attached_volumes idx i = List.map_filter (\<lambda>d. idx (bd_volume_id d)) (in_block_devices i)"

definition associated_addresses :: "address list \<Rightarrow> ec2_instance \<Rightarrow> address list" where
  "associated_addresses addresses i =
     filter (\<lambda>a. ad_instance_id a = Some (in_instance_id i)) addresses"

definition volume_detail :: "(pystr \<rightharpoonup> volume) \<Rightarrow> block_device \<Rightarrow> json" where
  "volume_detail idx d =
     (let v = the (idx (bd_volume_id d))
      in JDict
           [(lit ''volume_id'', JStr (bd_volume_id d)),
            (lit ''device_name'', JStr (bd_device_name d)),
            (lit ''volume_type'', JStr (v_volume_type v)),
            (lit ''size_gib'', JInt (v_size_gib v)),
            (lit ''iops'', j_opt_int (v_iops v)),
            (lit ''throughput_mibps'', j_opt_int (v_throughput_mibps v))])"

definition ec2_candidate ::
  "scan_context \<Rightarrow> pystr \<Rightarrow> (pystr \<rightharpoonup> volume) \<Rightarrow> address list \<Rightarrow> pystr list \<Rightarrow> ec2_instance \<Rightarrow>
   finding_candidate" where
  "ec2_candidate ctx region idx addresses warnings i =
     (let attached = attached_volumes idx i;
          associated = associated_addresses addresses i;
          attached_ids = map v_volume_id attached;
          volume_details = map (volume_detail idx)
            (filter (\<lambda>d. bd_volume_id d \<in> set attached_ids) (in_block_devices i));
          storage_gib = sum_list (map v_size_gib attached);
          allocation_ids = List.map_filter ad_allocation_id associated
      in candidate ctx region EC2_INSTANCE (in_instance_id i) STOPPED_EC2_INSTANCE
           (lit ''Stopped EC2 instance '' @ in_instance_id i)
           (lit ''This instance is currently stopped. Stopped compute is not billed, but its '' @
            show_nat (length attached) @ lit '' attached EBS volume(s) ('' @
            show_int storage_gib @ lit '' GiB) and '' @ show_nat (length associated) @
            lit '' associated public IPv4 address(es) continue to incur charges.'')
           (Some (in_launched_at i))
           [(lit ''instance_id'', JStr (in_instance_id i)),
            (lit ''instance_type'', JStr (in_instance_type i)),
            (lit ''state'', JStr (in_state i)),
            (lit ''launched_at'', JStr (datetime_iso_utc (in_launched_at i))),
            (lit ''launch_time_note'',
             JStr (lit ''LaunchTime is the last start time, not creation time.'')),
            (lit ''platform'', j_opt_str (in_platform i)),
            (lit ''attached_volumes'', JList volume_details),
            (lit ''attached_storage_gib'', JInt storage_gib),
            (lit ''associated_public_ipv4'', JList (map JStr allocation_ids)),
            (lit ''tags'', j_tags (in_tags i)),
            (lit ''name_tag'', name_tag (in_tags i))]
           (stopped_instance_dependencies i attached associated)
           (attached_ids @ allocation_ids) (in_tags i)
           (StoppedInstancePricingRequest region (map (ebs_request region) attached)
              (int (length associated)))
           warnings)"

definition ec2_scan ::
  "cloud_provider \<Rightarrow> pystr \<Rightarrow> scan_context \<Rightarrow> py_exc + finding_candidate list" where
  "ec2_scan P region ctx =
     r_bind (list_instances P region) (\<lambda>instances.
     r_bind (or_if_denied (list_volumes P region)) (\<lambda>vols.
     r_bind (or_if_denied (list_addresses P region)) (\<lambda>addrs.
       (let volumes = (case vols of None \<Rightarrow> [] | Some vs \<Rightarrow> vs);
            addresses = (case addrs of None \<Rightarrow> [] | Some as \<Rightarrow> as);
            warnings =
              (if vols = None
               then [lit ''Attached volume details unavailable: missing ec2:DescribeVolumes'']
               else []) @
              (if addrs = None
               then [lit ''Public IPv4 details unavailable: missing ec2:DescribeAddresses'']
               else []);
            volume_index = dict_index v_volume_id volumes
        in Inr (map (ec2_candidate ctx region volume_index addresses warnings)
                  (filter ec2_condition instances))))))"

section \<open>Snapshots with a deleted source volume\<close>

definition volume_id_rx :: rx where
  "volume_id_rx = aws_id_rx (lit ''vol-'')"

definition placeholder_volume_id :: pystr where
  "placeholder_volume_id = lit ''vol-ffffffff''"

definition snapshot_condition :: "scan_context \<Rightarrow> pystr set \<Rightarrow> snapshot \<Rightarrow> bool" where
  "snapshot_condition ctx current s \<longleftrightarrow>
     sn_owner_id s = sc_account_id ctx \<and> sn_state s = lit ''completed'' \<and>
     (case sn_volume_id s of
        None \<Rightarrow> False
      | Some vid \<Rightarrow>
          vid \<noteq> placeholder_volume_id \<and> fullmatch volume_id_rx vid \<and> vid \<notin> current)"

definition backup_managed :: "snapshot \<Rightarrow> bool" where
  "backup_managed s \<longleftrightarrow>
     (\<exists>kv \<in> set (sn_tags s). starts_with (fst kv) (lit ''aws:backup:'')) \<or>
     starts_with (sn_description s) (lit ''This snapshot is created by the AWS Backup service'')"

definition snapshot_evidence ::
  "snapshot \<Rightarrow> image list option \<Rightarrow> image list \<Rightarrow> snapshot_attributes option \<Rightarrow>
   (pystr \<rightharpoonup> snapshot_lock) option \<Rightarrow> (pystr \<times> json) list" where
  "snapshot_evidence s images references attributes lock_index =
     [(lit ''snapshot_id'', JStr (sn_snapshot_id s)),
      (lit ''source_volume_id'', j_opt_str (sn_volume_id s)),
      (lit ''state'', JStr (sn_state s)),
      (lit ''started_at'', JStr (datetime_iso_utc (sn_started_at s))),
      (lit ''volume_size_gib'', JInt (sn_volume_size_gib s)),
      (lit ''storage_tier'', JStr (sn_storage_tier s)),
      (lit ''encrypted'', JBool (sn_encrypted s)),
      (lit ''description'', JStr (sn_description s)),
      (lit ''tags'', j_tags (sn_tags s)),
      (lit ''name_tag'', name_tag (sn_tags s)),
      (lit ''ami_references'',
       (case images of
          None \<Rightarrow> JStr (lit ''unknown'')
        | Some ims \<Rightarrow> JList (map (\<lambda>im. JStr (im_image_id im)) references))),
      (lit ''shared_with_account_ids'',
       (case attributes of
          None \<Rightarrow> JStr (lit ''unknown'')
        | Some a \<Rightarrow> JList (map JStr (sa_shared_user_ids a)))),
      (lit ''shared_publicly'',
       (case attributes of
          None \<Rightarrow> JStr (lit ''unknown'')
        | Some a \<Rightarrow> JBool (lit ''all'' \<in> set (sa_shared_groups a)))),
      (lit ''lock_state'',
       (case lock_index of
          None \<Rightarrow> JStr (lit ''unknown'')
        | Some idx \<Rightarrow>
            (case idx (sn_snapshot_id s) of
               None \<Rightarrow> JNull
             | Some l \<Rightarrow> j_opt_str (map_option lock_state_value (sl_lock_state l))))),
      (lit ''aws_backup_managed'', JBool (backup_managed s)),
      (lit ''source_volume_exists'', JBool False)]"

definition snapshot_candidate ::
  "cloud_provider \<Rightarrow> pystr \<Rightarrow> scan_context \<Rightarrow> image list option \<Rightarrow>
   (pystr \<rightharpoonup> snapshot_lock) option \<Rightarrow> snapshot \<Rightarrow> py_exc + finding_candidate" where
  "snapshot_candidate P region ctx images lock_index s =
     (let warnings =
            (if images = None
             then [lit ''AMI references unavailable: missing ec2:DescribeImages''] else []) @
            (if lock_index = None
             then [lit ''Snapshot lock details unavailable: missing ec2:DescribeLockedSnapshots'']
             else []);
          references =
            (case images of
               None \<Rightarrow> []
             | Some ims \<Rightarrow> filter (\<lambda>im. sn_snapshot_id s \<in> set (im_snapshot_ids im)) ims)
      in r_bind (or_if_provider_error (get_snapshot_attributes P region (sn_snapshot_id s)))
           (\<lambda>attributes.
              let warnings' = warnings @
                    (if attributes = None
                     then [lit ''Snapshot sharing details unavailable: missing ec2:DescribeSnapshotAttribute'']
                     else []);
                  lock = (case lock_index of None \<Rightarrow> None | Some idx \<Rightarrow> idx (sn_snapshot_id s));
                  volume_id = the (sn_volume_id s)
              in Inr (candidate ctx region EBS_SNAPSHOT (sn_snapshot_id s)
                        SNAPSHOT_MISSING_SOURCE_VOLUME
                        (lit ''Snapshot with deleted source volume '' @ sn_snapshot_id s)
                        (lit ''This snapshot references source volume '' @ volume_id @
                         lit '', which no longer exists in '' @ region @
                         lit ''. That does not make the snapshot unnecessary: it may back an AMI, be shared, or be part of a backup plan. It deserves review.'')
                        (Some (sn_started_at s))
                        (snapshot_evidence s images references attributes lock_index)
                        (snapshot_dependencies s references attributes lock (backup_managed s))
                        (volume_id # map im_image_id references) (sn_tags s)
                        (SnapshotPricingRequest region (sn_volume_size_gib s)
                           (sn_storage_tier s))
                        warnings')))"

definition snapshot_scan ::
  "cloud_provider \<Rightarrow> pystr \<Rightarrow> scan_context \<Rightarrow> py_exc + finding_candidate list" where
  "snapshot_scan P region ctx =
     r_bind (list_snapshots P region) (\<lambda>snapshots.
     r_bind (list_volumes P region) (\<lambda>volumes.
       (let flagged = filter (snapshot_condition ctx (v_volume_id ` set volumes)) snapshots
        in if flagged = [] then Inr []
           else
             r_bind (or_if_provider_error (list_images P region)) (\<lambda>images.
             r_bind (or_if_provider_error
                       (get_snapshot_locks P region (map sn_snapshot_id flagged))) (\<lambda>locks.
               r_map (snapshot_candidate P region ctx images
                        (map_option (dict_index sl_snapshot_id) locks))
                 flagged)))))"

section \<open>The contract of a detector\<close>

locale detector =
  fixes dscan :: "cloud_provider \<Rightarrow> pystr \<Rightarrow> scan_context \<Rightarrow> py_exc + finding_candidate list"
    and dtype :: detector_type
    and rtype :: resource_type
  assumes identity:
      "dscan P region ctx = Inr cs \<Longrightarrow> c \<in> set cs \<Longrightarrow>
         fc_account_id c = sc_account_id ctx \<and> fc_region c = region \<and>
         fc_resource_type c = rtype \<and> fc_detector_type c = dtype"
    and confident:
      "dscan P region ctx = Inr cs \<Longrightarrow> c \<in> set cs \<Longrightarrow> fc_detection_confidence c = DC_HIGH"
    and dependencies_registered:
      "dscan P region ctx = Inr cs \<Longrightarrow> c \<in> set cs \<Longrightarrow>
         \<forall>d \<in> set (fc_known_dependencies c). registered rtype d"
    and ignore_decided:
      "dscan P region ctx = Inr cs \<Longrightarrow> c \<in> set cs \<Longrightarrow>
         fc_ignored c = ig_ignored (evaluate_ignore (fc_tags c) (sc_settings ctx)) \<and>
         fc_ignore_reason c = ig_reason (evaluate_ignore (fc_tags c) (sc_settings ctx))"
begin

text \<open>Within one cell the resource id alone identifies a candidate.\<close>

lemma identity_by_resource:
  assumes "dscan P region ctx = Inr cs" and "c \<in> set cs" and "c' \<in> set cs"
  shows "(fc_account_id c, fc_region c, fc_resource_type c, fc_resource_id c, fc_detector_type c) =
         (fc_account_id c', fc_region c', fc_resource_type c', fc_resource_id c',
          fc_detector_type c') \<longleftrightarrow> fc_resource_id c = fc_resource_id c'"
  using identity [OF assms(1,2)] identity [OF assms(1,3)] by auto

lemma blocking_is_registered:
  assumes "dscan P region ctx = Inr cs" and "c \<in> set cs" and "blocking (fc_known_dependencies c)"
  shows "\<exists>i \<in> set supported_dependency_checks.
           dc_applies_to i = rtype \<and> dc_blocks_remediation i"
  using dependencies_registered [OF assms(1,2)] assms(3)
  by (auto simp: blocking_def registered_def)

lemma reason_needs_ignored:
  assumes "dscan P region ctx = Inr cs" and "c \<in> set cs" and "fc_ignore_reason c \<noteq> None"
  shows "fc_ignored c"
  using ignore_decided [OF assms(1,2)] assms(3) by (auto simp: ignore_reason split: if_splits)

end

section \<open>The four detectors meet it\<close>

lemma ebs_scan_Inr:
  "ebs_scan P region ctx = Inr cs \<longleftrightarrow>
     (\<exists>vs. list_volumes P region = Inr vs \<and>
           cs = map (ebs_candidate ctx region) (filter ebs_condition vs))"
  by (auto simp: ebs_scan_def r_bind_Inr)

lemma eip_scan_Inr:
  "eip_scan P region ctx = Inr cs \<longleftrightarrow>
     (\<exists>as. list_addresses P region = Inr as \<and>
           cs = map (eip_candidate ctx region) (filter eip_condition as))"
  by (auto simp: eip_scan_def r_bind_Inr)

lemma ec2_scan_Inr:
  assumes "ec2_scan P region ctx = Inr cs"
  obtains insts idx ads w where "list_instances P region = Inr insts"
    and "cs = map (ec2_candidate ctx region idx ads w) (filter ec2_condition insts)"
  using assms by (auto simp: ec2_scan_def Let_def)

lemma snapshot_candidate_Inr:
  assumes "snapshot_candidate P region ctx images locks s = Inr c"
  obtains created ev deps rel ti su rq w where
    "c = candidate ctx region EBS_SNAPSHOT (sn_snapshot_id s) SNAPSHOT_MISSING_SOURCE_VOLUME
       ti su created ev deps rel (sn_tags s) rq w"
    and "\<forall>d \<in> set deps. registered EBS_SNAPSHOT d"
proof -
  from assms obtain at' where "or_if_provider_error (get_snapshot_attributes P region (sn_snapshot_id s)) = Inr at'"
    by (auto simp: snapshot_candidate_def Let_def)
  with assms show ?thesis
    by (intro that) (auto simp: snapshot_candidate_def Let_def intro: snapshot_registered)
qed

lemma snapshot_scan_Inr:
  assumes "snapshot_scan P region ctx = Inr cs"
  obtains ss vs images locks where "list_snapshots P region = Inr ss"
    and "list_volumes P region = Inr vs"
    and "r_map (snapshot_candidate P region ctx images locks)
           (filter (snapshot_condition ctx (v_volume_id ` set vs)) ss) = Inr cs"
  using assms by (auto simp: snapshot_scan_def Let_def split: if_splits)

lemma snapshot_scan_cases:
  assumes "snapshot_scan P region ctx = Inr cs" and "c \<in> set cs"
  obtains created ev deps rel ti su rq w and s :: snapshot where
    "c = candidate ctx region EBS_SNAPSHOT (sn_snapshot_id s) SNAPSHOT_MISSING_SOURCE_VOLUME
       ti su created ev deps rel (sn_tags s) rq w"
    and "\<forall>d \<in> set deps. registered EBS_SNAPSHOT d"
proof -
  from assms(1) obtain ss and vs :: "volume list" and images locks where
    "r_map (snapshot_candidate P region ctx images locks)
       (filter (snapshot_condition ctx (v_volume_id ` set vs)) ss) = Inr cs"
    by (elim snapshot_scan_Inr)
  from r_map_Inr_set [OF this assms(2)] obtain s where
    "snapshot_candidate P region ctx images locks s = Inr c" by blast
  then show ?thesis by (elim snapshot_candidate_Inr) (rule that)
qed

interpretation ebs: detector ebs_scan UNATTACHED_EBS_VOLUME EBS_VOLUME
  by unfold_locales (auto simp: ebs_scan_Inr ebs_candidate_def, erule attachment_registered)

interpretation eip: detector eip_scan UNASSOCIATED_ELASTIC_IP ELASTIC_IP
  by unfold_locales
    (auto simp: eip_scan_Inr eip_candidate_def Let_def, erule association_registered)

interpretation ec2: detector ec2_scan STOPPED_EC2_INSTANCE EC2_INSTANCE
  by unfold_locales
    (auto simp: ec2_candidate_def Let_def elim!: ec2_scan_Inr,
      erule stopped_instance_registered)

interpretation snap: detector snapshot_scan SNAPSHOT_MISSING_SOURCE_VOLUME EBS_SNAPSHOT
  by unfold_locales (auto elim!: snapshot_scan_cases)

section \<open>The registry\<close>

record detector_impl =
  det_type :: detector_type
  det_resource :: resource_type
  det_required_operations :: "pystr list"
  det_scan :: "cloud_provider \<Rightarrow> pystr \<Rightarrow> scan_context \<Rightarrow> py_exc + finding_candidate list"

definition detectors :: "detector_impl list" where
  "detectors =
     [\<lparr>det_type = UNATTACHED_EBS_VOLUME, det_resource = EBS_VOLUME,
       det_required_operations = [lit ''ec2:DescribeVolumes''], det_scan = ebs_scan\<rparr>,
      \<lparr>det_type = UNASSOCIATED_ELASTIC_IP, det_resource = ELASTIC_IP,
       det_required_operations = [lit ''ec2:DescribeAddresses''], det_scan = eip_scan\<rparr>,
      \<lparr>det_type = STOPPED_EC2_INSTANCE, det_resource = EC2_INSTANCE,
       det_required_operations =
         [lit ''ec2:DescribeInstances'', lit ''ec2:DescribeVolumes'', lit ''ec2:DescribeAddresses''],
       det_scan = ec2_scan\<rparr>,
      \<lparr>det_type = SNAPSHOT_MISSING_SOURCE_VOLUME, det_resource = EBS_SNAPSHOT,
       det_required_operations = [lit ''ec2:DescribeSnapshots'', lit ''ec2:DescribeVolumes''],
       det_scan = snapshot_scan\<rparr>]"

lemma detectors_meet_contract:
  assumes "d \<in> set detectors"
  shows "detector (det_scan d) (det_type d) (det_resource d)"
  using assms ebs.detector_axioms eip.detector_axioms ec2.detector_axioms snap.detector_axioms
  by (auto simp: detectors_def)

lemma detector_types_registered: "map det_type detectors = detector_types"
  by (simp add: detectors_def detector_types_def)

lemma distinct_detector_types: "distinct (map det_type detectors)"
  by (simp add: detectors_def)

section \<open>What each detector reports\<close>

lemma ebs_scan_ids:
  assumes "list_volumes P region = Inr vs"
  shows "\<exists>cs. ebs_scan P region ctx = Inr cs \<and>
           map fc_resource_id cs = map v_volume_id (filter ebs_condition vs)"
  using assms by (simp add: ebs_scan_def ebs_candidate_def comp_def)

lemma eip_scan_ids:
  assumes "list_addresses P region = Inr as"
  shows "\<exists>cs. eip_scan P region ctx = Inr cs \<and>
           map (\<lambda>c. Some (fc_resource_id c)) cs = map ad_allocation_id (filter eip_condition as)"
  using assms by (auto simp: eip_scan_def eip_candidate_def Let_def eip_condition_def)

text \<open>A volume or an address that is reported has nothing that blocks its removal.\<close>

lemma ebs_never_blocked:
  "ebs_scan P region ctx = Inr cs \<Longrightarrow> c \<in> set cs \<Longrightarrow> \<not> blocking (fc_known_dependencies c)"
  by (auto simp: ebs_scan_Inr ebs_candidate_def attachment_blocking ebs_condition_def)

lemma eip_never_blocked:
  "eip_scan P region ctx = Inr cs \<Longrightarrow> c \<in> set cs \<Longrightarrow> \<not> blocking (fc_known_dependencies c)"
  by (auto simp: eip_scan_Inr eip_candidate_def Let_def association_blocking eip_condition_def)

lemma ec2_never_blocked:
  "ec2_scan P region ctx = Inr cs \<Longrightarrow> c \<in> set cs \<Longrightarrow> \<not> blocking (fc_known_dependencies c)"
  by (auto elim!: ec2_scan_Inr simp: ec2_candidate_def Let_def stopped_instance_not_blocking)

text \<open>
  Losing a supplementary permission never loses a candidate: the snapshot detector reports the
  same snapshots whatever provider errors the AMI, lock and sharing lookups raise, and the
  instance detector the same instances when volumes or addresses are denied.
\<close>

definition provider_only :: "py_exc + 'a \<Rightarrow> bool" where
  "provider_only r \<longleftrightarrow> (\<forall>t m. r \<noteq> Inl (PyExc t m))"

lemma or_if_provider_error_total: "provider_only r \<Longrightarrow> \<exists>v. or_if_provider_error r = Inr v"
  by (cases r rule: or_if_provider_error.cases) (auto simp: provider_only_def)

lemma snapshot_candidate_total:
  assumes "provider_only (get_snapshot_attributes P region (sn_snapshot_id s))"
  shows "\<exists>c. snapshot_candidate P region ctx images locks s = Inr c \<and>
             fc_resource_id c = sn_snapshot_id s"
  using or_if_provider_error_total [OF assms] by (auto simp: snapshot_candidate_def Let_def)

lemma snapshot_candidates_total:
  assumes "\<forall>s \<in> set ss. provider_only (get_snapshot_attributes P region (sn_snapshot_id s))"
  shows "\<exists>cs. r_map (snapshot_candidate P region ctx images locks) ss = Inr cs \<and>
              map fc_resource_id cs = map sn_snapshot_id ss"
  using assms
proof (induction ss)
  case Nil
  then show ?case by simp
next
  case (Cons s ss)
  then obtain cs c where
    "r_map (snapshot_candidate P region ctx images locks) ss = Inr cs"
    "map fc_resource_id cs = map sn_snapshot_id ss"
    "snapshot_candidate P region ctx images locks s = Inr c" "fc_resource_id c = sn_snapshot_id s"
    using snapshot_candidate_total by (metis list.set_intros)
  then show ?case by simp
qed

lemma snapshot_scan_ids:
  assumes "list_snapshots P region = Inr ss" and "list_volumes P region = Inr vs"
    and "provider_only (list_images P region)"
    and "\<And>ids. provider_only (get_snapshot_locks P region ids)"
    and "\<And>sid. provider_only (get_snapshot_attributes P region sid)"
  shows "\<exists>cs. snapshot_scan P region ctx = Inr cs \<and>
           map fc_resource_id cs =
             map sn_snapshot_id (filter (snapshot_condition ctx (v_volume_id ` set vs)) ss)"
proof -
  obtain im where im: "or_if_provider_error (list_images P region) = Inr im"
    using or_if_provider_error_total [OF assms(3)] by blast
  let ?fl = "filter (snapshot_condition ctx (v_volume_id ` set vs)) ss"
  obtain lk where lk: "or_if_provider_error
      (get_snapshot_locks P region (map sn_snapshot_id ?fl)) = Inr lk"
    using or_if_provider_error_total [OF assms(4)] by blast
  have "\<forall>s \<in> set ?fl. provider_only (get_snapshot_attributes P region (sn_snapshot_id s))"
    using assms(5) by blast
  from snapshot_candidates_total [OF this] obtain cs where
    "r_map (snapshot_candidate P region ctx im (map_option (dict_index sl_snapshot_id) lk)) ?fl
       = Inr cs" "map fc_resource_id cs = map sn_snapshot_id ?fl"
    by blast
  with assms(1,2) im lk show ?thesis by (auto simp: snapshot_scan_def Let_def)
qed

definition denied_or_ok :: "py_exc + 'a \<Rightarrow> bool" where
  "denied_or_ok r \<longleftrightarrow>
     (case r of Inr x \<Rightarrow> True
      | Inl e \<Rightarrow> (\<exists>op g. e = Prov (ProviderPermissionError op g)))"

lemma denied_or_ok_total: "denied_or_ok r \<Longrightarrow> \<exists>v. or_if_denied r = Inr v"
  by (auto simp: denied_or_ok_def split: sum.splits)

lemma ec2_scan_ids:
  assumes "list_instances P region = Inr insts"
    and "denied_or_ok (list_volumes P region)" and "denied_or_ok (list_addresses P region)"
  shows "\<exists>cs. ec2_scan P region ctx = Inr cs \<and>
           map fc_resource_id cs = map in_instance_id (filter ec2_condition insts)"
proof -
  from denied_or_ok_total [OF assms(2)] denied_or_ok_total [OF assms(3)]
  obtain v a where "or_if_denied (list_volumes P region) = Inr v"
    and "or_if_denied (list_addresses P region) = Inr a" by blast
  with assms(1) show ?thesis by (simp add: ec2_scan_def Let_def ec2_candidate_def comp_def)
qed

end
