(* ===== verification/Ownership.thy ===== *)
theory Ownership
  imports Dependencies
begin

text \<open>
  CloudFormation ownership (\<open>app/ownership/resolver.py\<close>): one resolver per region, which loads
  the stack-resource index at its first use and remembers a failed load.

  An exception that is not a \<open>ProviderError\<close> leaves \<open>_load_index\<close> after \<open>_loaded\<close> was set, so
  the state outlives it: operations return the new state beside the outcome. The lemmas show
  that the provider is asked at most once, and characterise each of the three verdicts.
\<close>

definition stack_name_tag :: pystr where
  "stack_name_tag = lit ''aws:cloudformation:stack-name''"
definition stack_id_tag :: pystr where
  "stack_id_tag = lit ''aws:cloudformation:stack-id''"
definition logical_id_tag :: pystr where
  "logical_id_tag = lit ''aws:cloudformation:logical-id''"

definition cloudformation_tags :: "pystr list" where
  "cloudformation_tags = [stack_name_tag, stack_id_tag, logical_id_tag]"

record resolver =
  rv_loaded :: bool
  rv_index_available :: bool
  rv_index :: "pystr \<rightharpoonup> stack_resource"
  rv_unavailable_reason :: "pystr option"
  rv_warning :: "pystr option"

definition new_resolver :: resolver where
  "new_resolver =
     \<lparr>rv_loaded = False, rv_index_available = False, rv_index = Map.empty,
      rv_unavailable_reason = None, rv_warning = None\<rparr>"

definition physical_index :: "stack_resource list \<Rightarrow> (pystr \<rightharpoonup> stack_resource)" where
  "physical_index rs =
     dict_index (\<lambda>r. the (sr_physical_id r)) (filter (\<lambda>r. sr_physical_id r \<noteq> None) rs)"

definition load_index ::
  "cloud_provider \<Rightarrow> pystr \<Rightarrow> resolver \<Rightarrow> resolver \<times> (py_exc + unit)" where
  "load_index P region rv =
     (if rv_loaded rv then (rv, Inr ())
      else (let rv1 = rv\<lparr>rv_loaded := True\<rparr>
            in case list_stack_resources P region of
                 Inl (Prov (ProviderPermissionError op r)) \<Rightarrow>
                   (rv1\<lparr>rv_unavailable_reason := Some (lit ''missing '' @ op),
                        rv_warning := Some (lit ''CloudFormation ownership not evaluated in '' @
                          region @ lit '': missing '' @ op)\<rparr>, Inr ())
               | Inl (Prov e) \<Rightarrow>
                   (rv1\<lparr>rv_unavailable_reason := Some (provider_error_str e),
                        rv_warning := Some (lit ''CloudFormation lookup failed in '' @ region @
                          lit '': '' @ provider_error_str e)\<rparr>, Inr ())
               | Inl (PyExc t m) \<Rightarrow> (rv1, Inl (PyExc t m))
               | Inr resources \<Rightarrow>
                   (rv1\<lparr>rv_index_available := True, rv_index := physical_index resources\<rparr>,
                    Inr ())))"

definition carries_tags :: "tags \<Rightarrow> bool" where
  "carries_tags ts \<longleftrightarrow> (\<exists>key \<in> set cloudformation_tags. map_of ts key \<noteq> None)"

text \<open>The answer once the index is loaded; 8212 is the dash of the source's note.\<close>

definition resolve_loaded :: "pystr \<Rightarrow> resolver \<Rightarrow> finding_candidate \<Rightarrow> ownership" where
  "resolve_loaded region rv c =
     (case rv_index rv (fc_resource_id c) of
        Some r \<Rightarrow>
          \<lparr>ow_status = OWN_CONFIRMED, ow_stack_name = Some (sr_stack_name r),
           ow_stack_id = Some (sr_stack_id r), ow_logical_id = Some (sr_logical_id r),
           ow_source = Some STACK_RESOURCE_INDEX,
           ow_notes =
             [lit ''Found as logical resource '' @ sr_logical_id r @ lit '' in stack '' @
              sr_stack_name r @ lit ''.'',
              lit ''Change the CloudFormation stack instead of deleting the resource manually.'']\<rparr>
      | None \<Rightarrow>
          if carries_tags (fc_tags c) then
            \<lparr>ow_status = OWN_LIKELY, ow_stack_name = map_of (fc_tags c) stack_name_tag,
             ow_stack_id = map_of (fc_tags c) stack_id_tag,
             ow_logical_id = map_of (fc_tags c) logical_id_tag,
             ow_source = Some TAGS,
             ow_notes =
               [if rv_index_available rv
                then lit ''Resource carries aws:cloudformation:* tags but is not in the current stack-resource index; the stack may have been deleted with a retained resource.''
                else lit ''Resource carries aws:cloudformation:* tags; the stack index could not be queried.'']\<rparr>
          else if rv_index_available rv then
            default_ownership\<lparr>ow_notes :=
              [lit ''Not found in any CloudFormation stack in '' @ region @
               lit ''. UNKNOWN does not mean unmanaged '' @ [8212] @
               lit '' Terraform, console or other tooling may own it.'']\<rparr>
          else
            default_ownership\<lparr>ow_notes :=
              [lit ''CloudFormation ownership could not be evaluated: '' @
               (if truthy (rv_unavailable_reason rv) then the (rv_unavailable_reason rv)
                else lit ''stack index unavailable'') @
               lit ''. UNKNOWN does not mean unmanaged.'']\<rparr>)"

definition resolve ::
  "cloud_provider \<Rightarrow> pystr \<Rightarrow> resolver \<Rightarrow> finding_candidate \<Rightarrow>
   resolver \<times> (py_exc + ownership)" where
  "resolve P region rv c =
     (case load_index P region rv of
        (rv', Inl e) \<Rightarrow> (rv', Inl e)
      | (rv', Inr _) \<Rightarrow> (rv', Inr (resolve_loaded region rv' c)))"

section \<open>The load happens once\<close>

lemma load_index_loaded: "rv_loaded (fst (load_index P region rv))"
  by (auto simp: load_index_def Let_def split: sum.splits py_exc.splits provider_error.splits)

lemma load_index_idem: "rv_loaded rv \<Longrightarrow> load_index P region rv = (rv, Inr ())"
  by (simp add: load_index_def)

lemma resolve_loaded_state: "rv_loaded (fst (resolve P region rv c))"
  using load_index_loaded [of P region rv]
  by (auto simp: resolve_def split: prod.splits sum.splits)

lemma resolve_again:
  "rv_loaded rv \<Longrightarrow> resolve P region rv c = (rv, Inr (resolve_loaded region rv c))"
  by (simp add: resolve_def load_index_idem)

text \<open>
  The states of a resolver: fresh, loaded with the index of the region, or loaded without one.
  Its index never holds an entry without being available.
\<close>

definition resolver_inv :: "cloud_provider \<Rightarrow> pystr \<Rightarrow> resolver \<Rightarrow> bool" where
  "resolver_inv P region rv \<longleftrightarrow>
     (if rv_loaded rv \<and> r_ok (list_stack_resources P region)
      then rv_index_available rv \<and>
           rv_index rv = physical_index (projr (list_stack_resources P region)) \<and>
           rv_warning rv = None
      else \<not> rv_index_available rv \<and> rv_index rv = Map.empty \<and>
           (\<not> rv_loaded rv \<longrightarrow> rv_warning rv = None))"

lemma resolver_inv_new [inv_intros]: "resolver_inv P region new_resolver"
  by (simp add: resolver_inv_def new_resolver_def)

lemma resolver_inv_load: "resolver_inv P region rv \<Longrightarrow> resolver_inv P region (fst (load_index P region rv))"
  by (auto simp: resolver_inv_def load_index_def Let_def
      split: sum.splits py_exc.splits provider_error.splits)

lemma resolver_inv_resolve [inv_intros]:
  "resolver_inv P region rv \<Longrightarrow> resolver_inv P region (fst (resolve P region rv c))"
  using resolver_inv_load [of P region rv]
  by (auto simp: resolve_def split: prod.splits sum.splits)

section \<open>The three verdicts\<close>

lemma physical_index_dom: "k \<in> dom (physical_index rs) \<longleftrightarrow> (\<exists>r \<in> set rs. sr_physical_id r = Some k)"
  by (force simp: physical_index_def dom_dict_index)

lemma physical_index_Some:
  "physical_index rs k = Some r \<Longrightarrow> r \<in> set rs \<and> sr_physical_id r = Some k"
  unfolding physical_index_def by (drule dict_index_Some) auto

lemma confirmed_iff:
  "ow_status (resolve_loaded region rv c) = OWN_CONFIRMED \<longleftrightarrow> rv_index rv (fc_resource_id c) \<noteq> None"
  by (auto simp: resolve_loaded_def default_ownership_def split: option.splits)

lemma likely_iff:
  "ow_status (resolve_loaded region rv c) = OWN_LIKELY \<longleftrightarrow>
     rv_index rv (fc_resource_id c) = None \<and> carries_tags (fc_tags c)"
  by (auto simp: resolve_loaded_def default_ownership_def split: option.splits)

lemma unknown_iff:
  "ow_status (resolve_loaded region rv c) = OWN_UNKNOWN \<longleftrightarrow>
     rv_index rv (fc_resource_id c) = None \<and> \<not> carries_tags (fc_tags c)"
  by (auto simp: resolve_loaded_def default_ownership_def split: option.splits)

lemma resolve_Inr:
  "resolve P region rv c = (rv', Inr ow) \<Longrightarrow> ow = resolve_loaded region rv' c"
  by (auto simp: resolve_def split: prod.splits sum.splits)

text \<open>A region whose index was listed confirms exactly the resources listed in it.\<close>

lemma resolve_confirmed_listed:
  assumes "resolver_inv P region rv" and "list_stack_resources P region = Inr rs"
    and "resolve P region rv c = (rv', Inr ow)"
  shows "ow_status ow = OWN_CONFIRMED \<longleftrightarrow>
           (\<exists>r \<in> set rs. sr_physical_id r = Some (fc_resource_id c))"
proof -
  have "resolver_inv P region rv'" and "rv_loaded rv'"
    using resolver_inv_resolve [OF assms(1), of c] resolve_loaded_state [of P region rv c] assms(3)
    by simp_all
  with assms(2) have "rv_index rv' = physical_index rs" by (simp add: resolver_inv_def)
  then show ?thesis
    using resolve_Inr [OF assms(3)] physical_index_dom [of "fc_resource_id c" rs]
    by (simp add: confirmed_iff domIff)
qed

text \<open>Without an index nothing is confirmed; the tags alone decide.\<close>

lemma resolve_without_index:
  assumes "resolver_inv P region rv" and "list_stack_resources P region = Inl e"
    and "resolve P region rv c = (rv', Inr ow)"
  shows "ow_status ow = (if carries_tags (fc_tags c) then OWN_LIKELY else OWN_UNKNOWN)"
proof -
  have "resolver_inv P region rv'"
    using resolver_inv_resolve [OF assms(1), of c] assms(3) by simp
  with assms(2) have "rv_index rv' = Map.empty" by (simp add: resolver_inv_def)
  then show ?thesis using resolve_Inr [OF assms(3)]
    by (auto simp: resolve_loaded_def default_ownership_def)
qed

end
