(* ===== verification/Calculator.thy ===== *)
theory Calculator
  imports Domain
begin

text \<open>
  The cost calculator (\<open>app/pricing/calculator.py\<close>): unit prices and a pricing request give an
  amount, the line items it is the sum of, and notes; a missing unit price raises
  \<open>PricingLookupError\<close>. The lemmas show which requests are priced, that the amount is the
  exact sum of the lines as long as 28 digits hold it, and that contiguous io2 tiers bill every
  provisioned operation once.
\<close>

record iops_tier =
  it_begin :: int
  it_end :: "int option"
  it_unit_price :: decimal

record volume_unit_prices =
  vp_storage_gib_month :: decimal
  vp_iops_month :: "decimal option"
  vp_throughput_mibps_month :: "decimal option"
  vp_iops_tiers :: "iops_tier list"

record unit_prices =
  up_volumes :: "pystr \<rightharpoonup> volume_unit_prices"
  up_snapshot_standard_gib_month :: "decimal option"
  up_snapshot_archive_gib_month :: "decimal option"
  up_public_ipv4_hourly :: "decimal option"

definition PricingLookupError :: "pystr \<Rightarrow> py_exc" where
  "PricingLookupError m = PyExc (lit ''PricingLookupError'') m"

definition line :: "pystr \<Rightarrow> decimal \<Rightarrow> pystr \<Rightarrow> decimal \<Rightarrow> line_item" where
  "line label quantity unit price =
     \<lparr>li_label = label, li_quantity = quantity, li_unit = unit, li_unit_price = price,
      li_monthly_cost = dec_mul quantity price\<rparr>"

lemma line_simps [simp]:
  "li_label (line l q u p) = l" "li_quantity (line l q u p) = q" "li_unit (line l q u p) = u"
  "li_unit_price (line l q u p) = p" "li_monthly_cost (line l q u p) = dec_mul q p"
  by (simp_all add: line_def)

fun required :: "decimal option \<Rightarrow> pystr \<Rightarrow> py_exc + decimal" where
  "required None label = Inl (PricingLookupError (lit ''missing unit price for '' @ label))"
| "required (Some v) label = Inr v"

text \<open>\<open>value or 0\<close> on an optional integer.\<close>

fun or_zero :: "int option \<Rightarrow> int" where
  "or_zero None = 0"
| "or_zero (Some n) = n"

section \<open>One EBS volume\<close>

definition gp3_lines :: "ebs_pricing_request \<Rightarrow> volume_unit_prices \<Rightarrow> py_exc + line_item list" where
  "gp3_lines r prices =
     (let iops = max (or_zero (er_iops r) - 3000) 0;
          throughput = max (or_zero (er_throughput_mibps r) - 125) 0
      in r_bind
           (if iops \<noteq> 0
            then r_bind (required (vp_iops_month prices) (lit ''gp3 IOPS''))
                   (\<lambda>p. Inr [line (lit ''gp3 provisioned IOPS above 3000'') (dec_of_int iops)
                              (lit ''IOPS-month'') p])
            else Inr [])
           (\<lambda>iops_lines.
              r_bind
                (if throughput \<noteq> 0
                 then r_bind (required (vp_throughput_mibps_month prices) (lit ''gp3 throughput''))
                        (\<lambda>p. Inr [line (lit ''gp3 throughput above 125 MiB/s'')
                                   (dec_of_int throughput) (lit ''MiB/s-month'') p])
                 else Inr [])
                (\<lambda>throughput_lines. Inr (iops_lines @ throughput_lines))))"

definition tier_quantity :: "int \<Rightarrow> iops_tier \<Rightarrow> int" where
  "tier_quantity provisioned t =
     (let upper = (case it_end t of Some e \<Rightarrow> e | None \<Rightarrow> provisioned)
      in max (min provisioned upper - it_begin t) 0)"

fun tier_lines :: "int \<Rightarrow> nat \<Rightarrow> iops_tier list \<Rightarrow> line_item list" where
  "tier_lines provisioned index [] = []"
| "tier_lines provisioned index (t # ts) =
     (if tier_quantity provisioned t \<noteq> 0
      then [line (lit ''io2 IOPS tier '' @ show_nat index)
              (dec_of_int (tier_quantity provisioned t)) (lit ''IOPS-month'') (it_unit_price t)]
      else []) @ tier_lines provisioned (Suc index) ts"

definition type_lines :: "ebs_pricing_request \<Rightarrow> volume_unit_prices \<Rightarrow> py_exc + line_item list" where
  "type_lines r prices =
     (if er_volume_type r = lit ''gp3'' then gp3_lines r prices
      else if er_volume_type r = lit ''io1'' then
        r_bind (required (vp_iops_month prices) (lit ''io1 IOPS''))
          (\<lambda>p. Inr [line (lit ''io1 provisioned IOPS'') (dec_of_int (or_zero (er_iops r)))
                     (lit ''IOPS-month'') p])
      else if er_volume_type r = lit ''io2'' then
        (if vp_iops_tiers prices \<noteq> []
         then Inr (tier_lines (or_zero (er_iops r)) 1 (sort_key it_begin (vp_iops_tiers prices)))
         else
           r_bind (required (vp_iops_month prices) (lit ''io2 IOPS''))
             (\<lambda>p. Inr [line (lit ''io2 provisioned IOPS'') (dec_of_int (or_zero (er_iops r)))
                        (lit ''IOPS-month'') p]))
      else Inr [])"

definition storage_line :: "ebs_pricing_request \<Rightarrow> volume_unit_prices \<Rightarrow> line_item" where
  "storage_line r prices =
     line (er_volume_type r @ lit '' storage: '' @ show_int (er_size_gib r) @ lit '' GiB'')
       (dec_of_int (er_size_gib r)) (lit ''GiB-month'') (vp_storage_gib_month prices)"

definition calculate_ebs ::
  "ebs_pricing_request \<Rightarrow> unit_prices \<Rightarrow> py_exc + decimal \<times> line_item list \<times> pystr list" where
  "calculate_ebs r up =
     (case up_volumes up (er_volume_type r) of
        None \<Rightarrow> Inl (PricingLookupError (lit ''unknown volume type '' @ er_volume_type r))
      | Some prices \<Rightarrow>
          r_bind (type_lines r prices) (\<lambda>ls.
            (let lines = storage_line r prices # ls;
                 notes = (if er_volume_type r = lit ''standard''
                          then [lit ''Magnetic standard per-I/O charges are excluded.'']
                          else [])
             in Inr (dec_sum (map li_monthly_cost lines), lines, notes))))"

section \<open>Requests\<close>

fun stopped_volumes ::
  "unit_prices \<Rightarrow> decimal \<times> line_item list \<times> pystr list \<Rightarrow> ebs_pricing_request \<Rightarrow>
   py_exc + decimal \<times> line_item list \<times> pystr list" where
  "stopped_volumes up (total0, lines, notes) r =
     r_bind (calculate_ebs r up)
       (\<lambda>(amount, ls, ns). Inr (dec_add total0 amount, lines @ ls, notes @ ns))"

fun calculate ::
  "pricing_request \<Rightarrow> unit_prices \<Rightarrow> py_exc + decimal \<times> line_item list \<times> pystr list" where
  "calculate (EbsVolumePricingRequest r) up = calculate_ebs r up"
| "calculate (ElasticIpPricingRequest region) up =
     r_bind (required (up_public_ipv4_hourly up) (lit ''public IPv4 hourly''))
       (\<lambda>p. let l = line (lit ''Public IPv4 address: 730 hours'') (dec_of_int 730) (lit ''hour'') p
            in Inr (li_monthly_cost l, [l], []))"
| "calculate (SnapshotPricingRequest region size_gib tier) up =
     (let price = (if tier = lit ''archive'' then up_snapshot_archive_gib_month up
                   else up_snapshot_standard_gib_month up)
      in r_bind (required price (tier @ lit '' snapshot storage''))
           (\<lambda>p. let l = line (tier @ lit '' snapshot upper bound: '' @ show_int size_gib @
                              lit '' GiB'') (dec_of_int size_gib) (lit ''GiB-month'') p
                in Inr (li_monthly_cost l, [l],
                        [lit ''Snapshots are incremental; exact reclaimable storage is unknown.''])))"
| "calculate (StoppedInstancePricingRequest region volumes count) up =
     r_bind (r_fold (stopped_volumes up) (dec_zero, [], []) volumes) (\<lambda>(total0, lines, notes).
       r_bind
         (if count \<noteq> 0
          then r_bind (required (up_public_ipv4_hourly up) (lit ''public IPv4 hourly''))
                 (\<lambda>p. Inr [line (lit ''Public IPv4 addresses'') (dec_of_int (count * 730))
                            (lit ''hour'') p])
          else Inr [])
         (\<lambda>ip. Inr (foldl dec_add total0 (map li_monthly_cost ip), lines @ ip,
                    notes @ [lit ''Stopped compute is not billed and is not counted.''])))"

section \<open>io2 tiers\<close>

text \<open>
  \<open>contiguous a ts\<close>: the tiers start at \<open>a\<close>, each begins where the one before ends, and the
  last is open.
\<close>

fun contiguous :: "int \<Rightarrow> iops_tier list \<Rightarrow> bool" where
  "contiguous a [] = False"
| "contiguous a [t] = (it_begin t = a \<and> it_end t = None)"
| "contiguous a (t # u # ts) =
     (it_begin t = a \<and> (case it_end t of None \<Rightarrow> False | Some e \<Rightarrow> a < e \<and> contiguous e (u # ts)))"

lemma contiguous_quantities:
  assumes "contiguous a ts"
  shows "(\<Sum>t \<leftarrow> ts. tier_quantity n t) = max (n - a) 0"
  using assms
proof (induction a ts rule: contiguous.induct)
  case (3 a t u ts)
  then obtain e where e: "it_begin t = a" "it_end t = Some e" "a < e" "contiguous e (u # ts)"
    by (auto split: option.splits)
  with "3.IH" have "(\<Sum>t \<leftarrow> u # ts. tier_quantity n t) = max (n - e) 0" by simp
  with e show ?case by (auto simp: tier_quantity_def Let_def)
qed (auto simp: tier_quantity_def Let_def)

lemma contiguous_sorted: "contiguous a ts \<Longrightarrow> sorted (map it_begin ts) \<and> (\<forall>t \<in> set ts. a \<le> it_begin t)"
  by (induction a ts rule: contiguous.induct) (fastforce split: option.splits)+

lemma contiguous_sort_id: "contiguous a ts \<Longrightarrow> sort_key it_begin ts = ts"
  by (simp add: contiguous_sorted sort_key_id_if_sorted)

text \<open>The lines list the tiers with a nonzero quantity, in order.\<close>

lemma tier_lines_quantities:
  "map li_quantity (tier_lines n i ts) =
     map dec_of_int (filter (\<lambda>q. q \<noteq> 0) (map (tier_quantity n) ts))"
  by (induction ts arbitrary: i) auto

lemma sum_filter_nonzero: "sum_list (filter (\<lambda>q. q \<noteq> 0) qs) = sum_list (qs :: int list)"
  by (induction qs) auto

lemma dec_val_of_int: "dec_val (dec_of_int n) = rat_of_int n"
  by (simp add: dec_val_def dec_of_int_def ten_pow_def)

lemma sum_dec_of_int: "sum_list (map (\<lambda>n. dec_val (dec_of_int n)) qs) = rat_of_int (sum_list qs)"
  by (induction qs) (auto simp: dec_val_of_int)

lemma tier_lines_total:
  assumes "contiguous 0 ts" and "0 \<le> n"
  shows "sum_list (map (\<lambda>l. dec_val (li_quantity l)) (tier_lines n i ts)) = rat_of_int n"
proof -
  have "sum_list (map (\<lambda>l. dec_val (li_quantity l)) (tier_lines n i ts)) =
        sum_list (map dec_val (map li_quantity (tier_lines n i ts)))"
    by (simp add: comp_def)
  also have "\<dots> = rat_of_int (sum_list (map (tier_quantity n) ts))"
    unfolding tier_lines_quantities by (simp add: comp_def sum_dec_of_int sum_filter_nonzero)
  finally show ?thesis using contiguous_quantities [OF assms(1), of n] assms(2) by simp
qed

section \<open>Amounts\<close>

text \<open>Every line's cost is its quantity times its price; a volume's amount is the sum.\<close>

definition priced_line :: "line_item \<Rightarrow> bool" where
  "priced_line l \<longleftrightarrow> li_monthly_cost l = dec_mul (li_quantity l) (li_unit_price l)"

lemma priced_line_line [simp]: "priced_line (line l q u p)"
  by (simp add: priced_line_def)

lemma tier_lines_priced: "l \<in> set (tier_lines n i ts) \<Longrightarrow> priced_line l"
  by (induction ts arbitrary: i) (auto split: if_splits)

lemma type_lines_priced: "type_lines r prices = Inr ls \<Longrightarrow> l \<in> set ls \<Longrightarrow> priced_line l"
  by (auto simp: type_lines_def gp3_lines_def Let_def tier_lines_priced split: if_splits)

lemma calculate_ebs_Inr:
  assumes "calculate_ebs r up = Inr (amount, lines, notes)"
  shows "amount = dec_sum (map li_monthly_cost lines)" and "\<forall>l \<in> set lines. priced_line l"
    and "lines \<noteq> []"
  using assms
  by (auto simp: calculate_ebs_def Let_def storage_line_def type_lines_priced split: option.splits)

lemma stopped_volumes_Inr:
  assumes "r_fold (stopped_volumes up) (t, ls, ns) volumes = Inr (t', ls', ns')"
  shows "\<exists>per_volume extra.
           t' = foldl dec_add t (map (\<lambda>vls. dec_sum (map li_monthly_cost vls)) per_volume) \<and>
           ls' = ls @ concat per_volume \<and> ns' = ns @ extra \<and>
           length per_volume = length volumes \<and>
           (\<forall>vls \<in> set per_volume. \<forall>l \<in> set vls. priced_line l)"
  using assms
proof (induction volumes arbitrary: t ls ns)
  case Nil
  then show ?case by auto
next
  case (Cons r volumes)
  from Cons.prems obtain a vls vns where
    ebs: "calculate_ebs r up = Inr (a, vls, vns)" and
    rest: "r_fold (stopped_volumes up) (dec_add t a, ls @ vls, ns @ vns) volumes = Inr (t', ls', ns')"
    by auto
  from Cons.IH [OF rest] obtain pv extra where
    "t' = foldl dec_add (dec_add t a) (map (\<lambda>vls. dec_sum (map li_monthly_cost vls)) pv)"
    "ls' = (ls @ vls) @ concat pv" "ns' = (ns @ vns) @ extra" "length pv = length volumes"
    "\<forall>vls \<in> set pv. \<forall>l \<in> set vls. priced_line l" by blast
  with calculate_ebs_Inr [OF ebs] show ?case
    by (intro exI [of _ "vls # pv"] exI [of _ "vns @ extra"]) auto
qed

lemma calculate_priced:
  assumes "calculate req up = Inr (amount, lines, notes)" and "l \<in> set lines"
  shows "priced_line l"
proof (cases req)
  case (EbsVolumePricingRequest r)
  then show ?thesis using assms calculate_ebs_Inr(2) by auto
next
  case (StoppedInstancePricingRequest region volumes count)
  from assms(1) StoppedInstancePricingRequest obtain t ls ns ip where
    f: "r_fold (stopped_volumes up) (dec_zero, [], []) volumes = Inr (t, ls, ns)"
    and "lines = ls @ ip" and "\<forall>l \<in> set ip. priced_line l"
    by (auto split: if_splits)
  with stopped_volumes_Inr [OF f] assms(2) show ?thesis by auto
qed (use assms in \<open>auto simp: Let_def split: if_splits\<close>)

section \<open>Exact amounts\<close>

text \<open>
  \<open>small_line k b l\<close>: the cost of the line, on the scale \<open>10^-k\<close>, has a coefficient of at most
  \<open>b\<close>. Prices with a few decimals and realistic quantities are far below the 28 digits.
\<close>

lemma ebs_amount_exact:
  assumes "calculate_ebs r up = Inr (amount, lines, notes)"
    and "\<forall>l \<in> set lines. fits k b (li_monthly_cost l)" and "0 \<le> b"
    and "int (length lines) * b < 10 ^ 28"
  shows "dec_val amount = (\<Sum>l \<leftarrow> lines. dec_val (li_monthly_cost l))"
    and "fits k (int (length lines) * b) amount"
proof -
  have "\<forall>d \<in> set (map li_monthly_cost lines). fits k b d"
    and "int (length (map li_monthly_cost lines)) * b < 10 ^ 28" using assms(2,4) by auto
  note ex = dec_sum_exact [OF this(1) assms(3) this(2)]
  show "dec_val amount = (\<Sum>l \<leftarrow> lines. dec_val (li_monthly_cost l))"
    using ex(1) calculate_ebs_Inr(1) [OF assms(1)] by (simp add: comp_def)
  show "fits k (int (length lines) * b) amount"
    using ex(2) calculate_ebs_Inr(1) [OF assms(1)] by simp
qed

section \<open>Which requests are priced\<close>

text \<open>What a volume's unit prices must hold for its request not to raise.\<close>

definition prices_suffice :: "ebs_pricing_request \<Rightarrow> volume_unit_prices \<Rightarrow> bool" where
  "prices_suffice r prices \<longleftrightarrow>
     (er_volume_type r = lit ''gp3'' \<longrightarrow>
        (3000 < or_zero (er_iops r) \<longrightarrow> vp_iops_month prices \<noteq> None) \<and>
        (125 < or_zero (er_throughput_mibps r) \<longrightarrow> vp_throughput_mibps_month prices \<noteq> None)) \<and>
     (er_volume_type r = lit ''io1'' \<longrightarrow> vp_iops_month prices \<noteq> None) \<and>
     (er_volume_type r = lit ''io2'' \<longrightarrow>
        vp_iops_tiers prices \<noteq> [] \<or> vp_iops_month prices \<noteq> None)"

lemma required_ok [simp]: "r_ok (required v l) \<longleftrightarrow> v \<noteq> None"
  by (cases v) auto

lemma required_Inr: "required v l = Inr x \<longleftrightarrow> v = Some x"
  by (cases v) auto

lemma type_lines_ok: "r_ok (type_lines r prices) \<longleftrightarrow> prices_suffice r prices"
  by (auto simp: type_lines_def gp3_lines_def Let_def prices_suffice_def r_ok_bind required_Inr
      max_def not_less)

lemma calculate_ebs_ok:
  "r_ok (calculate_ebs r up) \<longleftrightarrow>
     (\<exists>prices. up_volumes up (er_volume_type r) = Some prices \<and> prices_suffice r prices)"
  by (auto simp: calculate_ebs_def Let_def type_lines_ok split: option.splits)

end
