(* ===== verification/Pricing.thy ===== *)
theory Pricing
  imports Calculator
begin

text \<open>
  The pricing back ends: the bundled table (\<open>app/pricing/fallback.py\<close> with
  \<open>fallback_prices.json\<close>), the two price caches (\<open>app/pricing/cache.py\<close>), and the service that
  tries its back ends in order and never raises (\<open>app/pricing/service.py\<close>).

  The locale \<open>pricing_cache\<close> is the cache protocol with the laws its client relies on; it is
  interpreted on the in-memory cache and on the database cache, and the database cache refines
  the in-memory one.
\<close>

section \<open>The bundled table\<close>

record fallback_volume =
  fv_storage :: decimal
  fv_iops :: "decimal option"
  fv_throughput :: "decimal option"
  fv_iops_tiers :: "decimal list option"

record fallback_region =
  fr_volumes :: "pystr \<rightharpoonup> fallback_volume"
  fr_snapshot_standard :: decimal
  fr_snapshot_archive :: decimal
  fr_public_ipv4_hourly :: decimal

record fallback_table =
  ft_captured_at :: pystr
  ft_captured_instant :: instant
  ft_regions :: "pystr \<rightharpoonup> fallback_region"

definition KeyError :: "pystr \<Rightarrow> py_exc" where
  "KeyError k = PyExc (lit ''KeyError'') (39 # k @ [39])"

definition IndexError :: py_exc where
  "IndexError = PyExc (lit ''IndexError'') (lit ''list index out of range'')"

definition lookup :: "(pystr \<rightharpoonup> 'a) \<Rightarrow> pystr \<Rightarrow> py_exc + 'a" where
  "lookup m k = (case m k of None \<Rightarrow> Inl (KeyError k) | Some v \<Rightarrow> Inr v)"

definition volume_types :: "pystr list" where
  "volume_types =
     [lit ''gp3'', lit ''gp2'', lit ''io1'', lit ''io2'', lit ''st1'', lit ''sc1'', lit ''standard'']"

definition us_east_1 :: pystr where
  "us_east_1 = lit ''us-east-1''"

fun fallback_tiers :: "decimal list option \<Rightarrow> py_exc + iops_tier list" where
  "fallback_tiers None = Inr []"
| "fallback_tiers (Some (a # b # c # _)) =
     Inr [\<lparr>it_begin = 0, it_end = Some 32000, it_unit_price = a\<rparr>,
          \<lparr>it_begin = 32000, it_end = Some 64000, it_unit_price = b\<rparr>,
          \<lparr>it_begin = 64000, it_end = None, it_unit_price = c\<rparr>]"
| "fallback_tiers (Some _) = Inl IndexError"

definition volume_entry ::
  "fallback_region \<Rightarrow> pystr \<Rightarrow> py_exc + pystr \<times> volume_unit_prices" where
  "volume_entry prices volume_type =
     r_bind (lookup (fr_volumes prices) volume_type) (\<lambda>v.
     r_bind (fallback_tiers (fv_iops_tiers v)) (\<lambda>tiers.
       Inr (volume_type,
            \<lparr>vp_storage_gib_month = fv_storage v, vp_iops_month = fv_iops v,
             vp_throughput_mibps_month = fv_throughput v, vp_iops_tiers = tiers\<rparr>)))"

definition fallback_unit_prices ::
  "fallback_table \<Rightarrow> pystr \<Rightarrow> py_exc + unit_prices \<times> pystr option" where
  "fallback_unit_prices table region =
     (let known = (ft_regions table region \<noteq> None);
          region_note = (if known then None
                         else Some (lit ''No fallback entry exists for '' @ region @
                                lit ''; us-east-1 list prices were used.''));
          region' = (if known then region else us_east_1)
      in r_bind (lookup (ft_regions table) region') (\<lambda>prices.
         r_bind (r_map (volume_entry prices) volume_types) (\<lambda>vols.
           Inr (\<lparr>up_volumes = map_of vols,
                 up_snapshot_standard_gib_month = Some (fr_snapshot_standard prices),
                 up_snapshot_archive_gib_month = Some (fr_snapshot_archive prices),
                 up_public_ipv4_hourly = Some (fr_public_ipv4_hourly prices)\<rparr>,
                region_note))))"

fun is_snapshot_request :: "pricing_request \<Rightarrow> bool" where
  "is_snapshot_request (SnapshotPricingRequest region size_gib tier) = True"
| "is_snapshot_request req = False"

definition unavailable :: "pystr \<Rightarrow> pystr list \<Rightarrow> pricing_result" where
  "unavailable explanation warnings =
     \<lparr>pr_estimated_monthly_cost = None, pr_cost_confidence = COST_UNAVAILABLE,
      pr_explanation = explanation, pr_source = PRICE_UNAVAILABLE,
      pr_pricing_timestamp = None, pr_line_items = [], pr_upper_bound = False,
      pr_warnings = warnings\<rparr>"

definition fallback_estimate ::
  "fallback_table \<Rightarrow> pricing_request \<Rightarrow> py_exc + pricing_result" where
  "fallback_estimate table req =
     r_bind (fallback_unit_prices table (request_region req)) (\<lambda>(up, region_note).
       case calculate req up of
         Inl (PyExc t m) \<Rightarrow>
           if t = lit ''PricingLookupError'' then Inr (unavailable m []) else Inl (PyExc t m)
       | Inl (Prov e) \<Rightarrow> Inl (Prov e)
       | Inr (amount, lines, notes) \<Rightarrow>
           (let snapshot = is_snapshot_request req;
                explanation =
                  map li_label lines @ notes @
                  [lit ''Fallback table captured at '' @ ft_captured_at table @ lit ''.''] @
                  (case region_note of None \<Rightarrow> [] | Some n \<Rightarrow> if n \<noteq> [] then [n] else [])
            in Inr \<lparr>pr_estimated_monthly_cost = Some amount,
                    pr_cost_confidence = (if snapshot then COST_LOW else COST_MEDIUM),
                    pr_explanation = join (lit '' '') explanation,
                    pr_source = FALLBACK_TABLE,
                    pr_pricing_timestamp = Some (ft_captured_instant table),
                    pr_line_items = lines, pr_upper_bound = snapshot, pr_warnings = []\<rparr>))"

text \<open>The table the package ships; 2026-09-20 is day 739878 of the calendar.\<close>

definition plain_volume :: "decimal \<Rightarrow> fallback_volume" where
  "plain_volume s =
     \<lparr>fv_storage = s, fv_iops = None, fv_throughput = None, fv_iops_tiers = None\<rparr>"

definition us_east_1_prices :: fallback_region where
  "us_east_1_prices =
     \<lparr>fr_volumes =
        [lit ''gp3'' \<mapsto> (plain_volume (Dec 8 (-2)))
           \<lparr>fv_iops := Some (Dec 5 (-3)), fv_throughput := Some (Dec 4 (-2))\<rparr>,
         lit ''gp2'' \<mapsto> plain_volume (Dec 1 (-1)),
         lit ''io1'' \<mapsto> (plain_volume (Dec 125 (-3)))\<lparr>fv_iops := Some (Dec 65 (-3))\<rparr>,
         lit ''io2'' \<mapsto> (plain_volume (Dec 125 (-3)))
           \<lparr>fv_iops_tiers := Some [Dec 65 (-3), Dec 46 (-3), Dec 32 (-3)]\<rparr>,
         lit ''st1'' \<mapsto> plain_volume (Dec 45 (-3)),
         lit ''sc1'' \<mapsto> plain_volume (Dec 15 (-3)),
         lit ''standard'' \<mapsto> plain_volume (Dec 5 (-2))],
      fr_snapshot_standard = Dec 5 (-2), fr_snapshot_archive = Dec 125 (-4),
      fr_public_ipv4_hourly = Dec 5 (-3)\<rparr>"

definition eu_central_1_prices :: fallback_region where
  "eu_central_1_prices =
     \<lparr>fr_volumes =
        [lit ''gp3'' \<mapsto> (plain_volume (Dec 952 (-4)))
           \<lparr>fv_iops := Some (Dec 6 (-3)), fv_throughput := Some (Dec 476 (-4))\<rparr>,
         lit ''gp2'' \<mapsto> plain_volume (Dec 119 (-3)),
         lit ''io1'' \<mapsto> (plain_volume (Dec 149 (-3)))\<lparr>fv_iops := Some (Dec 78 (-3))\<rparr>,
         lit ''io2'' \<mapsto> (plain_volume (Dec 149 (-3)))
           \<lparr>fv_iops_tiers := Some [Dec 78 (-3), Dec 55 (-3), Dec 38 (-3)]\<rparr>,
         lit ''st1'' \<mapsto> plain_volume (Dec 54 (-3)),
         lit ''sc1'' \<mapsto> plain_volume (Dec 18 (-3)),
         lit ''standard'' \<mapsto> plain_volume (Dec 59 (-3))],
      fr_snapshot_standard = Dec 54 (-3), fr_snapshot_archive = Dec 135 (-4),
      fr_public_ipv4_hourly = Dec 5 (-3)\<rparr>"

definition fallback_prices :: fallback_table where
  "fallback_prices =
     \<lparr>ft_captured_at = lit ''2026-09-20'',
      ft_captured_instant = 739878 * us_per_day,
      ft_regions = [us_east_1 \<mapsto> us_east_1_prices, lit ''eu-central-1'' \<mapsto> eu_central_1_prices]\<rparr>"

lemma captured_at_date: "date_iso (ft_captured_instant fallback_prices) = ft_captured_at fallback_prices"
  unfolding fallback_prices_def by (simp only: fallback_table.simps) code_simp

section \<open>The shipped table prices every known volume type\<close>

text \<open>A region's entries are complete: every type is listed and can price any request of it.\<close>

definition tiers_ok :: "decimal list option \<Rightarrow> bool" where
  "tiers_ok ts \<longleftrightarrow> (case ts of None \<Rightarrow> True | Some ds \<Rightarrow> 3 \<le> length ds)"

definition complete_region :: "fallback_region \<Rightarrow> bool" where
  "complete_region fr \<longleftrightarrow>
     (\<forall>t \<in> set volume_types. \<exists>v. fr_volumes fr t = Some v \<and> tiers_ok (fv_iops_tiers v) \<and>
        (t = lit ''gp3'' \<longrightarrow> fv_iops v \<noteq> None \<and> fv_throughput v \<noteq> None) \<and>
        (t = lit ''io1'' \<longrightarrow> fv_iops v \<noteq> None) \<and>
        (t = lit ''io2'' \<longrightarrow> fv_iops v \<noteq> None \<or> fv_iops_tiers v \<noteq> None))"

definition complete_table :: "fallback_table \<Rightarrow> bool" where
  "complete_table table \<longleftrightarrow>
     ft_regions table us_east_1 \<noteq> None \<and> (\<forall>fr \<in> ran (ft_regions table). complete_region fr)"

lemma us_east_1_complete: "complete_region us_east_1_prices"
  by (simp add: complete_region_def volume_types_def us_east_1_prices_def tiers_ok_def
      plain_volume_def)

lemma eu_central_1_complete: "complete_region eu_central_1_prices"
  by (simp add: complete_region_def volume_types_def eu_central_1_prices_def tiers_ok_def
      plain_volume_def)

lemma fallback_prices_complete: "complete_table fallback_prices"
  using us_east_1_complete eu_central_1_complete
  by (auto simp: complete_table_def fallback_prices_def us_east_1_def ran_def)

lemma fallback_tiers_ok:
  "tiers_ok ts \<Longrightarrow> \<exists>tiers. fallback_tiers ts = Inr tiers \<and> (tiers \<noteq> [] \<longleftrightarrow> ts \<noteq> None) \<and>
     (tiers \<noteq> [] \<longrightarrow> contiguous 0 tiers)"
  by (cases ts rule: fallback_tiers.cases) (auto simp: tiers_ok_def)

definition entry_ok :: "pystr \<Rightarrow> volume_unit_prices \<Rightarrow> bool" where
  "entry_ok t vp \<longleftrightarrow>
     (\<forall>r. er_volume_type r = t \<longrightarrow> prices_suffice r vp) \<and>
     (vp_iops_tiers vp \<noteq> [] \<longrightarrow> contiguous 0 (vp_iops_tiers vp))"

definition complete_unit_prices :: "unit_prices \<Rightarrow> bool" where
  "complete_unit_prices up \<longleftrightarrow>
     up_snapshot_standard_gib_month up \<noteq> None \<and> up_snapshot_archive_gib_month up \<noteq> None \<and>
     up_public_ipv4_hourly up \<noteq> None \<and>
     (\<forall>t \<in> set volume_types. \<exists>vp. up_volumes up t = Some vp \<and> entry_ok t vp)"

lemma volume_entry_complete:
  assumes "complete_region fr" and "t \<in> set volume_types"
  shows "\<exists>vp. volume_entry fr t = Inr (t, vp) \<and> entry_ok t vp"
proof -
  from assms have "\<exists>v. fr_volumes fr t = Some v \<and> tiers_ok (fv_iops_tiers v) \<and>
        (t = lit ''gp3'' \<longrightarrow> fv_iops v \<noteq> None \<and> fv_throughput v \<noteq> None) \<and>
        (t = lit ''io1'' \<longrightarrow> fv_iops v \<noteq> None) \<and>
        (t = lit ''io2'' \<longrightarrow> fv_iops v \<noteq> None \<or> fv_iops_tiers v \<noteq> None)"
    unfolding complete_region_def by (rule bspec)
  then obtain v where v: "fr_volumes fr t = Some v" "tiers_ok (fv_iops_tiers v)"
    "t = lit ''gp3'' \<longrightarrow> fv_iops v \<noteq> None \<and> fv_throughput v \<noteq> None"
    "t = lit ''io1'' \<longrightarrow> fv_iops v \<noteq> None"
    "t = lit ''io2'' \<longrightarrow> fv_iops v \<noteq> None \<or> fv_iops_tiers v \<noteq> None"
    by (elim exE conjE)
  from fallback_tiers_ok [OF v(2)] obtain tiers where tiers:
    "fallback_tiers (fv_iops_tiers v) = Inr tiers" "tiers \<noteq> [] \<longleftrightarrow> fv_iops_tiers v \<noteq> None"
    "tiers \<noteq> [] \<longrightarrow> contiguous 0 tiers" by (elim exE conjE)
  let ?vp = "\<lparr>vp_storage_gib_month = fv_storage v, vp_iops_month = fv_iops v,
             vp_throughput_mibps_month = fv_throughput v, vp_iops_tiers = tiers\<rparr>"
  have "volume_entry fr t = Inr (t, ?vp)"
    using v(1) tiers(1) by (simp add: volume_entry_def lookup_def)
  moreover have "prices_suffice r ?vp" if "er_volume_type r = t" for r
    using v(3-5) tiers(2) that by (auto simp: prices_suffice_def)
  ultimately show ?thesis using tiers(3) by (auto simp: entry_ok_def)
qed

lemma volume_entries_complete:
  assumes "complete_region fr" and "set ts \<subseteq> set volume_types"
  shows "\<exists>vols. r_map (volume_entry fr) ts = Inr vols \<and>
           (\<forall>t \<in> set ts. \<exists>vp. map_of vols t = Some vp \<and> entry_ok t vp)"
  using assms(2)
proof (induction ts)
  case Nil
  then show ?case by simp
next
  case (Cons t ts)
  then obtain vols where "r_map (volume_entry fr) ts = Inr vols"
    "\<forall>t \<in> set ts. \<exists>vp. map_of vols t = Some vp \<and> entry_ok t vp" by auto
  moreover from Cons.prems volume_entry_complete [OF assms(1), of t] obtain vp where
    "volume_entry fr t = Inr (t, vp)" "entry_ok t vp" by auto
  ultimately show ?case by auto
qed

lemma fallback_unit_prices_complete:
  assumes "complete_table table"
  obtains up nt where "fallback_unit_prices table region = Inr (up, nt)"
    and "nt = None \<longleftrightarrow> ft_regions table region \<noteq> None" and "complete_unit_prices up"
proof -
  let ?region = "if ft_regions table region \<noteq> None then region else us_east_1"
  from assms obtain fr where fr: "ft_regions table ?region = Some fr"
    unfolding complete_table_def by (cases "ft_regions table region") auto
  with assms have "complete_region fr" by (auto simp: complete_table_def ran_def)
  from volume_entries_complete [OF this subset_refl] obtain vols where
    "r_map (volume_entry fr) volume_types = Inr vols"
    "\<forall>t \<in> set volume_types. \<exists>vp. map_of vols t = Some vp \<and> entry_ok t vp" by blast
  note vols = this
  let ?up = "\<lparr>up_volumes = map_of vols,
      up_snapshot_standard_gib_month = Some (fr_snapshot_standard fr),
      up_snapshot_archive_gib_month = Some (fr_snapshot_archive fr),
      up_public_ipv4_hourly = Some (fr_public_ipv4_hourly fr)\<rparr>"
  have "complete_unit_prices ?up" using vols(2) by (simp add: complete_unit_prices_def)
  moreover have "\<exists>nt. fallback_unit_prices table region = Inr (?up, nt) \<and>
      (nt = None \<longleftrightarrow> ft_regions table region \<noteq> None)"
    using fr vols(1) by (simp add: fallback_unit_prices_def Let_def lookup_def split: if_splits)
  ultimately show thesis by (elim exE conjE) (rule that)
qed

fun request_volumes :: "pricing_request \<Rightarrow> ebs_pricing_request list" where
  "request_volumes (EbsVolumePricingRequest r) = [r]"
| "request_volumes (StoppedInstancePricingRequest region rs n) = rs"
| "request_volumes _ = []"

lemma stopped_volumes_ok:
  assumes "\<forall>r \<in> set rs. r_ok (calculate_ebs r up)"
  shows "r_ok (r_fold (stopped_volumes up) acc rs)"
  using assms by (induction rs arbitrary: acc) (auto simp: r_ok_bind r_ok_iff split_paired_all)

lemma calculate_ok:
  assumes "\<forall>r \<in> set (request_volumes req). r_ok (calculate_ebs r up)"
    and "up_snapshot_standard_gib_month up \<noteq> None" and "up_snapshot_archive_gib_month up \<noteq> None"
    and "up_public_ipv4_hourly up \<noteq> None"
  shows "r_ok (calculate req up)"
proof (cases req)
  case (StoppedInstancePricingRequest region rs n)
  with stopped_volumes_ok [of rs up "(dec_zero, [], [])"] assms(1,4) show ?thesis
    by (auto simp: r_ok_iff split_paired_all)
qed (use assms in \<open>auto simp: Let_def\<close>)

lemma fallback_prices_known:
  assumes "complete_table table"
    and "\<forall>r \<in> set (request_volumes req). er_volume_type r \<in> set volume_types"
  shows "\<exists>res amount. fallback_estimate table req = Inr res \<and>
           pr_estimated_monthly_cost res = Some amount \<and> pr_source res = FALLBACK_TABLE \<and>
           pr_cost_confidence res = (if is_snapshot_request req then COST_LOW else COST_MEDIUM) \<and>
           (\<forall>l \<in> set (pr_line_items res). priced_line l)"
proof -
  obtain up nt where up: "fallback_unit_prices table (request_region req) = Inr (up, nt)"
    and cup: "complete_unit_prices up"
    using fallback_unit_prices_complete [OF assms(1)] by metis
  have "r_ok (calculate_ebs r up)" if "r \<in> set (request_volumes req)" for r
  proof -
    from assms(2) that have "er_volume_type r \<in> set volume_types" by blast
    with cup obtain vp where "up_volumes up (er_volume_type r) = Some vp"
      and "entry_ok (er_volume_type r) vp" unfolding complete_unit_prices_def by blast
    then show ?thesis by (simp add: calculate_ebs_ok entry_ok_def)
  qed
  then have "r_ok (calculate req up)"
    using cup by (intro calculate_ok) (auto simp: complete_unit_prices_def)
  then obtain amount lines ns where c: "calculate req up = Inr (amount, lines, ns)"
    by (auto simp: r_ok_iff split_paired_all)
  with up calculate_priced [OF c] show ?thesis by (simp add: fallback_estimate_def Let_def)
qed

section \<open>The price caches\<close>

text \<open>
  The protocol: \<open>cget s now key\<close> and \<open>cset s now key payload\<close>, with the reading of the clock
  as an argument, and the time to live of the instance in seconds.
\<close>

locale pricing_cache =
  fixes cget :: "'s \<Rightarrow> instant \<Rightarrow> 'k \<Rightarrow> 'p option"
    and cset :: "'s \<Rightarrow> instant \<Rightarrow> 'k \<Rightarrow> 'p \<Rightarrow> 's"
    and fresh_for :: int
  assumes get_set_same:
      "cget (cset s t k p) now k = (if now - t \<le> fresh_for then Some p else None)"
    and get_set_other: "k' \<noteq> k \<Longrightarrow> cget (cset s t k p) now k' = cget s now k'"
begin

text \<open>What a client does with it: use the cached payload, or load and store one.\<close>

definition cached :: "(unit \<Rightarrow> 'e + 'p) \<Rightarrow> instant \<Rightarrow> 'k \<Rightarrow> 's \<Rightarrow> 's \<times> ('e + 'p)" where
  "cached load now k s =
     (case cget s now k of
        Some p \<Rightarrow> (s, Inr p)
      | None \<Rightarrow> (case load () of Inl e \<Rightarrow> (s, Inl e) | Inr p \<Rightarrow> (cset s now k p, Inr p)))"

lemma cached_again:
  assumes "cached load t k s = (s', Inr p)" and "cget s t k = None" and "now - t \<le> fresh_for"
  shows "cached load' now k s' = (s', Inr p)"
  using assms by (auto simp: cached_def get_set_same split: sum.splits)

lemma cached_expired:
  assumes "cached load t k s = (s', Inr p)" and "cget s t k = None" and "fresh_for < now - t"
  shows "cget s' now k = None"
  using assms by (auto simp: cached_def get_set_same split: sum.splits)

lemma failed_load_not_cached: "cget s t k = None \<Longrightarrow> load () = Inl e \<Longrightarrow> cached load t k s = (s, Inl e)"
  by (simp add: cached_def)

end

definition ttl_us :: "int \<Rightarrow> int" where
  "ttl_us ttl_seconds = ttl_seconds * us_per_second"

type_synonym 'p memory_cache = "pystr \<rightharpoonup> instant \<times> 'p"

definition memory_get :: "int \<Rightarrow> 'p memory_cache \<Rightarrow> instant \<Rightarrow> pystr \<Rightarrow> 'p option" where
  "memory_get ttl items now key =
     (case items key of
        None \<Rightarrow> None
      | Some (fetched_at, payload) \<Rightarrow>
          if now - fetched_at > ttl_us ttl then None else Some payload)"

definition memory_set :: "'p memory_cache \<Rightarrow> instant \<Rightarrow> pystr \<Rightarrow> 'p \<Rightarrow> 'p memory_cache" where
  "memory_set items now key payload = items(key \<mapsto> (now, payload))"

record 'p price_row =
  pc_cache_key :: pystr
  pc_payload :: 'p
  pc_fetched_at :: instant
  pc_source :: pystr

definition get_row :: "'p price_row list \<Rightarrow> pystr \<Rightarrow> 'p price_row option" where
  "get_row rows key = find (\<lambda>r. pc_cache_key r = key) rows"

definition db_get :: "int \<Rightarrow> 'p price_row list \<Rightarrow> instant \<Rightarrow> pystr \<Rightarrow> 'p option" where
  "db_get ttl rows now key =
     (case get_row rows key of
        None \<Rightarrow> None
      | Some record \<Rightarrow>
          if now - pc_fetched_at record > ttl_us ttl then None else Some (pc_payload record))"

definition db_set :: "'p price_row list \<Rightarrow> instant \<Rightarrow> pystr \<Rightarrow> 'p \<Rightarrow> 'p price_row list" where
  "db_set rows now key payload =
     (case get_row rows key of
        None \<Rightarrow>
          rows @ [\<lparr>pc_cache_key = key, pc_payload = payload, pc_fetched_at = now,
                   pc_source = lit ''aws_pricing_api''\<rparr>]
      | Some _ \<Rightarrow>
          map (\<lambda>r. if pc_cache_key r = key
                   then r\<lparr>pc_payload := payload, pc_fetched_at := now,
                          pc_source := lit ''aws_pricing_api''\<rparr>
                   else r) rows)"

text \<open>The abstraction of a table of rows: the dictionary the in-memory cache holds.\<close>

definition rows_abs :: "'p price_row list \<Rightarrow> 'p memory_cache" where
  "rows_abs rows key = map_option (\<lambda>r. (pc_fetched_at r, pc_payload r)) (get_row rows key)"

lemma get_row_append:
  "get_row (xs @ ys) k = (case get_row xs k of None \<Rightarrow> get_row ys k | Some r \<Rightarrow> Some r)"
  by (induction xs) (auto simp: get_row_def)

lemma get_row_update:
  "get_row (map (\<lambda>r. if pc_cache_key r = key then r\<lparr>pc_payload := p, pc_fetched_at := t,
                       pc_source := s\<rparr> else r) rows) k =
     map_option (\<lambda>r. if k = key then r\<lparr>pc_payload := p, pc_fetched_at := t, pc_source := s\<rparr> else r)
       (get_row rows k)"
  by (induction rows) (auto simp: get_row_def)

lemma db_get_abs: "db_get ttl rows now key = memory_get ttl (rows_abs rows) now key"
  by (simp add: db_get_def memory_get_def rows_abs_def split: option.splits)

lemma db_set_abs: "rows_abs (db_set rows now key p) = memory_set (rows_abs rows) now key p"
proof
  fix k
  have "get_row rows key = Some r \<Longrightarrow> pc_cache_key r = key" for r
    by (auto simp: get_row_def find_Some_iff)
  then show "rows_abs (db_set rows now key p) k = memory_set (rows_abs rows) now key p k"
    by (auto simp: rows_abs_def db_set_def memory_set_def get_row_append get_row_update
        split: option.splits) (auto simp: get_row_def)
qed

text \<open>\<open>set\<close> keeps the primary key of the table.\<close>

lemma db_set_keys:
  "map pc_cache_key (db_set rows now key p) =
     (if key \<in> pc_cache_key ` set rows then map pc_cache_key rows
      else map pc_cache_key rows @ [key])"
  by (auto simp: db_set_def get_row_def find_None_iff find_Some_iff comp_def
      split: option.splits)

interpretation memory: pricing_cache "memory_get ttl" memory_set "ttl_us ttl" for ttl
  by unfold_locales (auto simp: memory_get_def memory_set_def)

interpretation db: pricing_cache "db_get ttl" db_set "ttl_us ttl" for ttl
  by unfold_locales (simp_all add: db_get_abs db_set_abs memory.get_set_same memory.get_set_other)

section \<open>The service\<close>

text \<open>
  \<open>PricingService.estimate\<close>: disabled, or the back ends in order until one answers; each
  exception becomes a warning. A back end is a state transformer, because the pricing API's
  one fills the cache.
\<close>

type_synonym 's backend = "'s \<Rightarrow> pricing_request \<Rightarrow> 's \<times> (py_exc + pricing_result)"

definition fallback_backend :: "fallback_table \<Rightarrow> 's backend" where
  "fallback_backend table s req = (s, fallback_estimate table req)"

fun try_backends ::
  "'s backend list \<Rightarrow> 's \<Rightarrow> pricing_request \<Rightarrow> pystr list \<Rightarrow> 's \<times> pricing_result" where
  "try_backends [] s req warnings = (s, unavailable (lit ''Pricing is unavailable.'') warnings)"
| "try_backends (b # bs) s req warnings =
     (case b s req of
        (s', Inr result) \<Rightarrow> (s', result\<lparr>pr_warnings := warnings @ pr_warnings result\<rparr>)
      | (s', Inl e) \<Rightarrow> try_backends bs s' req (warnings @ [exc_text e]))"

definition estimate ::
  "app_settings \<Rightarrow> 's backend option \<Rightarrow> 's backend \<Rightarrow> 's \<Rightarrow> pricing_request \<Rightarrow>
   's \<times> pricing_result" where
  "estimate st api fallback s req =
     (if st_pricing_mode st = PM_DISABLED
      then (s, unavailable (lit ''Pricing is disabled.'') [])
      else try_backends
             ((case api of
                 Some a \<Rightarrow> if st_pricing_mode st = PM_AUTO then [a] else []
               | None \<Rightarrow> []) @ [fallback])
             s req [])"

text \<open>
  A price and its confidence agree: a result without an amount is \<open>UNAVAILABLE\<close> and a result
  with one is not.
\<close>

definition coherent :: "pricing_result \<Rightarrow> bool" where
  "coherent r \<longleftrightarrow>
     (pr_estimated_monthly_cost r = None \<longleftrightarrow> pr_cost_confidence r = COST_UNAVAILABLE) \<and>
     (pr_upper_bound r \<longrightarrow> pr_cost_confidence r = COST_LOW) \<and>
     (pr_estimated_monthly_cost r = None \<longrightarrow> pr_line_items r = [])"

lemma unavailable_coherent [simp]: "coherent (unavailable e w)"
  by (simp add: coherent_def unavailable_def)

lemma coherent_warnings [simp]: "coherent (r\<lparr>pr_warnings := w\<rparr>) = coherent r"
  by (simp add: coherent_def)

lemma fallback_coherent: "fallback_estimate table req = Inr r \<Longrightarrow> coherent r"
  by (auto simp: fallback_estimate_def Let_def coherent_def unavailable_def
      split: sum.splits py_exc.splits if_splits)

lemma try_backends_coherent:
  assumes "\<And>b s r s'. b \<in> set bs \<Longrightarrow> b s req = (s', Inr r) \<Longrightarrow> coherent r"
  shows "coherent (snd (try_backends bs s req w))"
  using assms
proof (induction bs arbitrary: s w)
  case Nil
  then show ?case by simp
next
  case (Cons b bs)
  obtain s' r where b: "b s req = (s', r)" by (cases "b s req")
  show ?case
  proof (cases r)
    case (Inl e)
    have "coherent (snd (try_backends bs s' req (w @ [exc_text e])))"
      by (rule Cons.IH) (metis Cons.prems list.set_intros(2))
    with b Inl show ?thesis by simp
  next
    case (Inr res)
    with b Cons.prems [of b s s' res] show ?thesis by simp
  qed
qed

lemma estimate_fallback:
  assumes "st_pricing_mode st \<noteq> PM_DISABLED"
    and "\<And>a s. api = Some a \<Longrightarrow> st_pricing_mode st = PM_AUTO \<Longrightarrow> \<exists>s' e. a s req = (s', Inl e)"
    and "fallback_estimate table req = Inr r"
  shows "\<exists>w. snd (estimate st api (fallback_backend table) s req) = r\<lparr>pr_warnings := w\<rparr>"
proof (cases "\<exists>a. api = Some a \<and> st_pricing_mode st = PM_AUTO")
  case True
  then obtain a where a: "api = Some a" "st_pricing_mode st = PM_AUTO" by blast
  with assms(2) obtain s' e where "a s req = (s', Inl e)" by blast
  with a assms(3) show ?thesis
    by (simp add: estimate_def fallback_backend_def) (rule exI, rule refl)
next
  case False
  with assms(1,3) show ?thesis
    by (auto simp: estimate_def fallback_backend_def split: option.splits
        intro!: exI [of _ "pr_warnings r"])
qed

end
