(* ===== verification/Persistence.thy ===== *)
theory Persistence
  imports Domain
begin

text \<open>
  The tables of \<open>app/persistence/models.py\<close> and the queries of
  \<open>app/persistence/repositories.py\<close>.

  A row is a record; a column that stores the \<open>.value\<close> of an enumeration holds the enumeration,
  and a JSON column holds the model that was dumped into it (\<open>None\<close> in \<open>f_ownership\<close> is the
  empty object a new row starts with). A UUID is a natural number: \<open>uuid4\<close> is modelled by a
  counter in the database, which stands for its freshness. Rows are kept in insertion order,
  the order in which the tables are read. The two unique constraints raise \<open>IntegrityError\<close>.

  The locale \<open>keyed_store\<close> is what the scan history needs of the findings table, and is
  interpreted on it: looking up by natural key, inserting a row with a new key, and updating a
  row in place.
\<close>

section \<open>Rows\<close>

type_synonym uuid = nat

text \<open>\<open>str(UUID)\<close>: thirty-two hexadecimal digits in five groups.\<close>

definition hex_digit :: "nat \<Rightarrow> nat" where
  "hex_digit n = (if n < 10 then 48 + n else 87 + n)"

fun hex_pad :: "nat \<Rightarrow> nat \<Rightarrow> pystr" where
  "hex_pad 0 n = []"
| "hex_pad (Suc w) n = hex_pad w (n div 16) @ [hex_digit (n mod 16)]"

definition uuid_text :: "uuid \<Rightarrow> pystr" where
  "uuid_text n =
     hex_pad 8 (n div 16 ^ 24) @ lit ''-'' @ hex_pad 4 (n div 16 ^ 20) @ lit ''-'' @
     hex_pad 4 (n div 16 ^ 16) @ lit ''-'' @ hex_pad 4 (n div 16 ^ 12) @ lit ''-'' @ hex_pad 12 n"

record finding =
  f_id :: uuid
  f_account_id :: pystr
  f_region :: pystr
  f_resource_type :: resource_type
  f_resource_id :: pystr
  f_detector_type :: detector_type
  f_title :: pystr
  f_summary :: pystr
  f_resource_created_at :: "instant option"
  f_first_observed_at :: instant
  f_last_observed_at :: instant
  f_streak_started_at :: instant
  f_observation_count :: int
  f_consecutive_observations :: int
  f_persistence_state :: persistence_state
  f_detection_confidence :: detection_confidence
  f_remediation_risk :: remediation_risk
  f_cost_confidence :: cost_confidence
  f_estimated_monthly_cost :: "decimal option"
  f_cost_explanation :: pystr
  f_pricing_source :: pricing_source
  f_pricing_timestamp :: "instant option"
  f_cost_line_items :: "line_item list"
  f_evidence :: "(pystr \<times> json) list"
  f_known_dependencies :: "known_dependency list"
  f_ownership :: "ownership option"
  f_related_resource_ids :: "pystr list"
  f_status :: finding_status
  f_resolved_at :: "instant option"
  f_dismissed_at :: "instant option"
  f_dismiss_reason :: "pystr option"
  f_ignore_reason :: "pystr option"
  f_first_scan_id :: uuid
  f_last_scan_id :: uuid
  f_created_at :: instant
  f_updated_at :: instant

record observation =
  ob_id :: uuid
  ob_finding_id :: uuid
  ob_scan_id :: uuid
  ob_observed_at :: instant
  ob_status :: finding_status
  ob_persistence_state :: persistence_state
  ob_remediation_risk :: remediation_risk
  ob_estimated_monthly_cost :: "decimal option"
  ob_cost_confidence :: cost_confidence
  ob_evidence :: "(pystr \<times> json) list"

record error_entry =
  ee_scope :: pystr
  ee_code :: pystr
  ee_message :: pystr
  ee_region :: "pystr option"
  ee_detector_type :: "detector_type option"
  ee_missing_operation :: "pystr option"

record scan =
  s_id :: uuid
  s_mode :: mode
  s_account_id :: "pystr option"
  s_principal_arn :: "pystr option"
  s_seeded :: bool
  s_started_at :: instant
  s_finished_at :: "instant option"
  s_status :: scan_status
  s_requested_regions :: "pystr list"
  s_completed_regions :: "pystr list"
  s_partial_regions :: "pystr list"
  s_failed_regions :: "pystr list"
  s_skipped_regions :: "pystr list"
  s_coverage :: "pystr \<rightharpoonup> region_coverage"
  s_new_findings :: int
  s_persistent_findings :: int
  s_resolved_findings :: int
  s_ignored_findings :: int
  s_estimated_exposure :: decimal
  s_potential_exposure_low_confidence :: decimal
  s_errors :: "error_entry list"
  s_created_at :: instant

record db =
  db_scans :: "scan list"
  db_findings :: "finding list"
  db_observations :: "observation list"
  db_next_id :: uuid

section \<open>The natural key of a finding\<close>

type_synonym finding_key = "pystr \<times> pystr \<times> resource_type \<times> pystr \<times> detector_type"

definition key_of :: "finding \<Rightarrow> finding_key" where
  "key_of f =
     (f_account_id f, f_region f, f_resource_type f, f_resource_id f, f_detector_type f)"

definition IntegrityError :: "pystr \<Rightarrow> py_exc" where
  "IntegrityError m = PyExc (lit ''IntegrityError'') m"

section \<open>Queries\<close>

fun get_finding_by_identity :: "finding list \<Rightarrow> finding_key \<Rightarrow> finding option" where
  "get_finding_by_identity fs (account_id, region, resource_type, resource_id, detector_type) =
     find (\<lambda>f. f_account_id f = account_id \<and> f_region f = region \<and>
               f_resource_type f = resource_type \<and> f_resource_id f = resource_id \<and>
               f_detector_type f = detector_type) fs"

definition in_cell :: "pystr \<Rightarrow> pystr \<Rightarrow> detector_type \<Rightarrow> finding \<Rightarrow> bool" where
  "in_cell account_id region dt f \<longleftrightarrow>
     f_account_id f = account_id \<and> f_region f = region \<and> f_detector_type f = dt"

definition list_findings_for_cell ::
  "finding list \<Rightarrow> pystr \<Rightarrow> pystr \<Rightarrow> detector_type \<Rightarrow> finding list" where
  "list_findings_for_cell fs account_id region dt = filter (in_cell account_id region dt) fs"

definition list_open_findings_observed_by_scan :: "db \<Rightarrow> scan \<Rightarrow> finding list" where
  "list_open_findings_observed_by_scan d s =
     List.map_filter
       (\<lambda>(f, ob). if ob_finding_id ob = f_id f \<and> ob_scan_id ob = s_id s \<and> f_status f = OPEN
                  then Some f else None)
       (List.product (db_findings d) (db_observations d))"

definition list_observations :: "db \<Rightarrow> finding \<Rightarrow> observation list" where
  "list_observations d f =
     sort_key ob_observed_at (filter (\<lambda>ob. ob_finding_id ob = f_id f) (db_observations d))"

definition get_scan :: "db \<Rightarrow> uuid \<Rightarrow> scan option" where
  "get_scan d i = find (\<lambda>s. s_id s = i) (db_scans d)"

definition get_finding :: "db \<Rightarrow> uuid \<Rightarrow> finding option" where
  "get_finding d i = find (\<lambda>f. f_id f = i) (db_findings d)"

lemma get_by_identity_key: "get_finding_by_identity fs k = find (\<lambda>f. key_of f = k) fs"
  by (cases k) (simp add: key_of_def)

declare get_finding_by_identity.simps [simp del]

section \<open>Changes\<close>

text \<open>Writing a finding: an existing row is updated in place, a new one appended.\<close>

definition update_row :: "finding list \<Rightarrow> finding \<Rightarrow> finding list" where
  "update_row fs g = map (\<lambda>f. if f_id f = f_id g then g else f) fs"

definition put_finding :: "finding list \<Rightarrow> finding \<Rightarrow> finding list" where
  "put_finding fs g = (if f_id g \<in> f_id ` set fs then update_row fs g else fs @ [g])"

definition add_observation :: "observation list \<Rightarrow> observation \<Rightarrow> py_exc + observation list" where
  "add_observation obs ob =
     (if \<exists>x \<in> set obs. ob_finding_id x = ob_finding_id ob \<and> ob_scan_id x = ob_scan_id ob
      then Inl (IntegrityError (lit ''uq_finding_observation_scan''))
      else Inr (obs @ [ob]))"

definition put_scan :: "scan list \<Rightarrow> scan \<Rightarrow> scan list" where
  "put_scan ss t =
     (if s_id t \<in> s_id ` set ss then map (\<lambda>s. if s_id s = s_id t then t else s) ss
      else ss @ [t])"

lemma find_append:
  "find P (xs @ ys) = (case find P xs of None \<Rightarrow> find P ys | Some x \<Rightarrow> Some x)"
  by (induction xs) auto

section \<open>Well-formed tables\<close>

definition wf_findings :: "finding list \<Rightarrow> bool" where
  "wf_findings fs \<longleftrightarrow> distinct (map f_id fs) \<and> distinct (map key_of fs)"

definition wf_db :: "db \<Rightarrow> bool" where
  "wf_db d \<longleftrightarrow>
     wf_findings (db_findings d) \<and>
     (\<forall>f \<in> set (db_findings d). f_id f < db_next_id d) \<and>
     distinct (map (\<lambda>ob. (ob_finding_id ob, ob_scan_id ob)) (db_observations d)) \<and>
     (\<forall>ob \<in> set (db_observations d). ob_finding_id ob \<in> f_id ` set (db_findings d))"

lemma find_distinct:
  assumes "distinct (map g xs)"
  shows "find (\<lambda>x. g x = k) xs = Some x \<longleftrightarrow> x \<in> set xs \<and> g x = k"
  using assms by (induction xs) auto

lemma get_by_identity_Some:
  assumes "wf_findings fs"
  shows "get_finding_by_identity fs k = Some f \<longleftrightarrow> f \<in> set fs \<and> key_of f = k"
  using assms find_distinct [of key_of fs k f] by (simp add: get_by_identity_key wf_findings_def)

lemma get_by_identity_None: "get_finding_by_identity fs k = None \<longleftrightarrow> k \<notin> key_of ` set fs"
  by (auto simp: get_by_identity_key find_None_iff)

lemma wf_findings_id_inj:
  "wf_findings fs \<Longrightarrow> f \<in> set fs \<Longrightarrow> g \<in> set fs \<Longrightarrow> f_id f = f_id g \<Longrightarrow> f = g"
  by (auto simp: wf_findings_def distinct_map dest: inj_onD)

lemma wf_findings_key_inj:
  "wf_findings fs \<Longrightarrow> f \<in> set fs \<Longrightarrow> g \<in> set fs \<Longrightarrow> key_of f = key_of g \<Longrightarrow> f = g"
  by (auto simp: wf_findings_def distinct_map dest: inj_onD)

section \<open>The contract of the findings table\<close>

locale keyed_store =
  fixes find_key :: "'s \<Rightarrow> 'k \<Rightarrow> 'r option"
    and put :: "'s \<Rightarrow> 'r \<Rightarrow> 's"
    and rkey :: "'r \<Rightarrow> 'k"
    and rid :: "'r \<Rightarrow> nat"
    and ids :: "'s \<Rightarrow> nat set"
    and wf :: "'s \<Rightarrow> bool"
  assumes find_rkey: "wf s \<Longrightarrow> find_key s k = Some r \<Longrightarrow> rkey r = k \<and> rid r \<in> ids s"
    and put_new:
      "wf s \<Longrightarrow> rid r \<notin> ids s \<Longrightarrow> find_key s (rkey r) = None \<Longrightarrow>
         wf (put s r) \<and> ids (put s r) = insert (rid r) (ids s) \<and>
         find_key (put s r) = (find_key s)(rkey r \<mapsto> r)"
    and put_old:
      "wf s \<Longrightarrow> find_key s (rkey r) = Some r0 \<Longrightarrow> rid r = rid r0 \<Longrightarrow>
         wf (put s r) \<and> ids (put s r) = ids s \<and> find_key (put s r) = (find_key s)(rkey r \<mapsto> r)"
begin

text \<open>Creating or updating the row of a key, as the history does it.\<close>

definition upsert :: "('r option \<Rightarrow> 'r) \<Rightarrow> 'k \<Rightarrow> 's \<Rightarrow> 's" where
  "upsert g k s = put s (g (find_key s k))"

lemma upsert_spec:
  assumes "wf s" and "rkey (g (find_key s k)) = k"
    and "find_key s k = None \<Longrightarrow> rid (g None) \<notin> ids s"
    and "\<And>r0. find_key s k = Some r0 \<Longrightarrow> rid (g (Some r0)) = rid r0"
  shows "wf (upsert g k s)" and "find_key (upsert g k s) = (find_key s)(k \<mapsto> g (find_key s k))"
    and "ids (upsert g k s) = insert (rid (g (find_key s k))) (ids s)"
proof -
  have "wf (upsert g k s) \<and> find_key (upsert g k s) = (find_key s)(k \<mapsto> g (find_key s k)) \<and>
        ids (upsert g k s) = insert (rid (g (find_key s k))) (ids s)"
  proof (cases "find_key s k")
    case None
    with put_new [OF assms(1), of "g None"] assms(2,3) show ?thesis by (simp add: upsert_def)
  next
    case (Some r0)
    with put_old [OF assms(1), of "g (Some r0)" r0] assms(2,4) find_rkey [OF assms(1) Some]
    show ?thesis by (auto simp: upsert_def insert_absorb)
  qed
  then show "wf (upsert g k s)" and "find_key (upsert g k s) = (find_key s)(k \<mapsto> g (find_key s k))"
    and "ids (upsert g k s) = insert (rid (g (find_key s k))) (ids s)" by auto
qed

end

lemma ids_update_row: "f_id ` set (update_row fs g) = f_id ` set fs"
  by (auto simp: update_row_def image_image split: if_splits intro: rev_image_eqI)

lemma map_ids_update_row: "map f_id (update_row fs g) = map f_id fs"
  by (simp add: update_row_def)

lemma update_row_keys:
  assumes "wf_findings fs" and "r0 \<in> set fs" and "f_id r0 = f_id g" and "key_of r0 = key_of g"
  shows "map key_of (update_row fs g) = map key_of fs"
  unfolding update_row_def map_map comp_def
proof (rule map_cong)
  fix f
  assume "f \<in> set fs"
  with assms wf_findings_id_inj [of fs f r0] show "key_of (if f_id f = f_id g then g else f) = key_of f"
    by auto
qed simp

lemma set_update_row:
  assumes "wf_findings fs" and "r0 \<in> set fs" and "f_id r0 = f_id g"
  shows "set (update_row fs g) = insert g (set fs - {r0})"
proof -
  have id: "f_id f = f_id g \<longleftrightarrow> f = r0" if "f \<in> set fs" for f
    using wf_findings_id_inj [OF assms(1) that assms(2)] assms(3) by metis
  have "set (update_row fs g) = (\<lambda>f. if f = r0 then g else f) ` set fs"
    unfolding update_row_def set_map by (rule image_cong) (simp_all add: id)
  also have "\<dots> = insert g (set fs - {r0})" using assms(2) by auto
  finally show ?thesis .
qed

interpretation findings: keyed_store get_finding_by_identity put_finding key_of f_id
  "\<lambda>fs. f_id ` set fs" wf_findings
proof unfold_locales
  fix fs :: "finding list" and k r
  assume "wf_findings fs" and "get_finding_by_identity fs k = Some r"
  then show "key_of r = k \<and> f_id r \<in> f_id ` set fs" by (auto simp: get_by_identity_Some)
next
  fix fs :: "finding list" and r
  assume wf: "wf_findings fs" and new: "f_id r \<notin> f_id ` set fs"
    and none: "get_finding_by_identity fs (key_of r) = None"
  have put: "put_finding fs r = fs @ [r]" using new by (simp add: put_finding_def)
  have wf': "wf_findings (put_finding fs r)"
    using wf new none by (auto simp: put wf_findings_def get_by_identity_None)
  have "get_finding_by_identity (put_finding fs r) k = ((get_finding_by_identity fs)(key_of r \<mapsto> r)) k"
    for k
    using none by (auto simp: put get_by_identity_key find_append split: option.splits)
  with wf' show "wf_findings (put_finding fs r) \<and>
      f_id ` set (put_finding fs r) = insert (f_id r) (f_id ` set fs) \<and>
      get_finding_by_identity (put_finding fs r) =
        (get_finding_by_identity fs)(key_of r \<mapsto> r)"
    by (auto simp: put)
next
  fix fs :: "finding list" and r r0
  assume wf: "wf_findings fs" and some: "get_finding_by_identity fs (key_of r) = Some r0"
    and id: "f_id r = f_id r0"
  have r0: "r0 \<in> set fs" "key_of r0 = key_of r" using some wf by (auto simp: get_by_identity_Some)
  then have put: "put_finding fs r = update_row fs r" using id by (auto simp: put_finding_def)
  have wf': "wf_findings (update_row fs r)"
    using wf update_row_keys [OF wf r0(1) id [symmetric] r0(2)]
    by (simp add: wf_findings_def map_ids_update_row)
  have "get_finding_by_identity (update_row fs r) k =
      ((get_finding_by_identity fs)(key_of r \<mapsto> r)) k" for k
  proof -
    have "get_finding_by_identity (update_row fs r) k = Some g \<longleftrightarrow>
        ((get_finding_by_identity fs)(key_of r \<mapsto> r)) k = Some g" for g
      unfolding get_by_identity_Some [OF wf'] set_update_row [OF wf r0(1) id [symmetric]]
      using get_by_identity_Some [OF wf, of k g] r0 wf_findings_key_inj [OF wf, of g r0] by auto
    then show ?thesis by (metis option.exhaust)
  qed
  with wf' show "wf_findings (put_finding fs r) \<and>
      f_id ` set (put_finding fs r) = f_id ` set fs \<and>
      get_finding_by_identity (put_finding fs r) =
        (get_finding_by_identity fs)(key_of r \<mapsto> r)"
    by (auto simp: put ids_update_row)
qed

end
