(* ===== verification/Classification.thy ===== *)
theory Classification
  imports Dependencies
begin

text \<open>
  Remediation risk (\<open>app/scanner/classification.py\<close>): from the detector, the persistence
  state, the ownership verdict and the known dependencies. \<open>_max_risk\<close> is the maximum of the
  order on risks; the classification is monotone in each argument, and LOW and HIGH are
  characterised exactly.
\<close>

definition max_risk :: "remediation_risk \<Rightarrow> remediation_risk \<Rightarrow> remediation_risk" where
  "max_risk a b = (if risk_order b \<le> risk_order a then a else b)"

definition classify_remediation_risk ::
  "detector_type \<Rightarrow> persistence_state \<Rightarrow> ownership \<Rightarrow> known_dependency list \<Rightarrow>
   remediation_risk" where
  "classify_remediation_risk dt ps ow deps =
     (let risk1 =
            (if dt \<in> {UNATTACHED_EBS_VOLUME, UNASSOCIATED_ELASTIC_IP}
             then (if ps = PERSISTENT then RISK_LOW else RISK_REVIEW)
             else RISK_REVIEW);
          risk2 =
            (if ow_status ow = OWN_CONFIRMED then RISK_HIGH
             else if ow_status ow = OWN_LIKELY then max_risk risk1 RISK_REVIEW
             else risk1)
      in if blocking deps then RISK_HIGH else risk2)"

definition detection_confidence_for :: "detector_type \<Rightarrow> detection_confidence" where
  "detection_confidence_for dt = DC_HIGH"

lemma max_risk_max: "max_risk a b = max a b"
  by (cases a; cases b) (simp_all add: max_risk_def max_def less_eq_remediation_risk_def)

lemma risk_low_iff:
  "classify_remediation_risk dt ps ow deps = RISK_LOW \<longleftrightarrow>
     dt \<in> {UNATTACHED_EBS_VOLUME, UNASSOCIATED_ELASTIC_IP} \<and> ps = PERSISTENT \<and>
     ow_status ow = OWN_UNKNOWN \<and> \<not> blocking deps"
  by (cases "ow_status ow"; cases ps)
     (auto simp: classify_remediation_risk_def Let_def max_risk_def)

lemma risk_high_iff:
  "classify_remediation_risk dt ps ow deps = RISK_HIGH \<longleftrightarrow>
     ow_status ow = OWN_CONFIRMED \<or> blocking deps"
  by (cases "ow_status ow"; cases ps)
     (auto simp: classify_remediation_risk_def Let_def max_risk_def)

text \<open>How much each input argues against removal.\<close>

fun ownership_rank :: "ownership_status \<Rightarrow> nat" where
  "ownership_rank OWN_UNKNOWN = 0"
| "ownership_rank OWN_LIKELY = 1"
| "ownership_rank OWN_CONFIRMED = 2"

lemma risk_monotone:
  assumes "ownership_rank (ow_status ow) \<le> ownership_rank (ow_status ow')"
    and "blocking deps \<longrightarrow> blocking deps'"
    and "ps' = PERSISTENT \<longrightarrow> ps = PERSISTENT"
  shows "classify_remediation_risk dt ps ow deps \<le> classify_remediation_risk dt ps' ow' deps'"
  using assms
  by (cases "ow_status ow"; cases "ow_status ow'"; cases ps; cases ps')
     (auto simp: classify_remediation_risk_def Let_def max_risk_def less_eq_remediation_risk_def)

end
