(* ===== verification/History.thy ===== *)
theory History
  imports Persistence Classification
begin

text \<open>
  Reconciliation of one (region, detector) cell with the stored findings
  (\<open>app/scanner/history.py\<close>).

  \<open>observe\<close> is the body of the loop up to the observation row, \<open>reconcile_candidate\<close> the whole
  body, \<open>reconcile\<close> the function. Its abstract specification is a map from natural keys to
  findings: the loop updates it at the candidates' keys and the last part resolves, in the
  cell, what was active and not observed. \<open>IntegrityError\<close> is raised by the model at the
  \<open>session.add\<close> of the offending row; the session raises it at its next flush, with nothing
  that can raise in between.
\<close>

section \<open>Persistence state\<close>

fun detector_type_name :: "detector_type \<Rightarrow> pystr" where
  "detector_type_name UNATTACHED_EBS_VOLUME = lit ''UNATTACHED_EBS_VOLUME''"
| "detector_type_name UNASSOCIATED_ELASTIC_IP = lit ''UNASSOCIATED_ELASTIC_IP''"
| "detector_type_name STOPPED_EC2_INSTANCE = lit ''STOPPED_EC2_INSTANCE''"
| "detector_type_name SNAPSHOT_MISSING_SOURCE_VOLUME = lit ''SNAPSHOT_MISSING_SOURCE_VOLUME''"

text \<open>\<open>settings.thresholds_days[detector]\<close>; the message is the \<open>repr\<close> of the key.\<close>

definition threshold_for :: "app_settings \<Rightarrow> detector_type \<Rightarrow> py_exc + int" where
  "threshold_for st dt =
     (case st_thresholds_days st dt of
        None \<Rightarrow> Inl (PyExc (lit ''KeyError'')
                  (lit ''<DetectorType.'' @ detector_type_name dt @ lit '': '' @ [39] @
                   detector_type_value dt @ [39] @ lit ''>''))
      | Some n \<Rightarrow> Inr n)"

definition persistence_of :: "int \<Rightarrow> int \<Rightarrow> finding \<Rightarrow> persistence_state" where
  "persistence_of threshold min_consecutive f =
     (if td_days (f_last_observed_at f - f_streak_started_at f) \<ge> threshold \<and>
         f_consecutive_observations f \<ge> min_consecutive
      then PERSISTENT else NEWLY_OBSERVED)"

definition compute_persistence :: "finding \<Rightarrow> app_settings \<Rightarrow> py_exc + persistence_state" where
  "compute_persistence f st =
     r_bind (threshold_for st (f_detector_type f))
       (\<lambda>threshold. Inr (persistence_of threshold (st_min_consecutive_observations st) f))"

section \<open>Writing a candidate into a finding\<close>

definition set_pricing :: "finding_candidate \<Rightarrow> finding \<Rightarrow> finding" where
  "set_pricing c f =
     (case fc_pricing_result c of
        None \<Rightarrow>
          f\<lparr>f_cost_confidence := COST_UNAVAILABLE, f_estimated_monthly_cost := None,
            f_cost_explanation := lit ''Pricing was unavailable.'',
            f_pricing_source := PRICE_UNAVAILABLE, f_pricing_timestamp := None,
            f_cost_line_items := []\<rparr>
      | Some r \<Rightarrow>
          f\<lparr>f_cost_confidence := pr_cost_confidence r,
            f_estimated_monthly_cost := pr_estimated_monthly_cost r,
            f_cost_explanation := pr_explanation r, f_pricing_source := pr_source r,
            f_pricing_timestamp := pr_pricing_timestamp r,
            f_cost_line_items := pr_line_items r\<rparr>)"

definition refresh_finding :: "finding \<Rightarrow> finding_candidate \<Rightarrow> instant \<Rightarrow> finding" where
  "refresh_finding f c observed_at =
     (set_pricing c
        (f\<lparr>f_title := fc_title c, f_summary := fc_summary c,
           f_resource_created_at := fc_resource_created_at c, f_evidence := fc_evidence c,
           f_known_dependencies := fc_known_dependencies c,
           f_ownership := Some (fc_ownership c),
           f_related_resource_ids := fc_related_resource_ids c,
           f_ignore_reason := fc_ignore_reason c,
           f_detection_confidence := fc_detection_confidence c\<rparr>))
       \<lparr>f_updated_at := observed_at\<rparr>"

definition open_or_ignored :: "finding_candidate \<Rightarrow> finding_status" where
  "open_or_ignored c = (if fc_ignored c then IGNORED else OPEN)"

definition new_finding :: "finding_candidate \<Rightarrow> scan \<Rightarrow> instant \<Rightarrow> uuid \<Rightarrow> finding" where
  "new_finding c s observed_at i =
     \<lparr>f_id = i, f_account_id = fc_account_id c, f_region = fc_region c,
      f_resource_type = fc_resource_type c, f_resource_id = fc_resource_id c,
      f_detector_type = fc_detector_type c, f_title = fc_title c, f_summary = fc_summary c,
      f_resource_created_at = fc_resource_created_at c, f_first_observed_at = observed_at,
      f_last_observed_at = observed_at, f_streak_started_at = observed_at,
      f_observation_count = 1, f_consecutive_observations = 1,
      f_persistence_state = NEWLY_OBSERVED,
      f_detection_confidence = fc_detection_confidence c, f_remediation_risk = RISK_REVIEW,
      f_cost_confidence = COST_UNAVAILABLE, f_estimated_monthly_cost = None,
      f_cost_explanation = [], f_pricing_source = PRICE_UNAVAILABLE,
      f_pricing_timestamp = None, f_cost_line_items = [], f_evidence = fc_evidence c,
      f_known_dependencies = [], f_ownership = None,
      f_related_resource_ids = fc_related_resource_ids c, f_status = open_or_ignored c,
      f_resolved_at = None, f_dismissed_at = None, f_dismiss_reason = None,
      f_ignore_reason = fc_ignore_reason c, f_first_scan_id = s_id s, f_last_scan_id = s_id s,
      f_created_at = observed_at, f_updated_at = observed_at\<rparr>"

definition reobserve :: "finding \<Rightarrow> finding_candidate \<Rightarrow> scan \<Rightarrow> instant \<Rightarrow> finding" where
  "reobserve f c s observed_at =
     (let f1 =
            (if f_status f = RESOLVED
             then f\<lparr>f_status := open_or_ignored c, f_consecutive_observations := 1,
                    f_streak_started_at := observed_at, f_resolved_at := None\<rparr>
             else (let f2 = f\<lparr>f_consecutive_observations := f_consecutive_observations f + 1\<rparr>
                   in if f_status f \<noteq> DISMISSED then f2\<lparr>f_status := open_or_ignored c\<rparr> else f2))
      in f1\<lparr>f_last_observed_at := observed_at,
            f_observation_count := f_observation_count f1 + 1, f_last_scan_id := s_id s\<rparr>)"

definition observe ::
  "app_settings \<Rightarrow> detector_type \<Rightarrow> scan \<Rightarrow> instant \<Rightarrow> finding_candidate \<Rightarrow> uuid \<Rightarrow>
   finding option \<Rightarrow> py_exc + finding" where
  "observe st dt s observed_at c fresh found =
     (let f0 = (case found of
                  None \<Rightarrow> new_finding c s observed_at fresh
                | Some f \<Rightarrow> reobserve f c s observed_at);
          f1 = refresh_finding f0 c observed_at
      in r_bind (compute_persistence f1 st) (\<lambda>p.
           Inr (f1\<lparr>f_persistence_state := p,
                   f_remediation_risk :=
                     classify_remediation_risk dt p (fc_ownership c) (fc_known_dependencies c)\<rparr>)))"

definition new_observation :: "uuid \<Rightarrow> finding \<Rightarrow> scan \<Rightarrow> instant \<Rightarrow> observation" where
  "new_observation i f s observed_at =
     \<lparr>ob_id = i, ob_finding_id = f_id f, ob_scan_id = s_id s, ob_observed_at = observed_at,
      ob_status = f_status f, ob_persistence_state = f_persistence_state f,
      ob_remediation_risk = f_remediation_risk f,
      ob_estimated_monthly_cost = f_estimated_monthly_cost f,
      ob_cost_confidence = f_cost_confidence f, ob_evidence = f_evidence f\<rparr>"

section \<open>The loop over candidates\<close>

definition candidate_key :: "finding_candidate \<Rightarrow> finding_key" where
  "candidate_key c =
     (fc_account_id c, fc_region c, fc_resource_type c, fc_resource_id c, fc_detector_type c)"

record rec_state =
  rs_db :: db
  rs_observed :: "uuid list"
  rs_new :: int
  rs_persistent :: int
  rs_ignored :: int

definition reconcile_candidate ::
  "app_settings \<Rightarrow> detector_type \<Rightarrow> scan \<Rightarrow> instant \<Rightarrow> rec_state \<Rightarrow> finding_candidate \<Rightarrow>
   py_exc + rec_state" where
  "reconcile_candidate st dt s observed_at rs c =
     (let d = rs_db rs;
          found = get_finding_by_identity (db_findings d) (candidate_key c);
          fresh = db_next_id d
      in r_bind (observe st dt s observed_at c fresh found) (\<lambda>f.
         r_bind (add_observation (db_observations d)
                   (new_observation (Suc fresh) f s observed_at)) (\<lambda>obs.
           Inr \<lparr>rs_db = d\<lparr>db_findings := put_finding (db_findings d) f,
                          db_observations := obs, db_next_id := fresh + 2\<rparr>,
                rs_observed = rs_observed rs @ [f_id f],
                rs_new = rs_new rs + (if found = None then 1 else 0),
                rs_persistent =
                  rs_persistent rs + (if f_persistence_state f = PERSISTENT then 1 else 0),
                rs_ignored = rs_ignored rs + (if f_status f = IGNORED then 1 else 0)\<rparr>)))"

section \<open>Resolving what was not observed\<close>

definition active :: "finding \<Rightarrow> bool" where
  "active f \<longleftrightarrow> f_status f \<in> {OPEN, IGNORED, DISMISSED}"

definition resolve_finding :: "instant \<Rightarrow> finding \<Rightarrow> finding" where
  "resolve_finding observed_at f =
     f\<lparr>f_status := RESOLVED, f_resolved_at := Some observed_at, f_consecutive_observations := 0,
       f_updated_at := observed_at\<rparr>"

definition to_resolve :: "uuid set \<Rightarrow> uuid list \<Rightarrow> finding \<Rightarrow> bool" where
  "to_resolve existing observed f \<longleftrightarrow>
     f_id f \<in> existing \<and> f_id f \<notin> set observed \<and> active f"

record reconciliation_result =
  rr_new :: int
  rr_persistent :: int
  rr_resolved :: int
  rr_ignored :: int
  rr_observed :: "uuid list"

definition start_state :: "db \<Rightarrow> rec_state" where
  "start_state d =
     \<lparr>rs_db = d, rs_observed = [], rs_new = 0, rs_persistent = 0, rs_ignored = 0\<rparr>"

text \<open>\<open>scan.account_id or ""\<close>.\<close>

definition scan_account :: "scan \<Rightarrow> pystr" where
  "scan_account s = (case s_account_id s of None \<Rightarrow> [] | Some a \<Rightarrow> a)"

definition resolve_missing ::
  "uuid set \<Rightarrow> instant \<Rightarrow> rec_state \<Rightarrow> db \<times> reconciliation_result" where
  "resolve_missing existing observed_at rs =
     (let d = rs_db rs;
          gone = to_resolve existing (rs_observed rs)
      in (d\<lparr>db_findings :=
              map (\<lambda>f. if gone f then resolve_finding observed_at f else f) (db_findings d)\<rparr>,
          \<lparr>rr_new = rs_new rs, rr_persistent = rs_persistent rs,
           rr_resolved = int (length (filter gone (db_findings d))),
           rr_ignored = rs_ignored rs, rr_observed = rs_observed rs\<rparr>))"

definition existing_ids_of_cell :: "db \<Rightarrow> scan \<Rightarrow> pystr \<Rightarrow> detector_type \<Rightarrow> uuid set" where
  "existing_ids_of_cell d s region dt =
     f_id ` set (list_findings_for_cell (db_findings d) (scan_account s) region dt)"

definition reconcile ::
  "db \<Rightarrow> scan \<Rightarrow> pystr \<Rightarrow> detector_type \<Rightarrow> finding_candidate list \<Rightarrow>
   detector_coverage_status \<Rightarrow> app_settings \<Rightarrow> instant \<Rightarrow> py_exc + db \<times> reconciliation_result" where
  "reconcile d s region dt candidates coverage_status st observed_at =
     (if coverage_status \<noteq> CELL_COMPLETE
      then Inr (d, \<lparr>rr_new = 0, rr_persistent = 0, rr_resolved = 0, rr_ignored = 0,
                    rr_observed = []\<rparr>)
      else
        (let existing = existing_ids_of_cell d s region dt
         in r_bind (r_fold (reconcile_candidate st dt s observed_at) (start_state d) candidates)
              (\<lambda>rs. Inr (resolve_missing existing observed_at rs))))"

section \<open>What an observation does to a finding\<close>

definition finding_at :: "db \<Rightarrow> finding_key \<rightharpoonup> finding" where
  "finding_at d = get_finding_by_identity (db_findings d)"

lemmas observe_defs = observe_def refresh_finding_def set_pricing_def new_finding_def
  reobserve_def open_or_ignored_def

lemma observe_key:
  assumes "observe st dt s t c i found = Inr f"
    and "\<And>f0. found = Some f0 \<Longrightarrow> key_of f0 = candidate_key c"
  shows "key_of f = candidate_key c"
  using assms
  by (auto simp: observe_defs Let_def key_of_def candidate_key_def split: option.splits)

lemma observe_id:
  "observe st dt s t c i found = Inr f \<Longrightarrow>
     f_id f = (case found of None \<Rightarrow> i | Some f0 \<Rightarrow> f_id f0)"
  by (auto simp: observe_defs Let_def split: option.splits)

lemma observe_status:
  "observe st dt s t c i found = Inr f \<Longrightarrow>
     f_status f = (case found of
                     None \<Rightarrow> open_or_ignored c
                   | Some f0 \<Rightarrow> if f_status f0 = DISMISSED then DISMISSED else open_or_ignored c)"
  by (auto simp: observe_defs Let_def split: option.splits)

lemma observe_counts:
  "observe st dt s t c i found = Inr f \<Longrightarrow>
     f_observation_count f = (case found of None \<Rightarrow> 1 | Some f0 \<Rightarrow> f_observation_count f0 + 1) \<and>
     f_consecutive_observations f =
       (case found of
          None \<Rightarrow> 1
        | Some f0 \<Rightarrow> if f_status f0 = RESOLVED then 1 else f_consecutive_observations f0 + 1)"
  by (auto simp: observe_defs Let_def split: option.splits)

lemma observe_times:
  "observe st dt s t c i found = Inr f \<Longrightarrow>
     f_last_observed_at f = t \<and>
     f_first_observed_at f = (case found of None \<Rightarrow> t | Some f0 \<Rightarrow> f_first_observed_at f0) \<and>
     f_streak_started_at f =
       (case found of
          None \<Rightarrow> t
        | Some f0 \<Rightarrow> if f_status f0 = RESOLVED then t else f_streak_started_at f0) \<and>
     f_resolved_at f =
       (case found of
          None \<Rightarrow> None | Some f0 \<Rightarrow> if f_status f0 = RESOLVED then None else f_resolved_at f0)"
  by (auto simp: observe_defs Let_def split: option.splits)

lemma refresh_simps [simp]:
  "f_detector_type (refresh_finding f c t) = f_detector_type f"
  "f_ownership (refresh_finding f c t) = Some (fc_ownership c)"
  "f_known_dependencies (refresh_finding f c t) = fc_known_dependencies c"
  by (simp_all add: refresh_finding_def set_pricing_def split: option.splits)

lemma persistence_of_update [simp]:
  "persistence_of n m (f\<lparr>f_persistence_state := p, f_remediation_risk := r\<rparr>) = persistence_of n m f"
  by (simp add: persistence_of_def)

lemma observe_judgement:
  assumes "observe st dt s t c i found = Inr f"
    and "\<And>f0. found = Some f0 \<Longrightarrow> f_detector_type f0 = fc_detector_type c"
  shows "f_detector_type f = fc_detector_type c \<and> f_ownership f = Some (fc_ownership c) \<and>
     f_known_dependencies f = fc_known_dependencies c \<and>
     (\<exists>threshold. st_thresholds_days st (fc_detector_type c) = Some threshold \<and>
        f_persistence_state f = persistence_of threshold (st_min_consecutive_observations st) f) \<and>
     f_remediation_risk f =
       classify_remediation_risk dt (f_persistence_state f) (fc_ownership c)
         (fc_known_dependencies c)"
proof -
  define f0 where "f0 = (case found of None \<Rightarrow> new_finding c s t i | Some f \<Rightarrow> reobserve f c s t)"
  define f1 where "f1 = refresh_finding f0 c t"
  have dt0: "f_detector_type f0 = fc_detector_type c"
  proof (cases found)
    case None
    then show ?thesis by (simp add: f0_def new_finding_def)
  next
    case (Some g)
    with assms(2) [OF Some] show ?thesis by (simp add: f0_def reobserve_def Let_def)
  qed
  have "observe st dt s t c i found = r_bind (compute_persistence f1 st) (\<lambda>p. Inr (f1\<lparr>f_persistence_state := p,
        f_remediation_risk := classify_remediation_risk dt p (fc_ownership c) (fc_known_dependencies c)\<rparr>))"
    by (simp only: observe_def Let_def f0_def f1_def)
  with assms(1) obtain p where p: "compute_persistence f1 st = Inr p"
    and f: "f = f1\<lparr>f_persistence_state := p,
        f_remediation_risk := classify_remediation_risk dt p (fc_ownership c) (fc_known_dependencies c)\<rparr>"
    by auto
  from p dt0 have "\<exists>n. st_thresholds_days st (fc_detector_type c) = Some n \<and>
      p = persistence_of n (st_min_consecutive_observations st) f1"
    by (auto simp: compute_persistence_def threshold_for_def f1_def split: option.splits)
  with dt0 show ?thesis by (auto simp: f f1_def)
qed

lemma observe_ok:
  assumes "thresholds_total st"
  shows "\<exists>f. observe st dt s t c i found = Inr f"
proof -
  have "\<exists>n. st_thresholds_days st d = Some n" for d
    using assms by (auto simp: thresholds_total_def)
  then have "\<exists>p. compute_persistence f st = Inr p" for f
    by (simp add: compute_persistence_def threshold_for_def r_bind_Inr split: option.splits)
  then show ?thesis unfolding observe_def Let_def r_bind_Inr by blast
qed

section \<open>One step of the loop\<close>

lemma new_observation_simps [simp]:
  "ob_finding_id (new_observation i f s t) = f_id f"
  "ob_scan_id (new_observation i f s t) = s_id s"
  by (simp_all add: new_observation_def)

lemma finding_at_key: "wf_db d \<Longrightarrow> finding_at d k = Some f \<Longrightarrow> key_of f = k \<and> f \<in> set (db_findings d)"
  by (simp add: finding_at_def wf_db_def get_by_identity_Some)

lemma finding_at_set:
  "wf_db d \<Longrightarrow> f \<in> set (db_findings d) \<longleftrightarrow> finding_at d (key_of f) = Some f"
  by (simp add: finding_at_def wf_db_def get_by_identity_Some)

lemma reconcile_candidate_Inr:
  assumes "wf_db (rs_db rs)" and "reconcile_candidate st dt s t rs c = Inr rs'"
  obtains f where
    "observe st dt s t c (db_next_id (rs_db rs)) (finding_at (rs_db rs) (candidate_key c)) = Inr f"
    and "wf_db (rs_db rs')"
    and "finding_at (rs_db rs') = (finding_at (rs_db rs))(candidate_key c \<mapsto> f)"
    and "\<forall>x \<in> set (db_observations (rs_db rs)). \<not> (ob_finding_id x = f_id f \<and> ob_scan_id x = s_id s)"
    and "db_observations (rs_db rs') =
           db_observations (rs_db rs) @ [new_observation (Suc (db_next_id (rs_db rs))) f s t]"
    and "rs_observed rs' = rs_observed rs @ [f_id f]"
    and "rs_new rs' = rs_new rs + (if finding_at (rs_db rs) (candidate_key c) = None then 1 else 0)"
    and "rs_persistent rs' = rs_persistent rs + (if f_persistence_state f = PERSISTENT then 1 else 0)"
    and "rs_ignored rs' = rs_ignored rs + (if f_status f = IGNORED then 1 else 0)"
    and "db_scans (rs_db rs') = db_scans (rs_db rs)"
proof -
  let ?d = "rs_db rs" and ?k = "candidate_key c"
  let ?found = "finding_at ?d ?k"
  from assms(2) obtain f where obs: "observe st dt s t c (db_next_id ?d) ?found = Inr f"
    and new: "\<forall>x \<in> set (db_observations ?d). \<not> (ob_finding_id x = f_id f \<and> ob_scan_id x = s_id s)"
    and rs': "rs' = \<lparr>rs_db = ?d\<lparr>db_findings := put_finding (db_findings ?d) f,
          db_observations := db_observations ?d @ [new_observation (Suc (db_next_id ?d)) f s t],
          db_next_id := db_next_id ?d + 2\<rparr>,
        rs_observed = rs_observed rs @ [f_id f],
        rs_new = rs_new rs + (if ?found = None then 1 else 0),
        rs_persistent = rs_persistent rs + (if f_persistence_state f = PERSISTENT then 1 else 0),
        rs_ignored = rs_ignored rs + (if f_status f = IGNORED then 1 else 0)\<rparr>"
    by (auto simp: reconcile_candidate_def Let_def finding_at_def add_observation_def
        split: if_splits)
  have key: "key_of f = ?k"
    by (rule observe_key [OF obs]) (use finding_at_key [OF assms(1)] in blast)
  have wff: "wf_findings (db_findings ?d)" and bound: "\<forall>f \<in> set (db_findings ?d). f_id f < db_next_id ?d"
    using assms(1) by (auto simp: wf_db_def)
  have put: "put_finding (db_findings ?d) f = findings.upsert (\<lambda>_. f) ?k (db_findings ?d)"
    by (simp add: findings.upsert_def)
  have fresh: "get_finding_by_identity (db_findings ?d) ?k = None \<Longrightarrow> f_id f \<notin> f_id ` set (db_findings ?d)"
    using observe_id [OF obs] bound by (auto simp: finding_at_def)
  have same: "f_id f = f_id r0" if "get_finding_by_identity (db_findings ?d) ?k = Some r0" for r0
    using observe_id [OF obs] that by (simp add: finding_at_def)
  note up = findings.upsert_spec [of "db_findings ?d" "\<lambda>_. f" ?k, OF wff key fresh same]
  have "wf_db (rs_db rs')"
  proof -
    have "f_id f < db_next_id ?d + 2"
      using observe_id [OF obs] finding_at_key [OF assms(1), of ?k] bound
      by (cases ?found) (auto simp: less_Suc_eq)
    moreover have "set (put_finding (db_findings ?d) f) \<subseteq> insert f (set (db_findings ?d))"
      by (auto simp: put_finding_def update_row_def)
    ultimately have "\<forall>g \<in> set (put_finding (db_findings ?d) f). f_id g < db_next_id ?d + 2"
      using bound by fastforce
    then show ?thesis
      using assms(1) up new unfolding wf_db_def rs'
      by (auto simp: put [symmetric] simp del: findings.upsert_def)
  qed
  moreover have "finding_at (rs_db rs') = (finding_at ?d)(?k \<mapsto> f)"
    using up(2) by (simp add: rs' finding_at_def put [symmetric])
  ultimately show thesis
    by (rule that [OF obs]) (use new in \<open>simp_all add: rs'\<close>)
qed

section \<open>The loop\<close>

abbreviation reconcile_candidates ::
  "app_settings \<Rightarrow> detector_type \<Rightarrow> scan \<Rightarrow> instant \<Rightarrow> db \<Rightarrow> finding_candidate list \<Rightarrow>
   py_exc + rec_state" where
  "reconcile_candidates st dt s t d cs \<equiv> r_fold (reconcile_candidate st dt s t) (start_state d) cs"

text \<open>
  \<open>loop_spec d cs rs\<close>: what the loop has established after the candidates \<open>cs\<close>. Their keys
  are distinct, each key holds the finding observed over the old one, every other key is
  unchanged, and each of them has its observation row.
\<close>

definition observed_at_key ::
  "app_settings \<Rightarrow> detector_type \<Rightarrow> scan \<Rightarrow> instant \<Rightarrow> db \<Rightarrow> db \<Rightarrow> finding_candidate \<Rightarrow> finding \<Rightarrow>
   bool" where
  "observed_at_key st dt s t d d' c f \<longleftrightarrow>
     finding_at d' (candidate_key c) = Some f \<and>
     (\<exists>i. observe st dt s t c i (finding_at d (candidate_key c)) = Inr f) \<and>
     (\<exists>ob \<in> set (db_observations d'). ob_finding_id ob = f_id f \<and> ob_scan_id ob = s_id s)"

definition loop_spec ::
  "app_settings \<Rightarrow> detector_type \<Rightarrow> scan \<Rightarrow> instant \<Rightarrow> db \<Rightarrow> finding_candidate list \<Rightarrow> rec_state \<Rightarrow>
   bool" where
  "loop_spec st dt s t d cs rs \<longleftrightarrow>
     wf_db (rs_db rs) \<and> distinct (map candidate_key cs) \<and>
     (\<forall>k. k \<notin> candidate_key ` set cs \<longrightarrow> finding_at (rs_db rs) k = finding_at d k) \<and>
     list_all2 (\<lambda>c i. \<exists>f. observed_at_key st dt s t d (rs_db rs) c f \<and> f_id f = i)
       cs (rs_observed rs) \<and>
     db_scans (rs_db rs) = db_scans d \<and>
     (\<forall>ob \<in> set (db_observations (rs_db rs)).
        ob \<in> set (db_observations d) \<or> ob_finding_id ob \<in> set (rs_observed rs)) \<and>
     rs_new rs = int (length (filter (\<lambda>c. finding_at d (candidate_key c) = None) cs))"

lemma loop_spec_step:
  assumes "loop_spec st dt s t d cs rs" and "reconcile_candidate st dt s t rs c = Inr rs'"
  shows "loop_spec st dt s t d (cs @ [c]) rs'"
proof -
  let ?k = "candidate_key c"
  from assms(1) have wf: "wf_db (rs_db rs)" and dist: "distinct (map candidate_key cs)"
    and frame: "\<And>k. k \<notin> candidate_key ` set cs \<Longrightarrow> finding_at (rs_db rs) k = finding_at d k"
    and obs: "list_all2 (\<lambda>c i. \<exists>f. observed_at_key st dt s t d (rs_db rs) c f \<and> f_id f = i)
       cs (rs_observed rs)"
    and scans: "db_scans (rs_db rs) = db_scans d"
    and rows: "\<forall>ob \<in> set (db_observations (rs_db rs)).
        ob \<in> set (db_observations d) \<or> ob_finding_id ob \<in> set (rs_observed rs)"
    and new: "rs_new rs = int (length (filter (\<lambda>c. finding_at d (candidate_key c) = None) cs))"
    by (auto simp: loop_spec_def)
  from reconcile_candidate_Inr [OF wf assms(2)] obtain f where
    f: "observe st dt s t c (db_next_id (rs_db rs)) (finding_at (rs_db rs) ?k) = Inr f"
    and wf': "wf_db (rs_db rs')"
    and at': "finding_at (rs_db rs') = (finding_at (rs_db rs))(?k \<mapsto> f)"
    and fresh: "\<forall>x \<in> set (db_observations (rs_db rs)). \<not> (ob_finding_id x = f_id f \<and> ob_scan_id x = s_id s)"
    and obs': "db_observations (rs_db rs') =
           db_observations (rs_db rs) @ [new_observation (Suc (db_next_id (rs_db rs))) f s t]"
    and ids': "rs_observed rs' = rs_observed rs @ [f_id f]"
    and new': "rs_new rs' = rs_new rs + (if finding_at (rs_db rs) ?k = None then 1 else 0)"
    and scans': "db_scans (rs_db rs') = db_scans (rs_db rs)"
    by metis
  have notin: "?k \<notin> candidate_key ` set cs"
  proof
    assume "?k \<in> candidate_key ` set cs"
    then obtain c0 where c0: "c0 \<in> set cs" "candidate_key c0 = ?k" by auto
    with obs obtain g where "observed_at_key st dt s t d (rs_db rs) c0 g"
      by (auto simp: list_all2_conv_all_nth in_set_conv_nth)
    with c0 have "finding_at (rs_db rs) ?k = Some g"
      and "\<exists>ob \<in> set (db_observations (rs_db rs)). ob_finding_id ob = f_id g \<and> ob_scan_id ob = s_id s"
      by (auto simp: observed_at_key_def)
    with f fresh observe_id [OF f] show False by auto
  qed
  have keep: "observed_at_key st dt s t d (rs_db rs') c0 g"
    if "c0 \<in> set cs" and "observed_at_key st dt s t d (rs_db rs) c0 g" for c0 g
  proof -
    have "candidate_key c0 \<noteq> ?k" using notin that(1) by (metis imageI)
    with that(2) show ?thesis by (auto simp: observed_at_key_def at' obs')
  qed
  have here: "observed_at_key st dt s t d (rs_db rs') c f"
    using f frame [OF notin] unfolding observed_at_key_def at' obs' by auto
  have old: "list_all2 (\<lambda>c i. \<exists>f. observed_at_key st dt s t d (rs_db rs') c f \<and> f_id f = i)
      cs (rs_observed rs)"
    by (rule list.rel_mono_strong [OF obs]) (use keep in blast)
  have "list_all2 (\<lambda>c i. \<exists>f. observed_at_key st dt s t d (rs_db rs') c f \<and> f_id f = i)
      (cs @ [c]) (rs_observed rs')"
    unfolding ids' by (rule list_all2_appendI [OF old]) (use here in auto)
  then show ?thesis
    using wf' dist notin frame scans scans' new new' at' rows
    by (auto simp: loop_spec_def obs' ids')
qed

lemma reconcile_candidates_spec:
  assumes "wf_db d" and "reconcile_candidates st dt s t d cs = Inr rs"
  shows "loop_spec st dt s t d cs rs"
  using assms(2)
proof (induction cs arbitrary: rs rule: rev_induct)
  case Nil
  with assms(1) show ?case by (auto simp: loop_spec_def start_state_def)
next
  case (snoc c cs)
  from snoc.prems obtain rs0 where "reconcile_candidates st dt s t d cs = Inr rs0"
    and "reconcile_candidate st dt s t rs0 c = Inr rs"
    by (auto simp: r_fold_append)
  with snoc.IH loop_spec_step show ?case by blast
qed

section \<open>The whole function\<close>

definition key_in_cell :: "pystr \<Rightarrow> pystr \<Rightarrow> detector_type \<Rightarrow> finding_key \<Rightarrow> bool" where
  "key_in_cell account_id region dt k \<longleftrightarrow>
     (case k of (a, r, rt, rid, d) \<Rightarrow> a = account_id \<and> r = region \<and> d = dt)"

lemma in_cell_key: "in_cell a r dt f \<longleftrightarrow> key_in_cell a r dt (key_of f)"
  by (simp add: in_cell_def key_in_cell_def key_of_def)

definition resolve_if_active :: "instant \<Rightarrow> finding \<Rightarrow> finding" where
  "resolve_if_active t f = (if active f then resolve_finding t f else f)"

lemma resolve_finding_key [simp]:
  "key_of (resolve_finding t f) = key_of f" "f_id (resolve_finding t f) = f_id f"
  by (simp_all add: resolve_finding_def key_of_def)

lemma get_by_identity_map:
  "(\<And>f. key_of (h f) = key_of f) \<Longrightarrow>
     get_finding_by_identity (map h fs) k = map_option h (get_finding_by_identity fs k)"
  unfolding get_by_identity_key by (induction fs) auto

lemma reconcile_complete_Inr:
  assumes "reconcile d s region dt cs CELL_COMPLETE st t = Inr (d', r)"
  obtains rs where "reconcile_candidates st dt s t d cs = Inr rs"
    and "resolve_missing (existing_ids_of_cell d s region dt) t rs = (d', r)"
  using assms by (auto simp: reconcile_def Let_def)

text \<open>Membership in the set of observed ids, read through the keys.\<close>

lemma loop_observed_ids:
  assumes "loop_spec st dt s t d cs rs" and "finding_at (rs_db rs) k = Some f"
  shows "f_id f \<in> set (rs_observed rs) \<longleftrightarrow> k \<in> candidate_key ` set cs"
proof
  from assms(1) have wf: "wf_db (rs_db rs)"
    and obs: "list_all2 (\<lambda>c i. \<exists>f. observed_at_key st dt s t d (rs_db rs) c f \<and> f_id f = i)
       cs (rs_observed rs)" by (auto simp: loop_spec_def)
  have fk: "key_of f = k" "f \<in> set (db_findings (rs_db rs))"
    using finding_at_key [OF wf assms(2)] by auto
  {
    assume "f_id f \<in> set (rs_observed rs)"
    with obs obtain c g where c: "c \<in> set cs" "observed_at_key st dt s t d (rs_db rs) c g"
      "f_id g = f_id f"
      by (force simp: list_all2_conv_all_nth in_set_conv_nth)
    then have "finding_at (rs_db rs) (candidate_key c) = Some g" by (simp add: observed_at_key_def)
    from finding_at_key [OF wf this] have "key_of g = candidate_key c" "g \<in> set (db_findings (rs_db rs))"
      by auto
    with fk c(3) wf have "g = f" by (auto simp: wf_db_def dest: wf_findings_id_inj)
    with fk \<open>key_of g = candidate_key c\<close> c(1) show "k \<in> candidate_key ` set cs" by auto
  next
    assume "k \<in> candidate_key ` set cs"
    then obtain c where "c \<in> set cs" "candidate_key c = k" by auto
    with obs obtain g i where "i \<in> set (rs_observed rs)" "observed_at_key st dt s t d (rs_db rs) c g"
      "f_id g = i"
      by (force simp: list_all2_conv_all_nth in_set_conv_nth)
    with assms(2) \<open>candidate_key c = k\<close> show "f_id f \<in> set (rs_observed rs)"
      by (auto simp: observed_at_key_def)
  }
qed

lemma existing_ids:
  assumes "wf_db d" and "finding_at d k = Some f"
  shows "f_id f \<in> existing_ids_of_cell d s r dt \<longleftrightarrow> key_in_cell (scan_account s) r dt k"
proof -
  from finding_at_key [OF assms] have f: "key_of f = k" "f \<in> set (db_findings d)" by auto
  have "wf_findings (db_findings d)" using assms(1) by (simp add: wf_db_def)
  from wf_findings_id_inj [OF this _ f(2)]
  have same: "g = f" if "g \<in> set (db_findings d)" "f_id f = f_id g" for g
    using that by metis
  have "f_id f \<in> existing_ids_of_cell d s r dt \<longleftrightarrow> in_cell (scan_account s) r dt f"
    unfolding existing_ids_of_cell_def list_findings_for_cell_def set_filter image_iff
    using same f(2) by blast
  then show ?thesis by (simp add: in_cell_key f)
qed

lemma wf_db_map:
  assumes "wf_db d" and "\<And>f. key_of (h f) = key_of f" and "\<And>f. f_id (h f) = f_id f"
  shows "wf_db (d\<lparr>db_findings := map h (db_findings d)\<rparr>)"
  using assms by (auto simp: wf_db_def wf_findings_def comp_def image_image)

lemma reconcile_refines:
  assumes "wf_db d" and "reconcile d s region dt cs CELL_COMPLETE st t = Inr (d', r)"
  shows "wf_db d'" and "distinct (map candidate_key cs)"
    and "\<And>c. c \<in> set cs \<Longrightarrow> \<exists>i f. observe st dt s t c i (finding_at d (candidate_key c)) = Inr f \<and>
           finding_at d' (candidate_key c) = Some f"
    and "\<And>k. k \<notin> candidate_key ` set cs \<Longrightarrow>
           finding_at d' k =
             (if key_in_cell (scan_account s) region dt k
              then map_option (resolve_if_active t) (finding_at d k) else finding_at d k)"
    and "rr_new r = int (length (filter (\<lambda>c. finding_at d (candidate_key c) = None) cs))"
    and "db_scans d' = db_scans d"
proof -
  let ?existing = "existing_ids_of_cell d s region dt"
  obtain rs where loop: "reconcile_candidates st dt s t d cs = Inr rs"
    and fin: "resolve_missing ?existing t rs = (d', r)"
    by (rule reconcile_complete_Inr [OF assms(2)])
  then have d': "d' = (rs_db rs)\<lparr>db_findings :=
           map (\<lambda>f. if to_resolve ?existing (rs_observed rs) f then resolve_finding t f else f)
             (db_findings (rs_db rs))\<rparr>"
    and r: "rr_new r = rs_new rs"
    by (auto simp: resolve_missing_def Let_def)
  note spec = reconcile_candidates_spec [OF assms(1) loop]
  then have wf: "wf_db (rs_db rs)" and dist: "distinct (map candidate_key cs)"
    and frame: "\<And>k. k \<notin> candidate_key ` set cs \<Longrightarrow> finding_at (rs_db rs) k = finding_at d k"
    and obs: "list_all2 (\<lambda>c i. \<exists>f. observed_at_key st dt s t d (rs_db rs) c f \<and> f_id f = i)
       cs (rs_observed rs)"
    by (auto simp: loop_spec_def)
  show "wf_db d'" unfolding d' by (rule wf_db_map [OF wf]) auto
  show "distinct (map candidate_key cs)" by (rule dist)
  show "rr_new r = int (length (filter (\<lambda>c. finding_at d (candidate_key c) = None) cs))"
    and "db_scans d' = db_scans d"
    using spec r by (auto simp: loop_spec_def d')
  have at': "finding_at d' k = map_option
      (\<lambda>f. if to_resolve ?existing (rs_observed rs) f then resolve_finding t f else f)
      (finding_at (rs_db rs) k)" for k
    by (simp add: d' finding_at_def get_by_identity_map)
  show "\<exists>i f. observe st dt s t c i (finding_at d (candidate_key c)) = Inr f \<and>
      finding_at d' (candidate_key c) = Some f" if "c \<in> set cs" for c
  proof -
    from obs that obtain f where f: "observed_at_key st dt s t d (rs_db rs) c f"
      by (auto simp: list_all2_conv_all_nth in_set_conv_nth)
    then have "finding_at (rs_db rs) (candidate_key c) = Some f" by (simp add: observed_at_key_def)
    moreover from loop_observed_ids [OF spec this] that
    have "\<not> to_resolve ?existing (rs_observed rs) f" by (simp add: to_resolve_def)
    ultimately show ?thesis using f by (auto simp: at' observed_at_key_def)
  qed
  show "finding_at d' k = (if key_in_cell (scan_account s) region dt k
          then map_option (resolve_if_active t) (finding_at d k) else finding_at d k)"
    if "k \<notin> candidate_key ` set cs" for k
  proof (cases "finding_at d k")
    case None
    then show ?thesis by (simp add: at' frame [OF that])
  next
    case (Some f)
    from frame [OF that] Some loop_observed_ids [OF spec, of k f] that
    have "f_id f \<notin> set (rs_observed rs)" by simp
    with existing_ids [OF assms(1) Some] have
      "to_resolve ?existing (rs_observed rs) f \<longleftrightarrow> key_in_cell (scan_account s) region dt k \<and> active f"
      by (simp add: to_resolve_def)
    with Some show ?thesis by (simp add: at' frame [OF that] resolve_if_active_def)
  qed
qed

lemma reconcile_incomplete:
  assumes "coverage \<noteq> CELL_COMPLETE"
  shows "reconcile d s region dt cs coverage st t =
           Inr (d, \<lparr>rr_new = 0, rr_persistent = 0, rr_resolved = 0, rr_ignored = 0, rr_observed = []\<rparr>)"
  using assms by (simp add: reconcile_def)

end
