(* ===== verification/Lifecycle.thy ===== *)
theory Lifecycle
  imports History
begin

text \<open>
  What reconciliation keeps and when it succeeds: the outcome of a cell (success, or the one
  exception a duplicate raises), the life cycle of a finding as an invariant of the table, and
  the agreement between a finding's observation count and its observation rows.
\<close>

section \<open>When reconciliation succeeds\<close>

definition duplicate_observation :: py_exc where
  "duplicate_observation = IntegrityError (lit ''uq_finding_observation_scan'')"

lemma add_observation_cases:
  "add_observation obs ob = Inr (obs @ [ob]) \<or> add_observation obs ob = Inl duplicate_observation"
  by (simp add: add_observation_def duplicate_observation_def)

lemma reconcile_candidate_error:
  assumes "thresholds_total st" and "reconcile_candidate st dt s t rs c = Inl e"
  shows "e = duplicate_observation"
proof -
  let ?d = "rs_db rs"
  obtain f where f: "observe st dt s t c (db_next_id ?d)
      (get_finding_by_identity (db_findings ?d) (candidate_key c)) = Inr f"
    using observe_ok [OF assms(1)] by blast
  from assms(2) f add_observation_cases [of "db_observations ?d" "new_observation (Suc (db_next_id ?d)) f s t"]
  show ?thesis by (auto simp: reconcile_candidate_def Let_def)
qed

lemma reconcile_candidates_error:
  assumes "thresholds_total st" and "r_fold (reconcile_candidate st dt s t) rs cs = Inl e"
  shows "e = duplicate_observation"
  using assms(2)
proof (induction cs arbitrary: rs)
  case Nil
  then show ?case by simp
next
  case (Cons c cs)
  then show ?case using reconcile_candidate_error [OF assms(1)] by (auto simp: r_bind_Inl)
qed

text \<open>No candidate's finding has been observed by this scan yet.\<close>

definition unobserved :: "db \<Rightarrow> scan \<Rightarrow> finding_candidate list \<Rightarrow> bool" where
  "unobserved d s cs \<longleftrightarrow>
     (\<forall>c \<in> set cs. \<forall>f. finding_at d (candidate_key c) = Some f \<longrightarrow>
        (\<forall>ob \<in> set (db_observations d). \<not> (ob_finding_id ob = f_id f \<and> ob_scan_id ob = s_id s)))"

lemma loop_spec_frame:
  "loop_spec st dt s t d cs rs \<Longrightarrow> k \<notin> candidate_key ` set cs \<Longrightarrow>
     finding_at (rs_db rs) k = finding_at d k"
  unfolding loop_spec_def by blast

lemma reconcile_candidate_ok:
  assumes "thresholds_total st" and spec: "loop_spec st dt s t d cs rs"
    and new: "candidate_key c \<notin> candidate_key ` set cs" and "unobserved d s [c]"
  shows "r_ok (reconcile_candidate st dt s t rs c)"
proof -
  let ?d = "rs_db rs" and ?k = "candidate_key c"
  note at = loop_spec_frame [OF spec new]
  from spec have wf: "wf_db ?d"
    and rows: "\<And>ob. ob \<in> set (db_observations ?d) \<Longrightarrow>
        ob \<in> set (db_observations d) \<or> ob_finding_id ob \<in> set (rs_observed rs)"
    using new by (auto simp: loop_spec_def)
  obtain f where f: "observe st dt s t c (db_next_id ?d) (finding_at ?d ?k) = Inr f"
    using observe_ok [OF assms(1)] by blast
  have "\<not> (ob_finding_id ob = f_id f \<and> ob_scan_id ob = s_id s)" if ob: "ob \<in> set (db_observations ?d)" for ob
  proof (cases "finding_at ?d ?k")
    case None
    with observe_id [OF f] have "f_id f = db_next_id ?d" by simp
    moreover from wf ob have "ob_finding_id ob < db_next_id ?d" unfolding wf_db_def by fastforce
    ultimately show ?thesis by simp
  next
    case (Some f0)
    with observe_id [OF f] have id: "f_id f = f_id f0" by simp
    from loop_observed_ids [OF spec Some] new have "f_id f0 \<notin> set (rs_observed rs)" by simp
    moreover have "finding_at d ?k = Some f0" using at Some by simp
    ultimately show ?thesis using rows [OF ob] id assms(4) by (auto simp: unobserved_def)
  qed
  with f show ?thesis
    by (simp add: reconcile_candidate_def Let_def finding_at_def add_observation_def)
qed

lemma reconcile_candidates_ok:
  assumes "wf_db d" and "thresholds_total st" and "distinct (map candidate_key cs)"
    and "unobserved d s cs"
  shows "r_ok (reconcile_candidates st dt s t d cs)"
  using assms(3,4)
proof (induction cs rule: rev_induct)
  case Nil
  then show ?case by simp
next
  case (snoc c cs)
  then obtain rs where rs: "reconcile_candidates st dt s t d cs = Inr rs"
    by (auto simp: unobserved_def r_ok_iff)
  from reconcile_candidate_ok [OF assms(2) reconcile_candidates_spec [OF assms(1) rs], of c] snoc.prems
  have "r_ok (reconcile_candidate st dt s t rs c)" by (auto simp: unobserved_def)
  with rs show ?case by (auto simp: r_fold_append r_ok_iff)
qed

lemma reconcile_ok:
  assumes "wf_db d" and "thresholds_total st" and "distinct (map candidate_key cs)"
    and "unobserved d s cs"
  shows "r_ok (reconcile d s region dt cs cov st t)"
  using reconcile_candidates_ok [OF assms, of dt t]
  by (auto simp: reconcile_def Let_def r_ok_iff)

lemma reconcile_fails_duplicate:
  assumes "wf_db d" and "thresholds_total st" and "\<not> distinct (map candidate_key cs)"
  shows "reconcile d s region dt cs CELL_COMPLETE st t = Inl duplicate_observation"
proof (cases "reconcile d s region dt cs CELL_COMPLETE st t")
  case (Inl e)
  then show ?thesis using reconcile_candidates_error [OF assms(2)]
    by (auto simp: reconcile_def Let_def r_bind_Inl)
next
  case (Inr res)
  then show ?thesis using reconcile_refines(2) [OF assms(1)] assms(3) by (cases res) auto
qed

text \<open>After a cell was reconciled its candidates have been observed by the scan.\<close>

lemma reconcile_observed:
  assumes "wf_db d" and "reconcile d s region dt cs CELL_COMPLETE st t = Inr (d', r)" and "cs \<noteq> []"
  shows "\<not> unobserved d' s cs"
proof -
  obtain rs where loop: "reconcile_candidates st dt s t d cs = Inr rs"
    and fin: "resolve_missing (existing_ids_of_cell d s region dt) t rs = (d', r)"
    by (rule reconcile_complete_Inr [OF assms(2)])
  from assms(3) obtain c where c: "c \<in> set cs" by (cases cs) auto
  from reconcile_candidates_spec [OF assms(1) loop] c obtain f ob where
    "finding_at (rs_db rs) (candidate_key c) = Some f" and
    ob: "ob \<in> set (db_observations (rs_db rs))" "ob_finding_id ob = f_id f" "ob_scan_id ob = s_id s"
    by (auto simp: loop_spec_def list_all2_conv_all_nth in_set_conv_nth observed_at_key_def)
  moreover have "db_observations d' = db_observations (rs_db rs)"
    using fin by (auto simp: resolve_missing_def Let_def)
  moreover obtain g where "finding_at d' (candidate_key c) = Some g" "f_id g = f_id f"
    using fin \<open>finding_at (rs_db rs) (candidate_key c) = Some f\<close>
    by (auto simp: resolve_missing_def Let_def finding_at_def get_by_identity_map)
  ultimately show ?thesis unfolding unobserved_def using c by metis
qed

section \<open>Invariants of single findings\<close>

lemma reconcile_finding_invariant:
  assumes "wf_db d" and "reconcile d s region dt cs cov st t = Inr (d', r)"
    and "\<And>f. f \<in> set (db_findings d) \<Longrightarrow> Q f"
    and observe: "\<And>c i found f. c \<in> set cs \<Longrightarrow>
        observe st dt s t c i found = Inr f \<Longrightarrow>
        (\<And>f0. found = Some f0 \<Longrightarrow> Q f0 \<and> key_of f0 = candidate_key c) \<Longrightarrow> Q f"
    and resolve: "\<And>f. Q f \<Longrightarrow> active f \<Longrightarrow> Q (resolve_finding t f)"
    and "f \<in> set (db_findings d')"
  shows "Q f"
proof (cases "cov = CELL_COMPLETE")
  case False
  with assms(2,3,6) show ?thesis by (simp add: reconcile_def)
next
  case True
  note rec = assms(2) [unfolded True]
  have wf': "wf_db d'" by (rule reconcile_refines(1) [OF assms(1) rec])
  have old: "Q f0 \<and> key_of f0 = k" if "finding_at d k = Some f0" for f0 k
    using finding_at_key [OF assms(1) that] assms(3) by blast
  have here: "finding_at d' (key_of f) = Some f"
    using finding_at_set [OF wf', of f] assms(6) by simp
  show ?thesis
  proof (cases "key_of f \<in> candidate_key ` set cs")
    case True
    then obtain c where c: "c \<in> set cs" "candidate_key c = key_of f" by auto
    from reconcile_refines(3) [OF assms(1) rec c(1)] here c(2) obtain i where
      "observe st dt s t c i (finding_at d (candidate_key c)) = Inr f" by auto
    then show ?thesis by (rule observe [OF c(1)]) (use old in blast)
  next
    case False
    note at' = reconcile_refines(4) [OF assms(1) rec False]
    show ?thesis
    proof (cases "finding_at d (key_of f)")
      case None
      with at' here show ?thesis by (simp split: if_splits)
    next
      case (Some f0)
      with at' here have "f = f0 \<or> f = resolve_if_active t f0" by (auto split: if_splits)
      with old [OF Some] resolve [of f0] show ?thesis by (auto simp: resolve_if_active_def)
    qed
  qed
qed

section \<open>The life cycle of a finding\<close>

text \<open>
  What holds of every stored finding at time \<open>now\<close>: its counters and its times are ordered, it
  is resolved exactly when its streak is over and a resolution time is set, and its risk is
  the classification of what it stores.
\<close>

definition lifecycle :: "instant \<Rightarrow> finding \<Rightarrow> bool" where
  "lifecycle now f \<longleftrightarrow>
     1 \<le> f_observation_count f \<and> 0 \<le> f_consecutive_observations f \<and>
     f_consecutive_observations f \<le> f_observation_count f \<and>
     f_first_observed_at f \<le> f_streak_started_at f \<and>
     f_streak_started_at f \<le> f_last_observed_at f \<and> f_last_observed_at f \<le> now \<and>
     (f_status f = RESOLVED \<longleftrightarrow> f_consecutive_observations f = 0) \<and>
     (f_status f = RESOLVED \<longleftrightarrow> f_resolved_at f \<noteq> None)"

definition judged :: "finding \<Rightarrow> bool" where
  "judged f \<longleftrightarrow>
     (\<exists>ow. f_ownership f = Some ow \<and>
        f_remediation_risk f =
          classify_remediation_risk (f_detector_type f) (f_persistence_state f) ow
            (f_known_dependencies f))"

lemma lifecycle_mono: "lifecycle t f \<Longrightarrow> t \<le> t' \<Longrightarrow> lifecycle t' f"
  by (auto simp: lifecycle_def)

lemma open_or_ignored_active [simp]: "open_or_ignored c \<noteq> RESOLVED"
  by (simp add: open_or_ignored_def)

lemma observe_lifecycle:
  assumes "observe st dt s t c i found = Inr f"
    and "\<And>f0. found = Some f0 \<Longrightarrow> lifecycle now f0" and "now \<le> t"
  shows "lifecycle t f"
proof (cases found)
  case None
  with observe_counts [OF assms(1)] observe_times [OF assms(1)] observe_status [OF assms(1)]
  show ?thesis by (simp add: lifecycle_def)
next
  case (Some f0)
  with observe_counts [OF assms(1)] observe_times [OF assms(1)] observe_status [OF assms(1)]
    assms(2) [OF Some] assms(3)
  show ?thesis by (cases "f_status f0 = RESOLVED") (auto simp: lifecycle_def)
qed

lemma resolve_lifecycle: "lifecycle t f \<Longrightarrow> lifecycle t (resolve_finding t f)"
  by (auto simp: lifecycle_def resolve_finding_def)

lemma resolve_judged: "judged (resolve_finding t f) = judged f"
  by (simp add: judged_def resolve_finding_def)

lemma reconcile_lifecycle:
  assumes "wf_db d" and "reconcile d s region dt cs cov st t = Inr (d', r)" and "now \<le> t"
    and "\<forall>f \<in> set (db_findings d). lifecycle now f" and "f \<in> set (db_findings d')"
  shows "lifecycle t f"
proof (rule reconcile_finding_invariant [OF assms(1,2) _ _ _ assms(5), where Q = "lifecycle t"])
  show "f \<in> set (db_findings d) \<Longrightarrow> lifecycle t f" for f
    using assms(3,4) lifecycle_mono by blast
  show "observe st dt s t c i found = Inr f \<Longrightarrow>
      (\<And>f0. found = Some f0 \<Longrightarrow> lifecycle t f0 \<and> key_of f0 = candidate_key c) \<Longrightarrow> lifecycle t f"
    for c i found f by (rule observe_lifecycle) auto
qed (auto intro: resolve_lifecycle)

lemma reconcile_judged:
  assumes "wf_db d" and "reconcile d s region dt cs cov st t = Inr (d', r)"
    and "\<forall>f \<in> set (db_findings d). judged f" and "\<forall>c \<in> set cs. fc_detector_type c = dt"
    and "f \<in> set (db_findings d')"
  shows "judged f"
proof (rule reconcile_finding_invariant [OF assms(1,2) _ _ _ assms(5), where Q = judged])
  show "f \<in> set (db_findings d) \<Longrightarrow> judged f" for f
    using assms(3) by blast
  show "judged f" if "c \<in> set cs" and obs: "observe st dt s t c i found = Inr f"
    and "\<And>f0. found = Some f0 \<Longrightarrow> judged f0 \<and> key_of f0 = candidate_key c" for c i found f
  proof -
    have "f_detector_type f0 = fc_detector_type c" if "found = Some f0" for f0
      using \<open>\<And>f0. found = Some f0 \<Longrightarrow> judged f0 \<and> key_of f0 = candidate_key c\<close> [OF that]
      by (simp add: key_of_def candidate_key_def)
    from observe_judgement [OF obs this] assms(4) that(1) show ?thesis
      by (auto simp: judged_def)
  qed
qed (simp_all add: resolve_judged)

section \<open>Counts and rows\<close>

definition rows_of :: "observation list \<Rightarrow> uuid \<Rightarrow> observation list" where
  "rows_of obs i = filter (\<lambda>ob. ob_finding_id ob = i) obs"

definition counted :: "db \<Rightarrow> bool" where
  "counted d \<longleftrightarrow>
     (\<forall>f \<in> set (db_findings d).
        f_observation_count f = int (length (rows_of (db_observations d) (f_id f))))"

lemma rows_of_snoc:
  "rows_of (obs @ [ob]) i = rows_of obs i @ (if ob_finding_id ob = i then [ob] else [])"
  by (simp add: rows_of_def)

lemma counted_step:
  assumes "wf_db (rs_db rs) \<and> counted (rs_db rs)" and "reconcile_candidate st dt s t rs c = Inr rs'"
  shows "wf_db (rs_db rs') \<and> counted (rs_db rs')"
proof -
  let ?d = "rs_db rs" and ?d' = "rs_db rs'"
  from assms(1) have wf: "wf_db ?d" and cnt: "counted ?d" by auto
  obtain f where obs: "observe st dt s t c (db_next_id ?d) (finding_at ?d (candidate_key c)) = Inr f"
    and wf': "wf_db ?d'" and at': "finding_at ?d' = (finding_at ?d)(candidate_key c \<mapsto> f)"
    and rows: "db_observations ?d' = db_observations ?d @ [new_observation (Suc (db_next_id ?d)) f s t]"
    by (rule reconcile_candidate_Inr [OF wf assms(2)])
  have "f_observation_count g = int (length (rows_of (db_observations ?d') (f_id g)))"
    if g: "g \<in> set (db_findings ?d')" for g
  proof (cases "key_of g = candidate_key c")
    case True
    with g at' finding_at_set [OF wf', of g] have "g = f" by simp
    show ?thesis
    proof (cases "finding_at ?d (candidate_key c)")
      case None
      have "f_id f = db_next_id ?d" using observe_id [OF obs] None by simp
      moreover have "\<forall>ob \<in> set (db_observations ?d). ob_finding_id ob < db_next_id ?d"
        using wf unfolding wf_db_def by fastforce
      ultimately have "rows_of (db_observations ?d) (f_id f) = []"
        by (auto simp: rows_of_def filter_empty_conv)
      with observe_counts [OF obs] None \<open>g = f\<close> show ?thesis by (simp add: rows rows_of_snoc)
    next
      case (Some f0)
      from finding_at_key [OF wf Some] cnt have
        "f_observation_count f0 = int (length (rows_of (db_observations ?d) (f_id f0)))"
        by (simp add: counted_def)
      with observe_counts [OF obs] observe_id [OF obs] Some \<open>g = f\<close> show ?thesis
        by (simp add: rows rows_of_snoc)
    qed
  next
    case False
    with g at' finding_at_set [OF wf', of g] have "finding_at ?d (key_of g) = Some g" by simp
    from finding_at_key [OF wf this] have gd: "g \<in> set (db_findings ?d)" by simp
    have "finding_at ?d' (candidate_key c) = Some f" by (simp add: at')
    from finding_at_key [OF wf' this] have "key_of f = candidate_key c" "f \<in> set (db_findings ?d')"
      by auto
    with False g wf' have "f_id g \<noteq> f_id f" by (auto simp: wf_db_def dest: wf_findings_id_inj)
    with cnt gd show ?thesis by (simp add: counted_def rows rows_of_snoc)
  qed
  with wf' show ?thesis by (simp add: counted_def)
qed

lemma resolve_count [simp]: "f_observation_count (resolve_finding t f) = f_observation_count f"
  by (simp add: resolve_finding_def)

lemma reconcile_counted:
  assumes "wf_db d" and "counted d" and "reconcile d s region dt cs cov st t = Inr (d', r)"
  shows "counted d'"
proof (cases "cov = CELL_COMPLETE")
  case False
  with assms(2,3) show ?thesis by (simp add: reconcile_def)
next
  case True
  obtain rs where loop: "reconcile_candidates st dt s t d cs = Inr rs"
    and fin: "resolve_missing (existing_ids_of_cell d s region dt) t rs = (d', r)"
    by (rule reconcile_complete_Inr [OF assms(3) [unfolded True]])
  have "wf_db (rs_db rs) \<and> counted (rs_db rs)"
  proof (rule r_fold_invariant [OF loop, where P = "\<lambda>rs. wf_db (rs_db rs) \<and> counted (rs_db rs)"])
    show "wf_db (rs_db (start_state d)) \<and> counted (rs_db (start_state d))"
      using assms(1,2) by (simp add: start_state_def)
  qed (rule counted_step)
  with fin show ?thesis by (auto simp: resolve_missing_def Let_def counted_def)
qed

section \<open>How many are resolved\<close>

definition lost :: "pystr \<Rightarrow> pystr \<Rightarrow> detector_type \<Rightarrow> finding_candidate list \<Rightarrow> finding \<Rightarrow> bool" where
  "lost a region dt cs f \<longleftrightarrow>
     in_cell a region dt f \<and> active f \<and> key_of f \<notin> candidate_key ` set cs"

lemma reconcile_resolved_count:
  assumes "wf_db d" and "reconcile d s region dt cs CELL_COMPLETE st t = Inr (d', r)"
  shows "rr_resolved r = int (length (filter (lost (scan_account s) region dt cs) (db_findings d)))"
proof -
  let ?existing = "existing_ids_of_cell d s region dt"
  obtain rs where loop: "reconcile_candidates st dt s t d cs = Inr rs"
    and fin: "resolve_missing ?existing t rs = (d', r)"
    by (rule reconcile_complete_Inr [OF assms(2)])
  let ?gone = "to_resolve ?existing (rs_observed rs)" and ?lost = "lost (scan_account s) region dt cs"
  note spec = reconcile_candidates_spec [OF assms(1) loop]
  then have wf: "wf_db (rs_db rs)"
    and frame: "\<And>k. k \<notin> candidate_key ` set cs \<Longrightarrow> finding_at (rs_db rs) k = finding_at d k"
    by (auto simp: loop_spec_def)
  have eq: "f \<in> set (filter ?gone (db_findings (rs_db rs))) \<longleftrightarrow> f \<in> set (filter ?lost (db_findings d))"
    for f
  proof (cases "key_of f \<in> candidate_key ` set cs")
    case True
    then show ?thesis
      using loop_observed_ids [OF spec, of "key_of f" f] finding_at_set [OF wf, of f]
      by (auto simp: to_resolve_def lost_def)
  next
    case False
    then show ?thesis
      using loop_observed_ids [OF spec, of "key_of f" f] finding_at_set [OF wf, of f]
        finding_at_set [OF assms(1), of f] frame [OF False] existing_ids [OF assms(1), of "key_of f" f]
      by (auto simp: to_resolve_def lost_def in_cell_key)
  qed
  have dist: "distinct (db_findings (rs_db rs))" "distinct (db_findings d)"
    using wf assms(1) by (auto simp: wf_db_def wf_findings_def distinct_map)
  have "length (filter ?gone (db_findings (rs_db rs))) = length (filter ?lost (db_findings d))"
    using eq dist by (metis distinct_card distinct_filter subsetI subset_antisym)
  then show ?thesis using fin by (auto simp: resolve_missing_def Let_def)
qed

end
