(* ===== verification/Engine.thy ===== *)
theory Engine
  imports Detectors Ownership Pricing Lifecycle
begin

text \<open>
  The scan engine (\<open>app/scanner/engine.py\<close>): detection in one region, and the scan that
  chooses the regions, detects in each, reconciles every cell and totals the exposure.

  The provider of the model is the scan-scoped one: a record of functions, so that one call
  with the same arguments has one outcome during a scan. The pricing service is a state
  transformer \<open>'s \<Rightarrow> pricing_request \<Rightarrow> 's \<times> pricing_result\<close>, its state the cache; it does not
  raise (\<open>Pricing\<close>). Regions run one after the other, where the engine uses a thread pool: they
  share only the caches. The two readings of the clock are the arguments \<open>started\<close> and
  \<open>finished\<close>. A scan that raises rolls its session back, and returns no new database.
\<close>

section \<open>Detection cells\<close>

record cell_error =
  ce_code :: pystr
  ce_message :: pystr
  ce_missing_operation :: "pystr option"

record detection_cell =
  dc_detector_type :: detector_type
  dc_status :: detector_coverage_status
  dc_candidates :: "finding_candidate list"
  dc_error :: "cell_error option"

record region_detection =
  rd_region :: pystr
  rd_status :: region_coverage_status
  rd_cells :: "detection_cell list"
  rd_warnings :: "pystr list"

type_synonym 's pricing = "'s \<Rightarrow> pricing_request \<Rightarrow> 's \<times> pricing_result"

record 's region_state =
  rg_resolver :: resolver
  rg_pricing :: 's
  rg_warnings :: "pystr list"

definition price_candidate ::
  "'s pricing \<Rightarrow> 's \<Rightarrow> finding_candidate \<Rightarrow> 's \<times> pricing_result option" where
  "price_candidate pricing ps c =
     (case fc_pricing_request c of
        None \<Rightarrow> (ps, None)
      | Some req \<Rightarrow> (case pricing ps req of (ps', r) \<Rightarrow> (ps', Some r)))"

definition enriched :: "finding_candidate \<Rightarrow> ownership \<Rightarrow> pricing_result option \<Rightarrow> finding_candidate" where
  "enriched c ow pr = c\<lparr>fc_ownership := ow, fc_pricing_result := pr\<rparr>"

fun enrich ::
  "cloud_provider \<Rightarrow> 's pricing \<Rightarrow> pystr \<Rightarrow> 's region_state \<Rightarrow> finding_candidate list \<Rightarrow>
   's region_state \<times> (py_exc + finding_candidate list)" where
  "enrich P pricing region rs [] = (rs, Inr [])"
| "enrich P pricing region rs (c # cs) =
     (case resolve P region (rg_resolver rs) c of
        (rv, Inl e) \<Rightarrow> (rs\<lparr>rg_resolver := rv\<rparr>, Inl e)
      | (rv, Inr ow) \<Rightarrow>
          (case price_candidate pricing (rg_pricing rs) c of
             (ps, pr) \<Rightarrow>
               (let warnings = rg_warnings rs @ fc_warnings c @
                      (case pr of None \<Rightarrow> [] | Some r \<Rightarrow> pr_warnings r)
                in case enrich P pricing region
                          \<lparr>rg_resolver = rv, rg_pricing = ps, rg_warnings = warnings\<rparr> cs of
                     (rs', Inl e) \<Rightarrow> (rs', Inl e)
                   | (rs', Inr es) \<Rightarrow> (rs', Inr (enriched c ow pr # es)))))"

definition run_detector ::
  "cloud_provider \<Rightarrow> 's pricing \<Rightarrow> pystr \<Rightarrow> scan_context \<Rightarrow> 's region_state \<Rightarrow> detector_impl \<Rightarrow>
   's region_state \<times> (py_exc + finding_candidate list)" where
  "run_detector P pricing region ctx rs det =
     (case det_scan det P region ctx of
        Inl e \<Rightarrow> (rs, Inl e)
      | Inr cs \<Rightarrow> enrich P pricing region rs cs)"

text \<open>The cell of a detector that raised, by the order of the \<open>except\<close> clauses.\<close>

fun error_cell :: "detector_type \<Rightarrow> py_exc \<Rightarrow> detection_cell" where
  "error_cell dt (Prov (ProviderPermissionError op r)) =
     \<lparr>dc_detector_type = dt, dc_status = CELL_MISSING_PERMISSION, dc_candidates = [],
      dc_error = Some \<lparr>ce_code = lit ''permission_denied'',
                       ce_message = provider_error_str (ProviderPermissionError op r),
                       ce_missing_operation = Some op\<rparr>\<rparr>"
| "error_cell dt (Prov (ProviderRegionUnavailableError r)) =
     \<lparr>dc_detector_type = dt, dc_status = CELL_SKIPPED, dc_candidates = [],
      dc_error = Some \<lparr>ce_code = lit ''region_unavailable'',
                       ce_message = provider_error_str (ProviderRegionUnavailableError r),
                       ce_missing_operation = None\<rparr>\<rparr>"
| "error_cell dt (Prov e) =
     \<lparr>dc_detector_type = dt, dc_status = CELL_FAILED, dc_candidates = [],
      dc_error = Some \<lparr>ce_code = lit ''provider_error'', ce_message = provider_error_str e,
                       ce_missing_operation = None\<rparr>\<rparr>"
| "error_cell dt (PyExc t m) =
     \<lparr>dc_detector_type = dt, dc_status = CELL_FAILED, dc_candidates = [],
      dc_error = Some \<lparr>ce_code = lit ''internal_error'', ce_message = exc_text (PyExc t m),
                       ce_missing_operation = None\<rparr>\<rparr>"

definition complete_cell :: "detector_type \<Rightarrow> finding_candidate list \<Rightarrow> detection_cell" where
  "complete_cell dt cs =
     \<lparr>dc_detector_type = dt, dc_status = CELL_COMPLETE, dc_candidates = cs, dc_error = None\<rparr>"

fun region_unavailable :: "py_exc \<Rightarrow> bool" where
  "region_unavailable (Prov (ProviderRegionUnavailableError r)) = True"
| "region_unavailable e = False"

text \<open>The loop over the detectors; the flag says that it returned early.\<close>

fun detect_cells ::
  "cloud_provider \<Rightarrow> 's pricing \<Rightarrow> pystr \<Rightarrow> scan_context \<Rightarrow> 's region_state \<Rightarrow>
   detector_impl list \<Rightarrow> 's region_state \<times> detection_cell list \<times> bool" where
  "detect_cells P pricing region ctx rs [] = (rs, [], False)"
| "detect_cells P pricing region ctx rs (det # dets) =
     (case run_detector P pricing region ctx rs det of
        (rs1, Inl e) \<Rightarrow>
          if region_unavailable e then (rs1, [error_cell (det_type det) e], True)
          else (case detect_cells P pricing region ctx rs1 dets of
                  (rs2, cells, early) \<Rightarrow> (rs2, error_cell (det_type det) e # cells, early))
      | (rs1, Inr cs) \<Rightarrow>
          (case detect_cells P pricing region ctx rs1 dets of
             (rs2, cells, early) \<Rightarrow> (rs2, complete_cell (det_type det) cs # cells, early)))"

definition region_status :: "detection_cell list \<Rightarrow> region_coverage_status" where
  "region_status cells =
     (let statuses = dc_status ` set cells
      in if statuses = {CELL_COMPLETE} then REGION_COMPLETE
         else if CELL_COMPLETE \<in> statuses \<or> CELL_MISSING_PERMISSION \<in> statuses
         then REGION_PARTIAL
         else REGION_FAILED)"

definition detect_region ::
  "cloud_provider \<Rightarrow> 's pricing \<Rightarrow> app_settings \<Rightarrow> identity \<Rightarrow> instant \<Rightarrow> 's \<Rightarrow> pystr \<Rightarrow>
   's \<times> region_detection" where
  "detect_region P pricing st ident observed_at ps region =
     (let ctx = \<lparr>sc_account_id = id_account_id ident, sc_region = region,
                 sc_observed_at = observed_at, sc_settings = st\<rparr>
      in case detect_cells P pricing region ctx
                \<lparr>rg_resolver = new_resolver, rg_pricing = ps, rg_warnings = []\<rparr> detectors of
           (rs, cells, early) \<Rightarrow>
             (rg_pricing rs,
              if early then
                \<lparr>rd_region = region, rd_status = REGION_SKIPPED, rd_cells = cells,
                 rd_warnings = dedup (rg_warnings rs)\<rparr>
              else
                \<lparr>rd_region = region, rd_status = region_status cells, rd_cells = cells,
                 rd_warnings =
                   dedup (rg_warnings rs @
                     (case rv_warning (rg_resolver rs) of None \<Rightarrow> [] | Some w \<Rightarrow> [w]))\<rparr>))"

fun detect_regions ::
  "('s \<Rightarrow> pystr \<Rightarrow> 's \<times> region_detection) \<Rightarrow> 's \<Rightarrow> pystr list \<Rightarrow> 's \<times> region_detection list" where
  "detect_regions detect ps [] = (ps, [])"
| "detect_regions detect ps (r # rs) =
     (case detect ps r of
        (ps1, x) \<Rightarrow> (case detect_regions detect ps1 rs of (ps2, xs) \<Rightarrow> (ps2, x # xs)))"

section \<open>Reconciling the detections\<close>

record scan_acc =
  ac_db :: db
  ac_new :: int
  ac_persistent :: int
  ac_resolved :: int
  ac_ignored :: int
  ac_errors :: "error_entry list"
  ac_observed :: "uuid list"

definition cell_errors :: "pystr \<Rightarrow> detection_cell \<Rightarrow> error_entry list" where
  "cell_errors region cell =
     (case dc_error cell of
        None \<Rightarrow> []
      | Some e \<Rightarrow>
          [\<lparr>ee_scope = lit ''detector'', ee_code = ce_code e, ee_message = ce_message e,
            ee_region = Some region, ee_detector_type = Some (dc_detector_type cell),
            ee_missing_operation = ce_missing_operation e\<rparr>])"

definition reconcile_cell ::
  "scan \<Rightarrow> app_settings \<Rightarrow> instant \<Rightarrow> scan_acc \<Rightarrow> pystr \<times> detection_cell \<Rightarrow> py_exc + scan_acc" where
  "reconcile_cell s st observed_at acc rc =
     (case rc of (region, cell) \<Rightarrow>
        r_bind (reconcile (ac_db acc) s region (dc_detector_type cell) (dc_candidates cell)
                  (dc_status cell) st observed_at)
          (\<lambda>(d, r).
             Inr \<lparr>ac_db = d, ac_new = ac_new acc + rr_new r,
                  ac_persistent = ac_persistent acc + rr_persistent r,
                  ac_resolved = ac_resolved acc + rr_resolved r,
                  ac_ignored = ac_ignored acc + rr_ignored r,
                  ac_errors = ac_errors acc @ cell_errors region cell,
                  ac_observed = ac_observed acc @ rr_observed r\<rparr>))"

text \<open>The two nested loops visit the cells of every region in order.\<close>

definition all_cells :: "region_detection list \<Rightarrow> (pystr \<times> detection_cell) list" where
  "all_cells dets = concat (map (\<lambda>rd. map (Pair (rd_region rd)) (rd_cells rd)) dets)"

definition coverage_of :: "region_detection \<Rightarrow> region_coverage" where
  "coverage_of rd =
     \<lparr>rc_status = rd_status rd,
      rc_detectors =
        map (\<lambda>cell. (dc_detector_type cell,
               \<lparr>cc_status = dc_status cell,
                cc_error_code = map_option ce_code (dc_error cell),
                cc_message = map_option ce_message (dc_error cell),
                cc_missing_operation =
                  (case dc_error cell of None \<Rightarrow> None | Some e \<Rightarrow> ce_missing_operation e)\<rparr>))
          (rd_cells rd),
      rc_warnings = rd_warnings rd\<rparr>"

definition regions_with :: "region_coverage_status \<Rightarrow> region_detection list \<Rightarrow> pystr list" where
  "regions_with status dets = map rd_region (filter (\<lambda>rd. rd_status rd = status) dets)"

text \<open>The totals over the findings observed by the scan, as they stand at its end.\<close>

definition exposure_costs :: "cost_confidence set \<Rightarrow> finding list \<Rightarrow> decimal list" where
  "exposure_costs confidences fs =
     List.map_filter
       (\<lambda>f. if f_status f = OPEN \<and> f_cost_confidence f \<in> confidences
            then f_estimated_monthly_cost f else None) fs"

definition observed_findings :: "scan_acc \<Rightarrow> finding list" where
  "observed_findings acc = List.map_filter (get_finding (ac_db acc)) (ac_observed acc)"

section \<open>The scan\<close>

definition new_scan :: "uuid \<Rightarrow> mode \<Rightarrow> pystr list option \<Rightarrow> instant \<Rightarrow> scan" where
  "new_scan i m requested started =
     \<lparr>s_id = i, s_mode = m, s_account_id = None, s_principal_arn = None, s_seeded = False,
      s_started_at = started, s_finished_at = None, s_status = SCAN_RUNNING,
      s_requested_regions = (case requested of None \<Rightarrow> [] | Some rs \<Rightarrow> rs),
      s_completed_regions = [], s_partial_regions = [], s_failed_regions = [],
      s_skipped_regions = [], s_coverage = Map.empty, s_new_findings = 0,
      s_persistent_findings = 0, s_resolved_findings = 0, s_ignored_findings = 0,
      s_estimated_exposure = dec_zero, s_potential_exposure_low_confidence = dec_zero,
      s_errors = [], s_created_at = started\<rparr>"

definition scan_error :: "pystr \<Rightarrow> pystr \<Rightarrow> error_entry" where
  "scan_error code message =
     \<lparr>ee_scope = lit ''scan'', ee_code = code, ee_message = message, ee_region = None,
      ee_detector_type = None, ee_missing_operation = None\<rparr>"

definition fail_scan :: "db \<Rightarrow> scan \<Rightarrow> instant \<Rightarrow> error_entry \<Rightarrow> db \<times> scan" where
  "fail_scan d s finished e =
     (let s' = s\<lparr>s_status := SCAN_FAILED, s_finished_at := Some finished, s_errors := [e]\<rparr>
      in (d\<lparr>db_scans := put_scan (db_scans d) s'\<rparr>, s'))"

definition chosen_regions ::
  "pystr list option \<Rightarrow> uuid option \<Rightarrow> scan \<Rightarrow> app_settings \<Rightarrow> region_info list \<Rightarrow> pystr list" where
  "chosen_regions requested scan_id s st infos =
     (case requested of
        Some rs \<Rightarrow> dedup rs
      | None \<Rightarrow>
          if scan_id \<noteq> None \<and> s_requested_regions s \<noteq> [] then s_requested_regions s
          else (case st_regions st of Some rs \<Rightarrow> rs | None \<Rightarrow> dedup (map ri_name infos)))"

definition not_opted_in :: "region_info list \<Rightarrow> pystr \<Rightarrow> bool" where
  "not_opted_in infos region \<longleftrightarrow>
     (case dict_index ri_name infos region of
        None \<Rightarrow> False
      | Some info \<Rightarrow> ri_opt_in_status info = NOT_OPTED_IN)"

definition opt_in_skip :: "pystr \<Rightarrow> region_detection" where
  "opt_in_skip region =
     \<lparr>rd_region = region, rd_status = REGION_SKIPPED, rd_cells = [],
      rd_warnings = [lit ''region not enabled (opt-in required)'']\<rparr>"

definition run_detections ::
  "cloud_provider \<Rightarrow> 's pricing \<Rightarrow> app_settings \<Rightarrow> identity \<Rightarrow> instant \<Rightarrow> 's \<Rightarrow>
   region_info list \<Rightarrow> pystr list \<Rightarrow> 's \<times> region_detection list" where
  "run_detections P pricing st ident observed_at ps infos regions =
     (let runnable = filter (\<lambda>r. \<not> not_opted_in infos r) regions
      in case detect_regions (detect_region P pricing st ident observed_at) ps runnable of
           (ps', results) \<Rightarrow>
             (ps', map (\<lambda>region. case dict_index rd_region results region of
                                   Some rd \<Rightarrow> rd
                                 | None \<Rightarrow> opt_in_skip region)
                     regions))"

definition final_status :: "pystr list \<Rightarrow> region_detection list \<Rightarrow> scan_status" where
  "final_status runnable dets =
     (if runnable = [] then SCAN_FAILED
      else if regions_with REGION_PARTIAL dets \<noteq> [] \<or> regions_with REGION_FAILED dets \<noteq> []
      then SCAN_PARTIAL
      else SCAN_COMPLETED)"

definition finish_scan ::
  "scan \<Rightarrow> pystr list \<Rightarrow> region_detection list \<Rightarrow> scan_acc \<Rightarrow> instant \<Rightarrow> db \<times> scan" where
  "finish_scan s runnable dets acc finished =
     (let fs = observed_findings acc;
          s' = s\<lparr>s_new_findings := ac_new acc, s_persistent_findings := ac_persistent acc,
                 s_resolved_findings := ac_resolved acc, s_ignored_findings := ac_ignored acc,
                 s_completed_regions := regions_with REGION_COMPLETE dets,
                 s_partial_regions := regions_with REGION_PARTIAL dets,
                 s_failed_regions := regions_with REGION_FAILED dets,
                 s_skipped_regions := regions_with REGION_SKIPPED dets,
                 s_estimated_exposure := dec_sum (exposure_costs {COST_HIGH, COST_MEDIUM} fs),
                 s_potential_exposure_low_confidence := dec_sum (exposure_costs {COST_LOW} fs),
                 s_coverage := map_of (rev (map (\<lambda>rd. (rd_region rd, coverage_of rd)) dets)),
                 s_errors := ac_errors acc,
                 s_status := final_status runnable dets,
                 s_finished_at := Some finished\<rparr>;
          d = ac_db acc
      in (d\<lparr>db_scans := put_scan (db_scans d) s'\<rparr>, s'))"

definition scan_regions ::
  "cloud_provider \<Rightarrow> 's pricing \<Rightarrow> app_settings \<Rightarrow> identity \<Rightarrow> region_info list \<Rightarrow> pystr list \<Rightarrow>
   scan \<Rightarrow> db \<Rightarrow> 's \<Rightarrow> instant \<Rightarrow> instant \<Rightarrow> 's \<times> (py_exc + db \<times> scan)" where
  "scan_regions P pricing st ident infos regions s d ps observed_at finished =
     (if st_max_region_concurrency st \<le> 0
      then (ps, Inl (PyExc (lit ''ValueError'') (lit ''max_workers must be greater than 0'')))
      else
        (case run_detections P pricing st ident observed_at ps infos regions of
           (ps', dets) \<Rightarrow>
             (ps', r_bind
                (r_fold (reconcile_cell s st observed_at)
                   \<lparr>ac_db = d, ac_new = s_new_findings s,
                    ac_persistent = s_persistent_findings s,
                    ac_resolved = s_resolved_findings s, ac_ignored = s_ignored_findings s,
                    ac_errors = [], ac_observed = []\<rparr>
                   (all_cells dets))
                (\<lambda>acc. Inr (finish_scan s (filter (\<lambda>r. \<not> not_opted_in infos r) regions)
                              dets acc finished)))))"

text \<open>The scan the run works on: a fresh row, or the running row it was given.\<close>

definition scan_row ::
  "cloud_provider \<Rightarrow> db \<Rightarrow> pystr list option \<Rightarrow> uuid option \<Rightarrow> instant \<Rightarrow> py_exc + db \<times> scan" where
  "scan_row P d requested scan_id started =
     (case scan_id of
        None \<Rightarrow>
          (let s = new_scan (db_next_id d) (cp_mode P) requested started
           in Inr (d\<lparr>db_scans := put_scan (db_scans d) s, db_next_id := Suc (db_next_id d)\<rparr>, s))
      | Some i \<Rightarrow>
          (case get_scan d i of
             None \<Rightarrow> Inl (PyExc (lit ''ValueError'')
                          (lit ''scan_id must identify an existing running scan''))
           | Some s \<Rightarrow>
               if s_status s \<noteq> SCAN_RUNNING
               then Inl (PyExc (lit ''ValueError'')
                          (lit ''scan_id must identify an existing running scan''))
               else Inr (d, s)))"

definition run_scan ::
  "cloud_provider \<Rightarrow> 's pricing \<Rightarrow> app_settings \<Rightarrow> db \<Rightarrow> 's \<Rightarrow> pystr list option \<Rightarrow>
   uuid option \<Rightarrow> instant \<Rightarrow> instant \<Rightarrow> 's \<times> (py_exc + db \<times> scan)" where
  "run_scan P pricing st d ps requested scan_id started finished =
     (case scan_row P d requested scan_id started of
        Inl e \<Rightarrow> (ps, Inl e)
      | Inr (d1, s1) \<Rightarrow>
          (case get_identity P of
             Inl (Prov (ProviderCredentialsError m)) \<Rightarrow>
               (ps, Inr (fail_scan d1 s1 finished (scan_error (lit ''credentials_error'') m)))
           | Inl e \<Rightarrow> (ps, Inl e)
           | Inr ident \<Rightarrow>
               (let s2 = s1\<lparr>s_account_id := Some (id_account_id ident),
                            s_principal_arn := Some (id_principal_arn ident)\<rparr>
                in case list_regions P of
                     Inl (Prov e) \<Rightarrow>
                       (ps, Inr (fail_scan d1 s2 finished
                              (scan_error (lit ''region_discovery_error'') (provider_error_str e))))
                   | Inl e \<Rightarrow> (ps, Inl e)
                   | Inr infos \<Rightarrow>
                       (let regions = chosen_regions requested scan_id s1 st infos;
                            s3 = s2\<lparr>s_requested_regions := regions\<rparr>
                        in scan_regions P pricing st ident infos regions s3 d1 ps
                             (s_started_at s1) finished))))"

end
