(* ===== verification/Scan.thy ===== *)
theory Scan
  imports Engine
begin

text \<open>
  What a scan does: detection keeps the identity of every candidate and reports one cell per
  detector; reconciliation of the cells keeps the invariants of the tables, changes only the
  findings of completed cells, and succeeds when no region is scanned twice.
\<close>

section \<open>Enrichment\<close>

lemma enriched_simps [simp]:
  "candidate_key (enriched c ow pr) = candidate_key c"
  "fc_account_id (enriched c ow pr) = fc_account_id c"
  "fc_region (enriched c ow pr) = fc_region c"
  "fc_resource_type (enriched c ow pr) = fc_resource_type c"
  "fc_resource_id (enriched c ow pr) = fc_resource_id c"
  "fc_detector_type (enriched c ow pr) = fc_detector_type c"
  "fc_known_dependencies (enriched c ow pr) = fc_known_dependencies c"
  "fc_ignored (enriched c ow pr) = fc_ignored c"
  "fc_ownership (enriched c ow pr) = ow"
  "fc_pricing_result (enriched c ow pr) = pr"
  by (simp_all add: enriched_def candidate_key_def)

text \<open>What enrichment adds to a candidate, with the resolver in a state of its invariant.\<close>

definition enriches ::
  "cloud_provider \<Rightarrow> pystr \<Rightarrow> finding_candidate \<Rightarrow> finding_candidate \<Rightarrow> bool" where
  "enriches P region c e \<longleftrightarrow>
     (\<exists>rv pr. resolver_inv P region rv \<and> rv_loaded rv \<and>
        e = enriched c (resolve_loaded region rv c) pr)"

lemma resolve_state:
  assumes "resolver_inv P region rv" and "resolve P region rv c = (rv', r)"
  shows "resolver_inv P region rv'" and "rv_loaded rv'"
  using resolver_inv_resolve [OF assms(1), of c] resolve_loaded_state [of P region rv c] assms(2)
  by simp_all

lemma enrich_Inr:
  assumes "enrich P pricing region rs cs = (rs', Inr es)"
    and "resolver_inv P region (rg_resolver rs)"
  shows "list_all2 (enriches P region) cs es \<and> resolver_inv P region (rg_resolver rs')"
  using assms
proof (induction cs arbitrary: rs es)
  case Nil
  then show ?case by simp
next
  case (Cons c cs)
  obtain rv r where r: "resolve P region (rg_resolver rs) c = (rv, r)" by fastforce
  with Cons.prems(1) obtain ow where ow: "r = Inr ow" by (cases r) auto
  obtain ps pr where p: "price_candidate pricing (rg_pricing rs) c = (ps, pr)" by fastforce
  define rs1 where "rs1 = \<lparr>rg_resolver = rv, rg_pricing = ps,
      rg_warnings = rg_warnings rs @ fc_warnings c @ (case pr of None \<Rightarrow> [] | Some r \<Rightarrow> pr_warnings r)\<rparr>"
  from Cons.prems(1) r ow p obtain es1 where
    rest: "enrich P pricing region rs1 cs = (rs', Inr es1)" and es: "es = enriched c ow pr # es1"
    by (auto simp: rs1_def Let_def split: prod.splits sum.splits)
  note st = resolve_state [OF Cons.prems(2) r]
  have "ow = resolve_loaded region rv c" using r ow resolve_Inr by blast
  with st have "enriches P region c (enriched c ow pr)" by (auto simp: enriches_def)
  moreover have "resolver_inv P region (rg_resolver rs1)" using st(1) by (simp add: rs1_def)
  ultimately show ?case using Cons.IH [OF rest] es by simp
qed

lemma enrich_resolver:
  assumes "resolver_inv P region (rg_resolver rs)"
  shows "resolver_inv P region (rg_resolver (fst (enrich P pricing region rs cs)))"
  using assms
proof (induction cs arbitrary: rs)
  case Nil
  then show ?case by simp
next
  case (Cons c cs)
  obtain rv r where r: "resolve P region (rg_resolver rs) c = (rv, r)" by fastforce
  note st = resolve_state [OF Cons.prems r]
  obtain ps pr where p: "price_candidate pricing (rg_pricing rs) c = (ps, pr)" by fastforce
  show ?case
  proof (cases r)
    case (Inl e)
    with r st show ?thesis by simp
  next
    case (Inr ow)
    with r p st Cons.IH show ?thesis by (auto simp: Let_def split: prod.splits sum.splits) (metis fst_conv region_state.select_convs(1))+
  qed
qed

text \<open>A provider whose stack listing raises only provider errors never stops enrichment.\<close>

lemma load_index_total:
  "provider_only (list_stack_resources P region) \<Longrightarrow> \<exists>rv'. load_index P region rv = (rv', Inr ())"
  by (auto simp: load_index_def Let_def provider_only_def
      split: sum.splits py_exc.splits provider_error.splits)

lemma resolve_total:
  assumes "provider_only (list_stack_resources P region)"
  shows "\<exists>rv' ow. resolve P region rv c = (rv', Inr ow)"
proof -
  obtain rv' where "load_index P region rv = (rv', Inr ())"
    using load_index_total [OF assms] by blast
  then show ?thesis by (simp add: resolve_def)
qed

lemma enrich_total:
  assumes "provider_only (list_stack_resources P region)"
  shows "\<exists>rs' es. enrich P pricing region rs cs = (rs', Inr es)"
proof (induction cs arbitrary: rs)
  case Nil
  then show ?case by simp
next
  case (Cons c cs)
  obtain rv ow where r: "resolve P region (rg_resolver rs) c = (rv, Inr ow)"
    using resolve_total [OF assms] by blast
  obtain ps pr where p: "price_candidate pricing (rg_pricing rs) c = (ps, pr)" by fastforce
  define rs1 where "rs1 = \<lparr>rg_resolver = rv, rg_pricing = ps,
      rg_warnings = rg_warnings rs @ fc_warnings c @ (case pr of None \<Rightarrow> [] | Some r \<Rightarrow> pr_warnings r)\<rparr>"
  obtain rs' es where "enrich P pricing region rs1 cs = (rs', Inr es)" using Cons.IH by blast
  with r p show ?case by (simp add: rs1_def Let_def)
qed

section \<open>Cells\<close>

text \<open>
  \<open>good_cell\<close>: a completed cell holds the enriched candidates of its detector, an incomplete
  one holds none.
\<close>

definition good_cell ::
  "cloud_provider \<Rightarrow> pystr \<Rightarrow> scan_context \<Rightarrow> detection_cell \<Rightarrow> bool" where
  "good_cell P region ctx cell \<longleftrightarrow>
     (if dc_status cell = CELL_COMPLETE
      then dc_error cell = None \<and>
           (\<exists>det \<in> set detectors. det_type det = dc_detector_type cell \<and>
              (\<exists>cs. det_scan det P region ctx = Inr cs \<and>
                    list_all2 (enriches P region) cs (dc_candidates cell)))
      else dc_candidates cell = [] \<and> dc_error cell \<noteq> None)"

lemma error_cell_facts [simp]:
  "dc_detector_type (error_cell dt e) = dt" "dc_candidates (error_cell dt e) = []"
  "dc_status (error_cell dt e) \<noteq> CELL_COMPLETE" "dc_error (error_cell dt e) \<noteq> None"
  by (cases "(dt, e)" rule: error_cell.cases; simp)+

lemma complete_cell_facts [simp]:
  "dc_detector_type (complete_cell dt cs) = dt" "dc_candidates (complete_cell dt cs) = cs"
  "dc_status (complete_cell dt cs) = CELL_COMPLETE" "dc_error (complete_cell dt cs) = None"
  by (simp_all add: complete_cell_def)

lemma good_error_cell [simp]: "good_cell P region ctx (error_cell dt e)"
  by (simp add: good_cell_def)

lemma run_detector_Inr:
  assumes "run_detector P pricing region ctx rs det = (rs', Inr es)"
    and "resolver_inv P region (rg_resolver rs)" and "det \<in> set detectors"
  shows "good_cell P region ctx (complete_cell (det_type det) es)"
  using assms enrich_Inr [OF _ assms(2)]
  by (auto simp: run_detector_def good_cell_def split: sum.splits)

lemma run_detector_resolver:
  assumes "resolver_inv P region (rg_resolver rs)"
  shows "resolver_inv P region (rg_resolver (fst (run_detector P pricing region ctx rs det)))"
  using enrich_resolver [OF assms] assms by (auto simp: run_detector_def split: sum.splits)

lemma detect_cells_good:
  assumes "detect_cells P pricing region ctx rs dets = (rs', cells, early)"
    and "resolver_inv P region (rg_resolver rs)" and "set dets \<subseteq> set detectors"
  shows "(\<forall>cell \<in> set cells. good_cell P region ctx cell) \<and>
     (\<exists>n. map dc_detector_type cells = take n (map det_type dets) \<and>
        (\<not> early \<longrightarrow> n = length dets)) \<and>
     (early \<longrightarrow> cells \<noteq> [] \<and> dc_status (last cells) = CELL_SKIPPED) \<and>
     (\<not> early \<longrightarrow> (\<forall>cell \<in> set cells. dc_status cell \<noteq> CELL_SKIPPED))"
  using assms
proof (induction dets arbitrary: rs cells)
  case Nil
  then show ?case by simp
next
  case (Cons det dets)
  obtain rs1 r where r: "run_detector P pricing region ctx rs det = (rs1, r)" by fastforce
  have inv: "resolver_inv P region (rg_resolver rs1)"
    using run_detector_resolver [OF Cons.prems(2), of pricing ctx det] r by simp
  obtain rs2 cells2 early2 where
    rest: "detect_cells P pricing region ctx rs1 dets = (rs2, cells2, early2)"
    by (cases "detect_cells P pricing region ctx rs1 dets") auto
  have sub: "set dets \<subseteq> set detectors" and det: "det \<in> set detectors"
    using Cons.prems(3) by auto
  note IH = Cons.IH [OF _ inv sub]
  consider (stop) e where "r = Inl e" "region_unavailable e"
    | (err) e where "r = Inl e" "\<not> region_unavailable e" | (ok) es where "r = Inr es"
    by (cases r) auto
  then show ?case
  proof cases
    case stop
    with Cons.prems(1) r have "cells = [error_cell (det_type det) e]" "early"
      by auto
    moreover have "dc_status (error_cell (det_type det) e) = CELL_SKIPPED"
      using stop(2) by (cases "(det_type det, e)" rule: error_cell.cases) auto
    ultimately show ?thesis by (auto intro!: exI [of _ "Suc 0"])
  next
    case err
    with Cons.prems(1) r rest have eq: "cells = error_cell (det_type det) e # cells2" "early = early2"
      "rs2 = rs'" by auto
    have "dc_status (error_cell (det_type det) e) \<noteq> CELL_SKIPPED"
      using err(2) by (cases "(det_type det, e)" rule: error_cell.cases) auto
    moreover from IH [of cells2] rest eq obtain n where
      "map dc_detector_type cells2 = take n (map det_type dets)" "\<not> early \<longrightarrow> n = length dets"
      "\<forall>cell \<in> set cells2. good_cell P region ctx cell"
      "early \<longrightarrow> cells2 \<noteq> [] \<and> dc_status (last cells2) = CELL_SKIPPED"
      "\<not> early \<longrightarrow> (\<forall>cell \<in> set cells2. dc_status cell \<noteq> CELL_SKIPPED)" by auto
    ultimately show ?thesis using eq by (auto intro!: exI [of _ "Suc n"])
  next
    case ok
    with Cons.prems(1) r rest have eq: "cells = complete_cell (det_type det) es # cells2" "early = early2"
      "rs2 = rs'" by auto
    have "good_cell P region ctx (complete_cell (det_type det) es)"
      using run_detector_Inr [OF _ Cons.prems(2) det] r ok by blast
    moreover from IH [of cells2] rest eq obtain n where
      "map dc_detector_type cells2 = take n (map det_type dets)" "\<not> early \<longrightarrow> n = length dets"
      "\<forall>cell \<in> set cells2. good_cell P region ctx cell"
      "early \<longrightarrow> cells2 \<noteq> [] \<and> dc_status (last cells2) = CELL_SKIPPED"
      "\<not> early \<longrightarrow> (\<forall>cell \<in> set cells2. dc_status cell \<noteq> CELL_SKIPPED)" by auto
    ultimately show ?thesis using eq by (auto intro!: exI [of _ "Suc n"])
  qed
qed

section \<open>Regions\<close>

definition context_of ::
  "app_settings \<Rightarrow> identity \<Rightarrow> instant \<Rightarrow> pystr \<Rightarrow> scan_context" where
  "context_of st ident observed_at region =
     \<lparr>sc_account_id = id_account_id ident, sc_region = region, sc_observed_at = observed_at,
      sc_settings = st\<rparr>"

text \<open>What is known of the detection of a region that was run.\<close>

definition good_detection ::
  "cloud_provider \<Rightarrow> app_settings \<Rightarrow> identity \<Rightarrow> instant \<Rightarrow> region_detection \<Rightarrow> bool" where
  "good_detection P st ident t rd \<longleftrightarrow>
     (\<forall>cell \<in> set (rd_cells rd). good_cell P (rd_region rd) (context_of st ident t (rd_region rd)) cell) \<and>
     (\<exists>n. map dc_detector_type (rd_cells rd) = take n detector_types \<and>
        (rd_status rd \<noteq> REGION_SKIPPED \<longrightarrow> n = length detector_types)) \<and>
     (rd_status rd \<noteq> REGION_SKIPPED \<longrightarrow> rd_status rd = region_status (rd_cells rd)) \<and>
     distinct (rd_warnings rd)"

lemma region_status_not_skipped [simp]: "region_status cells \<noteq> REGION_SKIPPED"
  by (simp add: region_status_def Let_def)

lemma detect_region_good:
  assumes "detect_region P pricing st ident t ps region = (ps', rd)"
  shows "rd_region rd = region \<and> good_detection P st ident t rd"
proof -
  let ?rs = "\<lparr>rg_resolver = new_resolver, rg_pricing = ps, rg_warnings = []\<rparr>"
  let ?ctx = "context_of st ident t region"
  obtain rs cells early where d: "detect_cells P pricing region ?ctx ?rs detectors = (rs, cells, early)"
    by (cases "detect_cells P pricing region ?ctx ?rs detectors") auto
  have "resolver_inv P region (rg_resolver ?rs)" by (simp add: resolver_inv_new)
  note good = detect_cells_good [OF d this subset_refl]
  then obtain n where n: "map dc_detector_type cells = take n detector_types"
    "\<not> early \<longrightarrow> n = length detector_types"
    unfolding detector_types_registered by (metis detector_types_registered length_map)
  from assms d have rd: "rd = (if early then
        \<lparr>rd_region = region, rd_status = REGION_SKIPPED, rd_cells = cells,
         rd_warnings = dedup (rg_warnings rs)\<rparr>
      else
        \<lparr>rd_region = region, rd_status = region_status cells, rd_cells = cells,
         rd_warnings = dedup (rg_warnings rs @
             (case rv_warning (rg_resolver rs) of None \<Rightarrow> [] | Some w \<Rightarrow> [w]))\<rparr>)"
    by (simp add: detect_region_def context_of_def)
  show ?thesis
  proof (cases early)
    case True
    with good n(1) rd show ?thesis by (auto simp: good_detection_def)
  next
    case False
    with good n rd show ?thesis by (auto simp: good_detection_def)
  qed
qed

lemma detect_regions_good:
  assumes "detect_regions (detect_region P pricing st ident t) ps rs = (ps', rds)"
  shows "map rd_region rds = rs \<and>
    (\<forall>rd \<in> set rds. good_detection P st ident t rd \<and>
       (\<exists>ps1 ps2. detect_region P pricing st ident t ps1 (rd_region rd) = (ps2, rd)))"
  using assms
proof (induction rs arbitrary: ps ps' rds)
  case Nil
  then show ?case by simp
next
  case (Cons r rs)
  obtain ps1 rd where 1: "detect_region P pricing st ident t ps r = (ps1, rd)" by fastforce
  obtain ps2 rds2 where 2: "detect_regions (detect_region P pricing st ident t) ps1 rs = (ps2, rds2)"
    by fastforce
  from Cons.prems 1 2 have "rds = rd # rds2" by simp
  with Cons.IH [OF 2] detect_region_good [OF 1] 1 show ?case by auto
qed

lemma opt_in_skip_good: "good_detection P st ident t (opt_in_skip region)"
  by (auto simp: good_detection_def opt_in_skip_def intro!: exI [of _ 0])

lemma run_detections_good:
  assumes "run_detections P pricing st ident t ps infos regions = (ps', dets)"
  shows "map rd_region dets = regions" and "\<forall>rd \<in> set dets. good_detection P st ident t rd"
    and "\<exists>D. dets = map D regions \<and>
           (\<forall>r \<in> set regions. if not_opted_in infos r then D r = opt_in_skip r
              else \<exists>ps1 ps2. detect_region P pricing st ident t ps1 r = (ps2, D r))"
proof -
  let ?runnable = "filter (\<lambda>r. \<not> not_opted_in infos r) regions"
  obtain ps1 results where res:
    "detect_regions (detect_region P pricing st ident t) ps ?runnable = (ps1, results)" by fastforce
  define D where "D region = (case dict_index rd_region results region of
      Some rd \<Rightarrow> rd | None \<Rightarrow> opt_in_skip region)" for region
  have dets: "dets = map D regions"
    using assms res by (simp add: run_detections_def D_def [abs_def])
  note good = detect_regions_good [OF res]
  have D: "rd_region (D r) = r \<and> good_detection P st ident t (D r) \<and>
      (if not_opted_in infos r then D r = opt_in_skip r
       else \<exists>ps1 ps2. detect_region P pricing st ident t ps1 r = (ps2, D r))"
    if "r \<in> set regions" for r
  proof (cases "dict_index rd_region results r")
    case None
    then have "r \<notin> set (map rd_region results)" by (simp add: dict_index_None)
    with good that have "not_opted_in infos r" by auto
    with None show ?thesis by (simp add: D_def opt_in_skip_good) (simp add: opt_in_skip_def)
  next
    case (Some rd)
    then have rd: "rd \<in> set results" "rd_region rd = r" using dict_index_Some by fastforce+
    with good have "r \<in> set ?runnable" by (metis imageI list.set_map)
    then have "\<not> not_opted_in infos r" by simp
    with rd good Some show ?thesis by (auto simp: D_def)
  qed
  show "map rd_region dets = regions" using D by (simp add: dets map_idI)
  show "\<forall>rd \<in> set dets. good_detection P st ident t rd" using D by (auto simp: dets)
  show "\<exists>D. dets = map D regions \<and>
           (\<forall>r \<in> set regions. if not_opted_in infos r then D r = opt_in_skip r
              else \<exists>ps1 ps2. detect_region P pricing st ident t ps1 r = (ps2, D r))"
    using D dets by blast
qed

section \<open>The cells of a scan\<close>

abbreviation cell_id :: "pystr \<times> detection_cell \<Rightarrow> pystr \<times> detector_type" where
  "cell_id rc \<equiv> (fst rc, dc_detector_type (snd rc))"

lemma set_all_cells: "(region, cell) \<in> set (all_cells dets) \<longleftrightarrow>
    (\<exists>rd \<in> set dets. rd_region rd = region \<and> cell \<in> set (rd_cells rd))"
  by (auto simp: all_cells_def)

lemma good_detection_cells_distinct:
  assumes "good_detection P st ident t rd"
  shows "distinct (map dc_detector_type (rd_cells rd))"
proof -
  have "distinct (take n detector_types)" for n by (rule distinct_take) (simp add: detector_types_def)
  moreover obtain n where "map dc_detector_type (rd_cells rd) = take n detector_types"
    using assms unfolding good_detection_def by blast
  ultimately show ?thesis by metis
qed

lemma all_cells_distinct:
  assumes "\<forall>rd \<in> set dets. good_detection P st ident t rd" and "distinct (map rd_region dets)"
  shows "distinct (map cell_id (all_cells dets))"
  using assms
proof (induction dets)
  case Nil
  then show ?case by (simp add: all_cells_def)
next
  case (Cons rd dets)
  have "distinct (map (\<lambda>c. (rd_region rd, dc_detector_type c)) (rd_cells rd))"
    using good_detection_cells_distinct [of P st ident t rd] Cons.prems(1)
    by (simp add: distinct_map inj_on_def)
  with Cons show ?case by (auto simp: all_cells_def comp_def)
qed

text \<open>Candidates of a completed cell lie in that cell, and one resource gives one key.\<close>

lemma list_all2_keys:
  "list_all2 (enriches P region) cs es \<Longrightarrow> map candidate_key es = map candidate_key cs"
  by (induction cs es rule: list_all2_induct) (auto simp: enriches_def)

lemma good_cell_candidate:
  assumes "good_cell P region ctx cell" and "e \<in> set (dc_candidates cell)"
  shows "key_in_cell (sc_account_id ctx) region (dc_detector_type cell) (candidate_key e) \<and>
    fc_detector_type e = dc_detector_type cell"
proof -
  from assms have "dc_status cell = CELL_COMPLETE" by (auto simp: good_cell_def split: if_splits)
  with assms obtain det cs where det: "det \<in> set detectors" "det_type det = dc_detector_type cell"
    "det_scan det P region ctx = Inr cs" "list_all2 (enriches P region) cs (dc_candidates cell)"
    by (auto simp: good_cell_def)
  from list_all2_in_set2 [OF det(4) assms(2)] obtain c where
    c: "c \<in> set cs" "enriches P region c e" by blast
  from detector.identity [OF detectors_meet_contract [OF det(1)] det(3) c(1)] c(2) det(2)
  show ?thesis by (auto simp: enriches_def key_in_cell_def candidate_key_def)
qed

text \<open>A provider that lists each resource once: no detector reports a resource twice.\<close>

definition lists_once :: "cloud_provider \<Rightarrow> pystr \<Rightarrow> scan_context \<Rightarrow> bool" where
  "lists_once P region ctx \<longleftrightarrow>
     (\<forall>det \<in> set detectors. \<forall>cs. det_scan det P region ctx = Inr cs \<longrightarrow>
        distinct (map fc_resource_id cs))"

lemma good_cell_distinct:
  assumes "good_cell P region ctx cell" and "lists_once P region ctx"
  shows "distinct (map candidate_key (dc_candidates cell))"
proof (cases "dc_status cell = CELL_COMPLETE")
  case False
  with assms(1) show ?thesis by (simp add: good_cell_def)
next
  case True
  with assms(1) obtain det cs where det: "det \<in> set detectors"
    "det_scan det P region ctx = Inr cs" "list_all2 (enriches P region) cs (dc_candidates cell)"
    by (auto simp: good_cell_def)
  with assms(2) have "distinct (map fc_resource_id cs)" by (auto simp: lists_once_def)
  then have "distinct (map candidate_key cs)"
    by (auto simp: distinct_map inj_on_def candidate_key_def)
  with list_all2_keys [OF det(3)] show ?thesis by simp
qed

section \<open>Reconciling the cells\<close>

abbreviation run_cells ::
  "scan \<Rightarrow> app_settings \<Rightarrow> instant \<Rightarrow> scan_acc \<Rightarrow> (pystr \<times> detection_cell) list \<Rightarrow>
   py_exc + scan_acc" where
  "run_cells s st t acc cells \<equiv> r_fold (reconcile_cell s st t) acc cells"

definition cell_ok :: "pystr \<Rightarrow> pystr \<times> detection_cell \<Rightarrow> bool" where
  "cell_ok a rc \<longleftrightarrow>
     (\<forall>e \<in> set (dc_candidates (snd rc)).
        key_in_cell a (fst rc) (dc_detector_type (snd rc)) (candidate_key e) \<and>
        fc_detector_type e = dc_detector_type (snd rc))"

definition covers :: "pystr \<Rightarrow> pystr \<times> detection_cell \<Rightarrow> finding_key \<Rightarrow> bool" where
  "covers a rc k \<longleftrightarrow>
     dc_status (snd rc) = CELL_COMPLETE \<and> key_in_cell a (fst rc) (dc_detector_type (snd rc)) k"

lemma reconcile_cell_Inr:
  "reconcile_cell s st t acc rc = Inr acc' \<Longrightarrow>
     \<exists>r. reconcile (ac_db acc) s (fst rc) (dc_detector_type (snd rc)) (dc_candidates (snd rc))
           (dc_status (snd rc)) st t = Inr (ac_db acc', r)"
  by (auto simp: reconcile_cell_def split: prod.splits)

lemma reconcile_wf: "wf_db d \<Longrightarrow> reconcile d s region dt cs cov st t = Inr (d', r) \<Longrightarrow> wf_db d'"
  using reconcile_refines(1) by (cases "cov = CELL_COMPLETE") (auto simp: reconcile_incomplete)

lemma reconcile_frame:
  assumes "wf_db d" and "reconcile d s region dt cs cov st t = Inr (d', r)"
    and "\<forall>e \<in> set cs. key_in_cell (scan_account s) region dt (candidate_key e)"
    and "cov \<noteq> CELL_COMPLETE \<or> \<not> key_in_cell (scan_account s) region dt k"
  shows "finding_at d' k = finding_at d k"
proof (cases "cov = CELL_COMPLETE")
  case False
  with assms(2) show ?thesis by (simp add: reconcile_incomplete)
next
  case True
  with assms(3,4) have "k \<notin> candidate_key ` set cs" by auto
  from reconcile_refines(4) [OF assms(1) assms(2) [unfolded True] this] assms(4) True
  show ?thesis by simp
qed

lemma run_cells_frame:
  assumes "run_cells s st t acc cells = Inr acc'" and "wf_db (ac_db acc)"
    and "\<forall>rc \<in> set cells. cell_ok (scan_account s) rc"
    and "\<forall>rc \<in> set cells. \<not> covers (scan_account s) rc k"
  shows "wf_db (ac_db acc') \<and> finding_at (ac_db acc') k = finding_at (ac_db acc) k"
  using assms
proof (induction cells arbitrary: acc)
  case Nil
  then show ?case by simp
next
  case (Cons rc cells)
  from Cons.prems(1) obtain acc1 where 1: "reconcile_cell s st t acc rc = Inr acc1"
    and 2: "run_cells s st t acc1 cells = Inr acc'" by auto
  from reconcile_cell_Inr [OF 1] obtain r where
    rec: "reconcile (ac_db acc) s (fst rc) (dc_detector_type (snd rc)) (dc_candidates (snd rc))
      (dc_status (snd rc)) st t = Inr (ac_db acc1, r)" by blast
  have "finding_at (ac_db acc1) k = finding_at (ac_db acc) k"
    by (rule reconcile_frame [OF Cons.prems(2) rec])
      (use Cons.prems(3,4) in \<open>auto simp: cell_ok_def covers_def\<close>)
  moreover have "wf_db (ac_db acc1)" by (rule reconcile_wf [OF Cons.prems(2) rec])
  ultimately show ?case using Cons.IH [OF 2] Cons.prems(3,4) by simp
qed

lemma covers_unique:
  assumes "distinct (map cell_id cells)" and "rc \<in> set cells" and "rc' \<in> set cells"
    and "covers a rc k" and "covers a rc' k"
  shows "rc = rc'"
proof -
  have "cell_id rc = cell_id rc'"
    using assms(4,5) by (cases k) (auto simp: covers_def key_in_cell_def)
  with assms(1-3) show ?thesis by (auto simp: distinct_map dest: inj_onD)
qed

text \<open>What a scan leaves at a key of a completed cell depends on that cell alone.\<close>

lemma run_cells_at:
  assumes "run_cells s st t acc cells = Inr acc'" and "wf_db (ac_db acc)"
    and "\<forall>rc \<in> set cells. cell_ok (scan_account s) rc" and "distinct (map cell_id cells)"
    and "rc \<in> set cells" and "covers (scan_account s) rc k"
  shows "(\<forall>c \<in> set (dc_candidates (snd rc)). candidate_key c = k \<longrightarrow>
            (\<exists>i f. observe st (dc_detector_type (snd rc)) s t c i (finding_at (ac_db acc) k) = Inr f \<and>
                   finding_at (ac_db acc') k = Some f)) \<and>
         (k \<notin> candidate_key ` set (dc_candidates (snd rc)) \<longrightarrow>
            finding_at (ac_db acc') k = map_option (resolve_if_active t) (finding_at (ac_db acc) k))"
proof -
  from assms(5) obtain xs ys where cells: "cells = xs @ rc # ys" by (meson split_list)
  from assms(1) obtain acc1 acc2 where 1: "run_cells s st t acc xs = Inr acc1"
    and 2: "reconcile_cell s st t acc1 rc = Inr acc2" and 3: "run_cells s st t acc2 ys = Inr acc'"
    by (auto simp: cells r_fold_append)
  have "rc \<notin> set xs" "rc \<notin> set ys" using assms(4) by (auto simp: cells distinct_map)
  then have xs: "\<forall>rc' \<in> set xs. \<not> covers (scan_account s) rc' k"
    and ys: "\<forall>rc' \<in> set ys. \<not> covers (scan_account s) rc' k"
    using covers_unique [OF assms(4,5) _ assms(6)] unfolding cells by auto
  have ok: "\<forall>rc \<in> set xs. cell_ok (scan_account s) rc" "\<forall>rc \<in> set ys. cell_ok (scan_account s) rc"
    using assms(3) by (auto simp: cells)
  note before = run_cells_frame [OF 1 assms(2) ok(1) xs]
  then have wf1: "wf_db (ac_db acc1)" by simp
  from reconcile_cell_Inr [OF 2] assms(6) obtain r where
    rec: "reconcile (ac_db acc1) s (fst rc) (dc_detector_type (snd rc)) (dc_candidates (snd rc))
      CELL_COMPLETE st t = Inr (ac_db acc2, r)" by (auto simp: covers_def)
  note after = run_cells_frame [OF 3 reconcile_wf [OF wf1 rec] ok(2) ys]
  from before after have k: "finding_at (ac_db acc1) k = finding_at (ac_db acc) k"
    "finding_at (ac_db acc') k = finding_at (ac_db acc2) k" by auto
  show ?thesis
  proof (intro conjI ballI impI)
    fix c
    assume "c \<in> set (dc_candidates (snd rc))" and "candidate_key c = k"
    with reconcile_refines(3) [OF wf1 rec, of c] k
    show "\<exists>i f. observe st (dc_detector_type (snd rc)) s t c i (finding_at (ac_db acc) k) = Inr f \<and>
        finding_at (ac_db acc') k = Some f" by simp
  next
    assume "k \<notin> candidate_key ` set (dc_candidates (snd rc))"
    with reconcile_refines(4) [OF wf1 rec, of k] k assms(6)
    show "finding_at (ac_db acc') k = map_option (resolve_if_active t) (finding_at (ac_db acc) k)"
      by (simp add: covers_def)
  qed
qed

section \<open>Invariants over the cells\<close>

definition scan_inv :: "instant \<Rightarrow> db \<Rightarrow> bool" where
  "scan_inv now d \<longleftrightarrow>
     wf_db d \<and> counted d \<and> (\<forall>f \<in> set (db_findings d). lifecycle now f \<and> judged f)"

lemma run_cells_inv:
  assumes "run_cells s st t acc cells = Inr acc'" and "scan_inv now (ac_db acc)" and "now \<le> t"
    and "\<forall>rc \<in> set cells. cell_ok a rc"
  shows "scan_inv t (ac_db acc')"
proof (rule r_fold_invariant [OF assms(1), where P = "\<lambda>acc. scan_inv t (ac_db acc)"])
  show "scan_inv t (ac_db acc)"
    using assms(2,3) lifecycle_mono unfolding scan_inv_def by blast
  fix u rc v
  assume inv: "scan_inv t (ac_db u)" and rc: "rc \<in> set cells" and step: "reconcile_cell s st t u rc = Inr v"
  from reconcile_cell_Inr [OF step] obtain r where
    rec: "reconcile (ac_db u) s (fst rc) (dc_detector_type (snd rc)) (dc_candidates (snd rc))
      (dc_status (snd rc)) st t = Inr (ac_db v, r)" by blast
  from inv have wf: "wf_db (ac_db u)" and cnt: "counted (ac_db u)"
    and lc: "\<forall>f \<in> set (db_findings (ac_db u)). lifecycle t f"
    and jd: "\<forall>f \<in> set (db_findings (ac_db u)). judged f" by (auto simp: scan_inv_def)
  have "\<forall>c \<in> set (dc_candidates (snd rc)). fc_detector_type c = dc_detector_type (snd rc)"
    using assms(4) rc by (auto simp: cell_ok_def)
  with reconcile_wf [OF wf rec] reconcile_counted [OF wf cnt rec]
    reconcile_lifecycle [OF wf rec order_refl lc] reconcile_judged [OF wf rec jd]
  show "scan_inv t (ac_db v)" by (simp add: scan_inv_def)
qed

section \<open>When a scan cannot raise\<close>

text \<open>No finding of the cell has an observation row of the scan.\<close>

definition untouched :: "db \<Rightarrow> scan \<Rightarrow> pystr \<times> detection_cell \<Rightarrow> bool" where
  "untouched d s rc \<longleftrightarrow>
     (\<forall>f \<in> set (db_findings d).
        in_cell (scan_account s) (fst rc) (dc_detector_type (snd rc)) f \<longrightarrow>
        (\<forall>ob \<in> set (db_observations d). \<not> (ob_finding_id ob = f_id f \<and> ob_scan_id ob = s_id s)))"

lemma untouched_unobserved:
  assumes "wf_db d" and "untouched d s rc" and "cell_ok (scan_account s) rc"
  shows "unobserved d s (dc_candidates (snd rc))"
  unfolding unobserved_def
proof (intro ballI allI impI)
  fix c f ob
  assume c: "c \<in> set (dc_candidates (snd rc))" and f: "finding_at d (candidate_key c) = Some f"
    and ob: "ob \<in> set (db_observations d)"
  from finding_at_key [OF assms(1) f] have "key_of f = candidate_key c" "f \<in> set (db_findings d)" by auto
  moreover from assms(3) c have
    "key_in_cell (scan_account s) (fst rc) (dc_detector_type (snd rc)) (candidate_key c)"
    by (auto simp: cell_ok_def)
  ultimately show "\<not> (ob_finding_id ob = f_id f \<and> ob_scan_id ob = s_id s)"
    using assms(2) ob by (simp add: untouched_def in_cell_key)
qed

text \<open>Reconciling one cell adds observation rows only to findings of that cell.\<close>

lemma reconcile_rows:
  assumes "wf_db d" and "reconcile d s region dt cs CELL_COMPLETE st t = Inr (d', r)"
    and "ob \<in> set (db_observations d')"
    and "f \<in> set (db_findings d')" and "ob_finding_id ob = f_id f"
    and "key_of f \<notin> candidate_key ` set cs"
  shows "ob \<in> set (db_observations d)"
proof -
  obtain rs where loop: "reconcile_candidates st dt s t d cs = Inr rs"
    and fin: "resolve_missing (existing_ids_of_cell d s region dt) t rs = (d', r)"
    by (rule reconcile_complete_Inr [OF assms(2)])
  note spec = reconcile_candidates_spec [OF assms(1) loop]
  then have wf: "wf_db (rs_db rs)" by (simp add: loop_spec_def)
  from fin assms(4) obtain g where g: "g \<in> set (db_findings (rs_db rs))" "f_id g = f_id f" "key_of g = key_of f"
    by (auto simp: resolve_missing_def Let_def)
  from loop_observed_ids [OF spec, of "key_of g" g] g assms(6) finding_at_set [OF wf, of g]
  have "f_id f \<notin> set (rs_observed rs)" by simp
  moreover have "db_observations d' = db_observations (rs_db rs)"
    using fin by (auto simp: resolve_missing_def Let_def)
  ultimately show ?thesis using spec assms(3,5) by (auto simp: loop_spec_def)
qed

lemma reconcile_keys:
  assumes "wf_db d" and "reconcile d s region dt cs CELL_COMPLETE st t = Inr (d', r)"
    and "f \<in> set (db_findings d')" and "key_of f \<notin> candidate_key ` set cs"
  shows "\<exists>f0 \<in> set (db_findings d). f_id f0 = f_id f \<and> key_of f0 = key_of f"
proof -
  have "finding_at d' (key_of f) = Some f"
    using finding_at_set [OF reconcile_refines(1) [OF assms(1,2)], of f] assms(3) by simp
  with reconcile_refines(4) [OF assms(1,2,4)] have
    "\<exists>f0. finding_at d (key_of f) = Some f0 \<and> f_id f0 = f_id f"
    by (cases "finding_at d (key_of f)") (auto simp: resolve_if_active_def split: if_splits)
  with finding_at_key [OF assms(1)] show ?thesis by metis
qed

lemma untouched_step:
  assumes "wf_db (ac_db acc)" and "reconcile_cell s st t acc rc = Inr acc'"
    and "cell_ok (scan_account s) rc" and "cell_id rc' \<noteq> cell_id rc" and "untouched (ac_db acc) s rc'"
  shows "untouched (ac_db acc') s rc'"
proof -
  from reconcile_cell_Inr [OF assms(2)] obtain r where
    rec: "reconcile (ac_db acc) s (fst rc) (dc_detector_type (snd rc)) (dc_candidates (snd rc))
      (dc_status (snd rc)) st t = Inr (ac_db acc', r)" by blast
  show ?thesis
  proof (cases "dc_status (snd rc) = CELL_COMPLETE")
    case False
    with rec assms(5) show ?thesis by (simp add: reconcile_incomplete)
  next
    case True
    note rec = rec [unfolded True]
    show ?thesis unfolding untouched_def
    proof (intro ballI impI notI)
      fix f ob
      assume f: "f \<in> set (db_findings (ac_db acc'))"
        and cell: "in_cell (scan_account s) (fst rc') (dc_detector_type (snd rc')) f"
        and ob: "ob \<in> set (db_observations (ac_db acc'))"
        and eq: "ob_finding_id ob = f_id f \<and> ob_scan_id ob = s_id s"
      have notin: "key_of f \<notin> candidate_key ` set (dc_candidates (snd rc))"
        using assms(3,4) cell
        by (cases "key_of f") (fastforce simp: cell_ok_def key_in_cell_def in_cell_key)
      from reconcile_keys [OF assms(1) rec f notin] obtain f0 where
        "f0 \<in> set (db_findings (ac_db acc))" "f_id f0 = f_id f" "key_of f0 = key_of f" by blast
      with assms(5) cell eq reconcile_rows [OF assms(1) rec ob f _ notin] show False
        by (auto simp: untouched_def in_cell_key)
    qed
  qed
qed

lemma run_cells_ok:
  assumes "wf_db (ac_db acc)" and "thresholds_total st"
    and "\<forall>rc \<in> set cells. cell_ok (scan_account s) rc"
    and "\<forall>rc \<in> set cells. distinct (map candidate_key (dc_candidates (snd rc)))"
    and "distinct (map cell_id cells)" and "\<forall>rc \<in> set cells. untouched (ac_db acc) s rc"
  shows "r_ok (run_cells s st t acc cells)"
  using assms
proof (induction cells arbitrary: acc)
  case Nil
  then show ?case by simp
next
  case (Cons rc cells)
  have "unobserved (ac_db acc) s (dc_candidates (snd rc))"
    by (rule untouched_unobserved) (use Cons.prems in auto)
  with Cons.prems have "r_ok (reconcile (ac_db acc) s (fst rc) (dc_detector_type (snd rc))
      (dc_candidates (snd rc)) (dc_status (snd rc)) st t)" by (intro reconcile_ok) auto
  then have "r_ok (reconcile_cell s st t acc rc)"
    by (cases rc) (auto simp: reconcile_cell_def r_ok_iff)
  then obtain acc1 where 1: "reconcile_cell s st t acc rc = Inr acc1" by (auto simp: r_ok_iff)
  from reconcile_cell_Inr [OF 1] reconcile_wf [OF Cons.prems(1)] have "wf_db (ac_db acc1)" by blast
  moreover have "\<forall>rc' \<in> set cells. untouched (ac_db acc1) s rc'"
  proof
    fix rc'
    assume rc': "rc' \<in> set cells"
    have "cell_id rc \<notin> cell_id ` set cells" using Cons.prems(5) by simp
    moreover have "cell_id rc' \<in> cell_id ` set cells" using rc' by (rule imageI)
    ultimately have "cell_id rc' \<noteq> cell_id rc" by (rule_tac notI) (simp only: simp_thms)
    from untouched_step [OF Cons.prems(1) 1 _ this] Cons.prems(3,6) rc'
    show "untouched (ac_db acc1) s rc'" by auto
  qed
  ultimately have "r_ok (run_cells s st t acc1 cells)" using Cons.prems by (intro Cons.IH) auto
  with 1 show ?case by simp
qed

end
