(* ===== verification/Runs.thy ===== *)
theory Runs
  imports Scan "HOL-Library.Multiset"
begin

text \<open>
  Whole runs of the scan: how a run can end, what it keeps, which findings it may change, when
  it cannot raise, and what the stored findings say of the provider's inventory after it.
\<close>

section \<open>How a run ends\<close>

text \<open>The two early ends change no finding and no observation.\<close>

definition failed_early :: "db \<Rightarrow> db \<Rightarrow> scan \<Rightarrow> bool" where
  "failed_early d d' s' \<longleftrightarrow>
     db_findings d' = db_findings d \<and> db_observations d' = db_observations d \<and>
     db_next_id d \<le> db_next_id d' \<and> s_status s' = SCAN_FAILED \<and> length (s_errors s') = 1"

text \<open>A run that went through its regions, with everything it computed on the way.\<close>

definition ran ::
  "cloud_provider \<Rightarrow> 's pricing \<Rightarrow> app_settings \<Rightarrow> db \<Rightarrow> 's \<Rightarrow> pystr list option \<Rightarrow> uuid option \<Rightarrow>
   instant \<Rightarrow> db \<Rightarrow> scan \<Rightarrow> identity \<Rightarrow> region_info list \<Rightarrow> scan \<Rightarrow> db \<Rightarrow>
   region_detection list \<Rightarrow> scan_acc \<Rightarrow> bool" where
  "ran P pricing st d ps requested scan_id finished d' s' ident infos s d1 dets acc \<longleftrightarrow>
     get_identity P = Inr ident \<and> list_regions P = Inr infos \<and>
     s_account_id s = Some (id_account_id ident) \<and>
     s_requested_regions s = s_requested_regions s' \<and>
     db_findings d1 = db_findings d \<and> db_observations d1 = db_observations d \<and>
     db_next_id d \<le> db_next_id d1 \<and>
     (\<exists>ps'. run_detections P pricing st ident (s_started_at s) ps infos (s_requested_regions s) =
              (ps', dets)) \<and>
     run_cells s st (s_started_at s)
       \<lparr>ac_db = d1, ac_new = s_new_findings s, ac_persistent = s_persistent_findings s,
        ac_resolved = s_resolved_findings s, ac_ignored = s_ignored_findings s,
        ac_errors = [], ac_observed = []\<rparr> (all_cells dets) = Inr acc \<and>
     (d', s') = finish_scan s (filter (\<lambda>r. \<not> not_opted_in infos r) (s_requested_regions s))
                  dets acc finished"

lemma scan_row_Inr:
  assumes "scan_row P d requested scan_id started = Inr (d1, s)"
  shows "db_findings d1 = db_findings d" "db_observations d1 = db_observations d"
    "db_next_id d \<le> db_next_id d1"
    "s_id s = (case scan_id of None \<Rightarrow> db_next_id d | Some i \<Rightarrow> i)"
    "s_status s = SCAN_RUNNING"
    "scan_id = None \<Longrightarrow> s_started_at s = started"
  using assms
  by (auto simp: scan_row_def new_scan_def Let_def get_scan_def find_Some_iff
      split: option.splits if_splits)

lemma finish_scan_simps:
  assumes "finish_scan s runnable dets acc finished = (d', s')"
  shows "s_id s' = s_id s" "s_account_id s' = s_account_id s" "s_started_at s' = s_started_at s"
    "s_requested_regions s' = s_requested_regions s" "s_status s' = final_status runnable dets"
    "db_findings d' = db_findings (ac_db acc)" "db_observations d' = db_observations (ac_db acc)"
    "db_next_id d' = db_next_id (ac_db acc)"
    "s_coverage s' = map_of (rev (map (\<lambda>rd. (rd_region rd, coverage_of rd)) dets))"
  using assms by (auto simp: finish_scan_def Let_def)

lemma finish_scan_lists:
  assumes "finish_scan s runnable dets acc finished = (d', s')"
  shows "s_completed_regions s' = regions_with REGION_COMPLETE dets"
    "s_partial_regions s' = regions_with REGION_PARTIAL dets"
    "s_failed_regions s' = regions_with REGION_FAILED dets"
    "s_skipped_regions s' = regions_with REGION_SKIPPED dets" "s_finished_at s' = Some finished"
    "s_estimated_exposure s' =
       dec_sum (exposure_costs {COST_HIGH, COST_MEDIUM} (observed_findings acc))"
    "s_potential_exposure_low_confidence s' =
       dec_sum (exposure_costs {COST_LOW} (observed_findings acc))"
    "s_errors s' = ac_errors acc"
  using assms by (auto simp: finish_scan_def Let_def)

lemma run_scan_cases:
  assumes "run_scan P pricing st d ps requested scan_id started finished = (ps', Inr (d', s'))"
  obtains (early) "failed_early d d' s'" and "\<not> (r_ok (get_identity P) \<and> r_ok (list_regions P))"
  | (ran) ident infos s d1 dets acc where
      "ran P pricing st d ps requested scan_id finished d' s' ident infos s d1 dets acc"
      and "scan_id = None \<longrightarrow> s_started_at s = started"
      and "s_id s = (case scan_id of None \<Rightarrow> db_next_id d | Some i \<Rightarrow> i)"
proof -
  from assms obtain d1 s1 where row: "scan_row P d requested scan_id started = Inr (d1, s1)"
    by (auto simp: run_scan_def split: sum.splits)
  note facts = scan_row_Inr [OF row]
  have fails: "failed_early d (fst (fail_scan d1 s finished e)) (snd (fail_scan d1 s finished e))" for s e
    using facts by (simp add: failed_early_def fail_scan_def Let_def)
  show thesis
  proof (cases "get_identity P")
    case (Inl e)
    with assms row have "\<exists>e. fail_scan d1 s1 finished e = (d', s')"
      by (auto simp: run_scan_def split: py_exc.splits provider_error.splits)
    then obtain e where "fail_scan d1 s1 finished e = (d', s')" by blast
    with fails [of s1 e] Inl show thesis by (intro early) simp_all
  next
    case (Inr ident)
    let ?s2 = "s1\<lparr>s_account_id := Some (id_account_id ident),
        s_principal_arn := Some (id_principal_arn ident)\<rparr>"
    show thesis
    proof (cases "list_regions P")
      case (Inl e)
      with assms row Inr have "\<exists>e. fail_scan d1 ?s2 finished e = (d', s')"
        by (auto simp: run_scan_def Let_def split: py_exc.splits)
      then obtain e where "fail_scan d1 ?s2 finished e = (d', s')" by blast
      with fails [of ?s2 e] Inl show thesis by (intro early) simp_all
    next
      case infos: (Inr infos)
      let ?regions = "chosen_regions requested scan_id s1 st infos"
      let ?s3 = "?s2\<lparr>s_requested_regions := ?regions\<rparr>"
      obtain ps1 dets where det: "run_detections P pricing st ident (s_started_at ?s3) ps infos ?regions =
          (ps1, dets)" by fastforce
      from assms row Inr infos have
        "scan_regions P pricing st ident infos ?regions ?s3 d1 ps (s_started_at s1) finished =
         (ps', Inr (d', s'))" by (simp add: run_scan_def Let_def)
      with det obtain acc where
        "run_cells ?s3 st (s_started_at ?s3)
           \<lparr>ac_db = d1, ac_new = s_new_findings ?s3, ac_persistent = s_persistent_findings ?s3,
            ac_resolved = s_resolved_findings ?s3, ac_ignored = s_ignored_findings ?s3,
            ac_errors = [], ac_observed = []\<rparr> (all_cells dets) = Inr acc"
        and fin: "finish_scan ?s3 (filter (\<lambda>r. \<not> not_opted_in infos r) ?regions) dets acc finished = (d', s')"
        by (auto simp: scan_regions_def split: if_splits)
      with det Inr infos facts finish_scan_simps(4) [OF fin]
      have "ran P pricing st d ps requested scan_id finished d' s' ident infos ?s3 d1 dets acc"
        by (simp add: ran_def)
      then show thesis by (rule ran) (use facts in simp_all)
    qed
  qed
qed

section \<open>What the cells of a run are\<close>

lemma ran_facts:
  assumes "ran P pricing st d ps requested scan_id finished d' s' ident infos s d1 dets acc"
  shows "scan_account s = id_account_id ident" and "map rd_region dets = s_requested_regions s'"
    and "\<forall>rd \<in> set dets. good_detection P st ident (s_started_at s) rd"
    and "\<forall>rc \<in> set (all_cells dets). cell_ok (scan_account s) rc"
    and "finish_scan s (filter (\<lambda>r. \<not> not_opted_in infos r) (s_requested_regions s))
           dets acc finished = (d', s')"
proof -
  from assms show acct: "scan_account s = id_account_id ident" by (simp add: ran_def scan_account_def)
  from assms obtain ps' where det: "run_detections P pricing st ident (s_started_at s) ps infos
      (s_requested_regions s) = (ps', dets)" and req: "s_requested_regions s = s_requested_regions s'"
    by (auto simp: ran_def)
  from run_detections_good(1,2) [OF det] req show "map rd_region dets = s_requested_regions s'"
    and good: "\<forall>rd \<in> set dets. good_detection P st ident (s_started_at s) rd" by auto
  show "\<forall>rc \<in> set (all_cells dets). cell_ok (scan_account s) rc"
  proof (clarify)
    fix region cell
    assume "(region, cell) \<in> set (all_cells dets)"
    then obtain rd where "rd \<in> set dets" "rd_region rd = region" "cell \<in> set (rd_cells rd)"
      by (auto simp: set_all_cells)
    with good have "good_cell P region (context_of st ident (s_started_at s) region) cell"
      by (auto simp: good_detection_def)
    from good_cell_candidate [OF this] show "cell_ok (scan_account s) (region, cell)"
      by (auto simp: cell_ok_def acct context_of_def)
  qed
  from assms show "finish_scan s (filter (\<lambda>r. \<not> not_opted_in infos r) (s_requested_regions s))
           dets acc finished = (d', s')" by (simp add: ran_def)
qed

text \<open>The finding of a key was covered by a scan: its cell is recorded as complete.\<close>

definition cell_complete :: "scan \<Rightarrow> pystr \<Rightarrow> detector_type \<Rightarrow> bool" where
  "cell_complete s region dt \<longleftrightarrow>
     (case s_coverage s region of
        None \<Rightarrow> False
      | Some rc \<Rightarrow>
          (case map_of (rc_detectors rc) dt of
             None \<Rightarrow> False
           | Some cell \<Rightarrow> cc_status cell = CELL_COMPLETE))"

lemma coverage_cell:
  assumes "distinct (map dc_detector_type (rd_cells rd))" and "cell \<in> set (rd_cells rd)"
  shows "\<exists>cc. map_of (rc_detectors (coverage_of rd)) (dc_detector_type cell) = Some cc \<and>
           cc_status cc = dc_status cell"
proof -
  have "distinct (map fst (rc_detectors (coverage_of rd)))"
    using assms(1) by (simp add: coverage_of_def comp_def)
  with assms(2) show ?thesis
    unfolding coverage_of_def by (auto intro!: exI map_of_is_SomeI)
qed

lemma ran_coverage:
  assumes "ran P pricing st d ps requested scan_id finished d' s' ident infos s d1 dets acc"
    and "(region, cell) \<in> set (all_cells dets)"
  shows "cell_complete s' region (dc_detector_type cell) \<longleftrightarrow> dc_status cell = CELL_COMPLETE"
proof -
  note facts = ran_facts [OF assms(1)]
  from assms(1) obtain ps' where "run_detections P pricing st ident (s_started_at s) ps infos
      (s_requested_regions s) = (ps', dets)" by (auto simp: ran_def)
  from run_detections_good(1) [OF this] run_detections_good(3) [OF this] obtain D where
    D: "dets = map D (s_requested_regions s)" "map rd_region dets = s_requested_regions s" by blast
  from assms(2) obtain rd where rd: "rd \<in> set dets" "rd_region rd = region" "cell \<in> set (rd_cells rd)"
    by (auto simp: set_all_cells)
  have same: "rd' = rd" if "rd' \<in> set dets" "rd_region rd' = region" for rd'
  proof -
    have "map (\<lambda>r. rd_region (D r)) (s_requested_regions s) = s_requested_regions s"
      using D by (simp add: comp_def)
    from map_fixed [OF this] D(1) that rd show ?thesis by auto
  qed
  have "s_coverage s' region = Some (coverage_of rd)"
  proof -
    have "map_of (rev (map (\<lambda>rd. (rd_region rd, coverage_of rd)) dets)) region \<noteq> None"
      using rd by (auto simp: map_of_eq_None_iff image_image)
    then obtain c where c: "map_of (rev (map (\<lambda>rd. (rd_region rd, coverage_of rd)) dets)) region = Some c"
      by auto
    from map_of_SomeD [OF this] same have "c = coverage_of rd" by auto
    with c show ?thesis using finish_scan_simps(9) [OF facts(5)] by simp
  qed
  moreover have "distinct (map dc_detector_type (rd_cells rd))"
    using good_detection_cells_distinct facts(3) rd(1) by blast
  ultimately show ?thesis using coverage_cell [of rd cell] rd(3) by (auto simp: cell_complete_def)
qed

section \<open>What a run keeps and what it changes\<close>

lemma finding_at_same: "db_findings d' = db_findings d \<Longrightarrow> finding_at d' = finding_at d"
  by (simp add: finding_at_def)

lemma wf_db_same:
  "db_findings d' = db_findings d \<Longrightarrow> db_observations d' = db_observations d \<Longrightarrow>
     db_next_id d \<le> db_next_id d' \<Longrightarrow> wf_db d \<Longrightarrow> wf_db d'"
  by (auto simp: wf_db_def)

lemma scan_inv_same:
  "db_findings d' = db_findings d \<Longrightarrow> db_observations d' = db_observations d \<Longrightarrow>
     db_next_id d \<le> db_next_id d' \<Longrightarrow> scan_inv now d \<Longrightarrow> now \<le> t \<Longrightarrow> scan_inv t d'"
  using wf_db_same [of d' d] lifecycle_mono unfolding scan_inv_def counted_def by metis

lemma run_scan_keeps_inv:
  assumes "run_scan P pricing st d ps requested scan_id started finished = (ps', Inr (d', s'))"
    and "scan_inv now d" and "now \<le> s_started_at s'" and "now \<le> finished"
  shows "scan_inv (max finished (s_started_at s')) d'"
proof (cases rule: run_scan_cases [OF assms(1)])
  case 1
  then show ?thesis using assms(2,3) scan_inv_same [of d' d now] by (simp add: failed_early_def)
next
  case (2 ident infos s d1 dets acc)
  note facts = ran_facts [OF 2(1)]
  note fin = finish_scan_simps [OF facts(5)]
  from 2(1) have d1: "db_findings d1 = db_findings d" "db_observations d1 = db_observations d"
    "db_next_id d \<le> db_next_id d1" by (auto simp: ran_def)
  from 2(1) have cells: "run_cells s st (s_started_at s)
       \<lparr>ac_db = d1, ac_new = s_new_findings s, ac_persistent = s_persistent_findings s,
        ac_resolved = s_resolved_findings s, ac_ignored = s_ignored_findings s,
        ac_errors = [], ac_observed = []\<rparr> (all_cells dets) = Inr acc" by (simp add: ran_def)
  have "scan_inv (s_started_at s) (ac_db acc)"
    by (rule run_cells_inv [OF cells _ _ facts(4), of now])
      (use assms(2,3) d1 scan_inv_same [OF d1] fin in auto)
  then have "scan_inv (s_started_at s) d'" using fin by (intro scan_inv_same [OF _ _ _ \<open>scan_inv (s_started_at s) (ac_db acc)\<close>]) auto
  then show ?thesis using fin scan_inv_same [of d' d' "s_started_at s"] by simp
qed

text \<open>
  A scan changes only findings of its account whose cell it recorded as complete: a denied,
  failed, skipped or unvisited cell never resolves anything.
\<close>

definition key_covered :: "scan \<Rightarrow> finding_key \<Rightarrow> bool" where
  "key_covered s k \<longleftrightarrow>
     (case k of (a, region, rt, rid, dt) \<Rightarrow>
        s_account_id s = Some a \<and> cell_complete s region dt)"

lemma run_scan_unchanged:
  assumes "run_scan P pricing st d ps requested scan_id started finished = (ps', Inr (d', s'))"
    and "wf_db d" and "\<not> key_covered s' k"
  shows "finding_at d' k = finding_at d k"
proof (cases rule: run_scan_cases [OF assms(1)])
  case 1
  then show ?thesis by (simp add: failed_early_def finding_at_def)
next
  case (2 ident infos s d1 dets acc)
  note facts = ran_facts [OF 2(1)]
  note fin = finish_scan_simps [OF facts(5)]
  from 2(1) have d1: "db_findings d1 = db_findings d" "db_observations d1 = db_observations d"
    "db_next_id d \<le> db_next_id d1" and acct: "s_account_id s = Some (id_account_id ident)"
    and cells: "run_cells s st (s_started_at s)
       \<lparr>ac_db = d1, ac_new = s_new_findings s, ac_persistent = s_persistent_findings s,
        ac_resolved = s_resolved_findings s, ac_ignored = s_ignored_findings s,
        ac_errors = [], ac_observed = []\<rparr> (all_cells dets) = Inr acc"
    by (auto simp: ran_def)
  have "\<forall>rc \<in> set (all_cells dets). \<not> covers (scan_account s) rc k"
  proof (intro ballI notI)
    fix rc
    assume rc: "rc \<in> set (all_cells dets)" and cov: "covers (scan_account s) rc k"
    with ran_coverage [OF 2(1), of "fst rc" "snd rc"] have
      "cell_complete s' (fst rc) (dc_detector_type (snd rc))" by (simp add: covers_def)
    with cov acct fin facts(1) assms(3) show False
      by (cases k) (auto simp: covers_def key_in_cell_def key_covered_def)
  qed
  from run_cells_frame [OF cells _ facts(4) this] d1 assms(2) wf_db_same [OF d1]
  have "finding_at (ac_db acc) k = finding_at d k" by (simp add: finding_at_same [OF d1(1)])
  then show ?thesis using fin by (simp add: finding_at_def)
qed

section \<open>When a run cannot raise\<close>

lemma run_scan_total:
  assumes "r_ok (get_identity P)" and "provider_only (list_regions P)"
    and "thresholds_total st" and "0 < st_max_region_concurrency st" and "wf_db d"
    and regions: "\<And>rs. requested = None \<Longrightarrow> st_regions st = Some rs \<Longrightarrow> distinct rs"
    and fresh: "\<forall>ob \<in> set (db_observations d). ob_scan_id ob \<noteq> db_next_id d"
    and once: "\<And>region ctx. lists_once P region ctx"
  shows "\<exists>ps' d' s'. run_scan P pricing st d ps requested None started finished = (ps', Inr (d', s'))"
proof -
  obtain ident where ident: "get_identity P = Inr ident" using assms(1) by (auto simp: r_ok_iff)
  let ?s1 = "new_scan (db_next_id d) (cp_mode P) requested started"
  let ?d1 = "d\<lparr>db_scans := put_scan (db_scans d) ?s1, db_next_id := Suc (db_next_id d)\<rparr>"
  have row: "scan_row P d requested None started = Inr (?d1, ?s1)"
    by (simp add: scan_row_def Let_def)
  show ?thesis
  proof (cases "list_regions P")
    case (Inl e)
    with assms(2) obtain pe where "e = Prov pe" by (cases e) (auto simp: provider_only_def)
    with Inl ident row show ?thesis by (simp add: run_scan_def Let_def fail_scan_def)
  next
    case infos: (Inr infos)
    let ?regions = "chosen_regions requested None ?s1 st infos"
    let ?s3 = "?s1\<lparr>s_account_id := Some (id_account_id ident),
        s_principal_arn := Some (id_principal_arn ident), s_requested_regions := ?regions\<rparr>"
    have dist: "distinct ?regions"
      using regions by (auto simp: chosen_regions_def split: option.splits)
    obtain ps1 dets where det: "run_detections P pricing st ident started ps infos ?regions = (ps1, dets)"
      by fastforce
    note good = run_detections_good [OF det]
    have acct: "scan_account ?s3 = id_account_id ident" by (simp add: scan_account_def)
    have cell: "cell_ok (scan_account ?s3) rc \<and> distinct (map candidate_key (dc_candidates (snd rc)))"
      if "rc \<in> set (all_cells dets)" for rc
    proof -
      from that obtain rd where "rd \<in> set dets" "rd_region rd = fst rc" "snd rc \<in> set (rd_cells rd)"
        using set_all_cells [of "fst rc" "snd rc" dets] by auto
      with good(2) have gc: "good_cell P (fst rc) (context_of st ident started (fst rc)) (snd rc)"
        by (auto simp: good_detection_def)
      from good_cell_candidate [OF gc] good_cell_distinct [OF gc once] show ?thesis
        by (auto simp: cell_ok_def acct context_of_def)
    qed
    have "\<forall>rc \<in> set (all_cells dets). untouched ?d1 ?s3 rc"
      using fresh by (auto simp: untouched_def new_scan_def)
    moreover have "distinct (map cell_id (all_cells dets))"
      by (rule all_cells_distinct [OF good(2)]) (simp add: good(1) dist)
    moreover have "wf_db ?d1" by (rule wf_db_same [OF _ _ _ assms(5)]) auto
    ultimately have "r_ok (run_cells ?s3 st started
           \<lparr>ac_db = ?d1, ac_new = s_new_findings ?s3, ac_persistent = s_persistent_findings ?s3,
            ac_resolved = s_resolved_findings ?s3, ac_ignored = s_ignored_findings ?s3,
            ac_errors = [], ac_observed = []\<rparr> (all_cells dets))"
      using cell assms(3) by (intro run_cells_ok) auto
    then obtain acc where "run_cells ?s3 st started
           \<lparr>ac_db = ?d1, ac_new = s_new_findings ?s3, ac_persistent = s_persistent_findings ?s3,
            ac_resolved = s_resolved_findings ?s3, ac_ignored = s_ignored_findings ?s3,
            ac_errors = [], ac_observed = []\<rparr> (all_cells dets) = Inr acc"
      by (auto simp: r_ok_iff)
    moreover have "s_started_at ?s1 = started" by (simp add: new_scan_def)
    ultimately have "\<exists>res. snd (scan_regions P pricing st ident infos ?regions ?s3 ?d1 ps started finished) = Inr res"
      using det assms(4) by (simp add: scan_regions_def)
    then obtain ps2 d' s' where
      "scan_regions P pricing st ident infos ?regions ?s3 ?d1 ps started finished = (ps2, Inr (d', s'))"
      by (metis prod.collapse)
    with row ident infos \<open>s_started_at ?s1 = started\<close> show ?thesis by (simp add: run_scan_def Let_def)
  qed
qed

section \<open>The findings mirror the inventory\<close>

lemma detector_by_type:
  assumes "det \<in> set detectors" and "det' \<in> set detectors" and "det_type det = det_type det'"
  shows "det = det'"
  using assms distinct_detector_types by (metis distinct_map inj_onD)

text \<open>
  After a run, in a cell recorded as complete, the active findings of the account are exactly
  the resources that the detector reports.
\<close>

lemma cell_complete_cell:
  assumes "ran P pricing st d ps requested scan_id finished d' s' ident infos s d1 dets acc"
    and "cell_complete s' region dt"
  shows "\<exists>cell. (region, cell) \<in> set (all_cells dets) \<and> dc_detector_type cell = dt \<and>
           dc_status cell = CELL_COMPLETE"
proof -
  note facts = ran_facts [OF assms(1)]
  from assms(2) obtain rc cc where rc: "s_coverage s' region = Some rc"
    and cc: "map_of (rc_detectors rc) dt = Some cc" by (auto simp: cell_complete_def split: option.splits)
  from rc finish_scan_simps(9) [OF facts(5)] have
    "map_of (rev (map (\<lambda>rd. (rd_region rd, coverage_of rd)) dets)) region = Some rc" by simp
  from map_of_SomeD [OF this] obtain rd where rd: "rd \<in> set dets" "rd_region rd = region" "rc = coverage_of rd"
    by auto
  from map_of_SomeD [OF cc] rd(3) obtain cell where cell: "cell \<in> set (rd_cells rd)" "dc_detector_type cell = dt"
    by (auto simp: coverage_of_def)
  with rd have "(region, cell) \<in> set (all_cells dets)" by (auto simp: set_all_cells)
  with ran_coverage [OF assms(1) this] cell(2) assms(2) show ?thesis by blast
qed

lemma run_scan_mirror:
  assumes run: "run_scan P pricing st d ps requested scan_id started finished = (ps', Inr (d', s'))"
    and "wf_db d" and "distinct (s_requested_regions s')"
    and "det \<in> set detectors" and "cell_complete s' region (det_type det)"
    and "s_account_id s' = Some a" and "get_identity P = Inr ident" and "r_ok (list_regions P)"
    and "k = (a, region, rt, rid, det_type det)"
  shows "\<exists>cs. det_scan det P region (context_of st ident (s_started_at s') region) = Inr cs \<and>
           ((\<exists>f. finding_at d' k = Some f \<and> active f) \<longleftrightarrow> k \<in> candidate_key ` set cs)"
proof (cases rule: run_scan_cases [OF run])
  case 1
  with assms(7,8) show ?thesis by simp
next
  case (2 ident' infos s d1 dets acc)
  note facts = ran_facts [OF 2(1)]
  note fin = finish_scan_simps [OF facts(5)]
  from 2(1) have d1: "db_findings d1 = db_findings d" "db_observations d1 = db_observations d"
    "db_next_id d \<le> db_next_id d1" and acct: "s_account_id s = Some (id_account_id ident')"
    and cells: "run_cells s st (s_started_at s)
       \<lparr>ac_db = d1, ac_new = s_new_findings s, ac_persistent = s_persistent_findings s,
        ac_resolved = s_resolved_findings s, ac_ignored = s_ignored_findings s,
        ac_errors = [], ac_observed = []\<rparr> (all_cells dets) = Inr acc"
    and ident: "ident' = ident" using assms(7) by (auto simp: ran_def)
  from cell_complete_cell [OF 2(1) assms(5)] obtain cell where
    cell: "(region, cell) \<in> set (all_cells dets)" "dc_detector_type cell = det_type det"
    "dc_status cell = CELL_COMPLETE" by blast
  then obtain rd where rd: "rd \<in> set dets" "rd_region rd = region" "cell \<in> set (rd_cells rd)"
    by (auto simp: set_all_cells)
  with facts(3) have "good_cell P region (context_of st ident' (s_started_at s) region) cell"
    by (auto simp: good_detection_def)
  with cell obtain det' cs where det': "det' \<in> set detectors" "det_type det' = det_type det"
    "det_scan det' P region (context_of st ident' (s_started_at s) region) = Inr cs"
    "list_all2 (enriches P region) cs (dc_candidates cell)"
    by (auto simp: good_cell_def)
  then have scan: "det_scan det P region (context_of st ident (s_started_at s') region) = Inr cs"
    using detector_by_type [OF det'(1) assms(4)] ident fin by simp
  have keys: "candidate_key ` set (dc_candidates cell) = candidate_key ` set cs"
    using list_all2_keys [OF det'(4)] by (metis list.set_map)
  have cov: "covers (scan_account s) (region, cell) k"
    using cell assms(6,9) acct fin facts(1) by (simp add: covers_def key_in_cell_def)
  have "distinct (map cell_id (all_cells dets))"
    by (rule all_cells_distinct [OF facts(3)]) (simp add: facts(2) assms(3))
  note distinct_cells = this
  have at': "finding_at d' k = finding_at (ac_db acc) k" "finding_at d1 k = finding_at d k"
    using fin d1 by (simp_all add: finding_at_def)
  have wf1: "wf_db d1" by (rule wf_db_same [OF d1 assms(2)])
  note at = run_cells_at [OF cells _ facts(4) distinct_cells cell(1) cov, unfolded snd_conv
      scan_acc.select_convs, OF wf1, unfolded at'(2), folded at'(1)]
  have "(\<exists>f. finding_at d' k = Some f \<and> active f) \<longleftrightarrow> k \<in> candidate_key ` set (dc_candidates cell)"
  proof (cases "k \<in> candidate_key ` set (dc_candidates cell)")
    case True
    then obtain c where "c \<in> set (dc_candidates cell)" "candidate_key c = k" by auto
    with at obtain i f where "observe st (dc_detector_type cell) s (s_started_at s) c i
        (finding_at d k) = Inr f" "finding_at d' k = Some f" by blast
    moreover from observe_status [OF this(1)] have "active f"
      by (auto simp: active_def open_or_ignored_def split: option.splits if_splits)
    ultimately show ?thesis using True by blast
  next
    case False
    with at have "finding_at d' k = map_option (resolve_if_active (s_started_at s)) (finding_at d k)"
      by blast
    then show ?thesis using False
      by (auto simp: resolve_if_active_def active_def resolve_finding_def)
  qed
  with scan keys show ?thesis by auto
qed

section \<open>Regions and status of a run\<close>

lemma regions_partition:
  "mset (regions_with REGION_COMPLETE dets) + mset (regions_with REGION_PARTIAL dets) +
   mset (regions_with REGION_FAILED dets) + mset (regions_with REGION_SKIPPED dets) =
   mset (map rd_region dets)"
proof (induction dets)
  case Nil
  then show ?case by (simp add: regions_with_def)
next
  case (Cons rd dets)
  then show ?case by (cases "rd_status rd") (simp_all add: regions_with_def)
qed

lemma regions_with_nonempty: "regions_with status dets \<noteq> [] \<longleftrightarrow> (\<exists>rd \<in> set dets. rd_status rd = status)"
  by (auto simp: regions_with_def filter_empty_conv)

lemma run_scan_regions:
  assumes "run_scan P pricing st d ps requested scan_id started finished = (ps', Inr (d', s'))"
    and "r_ok (get_identity P)" and "r_ok (list_regions P)"
  shows "mset (s_completed_regions s') + mset (s_partial_regions s') + mset (s_failed_regions s') +
           mset (s_skipped_regions s') = mset (s_requested_regions s') \<and>
         (s_status s' = SCAN_COMPLETED \<longrightarrow> s_partial_regions s' = [] \<and> s_failed_regions s' = []) \<and>
         s_status s' \<noteq> SCAN_RUNNING \<and> s_finished_at s' = Some finished"
proof (cases rule: run_scan_cases [OF assms(1)])
  case 1
  with assms(2,3) show ?thesis by simp
next
  case (2 ident infos s d1 dets acc)
  note facts = ran_facts [OF 2(1)]
  note lists = finish_scan_lists [OF facts(5)]
  have "s_status s' = SCAN_COMPLETED \<longrightarrow> s_partial_regions s' = [] \<and> s_failed_regions s' = []"
    and "s_status s' \<noteq> SCAN_RUNNING"
    unfolding finish_scan_simps(5) [OF facts(5)] lists final_status_def by simp_all
  then show ?thesis using regions_partition [of dets] facts(2) lists by simp
qed

section \<open>The row of a scan that was started without one\<close>

lemma run_scan_row:
  assumes "run_scan P pricing st d ps requested None started finished = (ps', Inr (d', s'))"
    and "get_identity P = Inr ident" and "list_regions P = Inr infos"
  shows "s_requested_regions s' =
           (case requested of
              Some rs \<Rightarrow> dedup rs
            | None \<Rightarrow> (case st_regions st of Some rs \<Rightarrow> rs | None \<Rightarrow> dedup (map ri_name infos)))"
    and "s_account_id s' = Some (id_account_id ident)" and "s_started_at s' = started"
    and "s_id s' = db_next_id d"
proof -
  let ?s1 = "new_scan (db_next_id d) (cp_mode P) requested started"
  let ?d1 = "d\<lparr>db_scans := put_scan (db_scans d) ?s1, db_next_id := Suc (db_next_id d)\<rparr>"
  let ?regions = "chosen_regions requested None ?s1 st infos"
  let ?s3 = "?s1\<lparr>s_account_id := Some (id_account_id ident),
      s_principal_arn := Some (id_principal_arn ident), s_requested_regions := ?regions\<rparr>"
  have "scan_row P d requested None started = Inr (?d1, ?s1)" by (simp add: scan_row_def Let_def)
  with assms have
    "scan_regions P pricing st ident infos ?regions ?s3 ?d1 ps (s_started_at ?s1) finished =
     (ps', Inr (d', s'))" by (simp add: run_scan_def Let_def)
  then obtain runnable dets acc where fin: "finish_scan ?s3 runnable dets acc finished = (d', s')"
    by (auto simp: scan_regions_def split: if_splits prod.splits)
  from finish_scan_simps(1-4) [OF fin]
  show "s_requested_regions s' =
           (case requested of
              Some rs \<Rightarrow> dedup rs
            | None \<Rightarrow> (case st_regions st of Some rs \<Rightarrow> rs | None \<Rightarrow> dedup (map ri_name infos)))"
    and "s_account_id s' = Some (id_account_id ident)" and "s_started_at s' = started"
    and "s_id s' = db_next_id d"
    by (simp_all add: chosen_regions_def new_scan_def)
qed

section \<open>No finding is lost\<close>

definition continues :: "finding \<Rightarrow> finding \<Rightarrow> bool" where
  "continues f0 f \<longleftrightarrow>
     f_id f = f_id f0 \<and> key_of f = key_of f0 \<and>
     f_first_observed_at f = f_first_observed_at f0 \<and> f_created_at f = f_created_at f0 \<and>
     f_first_scan_id f = f_first_scan_id f0 \<and>
     f_observation_count f0 \<le> f_observation_count f \<and>
     (f_status f0 = DISMISSED \<longrightarrow> f_status f \<in> {DISMISSED, RESOLVED}) \<and>
     f_dismissed_at f = f_dismissed_at f0 \<and> f_dismiss_reason f = f_dismiss_reason f0"

lemma continues_refl [simp]: "continues f f"
  by (simp add: continues_def)

lemma continues_resolve: "continues f (resolve_if_active t f)"
  by (simp add: continues_def resolve_if_active_def resolve_finding_def key_of_def)

lemma continues_observe:
  "observe st dt s t c i (Some f0) = Inr f \<Longrightarrow> continues f0 f"
  by (auto simp: continues_def observe_defs Let_def key_of_def split: option.splits)

lemma reconcile_continues:
  assumes "wf_db d" and "reconcile d s region dt cs cov st t = Inr (d', r)"
    and "finding_at d k = Some f0"
  shows "\<exists>f. finding_at d' k = Some f \<and> continues f0 f"
proof (cases "cov = CELL_COMPLETE")
  case False
  with assms show ?thesis by (simp add: reconcile_incomplete)
next
  case True
  note rec = assms(2) [unfolded True]
  show ?thesis
  proof (cases "k \<in> candidate_key ` set cs")
    case True
    then obtain c where c: "c \<in> set cs" "candidate_key c = k" by auto
    from reconcile_refines(3) [OF assms(1) rec c(1)] c(2) assms(3) show ?thesis
      by (auto dest: continues_observe)
  next
    case False
    from reconcile_refines(4) [OF assms(1) rec False] assms(3) show ?thesis
      by (auto simp: continues_resolve)
  qed
qed

text \<open>Every cell is reconciled at most once, so a run continues each finding at most once.\<close>

lemma run_scan_continues:
  assumes "run_scan P pricing st d ps requested scan_id started finished = (ps', Inr (d', s'))"
    and "wf_db d" and "distinct (s_requested_regions s')" and "finding_at d k = Some f0"
  shows "\<exists>f. finding_at d' k = Some f \<and> continues f0 f"
proof (cases rule: run_scan_cases [OF assms(1)])
  case 1
  with assms(4) have "finding_at d' k = Some f0" by (simp add: failed_early_def finding_at_def)
  then show ?thesis by simp
next
  case (2 ident infos s d1 dets acc)
  note facts = ran_facts [OF 2(1)]
  note fin = finish_scan_simps [OF facts(5)]
  from 2(1) have d1: "db_findings d1 = db_findings d" "db_observations d1 = db_observations d"
    "db_next_id d \<le> db_next_id d1"
    and cells: "run_cells s st (s_started_at s)
       \<lparr>ac_db = d1, ac_new = s_new_findings s, ac_persistent = s_persistent_findings s,
        ac_resolved = s_resolved_findings s, ac_ignored = s_ignored_findings s,
        ac_errors = [], ac_observed = []\<rparr> (all_cells dets) = Inr acc"
    by (auto simp: ran_def)
  have wf1: "wf_db d1" by (rule wf_db_same [OF d1 assms(2)])
  have at': "finding_at d' k = finding_at (ac_db acc) k" and at1: "finding_at d1 k = Some f0"
    using fin d1 assms(4) by (simp_all add: finding_at_def)
  show ?thesis
  proof (cases "\<exists>rc \<in> set (all_cells dets). covers (scan_account s) rc k")
    case False
    with run_cells_frame [OF cells _ facts(4), of k] wf1 at1 at' show ?thesis by simp
  next
    case True
    then obtain rc where rc: "rc \<in> set (all_cells dets)" "covers (scan_account s) rc k" by blast
    have "distinct (map cell_id (all_cells dets))"
      by (rule all_cells_distinct [OF facts(3)]) (simp add: facts(2) assms(3))
    note at = run_cells_at [OF cells _ facts(4) this rc, unfolded snd_conv scan_acc.select_convs,
        OF wf1, unfolded at1, folded at']
    show ?thesis
    proof (cases "k \<in> candidate_key ` set (dc_candidates (snd rc))")
      case True
      then obtain c where "c \<in> set (dc_candidates (snd rc))" "candidate_key c = k" by auto
      with at continues_observe show ?thesis by blast
    next
      case False
      with at have "finding_at d' k = map_option (resolve_if_active (s_started_at s)) (Some f0)" by blast
      with continues_resolve show ?thesis by simp
    qed
  qed
qed

end
