(* ===== verification/Remediation.thy ===== *)
theory Remediation
  imports Lifecycle
begin

text \<open>
  Eligibility for a guarded script (\<open>app/remediation/eligibility.py\<close>), the sentence about a
  finding's history (\<open>app/services/narrative.py\<close>) and the cleanup plan
  (\<open>app/remediation/plan.py\<close>). The main lemma characterises the findings that may get a
  deleting script, for every finding that satisfies the invariant the scans keep.
\<close>

section \<open>Eligibility\<close>

datatype unavailable_reason =
    R_NEWLY_OBSERVED
  | R_REMEDIATION_RISK_REVIEW
  | R_REMEDIATION_RISK_HIGH
  | R_CLOUDFORMATION_OWNED
  | R_BLOCKING_DEPENDENCY
  | R_FINDING_NOT_OPEN
  | R_DETECTOR_HAS_NO_DESTRUCTIVE_SCRIPT

fun script_unavailable_text :: "unavailable_reason \<Rightarrow> pystr" where
  "script_unavailable_text R_NEWLY_OBSERVED =
     lit ''The condition is newly observed and has not met the persistence threshold.''"
| "script_unavailable_text R_REMEDIATION_RISK_REVIEW =
     lit ''The finding requires human review before any remediation.''"
| "script_unavailable_text R_REMEDIATION_RISK_HIGH =
     lit ''The finding has high remediation risk.''"
| "script_unavailable_text R_CLOUDFORMATION_OWNED =
     lit ''The resource is owned by CloudFormation; change the stack instead.''"
| "script_unavailable_text R_BLOCKING_DEPENDENCY = lit ''A known dependency blocks remediation.''"
| "script_unavailable_text R_FINDING_NOT_OPEN = lit ''The finding is not open.''"
| "script_unavailable_text R_DETECTOR_HAS_NO_DESTRUCTIVE_SCRIPT =
     lit ''This detector has no destructive script.''"

text \<open>\<open>finding.ownership.get("status")\<close>.\<close>

definition owner_status :: "finding \<Rightarrow> ownership_status option" where
  "owner_status f = map_option ow_status (f_ownership f)"

definition script_kind_for :: "finding \<Rightarrow> script_kind \<times> unavailable_reason option" where
  "script_kind_for f =
     (if f_status f \<noteq> OPEN then (INVESTIGATION, Some R_FINDING_NOT_OPEN)
      else if f_detector_type f \<in> {STOPPED_EC2_INSTANCE, SNAPSHOT_MISSING_SOURCE_VOLUME}
      then (INVESTIGATION, Some R_DETECTOR_HAS_NO_DESTRUCTIVE_SCRIPT)
      else if owner_status f = Some OWN_CONFIRMED
      then (INVESTIGATION, Some R_CLOUDFORMATION_OWNED)
      else if blocking (f_known_dependencies f)
      then (INVESTIGATION, Some R_BLOCKING_DEPENDENCY)
      else if f_persistence_state f = NEWLY_OBSERVED
      then (INVESTIGATION, Some R_NEWLY_OBSERVED)
      else if f_remediation_risk f = RISK_HIGH
      then (INVESTIGATION, Some R_REMEDIATION_RISK_HIGH)
      else if f_remediation_risk f = RISK_REVIEW
      then (INVESTIGATION, Some R_REMEDIATION_RISK_REVIEW)
      else (GUARDED_REMEDIATION, None))"

lemma script_kind_reason:
  "fst (script_kind_for f) = GUARDED_REMEDIATION \<longleftrightarrow> snd (script_kind_for f) = None"
  by (simp add: script_kind_for_def)

lemma guarded_iff:
  assumes "judged f"
  shows "fst (script_kind_for f) = GUARDED_REMEDIATION \<longleftrightarrow>
     f_status f = OPEN \<and> f_detector_type f \<in> {UNATTACHED_EBS_VOLUME, UNASSOCIATED_ELASTIC_IP} \<and>
     f_persistence_state f = PERSISTENT \<and> owner_status f = Some OWN_UNKNOWN \<and>
     \<not> blocking (f_known_dependencies f)"
proof -
  from assms obtain ow where ow: "f_ownership f = Some ow"
    and risk: "f_remediation_risk f = classify_remediation_risk (f_detector_type f)
      (f_persistence_state f) ow (f_known_dependencies f)" by (auto simp: judged_def)
  have low: "f_remediation_risk f = RISK_LOW \<longleftrightarrow>
      f_detector_type f \<in> {UNATTACHED_EBS_VOLUME, UNASSOCIATED_ELASTIC_IP} \<and>
      f_persistence_state f = PERSISTENT \<and> ow_status ow = OWN_UNKNOWN \<and>
      \<not> blocking (f_known_dependencies f)"
    unfolding risk by (rule risk_low_iff)
  have "fst (script_kind_for f) = GUARDED_REMEDIATION \<longleftrightarrow>
      f_status f = OPEN \<and> f_detector_type f \<notin> {STOPPED_EC2_INSTANCE, SNAPSHOT_MISSING_SOURCE_VOLUME} \<and>
      ow_status ow \<noteq> OWN_CONFIRMED \<and> \<not> blocking (f_known_dependencies f) \<and>
      f_persistence_state f \<noteq> NEWLY_OBSERVED \<and> f_remediation_risk f = RISK_LOW"
    by (cases "f_remediation_risk f") (auto simp: script_kind_for_def owner_status_def ow)
  also have "\<dots> \<longleftrightarrow> f_status f = OPEN \<and> f_remediation_risk f = RISK_LOW"
    using low by auto
  finally show ?thesis using low ow by (auto simp: owner_status_def)
qed

text \<open>With a consistent risk the last two reasons mean: likely owned by a stack.\<close>

lemma review_reason:
  assumes "judged f"
  shows "snd (script_kind_for f) \<noteq> Some R_REMEDIATION_RISK_HIGH"
    and "snd (script_kind_for f) = Some R_REMEDIATION_RISK_REVIEW \<Longrightarrow> owner_status f = Some OWN_LIKELY"
proof -
  from assms obtain ow where ow: "f_ownership f = Some ow"
    and risk: "f_remediation_risk f = classify_remediation_risk (f_detector_type f)
      (f_persistence_state f) ow (f_known_dependencies f)" by (auto simp: judged_def)
  show "snd (script_kind_for f) \<noteq> Some R_REMEDIATION_RISK_HIGH"
    using risk_high_iff [of "f_detector_type f" "f_persistence_state f" ow "f_known_dependencies f"]
    by (auto simp: script_kind_for_def owner_status_def ow risk split: if_splits)
  show "owner_status f = Some OWN_LIKELY"
    if "snd (script_kind_for f) = Some R_REMEDIATION_RISK_REVIEW"
    using that
    by (cases "f_detector_type f"; cases "f_persistence_state f"; cases "ow_status ow")
      (auto simp: script_kind_for_def owner_status_def ow risk classify_remediation_risk_def Let_def
        split: if_splits)
qed

section \<open>The observation sentence\<close>

definition days_text :: "instant \<Rightarrow> instant \<Rightarrow> pystr" where
  "days_text at' now = show_int (days_between at' now)"

definition observation_sentence :: "finding \<Rightarrow> instant \<Rightarrow> pystr" where
  "observation_sentence f now =
     lit ''CloudZombie first observed this condition on '' @ date_iso (f_first_observed_at f) @
     lit '' ('' @ days_text (f_first_observed_at f) now @ lit '' days ago) and has seen it in '' @
     show_int (f_observation_count f) @ lit '' scan(s)'' @
     (if f_consecutive_observations f > 0 \<and>
         f_consecutive_observations f \<noteq> f_observation_count f
      then lit '', '' @ show_int (f_consecutive_observations f) @ lit '' consecutive'' else []) @
     lit ''.'' @
     (if f_streak_started_at f \<noteq> f_first_observed_at f
      then lit '' The condition was previously resolved and re-observed; the current streak began on '' @
           date_iso (f_streak_started_at f) @ lit ''.''
      else []) @
     (case f_resource_created_at f of
        None \<Rightarrow> []
      | Some created \<Rightarrow>
          lit '' The resource itself was created on '' @ date_iso created @ lit '' ('' @
          days_text created now @
          lit '' days ago); resource age is not evidence of how long the condition has existed.'')"

section \<open>The cleanup plan\<close>

record observation_history =
  oh_resource_created_at :: "instant option"
  oh_first_observed_at :: instant
  oh_last_observed_at :: instant
  oh_observation_count :: int
  oh_consecutive_observations :: int
  oh_streak_started_at :: instant
  oh_persistence_state :: persistence_state
  oh_threshold_days :: int
  oh_days_until_persistent :: "int option"

record estimated_cost =
  ec_amount :: "decimal option"
  ec_confidence :: cost_confidence
  ec_explanation :: pystr
  ec_source :: pricing_source
  ec_upper_bound :: bool

record cleanup_plan =
  cl_finding_id :: uuid
  cl_resource_id :: pystr
  cl_resource_type :: resource_type
  cl_detector_type :: detector_type
  cl_account_id :: pystr
  cl_region :: pystr
  cl_plain_language_summary :: pystr
  cl_reason :: pystr
  cl_evidence :: "(pystr \<times> json) list"
  cl_observation_history :: observation_history
  cl_known_dependencies :: "known_dependency list"
  cl_ownership :: "ownership option"
  cl_estimated_cost :: estimated_cost
  cl_detection_confidence :: detection_confidence
  cl_remediation_risk :: remediation_risk
  cl_preconditions :: "pystr list"
  cl_warnings :: "pystr list"
  cl_limitations :: "pystr list"
  cl_recommended_action :: pystr
  cl_script_available :: bool
  cl_script_kind :: script_kind
  cl_script_unavailable_reason :: "unavailable_reason option"

definition ignore_precondition :: "app_settings \<Rightarrow> pystr" where
  "ignore_precondition st =
     lit ''Tag '' @ st_ignore_tag_key st @ lit '' must not equal '' @ st_ignore_tag_value st"

definition preconditions :: "finding \<Rightarrow> app_settings \<Rightarrow> pystr list" where
  "preconditions f st =
     (case f_detector_type f of
        UNATTACHED_EBS_VOLUME \<Rightarrow>
          [lit ''Volume must still be in state available with 0 attachments at execution time'',
           ignore_precondition st,
           lit ''No aws:cloudformation:stack-name tag may be present'',
           lit ''Caller account must equal '' @ f_account_id f]
      | UNASSOCIATED_ELASTIC_IP \<Rightarrow>
          [lit ''Elastic IP must still have no association, instance or network interface at execution time'',
           ignore_precondition st,
           lit ''No aws:cloudformation:stack-name tag may be present'',
           lit ''Caller account must equal '' @ f_account_id f]
      | STOPPED_EC2_INSTANCE \<Rightarrow>
          [lit ''Confirm with the owner whether the instance is still needed'',
           lit ''Evaluate attached volumes and Elastic IPs separately'']
      | SNAPSHOT_MISSING_SOURCE_VOLUME \<Rightarrow>
          [lit ''Confirm no registered AMI references the snapshot'',
           lit ''Confirm the snapshot is not shared or public'',
           lit ''Confirm no backup plan or lock depends on it'',
           lit ''Understand that reclaimed storage may be smaller than the snapshot size''])"

definition blocking_descriptions :: "finding \<Rightarrow> pystr list" where
  "blocking_descriptions f = map kd_description (filter kd_blocks_remediation (f_known_dependencies f))"

definition plan_warnings :: "finding \<Rightarrow> pystr list" where
  "plan_warnings f =
     (if owner_status f \<in> {Some OWN_CONFIRMED, Some OWN_LIKELY}
      then (case f_ownership f of None \<Rightarrow> [] | Some ow \<Rightarrow> ow_notes ow) else []) @
     blocking_descriptions f @
     (if f_cost_confidence f = COST_LOW
      then [lit ''The cost estimate is low confidence and may be an upper bound.'']
      else if f_cost_confidence f = COST_UNAVAILABLE then [lit ''No cost estimate is available.'']
      else []) @
     (if f_status f \<noteq> OPEN
      then [lit ''The finding status is '' @ finding_status_value (f_status f) @
            lit ''; remediation is disabled.'']
      else [])"

definition recommended_action ::
  "finding \<Rightarrow> app_settings \<Rightarrow> unavailable_reason option \<Rightarrow> int \<Rightarrow> py_exc + pystr" where
  "recommended_action f st reason days_remaining =
     (if f_status f \<noteq> OPEN
      then Inr (lit ''No action: finding is '' @ finding_status_value (f_status f) @ lit ''.'')
      else if owner_status f = Some OWN_CONFIRMED
      then (let name = (case f_ownership f of None \<Rightarrow> None | Some ow \<Rightarrow> ow_stack_name ow)
            in Inr (lit ''Change the CloudFormation stack '' @
                    (if truthy name then the name else lit ''the owning stack'') @
                    lit '' instead of deleting the resource manually.''))
      else if blocking_descriptions f \<noteq> []
      then Inr (lit ''Resolve the blocking dependency first: '' @
                join (lit ''; '') (blocking_descriptions f) @ lit ''.'')
      else if f_detector_type f = STOPPED_EC2_INSTANCE
      then Inr (lit ''Investigate with the owner; CloudZombie does not generate termination commands.'')
      else if f_detector_type f = SNAPSHOT_MISSING_SOURCE_VOLUME
      then Inr (lit ''Investigate AMI, sharing, backup and lock status; deletion stays disabled in generated scripts.'')
      else if reason = Some R_NEWLY_OBSERVED
      then r_bind (threshold_for st (f_detector_type f)) (\<lambda>threshold.
             Inr (lit ''Keep observing. This becomes a cleanup candidate after '' @
                  show_int threshold @ lit '' days of observed persistence ('' @
                  show_int days_remaining @ lit '' days remaining).''))
      else (case reason of
              None \<Rightarrow>
                Inr (lit ''Review the evidence, then run the guarded script; it re-validates account, region and live state before acting.'')
            | Some r \<Rightarrow> Inr (script_unavailable_text r)))"

definition plan_limitations :: "detector_type \<Rightarrow> pystr list" where
  "plan_limitations dt =
     [lit ''Condition start time is not available from AWS; CloudZombie reports its own observation history instead.'',
      lit ''Dependency checks cover only known relationships (see Known dependencies).'',
      lit ''Terraform ownership is unknown unless explicit metadata says otherwise.'',
      lit ''Cost figures are public list-price estimates, not your bill.''] @
     (if dt = SNAPSHOT_MISSING_SOURCE_VOLUME
      then [lit ''Snapshots are incremental; exact reclaimable storage cannot be determined.'']
      else [])"

definition days_until_persistent :: "finding \<Rightarrow> int \<Rightarrow> int option" where
  "days_until_persistent f threshold =
     (if f_persistence_state f = PERSISTENT then None
      else Some (max (threshold - td_days (f_last_observed_at f - f_streak_started_at f)) 0))"

definition build_cleanup_plan ::
  "finding \<Rightarrow> app_settings \<Rightarrow> instant \<Rightarrow> py_exc + cleanup_plan" where
  "build_cleanup_plan f st now =
     r_bind (threshold_for st (f_detector_type f)) (\<lambda>threshold.
       (let days_until = days_until_persistent f threshold;
            snapshot = (f_detector_type f = SNAPSHOT_MISSING_SOURCE_VOLUME)
        in case script_kind_for f of (kind, reason) \<Rightarrow>
             r_bind (recommended_action f st reason
                       (case days_until of None \<Rightarrow> 0 | Some n \<Rightarrow> n)) (\<lambda>action.
               Inr \<lparr>cl_finding_id = f_id f, cl_resource_id = f_resource_id f,
                    cl_resource_type = f_resource_type f, cl_detector_type = f_detector_type f,
                    cl_account_id = f_account_id f, cl_region = f_region f,
                    cl_plain_language_summary =
                      f_summary f @ lit '' '' @ observation_sentence f now,
                    cl_reason =
                      (case reason of None \<Rightarrow> lit ''Guarded remediation is available.''
                       | Some r \<Rightarrow> script_unavailable_text r),
                    cl_evidence = f_evidence f,
                    cl_observation_history =
                      \<lparr>oh_resource_created_at = f_resource_created_at f,
                       oh_first_observed_at = f_first_observed_at f,
                       oh_last_observed_at = f_last_observed_at f,
                       oh_observation_count = f_observation_count f,
                       oh_consecutive_observations = f_consecutive_observations f,
                       oh_streak_started_at = f_streak_started_at f,
                       oh_persistence_state = f_persistence_state f,
                       oh_threshold_days = threshold, oh_days_until_persistent = days_until\<rparr>,
                    cl_known_dependencies = f_known_dependencies f,
                    cl_ownership = f_ownership f,
                    cl_estimated_cost =
                      \<lparr>ec_amount = f_estimated_monthly_cost f, ec_confidence = f_cost_confidence f,
                       ec_explanation = f_cost_explanation f, ec_source = f_pricing_source f,
                       ec_upper_bound = snapshot\<rparr>,
                    cl_detection_confidence = f_detection_confidence f,
                    cl_remediation_risk = f_remediation_risk f,
                    cl_preconditions = preconditions f st, cl_warnings = plan_warnings f,
                    cl_limitations = plan_limitations (f_detector_type f),
                    cl_recommended_action = action,
                    cl_script_available = (kind = GUARDED_REMEDIATION), cl_script_kind = kind,
                    cl_script_unavailable_reason = reason\<rparr>)))"

lemma recommended_action_ok:
  "st_thresholds_days st (f_detector_type f) \<noteq> None \<Longrightarrow> r_ok (recommended_action f st reason n)"
  by (auto simp: recommended_action_def Let_def threshold_for_def split: option.splits)

lemma build_plan_ok:
  "r_ok (build_cleanup_plan f st now) \<longleftrightarrow> st_thresholds_days st (f_detector_type f) \<noteq> None"
proof
  assume "r_ok (build_cleanup_plan f st now)"
  then show "st_thresholds_days st (f_detector_type f) \<noteq> None"
    by (auto simp: build_cleanup_plan_def threshold_for_def split: option.splits)
next
  assume t: "st_thresholds_days st (f_detector_type f) \<noteq> None"
  then obtain n where "threshold_for st (f_detector_type f) = Inr n"
    by (auto simp: threshold_for_def)
  with recommended_action_ok [OF t] show "r_ok (build_cleanup_plan f st now)"
    by (simp add: build_cleanup_plan_def Let_def split: prod.splits)
qed

lemma build_plan_script:
  assumes "build_cleanup_plan f st now = Inr p"
  shows "cl_script_kind p = fst (script_kind_for f)"
    and "cl_script_unavailable_reason p = snd (script_kind_for f)"
    and "cl_script_available p \<longleftrightarrow> fst (script_kind_for f) = GUARDED_REMEDIATION"
    and "cl_remediation_risk p = f_remediation_risk f"
    and "\<exists>n. st_thresholds_days st (f_detector_type f) = Some n \<and>
           oh_threshold_days (cl_observation_history p) = n \<and>
           oh_days_until_persistent (cl_observation_history p) = days_until_persistent f n"
  using assms
  by (auto simp: build_cleanup_plan_def Let_def threshold_for_def
      split: prod.splits option.splits)

text \<open>
  The days that remain are reached exactly when the age reaches the threshold, so a finding
  that is told 0 days and stays \<open>NEWLY_OBSERVED\<close> lacks consecutive observations.
\<close>

lemma days_until_zero:
  assumes "f_persistence_state f = persistence_of n m f"
    and "days_until_persistent f n = Some 0"
  shows "f_consecutive_observations f < m"
  using assms by (auto simp: days_until_persistent_def persistence_of_def split: if_splits)

lemma days_until_nonneg: "days_until_persistent f n = Some k \<Longrightarrow> 0 \<le> k"
  by (auto simp: days_until_persistent_def split: if_splits)

end
