(* ===== verification/Validators.thy ===== *)
theory Validators
  imports Unicode Regex Enums ProviderBase Persistence
begin

text \<open>
  The identifier validators of \<open>app/remediation/validators.py\<close>. Every value that may reach a
  generated script passes one of them. The class \<open>\d\<close> of a string pattern matches the decimal
  digits of Unicode, so account ids and the digit of a region name may hold other digits than
  those of ASCII; \<open>validated_chars\<close> states which characters a validated value can hold.

  The callers pass strings; the branch of the code that refuses other objects has no
  counterpart here.
\<close>

section \<open>Kinds and errors\<close>

datatype identifier_kind =
    K_ACCOUNT_ID
  | K_REGION
  | K_VOLUME_ID
  | K_INSTANCE_ID
  | K_SNAPSHOT_ID
  | K_ALLOCATION_ID
  | K_SCAN_ID
  | K_TAG_KEY
  | K_TAG_VALUE

fun identifier_kind_value :: "identifier_kind \<Rightarrow> pystr" where
  "identifier_kind_value K_ACCOUNT_ID = lit ''account_id''"
| "identifier_kind_value K_REGION = lit ''region''"
| "identifier_kind_value K_VOLUME_ID = lit ''volume_id''"
| "identifier_kind_value K_INSTANCE_ID = lit ''instance_id''"
| "identifier_kind_value K_SNAPSHOT_ID = lit ''snapshot_id''"
| "identifier_kind_value K_ALLOCATION_ID = lit ''allocation_id''"
| "identifier_kind_value K_SCAN_ID = lit ''scan_id''"
| "identifier_kind_value K_TAG_KEY = lit ''tag_key''"
| "identifier_kind_value K_TAG_VALUE = lit ''tag_value''"

text \<open>
  \<open>InvalidIdentifierError(kind, value)\<close> carries the kind and shows \<open>repr(str(value)[:20])\<close>
  in its message; the model keeps the twenty characters and leaves out the quoting of
  \<open>repr\<close>.
\<close>

definition InvalidIdentifierError :: "identifier_kind \<Rightarrow> pystr \<Rightarrow> py_exc" where
  "InvalidIdentifierError kind value =
     PyExc (lit ''InvalidIdentifierError'')
       (lit ''invalid '' @ identifier_kind_value kind @ lit '': '' @ take 20 value)"

record validated_identifier =
  id_kind :: identifier_kind
  id_value :: pystr

section \<open>The patterns\<close>

definition digit_class :: rx where
  "digit_class = RClass unicode_digit"

definition lower_class :: rx where
  "lower_class = RClass (\<lambda>c. 97 \<le> c \<and> c \<le> 122)"

text \<open>\<open>[A-Za-z0-9_.:/+@-]\<close>.\<close>

definition tag_char :: "nat \<Rightarrow> bool" where
  "tag_char c \<longleftrightarrow>
     (65 \<le> c \<and> c \<le> 90) \<or> (97 \<le> c \<and> c \<le> 122) \<or> (48 \<le> c \<and> c \<le> 57) \<or> c \<in> set (lit ''_.:/+@-'')"

definition region_rx :: rx where
  "region_rx =
     RSeq (RRep lower_class 2 4)
       (RSeq (RRep (RSeq (RLit (lit ''-'')) (RRep lower_class 2 12)) 1 3)
         (RSeq (RLit (lit ''-'')) digit_class))"

text \<open>\<open>_PATTERNS\<close>, which has no entry for scan ids.\<close>

fun patterns :: "identifier_kind \<Rightarrow> rx option" where
  "patterns K_ACCOUNT_ID = Some (RExact digit_class 12)"
| "patterns K_REGION = Some region_rx"
| "patterns K_VOLUME_ID = Some (aws_id_rx (lit ''vol-''))"
| "patterns K_INSTANCE_ID = Some (aws_id_rx (lit ''i-''))"
| "patterns K_SNAPSHOT_ID = Some (aws_id_rx (lit ''snap-''))"
| "patterns K_ALLOCATION_ID = Some (aws_id_rx (lit ''eipalloc-''))"
| "patterns K_TAG_KEY = Some (RRep (RClass tag_char) 1 128)"
| "patterns K_TAG_VALUE = Some (RRep (RClass tag_char) 1 256)"
| "patterns K_SCAN_ID = None"

section \<open>The validators\<close>

definition has_control :: "pystr \<Rightarrow> bool" where
  "has_control value \<longleftrightarrow> 10 \<in> set value \<or> 13 \<in> set value \<or> 0 \<in> set value"

definition validate_pattern ::
  "identifier_kind \<Rightarrow> pystr \<Rightarrow> py_exc + validated_identifier" where
  "validate_pattern kind value =
     (if has_control value then Inl (InvalidIdentifierError kind value)
      else
        case patterns kind of
          None \<Rightarrow> Inl (PyExc (lit ''KeyError'') (identifier_kind_value kind))
        | Some rx \<Rightarrow>
            if fullmatch rx value then Inr \<lparr>id_kind = kind, id_value = value\<rparr>
            else Inl (InvalidIdentifierError kind value))"

definition validate_account_id :: "pystr \<Rightarrow> py_exc + validated_identifier" where
  "validate_account_id value = validate_pattern K_ACCOUNT_ID value"

definition validate_region ::
  "pystr \<Rightarrow> pystr list option \<Rightarrow> py_exc + validated_identifier" where
  "validate_region value known_regions =
     r_bind (validate_pattern K_REGION value) (\<lambda>validated.
       case known_regions of
         None \<Rightarrow> Inr validated
       | Some known \<Rightarrow>
           if id_value validated \<notin> set known then Inl (InvalidIdentifierError K_REGION value)
           else Inr validated)"

definition validate_volume_id :: "pystr \<Rightarrow> py_exc + validated_identifier" where
  "validate_volume_id value = validate_pattern K_VOLUME_ID value"

definition validate_instance_id :: "pystr \<Rightarrow> py_exc + validated_identifier" where
  "validate_instance_id value = validate_pattern K_INSTANCE_ID value"

definition validate_snapshot_id :: "pystr \<Rightarrow> py_exc + validated_identifier" where
  "validate_snapshot_id value = validate_pattern K_SNAPSHOT_ID value"

definition validate_allocation_id :: "pystr \<Rightarrow> py_exc + validated_identifier" where
  "validate_allocation_id value = validate_pattern K_ALLOCATION_ID value"

definition validate_tag_key :: "pystr \<Rightarrow> py_exc + validated_identifier" where
  "validate_tag_key value = validate_pattern K_TAG_KEY value"

definition validate_tag_value :: "pystr \<Rightarrow> py_exc + validated_identifier" where
  "validate_tag_value value = validate_pattern K_TAG_VALUE value"

text \<open>
  \<open>UUID(value)\<close> on a string of hexadecimal digits and dashes: without its dashes it must have
  32 digits, which are read in base 16. The constructor also accepts spellings with other
  characters (a \<open>urn:uuid:\<close> prefix, braces, underscores, other decimal digits);
  \<open>validate_scan_id\<close> refuses those in any case, because their lower-case form is not the
  canonical text, and the model refuses them here.
\<close>

definition hex_value :: "nat \<Rightarrow> nat option" where
  "hex_value c =
     (if 48 \<le> c \<and> c \<le> 57 then Some (c - 48)
      else if 97 \<le> c \<and> c \<le> 102 then Some (c - 87)
      else if 65 \<le> c \<and> c \<le> 70 then Some (c - 55)
      else None)"

fun read_hex :: "nat \<Rightarrow> pystr \<Rightarrow> nat option" where
  "read_hex acc [] = Some acc"
| "read_hex acc (c # s) =
     (case hex_value c of None \<Rightarrow> None | Some d \<Rightarrow> read_hex (16 * acc + d) s)"

definition parse_uuid :: "pystr \<Rightarrow> uuid option" where
  "parse_uuid value =
     (let h = filter (\<lambda>c. c \<noteq> 45) value
      in if length h \<noteq> 32 then None else read_hex 0 h)"

definition validate_scan_id :: "pystr \<Rightarrow> py_exc + validated_identifier" where
  "validate_scan_id value =
     (if has_control value then Inl (InvalidIdentifierError K_SCAN_ID value)
      else
        case parse_uuid value of
          None \<Rightarrow> Inl (InvalidIdentifierError K_SCAN_ID value)
        | Some u \<Rightarrow>
            let canonical = uuid_text u
            in if map lower_char value \<noteq> canonical
               then Inl (InvalidIdentifierError K_SCAN_ID value)
               else Inr \<lparr>id_kind = K_SCAN_ID, id_value = canonical\<rparr>)"

definition validate_resource_id ::
  "resource_type \<Rightarrow> pystr \<Rightarrow> py_exc + validated_identifier" where
  "validate_resource_id rt value =
     (case rt of
        EBS_VOLUME \<Rightarrow> validate_volume_id value
      | ELASTIC_IP \<Rightarrow> validate_allocation_id value
      | EC2_INSTANCE \<Rightarrow> validate_instance_id value
      | EBS_SNAPSHOT \<Rightarrow> validate_snapshot_id value)"

lemmas validator_defs =
  validate_account_id_def validate_region_def validate_volume_id_def validate_instance_id_def
  validate_snapshot_id_def validate_allocation_id_def validate_tag_key_def validate_tag_value_def

section \<open>What a pattern accepts\<close>

lemma validate_pattern_Inr:
  "validate_pattern k v = Inr x \<longleftrightarrow>
     \<not> has_control v \<and> (\<exists>rx. patterns k = Some rx \<and> fullmatch rx v) \<and>
     x = \<lparr>id_kind = k, id_value = v\<rparr>"
  by (auto simp: validate_pattern_def split: option.splits)

lemma control_not_digit: "\<forall>c \<in> set s. unicode_digit c \<Longrightarrow> \<not> has_control s"
  by (auto simp: has_control_def unicode_digit_def nd_zeros_def)

lemma validate_account_id_iff:
  "validate_account_id v = Inr x \<longleftrightarrow>
     length v = 12 \<and> (\<forall>c \<in> set v. unicode_digit c) \<and> x = \<lparr>id_kind = K_ACCOUNT_ID, id_value = v\<rparr>"
  using control_not_digit [of v]
  by (auto simp: validate_account_id_def validate_pattern_Inr fullmatch_lang RExact_def
      digit_class_def simp del: lang.simps)

lemma validate_tag_key_iff:
  "validate_tag_key v = Inr x \<longleftrightarrow>
     1 \<le> length v \<and> length v \<le> 128 \<and> (\<forall>c \<in> set v. tag_char c) \<and>
     x = \<lparr>id_kind = K_TAG_KEY, id_value = v\<rparr>"
  by (auto simp: validate_tag_key_def validate_pattern_Inr fullmatch_lang has_control_def
      tag_char_def lit_def simp del: lang.simps)

lemma validate_tag_value_iff:
  "validate_tag_value v = Inr x \<longleftrightarrow>
     1 \<le> length v \<and> length v \<le> 256 \<and> (\<forall>c \<in> set v. tag_char c) \<and>
     x = \<lparr>id_kind = K_TAG_VALUE, id_value = v\<rparr>"
  by (auto simp: validate_tag_value_def validate_pattern_Inr fullmatch_lang has_control_def
      tag_char_def lit_def simp del: lang.simps)

text \<open>
  The characters of a validated value: those the \<open>readonly\<close> lines of a script allow, or, for
  an account id and a region, a decimal digit beyond ASCII.
\<close>

lemma tag_char_hex: "(48 \<le> c \<and> c \<le> 57) \<or> (97 \<le> c \<and> c \<le> 102) \<Longrightarrow> tag_char c"
  by (auto simp: tag_char_def)

lemma tag_char_printable: "tag_char c \<Longrightarrow> 32 \<le> c \<and> c \<le> 126"
  by (auto simp: tag_char_def lit_def)

lemma digit_tag_char: "unicode_digit c \<Longrightarrow> c < 128 \<Longrightarrow> tag_char c"
  using unicode_digit_ascii by (fastforce simp: ascii_digit_def tag_char_def)

lemma id_tag_chars:
  assumes "fullmatch (aws_id_rx p) v" and "c \<in> set v" and "list_all tag_char p"
  shows "tag_char c"
  using aws_id_chars [OF assms(1,2)] assms(3) tag_char_hex by (auto simp: list_all_iff)

lemma prefixes_tag_chars:
  "list_all tag_char (lit ''vol-'')" "list_all tag_char (lit ''i-'')"
  "list_all tag_char (lit ''snap-'')" "list_all tag_char (lit ''eipalloc-'')"
  by (simp_all add: lit_def tag_char_def)

lemma region_chars: "rx_chars region_rx c \<Longrightarrow> tag_char c \<or> unicode_digit c"
  by (auto simp: region_rx_def digit_class_def lower_class_def tag_char_def lit_def)

lemma pattern_chars:
  assumes "patterns k = Some rx" and "fullmatch rx v" and "c \<in> set v"
  shows "tag_char c \<or> (k \<in> {K_ACCOUNT_ID, K_REGION} \<and> unicode_digit c)"
proof -
  have *: "rx_chars rx c" using fullmatch_chars [OF assms(2,3)] .
  have ids: "tag_char c" if "rx = aws_id_rx p" "list_all tag_char p" for p
    using id_tag_chars assms(2,3) that by blast
  show ?thesis
    using assms(1) * ids [OF _ prefixes_tag_chars(1)] ids [OF _ prefixes_tag_chars(2)]
      ids [OF _ prefixes_tag_chars(3)] ids [OF _ prefixes_tag_chars(4)] region_chars
    by (cases k) (auto simp: RExact_def digit_class_def)
qed

section \<open>Scan ids\<close>

lemma length_hex_pad [simp]: "length (hex_pad w n) = w"
  by (induction w n rule: hex_pad.induct) auto

lemma hex_pad_chars: "c \<in> set (hex_pad w n) \<Longrightarrow> (48 \<le> c \<and> c \<le> 57) \<or> (97 \<le> c \<and> c \<le> 102)"
proof (induction w n rule: hex_pad.induct)
  case (2 w n)
  then show ?case by (auto simp: hex_digit_def split: if_splits)
qed simp

lemma hex_value_digit: "d < 16 \<Longrightarrow> hex_value (hex_digit d) = Some d"
  by (auto simp: hex_value_def hex_digit_def)

lemma read_hex_append:
  "read_hex acc (s @ t) =
     (case read_hex acc s of None \<Rightarrow> None | Some acc' \<Rightarrow> read_hex acc' t)"
  by (induction acc s rule: read_hex.induct) (auto split: option.splits)

lemma read_hex_pad: "read_hex acc (hex_pad w n) = Some (acc * 16 ^ w + n mod 16 ^ w)"
proof (induction w n arbitrary: acc rule: hex_pad.induct)
  case (1 n)
  then show ?case by simp
next
  case (2 w n)
  have "n mod 16 ^ Suc w = 16 * (n div 16 mod 16 ^ w) + n mod 16"
    using mod_mult2_eq [of n 16 "16 ^ w"] by simp
  then show ?case using 2 by (simp add: read_hex_append hex_value_digit)
qed

lemma hex_pad_split: "hex_pad (a + b) n = hex_pad a (n div 16 ^ b) @ hex_pad b n"
proof (induction b arbitrary: n)
  case 0
  then show ?case by simp
next
  case (Suc b)
  have "n div 16 div 16 ^ b = n div 16 ^ Suc b" by (simp add: div_mult2_eq)
  then show ?case using Suc [of "n div 16"] by simp
qed

lemma filter_hex_pad [simp]: "filter (\<lambda>c. c \<noteq> 45) (hex_pad w n) = hex_pad w n"
  using hex_pad_chars by (fastforce simp: filter_id_conv)

lemma uuid_text_digits: "filter (\<lambda>c. c \<noteq> 45) (uuid_text n) = hex_pad 32 n"
  using hex_pad_split [of 20 12 n] hex_pad_split [of 16 4 "n div 16 ^ 12"]
    hex_pad_split [of 12 4 "n div 16 ^ 16"] hex_pad_split [of 8 4 "n div 16 ^ 20"]
  by (simp add: uuid_text_def lit_def div_mult2_eq [symmetric])

lemma uuid_text_chars:
  "c \<in> set (uuid_text n) \<Longrightarrow> c = 45 \<or> (48 \<le> c \<and> c \<le> 57) \<or> (97 \<le> c \<and> c \<le> 102)"
  by (auto simp: uuid_text_def lit_def dest!: hex_pad_chars)

lemma parse_uuid_text: "parse_uuid (uuid_text n) = Some (n mod 16 ^ 32)"
  unfolding parse_uuid_def Let_def uuid_text_digits
  by (simp only: length_hex_pad read_hex_pad) simp

lemma lower_uuid_text: "map lower_char (uuid_text n) = uuid_text n"
  by (rule map_idI) (use uuid_text_chars [of _ n] in \<open>fastforce simp: lower_char_def\<close>)

lemma uuid_text_no_control: "\<not> has_control (uuid_text n)"
  using uuid_text_chars [of _ n] by (fastforce simp: has_control_def)

lemma validate_scan_id_uuid:
  assumes "n < 16 ^ 32"
  shows "validate_scan_id (uuid_text n) = Inr \<lparr>id_kind = K_SCAN_ID, id_value = uuid_text n\<rparr>"
  using assms
  by (simp add: validate_scan_id_def uuid_text_no_control parse_uuid_text lower_uuid_text Let_def
      del: power_numeral)

lemma validate_scan_id_value:
  assumes "validate_scan_id v = Inr x"
  shows "\<exists>n. id_value x = uuid_text n \<and> id_kind x = K_SCAN_ID"
  using assms by (auto simp: validate_scan_id_def Let_def split: if_splits option.splits)

lemma scan_id_chars:
  assumes "validate_scan_id v = Inr x" and "c \<in> set (id_value x)"
  shows "tag_char c"
  using validate_scan_id_value [OF assms(1)] assms(2) uuid_text_chars
  by (fastforce simp: tag_char_def lit_def)

section \<open>Resource ids\<close>

text \<open>A resource id is the prefix of its type and 8 or 17 hexadecimal digits.\<close>

lemma lang_RLit: "s \<in> lang (RLit p) \<longleftrightarrow> s = p"
proof (induction p arbitrary: s)
  case Nil
  then show ?case by (simp add: RLit_def)
next
  case (Cons c p)
  then show ?case by (auto simp: RLit_def)
qed

lemma lang_ROpt: "s \<in> lang (ROpt r) \<longleftrightarrow> s = [] \<or> s \<in> lang r"
  by (auto simp: ROpt_def)

definition hex_text :: "pystr \<Rightarrow> bool" where
  "hex_text s \<longleftrightarrow> (\<forall>c \<in> set s. (48 \<le> c \<and> c \<le> 57) \<or> (97 \<le> c \<and> c \<le> 102))"

lemma lang_aws_id:
  "s \<in> lang (aws_id_rx p) \<longleftrightarrow>
     (\<exists>h. s = p @ h \<and> (length h = 8 \<or> length h = 17) \<and> hex_text h)"
proof -
  have "s \<in> lang (aws_id_rx p) \<longleftrightarrow>
      (\<exists>u v. s = p @ u @ v \<and> length u = 8 \<and> hex_text u \<and> (v = [] \<or> length v = 9 \<and> hex_text v))"
    unfolding aws_id_rx_def hex_text_def lang.simps(4) by (auto simp: lang_RLit lang_ROpt)
  also have "\<dots> \<longleftrightarrow> (\<exists>h. s = p @ h \<and> (length h = 8 \<or> length h = 17) \<and> hex_text h)"
    (is "?l \<longleftrightarrow> ?r")
  proof
    assume ?l
    then show ?r by (auto simp: hex_text_def)
  next
    assume ?r
    then obtain h where h: "s = p @ h" "length h = 8 \<or> length h = 17" "hex_text h" by blast
    have "h = take 8 h @ drop 8 h" by simp
    moreover have "hex_text (take 8 h)" "hex_text (drop 8 h)"
      using h(3) by (auto simp: hex_text_def dest: in_set_takeD in_set_dropD)
    moreover have "length (take 8 h) = 8" "drop 8 h = [] \<or> length (drop 8 h) = 9" using h(2) by auto
    ultimately show ?l using h(1) by (intro exI [of _ "take 8 h"] exI [of _ "drop 8 h"]) simp
  qed
  finally show ?thesis .
qed

fun resource_prefix :: "resource_type \<Rightarrow> pystr" where
  "resource_prefix EBS_VOLUME = lit ''vol-''"
| "resource_prefix ELASTIC_IP = lit ''eipalloc-''"
| "resource_prefix EC2_INSTANCE = lit ''i-''"
| "resource_prefix EBS_SNAPSHOT = lit ''snap-''"

fun resource_kind :: "resource_type \<Rightarrow> identifier_kind" where
  "resource_kind EBS_VOLUME = K_VOLUME_ID"
| "resource_kind ELASTIC_IP = K_ALLOCATION_ID"
| "resource_kind EC2_INSTANCE = K_INSTANCE_ID"
| "resource_kind EBS_SNAPSHOT = K_SNAPSHOT_ID"

lemma resource_prefix_plain: "\<not> has_control (resource_prefix rt)"
  by (cases rt) (simp_all add: has_control_def lit_def)

lemma hex_no_control: "hex_text h \<Longrightarrow> \<not> has_control h"
  by (auto simp: has_control_def hex_text_def)

lemma validate_resource_id_eq:
  "validate_resource_id rt v = validate_pattern (resource_kind rt) v"
  by (cases rt) (simp_all add: validate_resource_id_def validator_defs)

lemma resource_pattern: "patterns (resource_kind rt) = Some (aws_id_rx (resource_prefix rt))"
  by (cases rt) simp_all

lemma validate_resource_id_iff:
  "validate_resource_id rt v = Inr x \<longleftrightarrow>
     x = \<lparr>id_kind = resource_kind rt, id_value = v\<rparr> \<and>
     (\<exists>h. v = resource_prefix rt @ h \<and> (length h = 8 \<or> length h = 17) \<and> hex_text h)"
  using resource_prefix_plain hex_no_control
  by (auto simp: validate_resource_id_eq validate_pattern_Inr resource_pattern fullmatch_lang
      lang_aws_id has_control_def)

end
