(* ===== verification/Templates.thy ===== *)
theory Templates
  imports Prelude
begin

text \<open>
  The constant Bash text of \<open>app/remediation/scripts/templates.py\<close>: each template is the list
  of its lines, and \<open>unlines\<close> ends every line with a newline. 92 is the backslash and 39 the
  apostrophe, where a literal cannot hold them.
\<close>

definition unlines :: "pystr list \<Rightarrow> pystr" where
  "unlines ls = concat (map (\<lambda>l. l @ [10]) ls)"

text \<open>\<open>SHEBANG\<close>.\<close>

definition shebang_lines :: "pystr list" where
  \<open>shebang_lines =
   [lit ''#!/usr/bin/env bash'']\<close>

text \<open>\<open>STRICT_MODE\<close>.\<close>

definition strict_mode_lines :: "pystr list" where
  \<open>strict_mode_lines =
   [lit ''set -euo pipefail'']\<close>

text \<open>\<open>COMMON_FUNCTIONS\<close>.\<close>

definition common_functions_lines :: "pystr list" where
  \<open>common_functions_lines =
   [lit '''',
    lit ''abort() {'',
    lit ''  echo'',
    lit ''  echo "ABORTED"'',
    lit ''  echo'',
    lit ''  echo "$1"'',
    lit ''  echo'',
    lit ''  echo "No action performed."'',
    lit ''  exit 1'',
    lit ''}'',
    lit '''',
    lit ''to_lower() {'',
    lit ''  printf '%s' "$1" | tr '[:upper:]' '[:lower:]'' @ [39],
    lit ''}'',
    lit '''',
    lit ''require_aws_cli() {'',
    lit ''  if ! command -v aws >/dev/null 2>&1; then'',
    lit ''    abort "The AWS CLI (aws) is not installed or not on PATH."'',
    lit ''  fi'',
    lit ''}'',
    lit '''',
    lit ''verify_account() {'',
    lit ''  local current_account'',
    lit ''  if ! current_account="$(aws sts get-caller-identity --region "$REGION" --query Account --output text 2>/dev/null)"; then'',
    lit ''    abort "Could not determine the current AWS account (aws sts get-caller-identity failed). Check your credentials."'',
    lit ''  fi'',
    lit ''  if [ "$current_account" != "$EXPECTED_ACCOUNT_ID" ]; then'',
    lit ''    abort "Account mismatch.'',
    lit '''',
    lit ''Expected account: $EXPECTED_ACCOUNT_ID'',
    lit ''Current account:  $current_account"'',
    lit ''  fi'',
    lit ''  echo "Account verified: $current_account"'',
    lit ''}'']\<close>

text \<open>\<open>EBS_DELETE_BODY\<close>.\<close>

definition ebs_delete_body_lines :: "pystr list" where
  \<open>ebs_delete_body_lines =
   [lit '''',
    lit ''verify_volume_state() {'',
    lit ''  local state attachment_count'',
    lit ''  if ! state="$(aws ec2 describe-volumes --region "$REGION" --volume-ids "$VOLUME_ID" --query 'Volumes[0].State' --output text 2>/dev/null)"; then'',
    lit ''    abort "Volume $VOLUME_ID was not found in $REGION. It may already have been deleted."'',
    lit ''  fi'',
    lit ''  if [ "$state" != "available" ]; then'',
    lit ''    abort "Resource state changed since CloudZombie analysis.'',
    lit '''',
    lit ''Expected volume state: available'',
    lit ''Current volume state:  $state"'',
    lit ''  fi'',
    lit ''  attachment_count="$(aws ec2 describe-volumes --region "$REGION" --volume-ids "$VOLUME_ID" --query 'length(Volumes[0].Attachments)' --output text)"'',
    lit ''  if [ "$attachment_count" != "0" ]; then'',
    lit ''    abort "Resource state changed since CloudZombie analysis.'',
    lit '''',
    lit ''The volume now reports $attachment_count attachment(s)."'',
    lit ''  fi'',
    lit ''  echo "Volume state verified: available with 0 attachments"'',
    lit ''}'',
    lit '''',
    lit ''verify_volume_tags() {'',
    lit ''  local ignore_value stack_name'',
    lit ''  ignore_value="$(aws ec2 describe-volumes --region "$REGION" --volume-ids "$VOLUME_ID" --query "Volumes[0].Tags[?Key=='${IGNORE_TAG_KEY}'].Value | [0]" --output text)"'',
    lit ''  if [ "$ignore_value" != "None" ] && [ "$(to_lower "$ignore_value")" = "$(to_lower "$IGNORE_TAG_VALUE")" ]; then'',
    lit ''    abort "Resource is now marked to be ignored ($IGNORE_TAG_KEY=$ignore_value)."'',
    lit ''  fi'',
    lit ''  stack_name="$(aws ec2 describe-volumes --region "$REGION" --volume-ids "$VOLUME_ID" --query "Volumes[0].Tags[?Key=='${CLOUDFORMATION_TAG_KEY}'].Value | [0]" --output text)"'',
    lit ''  if [ "$stack_name" != "None" ] && [ -n "$stack_name" ]; then'',
    lit ''    abort "Resource now carries the $CLOUDFORMATION_TAG_KEY tag (stack: $stack_name). Change the CloudFormation stack instead of deleting the volume manually."'',
    lit ''  fi'',
    lit ''  echo "Ignore-tag check passed; no CloudFormation stack tag present"'',
    lit ''}'',
    lit '''',
    lit ''show_current_volume() {'',
    lit ''  echo'',
    lit ''  echo "Current volume as reported by AWS right now:"'',
    lit ''  aws ec2 describe-volumes --region "$REGION" --volume-ids "$VOLUME_ID" --output table'',
    lit ''  echo'',
    lit ''  echo "Ownership note: CloudZombie found no CloudFormation evidence for this volume, but"'',
    lit ''  echo "that does not prove it is unmanaged. Terraform or other tooling may still own it."'',
    lit ''}'',
    lit '''',
    lit ''offer_snapshot() {'',
    lit ''  local answer snapshot_id'',
    lit ''  echo'',
    lit ''  printf 'Create a snapshot of %s before deleting it? [y/N] ' "$VOLUME_ID"'',
    lit ''  read -r answer'',
    lit ''  case "$answer" in'',
    lit ''    y|Y)'',
    lit ''      if ! snapshot_id="$(aws ec2 create-snapshot --region "$REGION" --volume-id "$VOLUME_ID" --description "CloudZombie pre-deletion snapshot" --query SnapshotId --output text)"; then'',
    lit ''        abort "Snapshot creation failed; the volume was not deleted."'',
    lit ''      fi'',
    lit ''      echo "Waiting for snapshot $snapshot_id to complete..."'',
    lit ''      if ! aws ec2 wait snapshot-completed --region "$REGION" --snapshot-ids "$snapshot_id"; then'',
    lit ''        abort "Snapshot $snapshot_id did not complete; the volume was not deleted."'',
    lit ''      fi'',
    lit ''      echo "Snapshot $snapshot_id completed. It incurs snapshot storage charges until you delete it."'',
    lit ''      ;;'',
    lit ''    *)'',
    lit ''      echo "No snapshot will be created."'',
    lit ''      ;;'',
    lit ''  esac'',
    lit ''}'',
    lit '''',
    lit ''confirm_deletion() {'',
    lit ''  local confirmation'',
    lit ''  echo'',
    lit ''  echo "This will permanently delete EBS volume $VOLUME_ID in $REGION (account $EXPECTED_ACCOUNT_ID)."'',
    lit ''  printf 'Type DELETE %s to continue: ' "$VOLUME_ID"'',
    lit ''  read -r confirmation'',
    lit ''  if [ "$confirmation" != "DELETE $VOLUME_ID" ]; then'',
    lit ''    abort "Confirmation did not match."'',
    lit ''  fi'',
    lit ''}'',
    lit '''',
    lit ''main() {'',
    lit ''  require_aws_cli'',
    lit ''  verify_account'',
    lit ''  verify_volume_state'',
    lit ''  verify_volume_tags'',
    lit ''  show_current_volume'',
    lit ''  offer_snapshot'',
    lit ''  confirm_deletion'',
    lit ''  aws ec2 delete-volume --region "$REGION" --volume-id "$VOLUME_ID"'',
    lit ''  echo'',
    lit ''  echo "Deleted volume $VOLUME_ID in $REGION."'',
    lit ''}'',
    lit '''',
    lit ''main "$@"'']\<close>

text \<open>\<open>EIP_RELEASE_BODY\<close>.\<close>

definition eip_release_body_lines :: "pystr list" where
  \<open>eip_release_body_lines =
   [lit '''',
    lit ''verify_address_state() {'',
    lit ''  local association_id instance_id network_interface_id'',
    lit ''  if ! association_id="$(aws ec2 describe-addresses --region "$REGION" --allocation-ids "$ALLOCATION_ID" --query 'Addresses[0].AssociationId' --output text 2>/dev/null)"; then'',
    lit ''    abort "Elastic IP allocation $ALLOCATION_ID was not found in $REGION. It may already have been released."'',
    lit ''  fi'',
    lit ''  instance_id="$(aws ec2 describe-addresses --region "$REGION" --allocation-ids "$ALLOCATION_ID" --query 'Addresses[0].InstanceId' --output text)"'',
    lit ''  network_interface_id="$(aws ec2 describe-addresses --region "$REGION" --allocation-ids "$ALLOCATION_ID" --query 'Addresses[0].NetworkInterfaceId' --output text)"'',
    lit ''  if [ "$association_id" != "None" ] || [ "$instance_id" != "None" ] || [ "$network_interface_id" != "None" ]; then'',
    lit ''    abort "Resource state changed since CloudZombie analysis.'',
    lit '''',
    lit ''The address is now associated.'',
    lit ''AssociationId:      $association_id'',
    lit ''InstanceId:         $instance_id'',
    lit ''NetworkInterfaceId: $network_interface_id"'',
    lit ''  fi'',
    lit ''  echo "Address state verified: not associated with any instance or network interface"'',
    lit ''}'',
    lit '''',
    lit ''verify_address_tags() {'',
    lit ''  local ignore_value stack_name'',
    lit ''  ignore_value="$(aws ec2 describe-addresses --region "$REGION" --allocation-ids "$ALLOCATION_ID" --query "Addresses[0].Tags[?Key=='${IGNORE_TAG_KEY}'].Value | [0]" --output text)"'',
    lit ''  if [ "$ignore_value" != "None" ] && [ "$(to_lower "$ignore_value")" = "$(to_lower "$IGNORE_TAG_VALUE")" ]; then'',
    lit ''    abort "Resource is now marked to be ignored ($IGNORE_TAG_KEY=$ignore_value)."'',
    lit ''  fi'',
    lit ''  stack_name="$(aws ec2 describe-addresses --region "$REGION" --allocation-ids "$ALLOCATION_ID" --query "Addresses[0].Tags[?Key=='${CLOUDFORMATION_TAG_KEY}'].Value | [0]" --output text)"'',
    lit ''  if [ "$stack_name" != "None" ] && [ -n "$stack_name" ]; then'',
    lit ''    abort "Resource now carries the $CLOUDFORMATION_TAG_KEY tag (stack: $stack_name). Change the CloudFormation stack instead of releasing the address manually."'',
    lit ''  fi'',
    lit ''  echo "Ignore-tag check passed; no CloudFormation stack tag present"'',
    lit ''}'',
    lit '''',
    lit ''show_current_address() {'',
    lit ''  echo'',
    lit ''  echo "Current Elastic IP as reported by AWS right now:"'',
    lit ''  aws ec2 describe-addresses --region "$REGION" --allocation-ids "$ALLOCATION_ID" --output table'',
    lit ''  echo'',
    lit ''  echo "WARNING: releasing an Elastic IP returns it to the AWS pool. You may not be able to"'',
    lit ''  echo "recover the same public IPv4 address afterwards. Check DNS records and allow-lists first."'',
    lit ''  echo'',
    lit ''  echo "Ownership note: CloudZombie found no CloudFormation evidence for this address, but"'',
    lit ''  echo "that does not prove it is unmanaged. Terraform or other tooling may still own it."'',
    lit ''}'',
    lit '''',
    lit ''confirm_release() {'',
    lit ''  local confirmation'',
    lit ''  echo'',
    lit ''  echo "This will release Elastic IP allocation $ALLOCATION_ID in $REGION (account $EXPECTED_ACCOUNT_ID)."'',
    lit ''  printf 'Type RELEASE %s to continue: ' "$ALLOCATION_ID"'',
    lit ''  read -r confirmation'',
    lit ''  if [ "$confirmation" != "RELEASE $ALLOCATION_ID" ]; then'',
    lit ''    abort "Confirmation did not match."'',
    lit ''  fi'',
    lit ''}'',
    lit '''',
    lit ''main() {'',
    lit ''  require_aws_cli'',
    lit ''  verify_account'',
    lit ''  verify_address_state'',
    lit ''  verify_address_tags'',
    lit ''  show_current_address'',
    lit ''  confirm_release'',
    lit ''  aws ec2 release-address --region "$REGION" --allocation-id "$ALLOCATION_ID"'',
    lit ''  echo'',
    lit ''  echo "Released Elastic IP allocation $ALLOCATION_ID in $REGION."'',
    lit ''}'',
    lit '''',
    lit ''main "$@"'']\<close>

text \<open>\<open>INVESTIGATION_PREAMBLE\<close>.\<close>

definition investigation_preamble_lines :: "pystr list" where
  \<open>investigation_preamble_lines =
   [lit '''',
    lit ''investigation_banner() {'',
    lit ''  echo'',
    lit ''  echo "CloudZombie investigation script (read-only)."'',
    lit ''  echo "This script only runs describe-* commands. It performs no changes."'',
    lit ''  echo'',
    lit ''}'']\<close>

text \<open>\<open>EBS_INVESTIGATION_BODY\<close>.\<close>

definition ebs_investigation_body_lines :: "pystr list" where
  \<open>ebs_investigation_body_lines =
   [lit '''',
    lit ''main() {'',
    lit ''  require_aws_cli'',
    lit ''  verify_account'',
    lit ''  investigation_banner'',
    lit ''  echo "Volume $VOLUME_ID in $REGION:"'',
    lit ''  aws ec2 describe-volumes --region "$REGION" --volume-ids "$VOLUME_ID" --output table'',
    lit ''  echo'',
    lit ''  echo "Snapshots created from this volume (owned by this account):"'',
    lit ''  aws ec2 describe-snapshots --region "$REGION" --owner-ids self --filters "Name=volume-id,Values=$VOLUME_ID" --output table'',
    lit ''  echo'',
    lit ''  echo "No guarded deletion script is offered for this finding yet (see the cleanup plan for the reason)."'',
    lit ''}'',
    lit '''',
    lit ''main "$@"'']\<close>

text \<open>\<open>EIP_INVESTIGATION_BODY\<close>.\<close>

definition eip_investigation_body_lines :: "pystr list" where
  \<open>eip_investigation_body_lines =
   [lit '''',
    lit ''main() {'',
    lit ''  require_aws_cli'',
    lit ''  verify_account'',
    lit ''  investigation_banner'',
    lit ''  echo "Elastic IP allocation $ALLOCATION_ID in $REGION:"'',
    lit ''  aws ec2 describe-addresses --region "$REGION" --allocation-ids "$ALLOCATION_ID" --output table'',
    lit ''  echo'',
    lit ''  echo "No guarded release script is offered for this finding yet (see the cleanup plan for the reason)."'',
    lit ''}'',
    lit '''',
    lit ''main "$@"'']\<close>

text \<open>\<open>EC2_INVESTIGATION_BODY\<close>.\<close>

definition ec2_investigation_body_lines :: "pystr list" where
  \<open>ec2_investigation_body_lines =
   [lit '''',
    lit ''main() {'',
    lit ''  require_aws_cli'',
    lit ''  verify_account'',
    lit ''  investigation_banner'',
    lit ''  echo "Instance $INSTANCE_ID in $REGION:"'',
    lit ''  aws ec2 describe-instances --region "$REGION" --instance-ids "$INSTANCE_ID" --output table'',
    lit ''  echo'',
    lit ''  echo "EBS volumes attached to the instance (billed while it is stopped):"'',
    lit ''  aws ec2 describe-volumes --region "$REGION" --filters "Name=attachment.instance-id,Values=$INSTANCE_ID" --output table'',
    lit ''  echo'',
    lit ''  echo "Elastic IP addresses associated with the instance (billed while it is stopped):"'',
    lit ''  aws ec2 describe-addresses --region "$REGION" --filters "Name=instance-id,Values=$INSTANCE_ID" --output table'',
    lit ''  echo'',
    lit ''  echo "CloudZombie does not generate termination commands. Confirm with the instance owner"'',
    lit ''  echo "whether it is still needed, and evaluate the attached volumes and addresses separately."'',
    lit ''}'',
    lit '''',
    lit ''main "$@"'']\<close>

text \<open>\<open>SNAPSHOT_INVESTIGATION_BODY\<close>.\<close>

definition snapshot_investigation_body_lines :: "pystr list" where
  \<open>snapshot_investigation_body_lines =
   [lit '''',
    lit ''# REVIEW REQUIRED - deletion is intentionally disabled in this script.'',
    lit ''# Only after confirming that no AMI, sharing, backup plan or lock depends on the'',
    lit ''# snapshot, and understanding that incremental snapshots may free less than their'',
    lit ''# apparent size, you may run the following command yourself:'',
    lit ''# aws ec2 delete-snapshot --region "$REGION" --snapshot-id "$SNAPSHOT_ID"'',
    lit '''',
    lit ''main() {'',
    lit ''  require_aws_cli'',
    lit ''  verify_account'',
    lit ''  investigation_banner'',
    lit ''  echo "Snapshot $SNAPSHOT_ID in $REGION:"'',
    lit ''  aws ec2 describe-snapshots --region "$REGION" --snapshot-ids "$SNAPSHOT_ID" --output table'',
    lit ''  echo'',
    lit ''  echo "Sharing (createVolumePermission):"'',
    lit ''  aws ec2 describe-snapshot-attribute --region "$REGION" --snapshot-id "$SNAPSHOT_ID" --attribute createVolumePermission --output table'',
    lit ''  echo'',
    lit ''  echo "AMIs owned by this account that reference the snapshot:"'',
    lit ''  aws ec2 describe-images --region "$REGION" --owners self --filters "Name=block-device-mapping.snapshot-id,Values=$SNAPSHOT_ID" --output table'',
    lit ''  echo'',
    lit ''  echo "Snapshot lock status:"'',
    lit ''  aws ec2 describe-locked-snapshots --region "$REGION" --snapshot-ids "$SNAPSHOT_ID" --output table || echo "(lock status unavailable)"'',
    lit ''  echo'',
    lit ''  echo "Snapshots are incremental: deleting this snapshot may free less storage than its"'',
    lit ''  echo "apparent size. Only blocks not referenced by other snapshots are reclaimed."'',
    lit ''  echo'',
    lit ''  echo "REVIEW REQUIRED - deletion is intentionally disabled in this script."'',
    lit ''  echo "If, after review, you decide to delete the snapshot, run the command below manually:"'',
    lit ''  echo "#   aws ec2 delete-snapshot --region '' @ [92] @ lit ''"$REGION'' @ [92] @ lit ''" --snapshot-id '' @ [92] @ lit ''"$SNAPSHOT_ID'' @ [92] @ lit ''""'',
    lit ''}'',
    lit '''',
    lit ''main "$@"'']\<close>

text \<open>\<open>BULK_FUNCTIONS\<close>.\<close>

definition bulk_functions_lines :: "pystr list" where
  \<open>bulk_functions_lines =
   [lit '''',
    lit ''SKIPPED=0'',
    lit ''COMPLETED=0'',
    lit '''',
    lit ''skip() {'',
    lit ''  echo'',
    lit ''  echo "SKIPPED $1"'',
    lit ''  echo "$2"'',
    lit ''  echo "No action performed for $1."'',
    lit ''  SKIPPED=$((SKIPPED + 1))'',
    lit ''}'',
    lit '''',
    lit ''check_tags() {'',
    lit ''  local describe_command="$1" id_flag="$2" region="$3" resource_id="$4" root="$5"'',
    lit ''  local ignore_value stack_name'',
    lit ''  ignore_value="$(aws ec2 "$describe_command" --region "$region" "$id_flag" "$resource_id" --query "${root}[0].Tags[?Key=='${IGNORE_TAG_KEY}'].Value | [0]" --output text)"'',
    lit ''  if [ "$ignore_value" != "None" ] && [ "$(to_lower "$ignore_value")" = "$(to_lower "$IGNORE_TAG_VALUE")" ]; then'',
    lit ''    echo "Resource is now marked to be ignored ($IGNORE_TAG_KEY=$ignore_value)."'',
    lit ''    return 1'',
    lit ''  fi'',
    lit ''  stack_name="$(aws ec2 "$describe_command" --region "$region" "$id_flag" "$resource_id" --query "${root}[0].Tags[?Key=='${CLOUDFORMATION_TAG_KEY}'].Value | [0]" --output text)"'',
    lit ''  if [ "$stack_name" != "None" ] && [ -n "$stack_name" ]; then'',
    lit ''    echo "Resource now carries the $CLOUDFORMATION_TAG_KEY tag (stack: $stack_name)."'',
    lit ''    return 1'',
    lit ''  fi'',
    lit ''  return 0'',
    lit ''}'',
    lit '''',
    lit ''process_volume() {'',
    lit ''  local region="$1" volume_id="$2" state attachment_count confirmation reason'',
    lit ''  echo'',
    lit ''  echo "=== EBS volume $volume_id ($region) ==="'',
    lit ''  if ! state="$(aws ec2 describe-volumes --region "$region" --volume-ids "$volume_id" --query 'Volumes[0].State' --output text 2>/dev/null)"; then'',
    lit ''    skip "$volume_id" "Volume not found in $region."'',
    lit ''    return 0'',
    lit ''  fi'',
    lit ''  if [ "$state" != "available" ]; then'',
    lit ''    skip "$volume_id" "Resource state changed since CloudZombie analysis (state: $state)."'',
    lit ''    return 0'',
    lit ''  fi'',
    lit ''  attachment_count="$(aws ec2 describe-volumes --region "$region" --volume-ids "$volume_id" --query 'length(Volumes[0].Attachments)' --output text)"'',
    lit ''  if [ "$attachment_count" != "0" ]; then'',
    lit ''    skip "$volume_id" "Resource state changed since CloudZombie analysis ($attachment_count attachment(s))."'',
    lit ''    return 0'',
    lit ''  fi'',
    lit ''  if ! reason="$(check_tags describe-volumes --volume-ids "$region" "$volume_id" Volumes)"; then'',
    lit ''    skip "$volume_id" "$reason"'',
    lit ''    return 0'',
    lit ''  fi'',
    lit ''  aws ec2 describe-volumes --region "$region" --volume-ids "$volume_id" --output table'',
    lit ''  printf 'Type DELETE %s to delete this volume (anything else skips it): ' "$volume_id"'',
    lit ''  read -r confirmation'',
    lit ''  if [ "$confirmation" != "DELETE $volume_id" ]; then'',
    lit ''    skip "$volume_id" "Confirmation did not match."'',
    lit ''    return 0'',
    lit ''  fi'',
    lit ''  aws ec2 delete-volume --region "$region" --volume-id "$volume_id"'',
    lit ''  echo "Deleted volume $volume_id in $region."'',
    lit ''  COMPLETED=$((COMPLETED + 1))'',
    lit ''}'',
    lit '''',
    lit ''process_address() {'',
    lit ''  local region="$1" allocation_id="$2" association_id instance_id network_interface_id confirmation reason'',
    lit ''  echo'',
    lit ''  echo "=== Elastic IP $allocation_id ($region) ==="'',
    lit ''  if ! association_id="$(aws ec2 describe-addresses --region "$region" --allocation-ids "$allocation_id" --query 'Addresses[0].AssociationId' --output text 2>/dev/null)"; then'',
    lit ''    skip "$allocation_id" "Allocation not found in $region."'',
    lit ''    return 0'',
    lit ''  fi'',
    lit ''  instance_id="$(aws ec2 describe-addresses --region "$region" --allocation-ids "$allocation_id" --query 'Addresses[0].InstanceId' --output text)"'',
    lit ''  network_interface_id="$(aws ec2 describe-addresses --region "$region" --allocation-ids "$allocation_id" --query 'Addresses[0].NetworkInterfaceId' --output text)"'',
    lit ''  if [ "$association_id" != "None" ] || [ "$instance_id" != "None" ] || [ "$network_interface_id" != "None" ]; then'',
    lit ''    skip "$allocation_id" "Resource state changed since CloudZombie analysis (address is now associated)."'',
    lit ''    return 0'',
    lit ''  fi'',
    lit ''  if ! reason="$(check_tags describe-addresses --allocation-ids "$region" "$allocation_id" Addresses)"; then'',
    lit ''    skip "$allocation_id" "$reason"'',
    lit ''    return 0'',
    lit ''  fi'',
    lit ''  aws ec2 describe-addresses --region "$region" --allocation-ids "$allocation_id" --output table'',
    lit ''  echo "WARNING: a released Elastic IP may not be recoverable."'',
    lit ''  printf 'Type RELEASE %s to release this address (anything else skips it): ' "$allocation_id"'',
    lit ''  read -r confirmation'',
    lit ''  if [ "$confirmation" != "RELEASE $allocation_id" ]; then'',
    lit ''    skip "$allocation_id" "Confirmation did not match."'',
    lit ''    return 0'',
    lit ''  fi'',
    lit ''  aws ec2 release-address --region "$region" --allocation-id "$allocation_id"'',
    lit ''  echo "Released Elastic IP allocation $allocation_id in $region."'',
    lit ''  COMPLETED=$((COMPLETED + 1))'',
    lit ''}'',
    lit '''',
    lit ''bulk_summary() {'',
    lit ''  echo'',
    lit ''  echo "Completed: $COMPLETED   Skipped: $SKIPPED"'',
    lit ''}'']\<close>

text \<open>\<open>BULK_MAIN_OPEN\<close>.\<close>

definition bulk_main_open_lines :: "pystr list" where
  \<open>bulk_main_open_lines =
   [lit '''',
    lit ''main() {'',
    lit ''  require_aws_cli'',
    lit ''  verify_account'']\<close>

text \<open>\<open>BULK_MAIN_CLOSE\<close>.\<close>

definition bulk_main_close_lines :: "pystr list" where
  \<open>bulk_main_close_lines =
   [lit ''  bulk_summary'',
    lit ''}'',
    lit '''',
    lit ''main "$@"'']\<close>
end
