(* ===== verification/Generator.thy ===== *)
theory Generator
  imports Validators Templates PyTime
begin

text \<open>
  The script generator \<open>app/remediation/scripts/generator.py\<close>. A script is a header of
  comments, a few \<open>readonly NAME="value"\<close> lines, and constant templates; every value comes
  from a validator and is validated again just before the script is returned, and
  \<open>assert_safe\<close> refuses any content that is not printable ASCII or has a \<open>readonly\<close> line of
  another shape.

  The lemmas compute the lines of a script that was returned (\<open>script_lines\<close>,
  \<open>bulk_lines\<close>): no value can add a line or leave its line. From this follow the safety
  properties: an investigation script calls only \<open>describe-\<close> operations, and a guarded script
  deletes only after its checks.
\<close>

section \<open>Errors and records\<close>

definition ValueError :: "pystr \<Rightarrow> py_exc" where
  "ValueError m = PyExc (lit ''ValueError'') m"

definition AssertionError :: "pystr \<Rightarrow> py_exc" where
  "AssertionError m = PyExc (lit ''AssertionError'') m"

record script_target =
  tg_region :: validated_identifier
  tg_resource_id :: validated_identifier

record generated_script =
  gs_kind :: script_kind
  gs_filename :: pystr
  gs_content :: pystr
  gs_checks :: "pystr list"
  gs_warnings :: "pystr list"

section \<open>Tables by detector\<close>

fun expected_kinds :: "detector_type \<Rightarrow> identifier_kind" where
  "expected_kinds UNATTACHED_EBS_VOLUME = K_VOLUME_ID"
| "expected_kinds UNASSOCIATED_ELASTIC_IP = K_ALLOCATION_ID"
| "expected_kinds STOPPED_EC2_INSTANCE = K_INSTANCE_ID"
| "expected_kinds SNAPSHOT_MISSING_SOURCE_VOLUME = K_SNAPSHOT_ID"

fun resource_variables :: "detector_type \<Rightarrow> pystr" where
  "resource_variables UNATTACHED_EBS_VOLUME = lit ''VOLUME_ID''"
| "resource_variables UNASSOCIATED_ELASTIC_IP = lit ''ALLOCATION_ID''"
| "resource_variables STOPPED_EC2_INSTANCE = lit ''INSTANCE_ID''"
| "resource_variables SNAPSHOT_MISSING_SOURCE_VOLUME = lit ''SNAPSHOT_ID''"

fun investigation_bodies :: "detector_type \<Rightarrow> pystr list" where
  "investigation_bodies UNATTACHED_EBS_VOLUME = ebs_investigation_body_lines"
| "investigation_bodies UNASSOCIATED_ELASTIC_IP = eip_investigation_body_lines"
| "investigation_bodies STOPPED_EC2_INSTANCE = ec2_investigation_body_lines"
| "investigation_bodies SNAPSHOT_MISSING_SOURCE_VOLUME = snapshot_investigation_body_lines"

fun investigation_actions :: "detector_type \<Rightarrow> pystr" where
  "investigation_actions UNATTACHED_EBS_VOLUME = lit ''investigate-volume''"
| "investigation_actions UNASSOCIATED_ELASTIC_IP = lit ''investigate-address''"
| "investigation_actions STOPPED_EC2_INSTANCE = lit ''investigate-instance''"
| "investigation_actions SNAPSHOT_MISSING_SOURCE_VOLUME = lit ''investigate-snapshot''"

section \<open>Header\<close>

definition require_kind :: "validated_identifier \<Rightarrow> identifier_kind \<Rightarrow> py_exc + unit" where
  "require_kind i k =
     (if id_kind i \<noteq> k
      then Inl (ValueError (lit ''expected '' @ identifier_kind_value k @ lit '', got '' @
                  identifier_kind_value (id_kind i)))
      else Inr ())"

definition timestamp :: "datetime \<Rightarrow> py_exc + pystr" where
  "timestamp generated_at =
     (if \<not> aware generated_at
      then Inl (ValueError (lit ''generated_at must be timezone-aware''))
      else Inr (timestamp_z (instant_of generated_at)))"

definition scan_value :: "validated_identifier option \<Rightarrow> pystr" where
  "scan_value scan_id = (case scan_id of None \<Rightarrow> lit ''none'' | Some s \<Rightarrow> id_value s)"

definition header_tail :: "pystr list" where
  "header_tail =
     [lit ''#'',
      lit ''# CloudZombie never executes this script. It analyses AWS through read-only API calls'',
      lit ''# only and generates this file for a human to review and run separately. Every AWS CLI'',
      lit ''# call below names the region explicitly, re-validates the live resource state, and'',
      lit ''# aborts on any unexpected condition.'',
      []]"

definition target_line :: "script_target \<Rightarrow> pystr" where
  "target_line t =
     lit ''#   '' @ id_value (tg_region t) @ lit ''  '' @ id_value (tg_resource_id t)"

text \<open>
  \<open>_header\<close>: \<open>resource\<close> is \<open>Some\<close> for a single script and \<open>None\<close> for a bulk script, whose
  targets are listed.
\<close>

definition header_lines ::
  "pystr \<Rightarrow> script_kind \<Rightarrow> pystr \<Rightarrow> pystr \<Rightarrow> validated_identifier option \<Rightarrow>
   validated_identifier \<Rightarrow> pystr \<Rightarrow> pystr option \<Rightarrow> script_target list \<Rightarrow> pystr list" where
  "header_lines title kind detector ts scan_id account_id region resource targets =
     [lit ''# Generated by CloudZombie - '' @ title,
      lit ''# Kind:             '' @ script_kind_value kind,
      lit ''# Detector:         '' @ detector,
      lit ''# Generated at:     '' @ ts,
      lit ''# Scan ID:          '' @ scan_value scan_id,
      lit ''# Expected account: '' @ id_value account_id,
      lit ''# Region:           '' @ region] @
     (case resource of
        Some r \<Rightarrow> [lit ''# Resource:         '' @ r]
      | None \<Rightarrow> lit ''# Resources:'' # map target_line targets) @
     header_tail"

definition header ::
  "pystr \<Rightarrow> script_kind \<Rightarrow> pystr \<Rightarrow> datetime \<Rightarrow> validated_identifier option \<Rightarrow>
   validated_identifier \<Rightarrow> pystr \<Rightarrow> pystr option \<Rightarrow> script_target list \<Rightarrow> py_exc + pystr" where
  "header title kind detector generated_at scan_id account_id region resource targets =
     r_bind (timestamp generated_at) (\<lambda>ts.
       Inr (join [10]
         (header_lines title kind detector ts scan_id account_id region resource targets)))"

section \<open>Validation\<close>

definition validate_scan_option :: "validated_identifier option \<Rightarrow> py_exc + unit" where
  "validate_scan_option scan_id =
     (case scan_id of
        None \<Rightarrow> Inr ()
      | Some s \<Rightarrow>
          r_bind (require_kind s K_SCAN_ID) (\<lambda>_.
          r_bind (validate_scan_id (id_value s)) (\<lambda>_. Inr ())))"

definition validate_common ::
  "validated_identifier \<Rightarrow> validated_identifier option \<Rightarrow> validated_identifier \<Rightarrow>
   validated_identifier \<Rightarrow> py_exc + unit" where
  "validate_common account_id scan_id ignore_tag_key ignore_tag_value =
     r_bind (require_kind account_id K_ACCOUNT_ID) (\<lambda>_.
     r_bind (validate_account_id (id_value account_id)) (\<lambda>_.
     r_bind (validate_scan_option scan_id) (\<lambda>_.
     r_bind (require_kind ignore_tag_key K_TAG_KEY) (\<lambda>_.
     r_bind (require_kind ignore_tag_value K_TAG_VALUE) (\<lambda>_.
     r_bind (validate_tag_key (id_value ignore_tag_key)) (\<lambda>_.
     r_bind (validate_tag_value (id_value ignore_tag_value)) (\<lambda>_. Inr ())))))))"

definition validate_expected ::
  "detector_type \<Rightarrow> pystr \<Rightarrow> py_exc + validated_identifier" where
  "validate_expected d value =
     (case d of
        UNATTACHED_EBS_VOLUME \<Rightarrow> validate_volume_id value
      | UNASSOCIATED_ELASTIC_IP \<Rightarrow> validate_allocation_id value
      | STOPPED_EC2_INSTANCE \<Rightarrow> validate_instance_id value
      | SNAPSHOT_MISSING_SOURCE_VOLUME \<Rightarrow> validate_snapshot_id value)"

definition validate_target :: "detector_type \<Rightarrow> script_target \<Rightarrow> py_exc + unit" where
  "validate_target d t =
     r_bind (require_kind (tg_region t) K_REGION) (\<lambda>_.
     r_bind (validate_region (id_value (tg_region t)) None) (\<lambda>_.
     r_bind (require_kind (tg_resource_id t) (expected_kinds d)) (\<lambda>_.
     r_bind (validate_expected d (id_value (tg_resource_id t))) (\<lambda>_. Inr ()))))"

section \<open>The last check\<close>

text \<open>
  \<open>str.splitlines\<close>: the line boundaries of Python, with carriage return and line feed
  together counting as one, and no empty line after a final boundary.
\<close>

definition line_break :: "nat \<Rightarrow> bool" where
  "line_break c \<longleftrightarrow> c \<in> {10, 11, 12, 13, 28, 29, 30, 133, 8232, 8233}"

fun splitlines :: "pystr \<Rightarrow> pystr list" where
  "splitlines [] = []"
| "splitlines (c # s) =
     (if c = 13 \<and> starts_with s [10] then [] # splitlines (tl s)
      else if line_break c then [] # splitlines s
      else case splitlines s of [] \<Rightarrow> [[c]] | l # ls \<Rightarrow> (c # l) # ls)"

text \<open>
  \<open>_READONLY\<close>; on a line of \<open>n\<close> characters \<open>+\<close> and \<open>*\<close> repeat at most \<open>n\<close> times.
\<close>

definition name_char :: "nat \<Rightarrow> bool" where
  "name_char c \<longleftrightarrow> (65 \<le> c \<and> c \<le> 90) \<or> c = 95"

definition readonly_rx :: "nat \<Rightarrow> rx" where
  "readonly_rx n =
     RSeq (RLit (lit ''readonly ''))
       (RSeq (RRep (RClass name_char) 1 n)
         (RSeq (RLit (lit ''=\"'')) (RSeq (RRep (RClass tag_char) 0 n) (RLit (lit ''\"'')))))"

definition readonly_ok :: "pystr \<Rightarrow> bool" where
  "readonly_ok line \<longleftrightarrow> fullmatch (readonly_rx (length line)) line"

definition printable :: "nat \<Rightarrow> bool" where
  "printable c \<longleftrightarrow> 32 \<le> c \<and> c \<le> 126"

definition assert_safe :: "pystr \<Rightarrow> py_exc + unit" where
  "assert_safe content =
     (case find (\<lambda>line. starts_with line (lit ''readonly '') \<and> \<not> readonly_ok line)
        (splitlines content) of
        Some line \<Rightarrow> Inl (AssertionError (lit ''unsafe readonly assignment: '' @ line))
      | None \<Rightarrow>
          if list_ex (\<lambda>c. c \<noteq> 10 \<and> \<not> printable c) content
          then Inl (AssertionError
                 (lit ''generated script contains non-ASCII or non-printable characters''))
          else Inr ())"

definition readonly_line :: "pystr \<Rightarrow> pystr \<Rightarrow> pystr" where
  "readonly_line name value = lit ''readonly '' @ name @ lit ''=\"'' @ value @ lit ''\"''"

text \<open>\<open>_readonly\<close>, with the newline at its end.\<close>

definition readonly :: "pystr \<Rightarrow> pystr \<Rightarrow> pystr" where
  "readonly name value = readonly_line name value @ [10]"

section \<open>One script\<close>

definition script_assignments ::
  "script_kind \<Rightarrow> detector_type \<Rightarrow> validated_identifier \<Rightarrow> script_target \<Rightarrow>
   validated_identifier \<Rightarrow> validated_identifier \<Rightarrow> pystr" where
  "script_assignments kind d account_id target ignore_tag_key ignore_tag_value =
     readonly (lit ''EXPECTED_ACCOUNT_ID'') (id_value account_id) @
     readonly (lit ''REGION'') (id_value (tg_region target)) @
     readonly (resource_variables d) (id_value (tg_resource_id target)) @
     (if kind \<noteq> INVESTIGATION
      then readonly (lit ''IGNORE_TAG_KEY'') (id_value ignore_tag_key) @
           readonly (lit ''IGNORE_TAG_VALUE'') (id_value ignore_tag_value) @
           readonly (lit ''CLOUDFORMATION_TAG_KEY'') (lit ''aws:cloudformation:stack-name'')
      else [])"

definition script_body :: "script_kind \<Rightarrow> detector_type \<Rightarrow> pystr" where
  "script_body kind d =
     (if kind = INVESTIGATION
      then unlines investigation_preamble_lines @ unlines (investigation_bodies d)
      else if d = UNATTACHED_EBS_VOLUME then unlines ebs_delete_body_lines
      else unlines eip_release_body_lines)"

definition script_action :: "script_kind \<Rightarrow> detector_type \<Rightarrow> pystr" where
  "script_action kind d =
     (if kind = INVESTIGATION then investigation_actions d
      else if d = UNATTACHED_EBS_VOLUME then lit ''delete-volume''
      else lit ''release-address'')"

definition script_checks ::
  "script_kind \<Rightarrow> detector_type \<Rightarrow> validated_identifier \<Rightarrow> script_target \<Rightarrow> pystr list" where
  "script_checks kind d account_id target =
     (if kind = INVESTIGATION
      then lit ''read-only describe commands only'' #
           (if d = SNAPSHOT_MISSING_SOURCE_VOLUME
            then [lit ''deletion command present only as a comment''] else [])
      else
        [lit ''account verification for '' @ id_value account_id,
         lit ''explicit region '' @ id_value (tg_region target),
         (if d = UNATTACHED_EBS_VOLUME
          then lit ''live state re-fetch: volume available with 0 attachments''
          else lit ''live state re-fetch: address remains unassociated''),
         lit ''ignore-tag abort'',
         lit ''CloudFormation-tag abort'',
         lit ''exact confirmation phrase '' @
           (if d = UNATTACHED_EBS_VOLUME then lit ''DELETE '' else lit ''RELEASE '') @
           id_value (tg_resource_id target)])"

definition script_warnings :: "detector_type \<Rightarrow> pystr list" where
  "script_warnings d =
     (if d = UNATTACHED_EBS_VOLUME
      then [lit ''An optional pre-deletion snapshot incurs storage charges.'']
      else if d = UNASSOCIATED_ELASTIC_IP
      then [lit ''Releasing an Elastic IP may be irrecoverable.'']
      else []) @ [lit ''CloudZombie cannot prove ownership.'']"

definition script_title :: "script_kind \<Rightarrow> pystr" where
  "script_title kind =
     (if kind = INVESTIGATION then lit ''read-only investigation script''
      else lit ''guarded remediation script'')"

definition guarded_detectors :: "detector_type list" where
  "guarded_detectors = [UNATTACHED_EBS_VOLUME, UNASSOCIATED_ELASTIC_IP]"

definition generate_script ::
  "script_kind \<Rightarrow> detector_type \<Rightarrow> validated_identifier \<Rightarrow> script_target \<Rightarrow>
   validated_identifier option \<Rightarrow> datetime \<Rightarrow> validated_identifier \<Rightarrow> validated_identifier \<Rightarrow>
   py_exc + generated_script" where
  "generate_script kind d account_id target scan_id generated_at ignore_tag_key ignore_tag_value =
     r_bind (validate_common account_id scan_id ignore_tag_key ignore_tag_value) (\<lambda>_.
     r_bind (validate_target d target) (\<lambda>_.
     if kind = GUARDED_REMEDIATION \<and> d \<notin> set guarded_detectors
     then Inl (ValueError (lit ''this detector has no guarded remediation body''))
     else
       r_bind (header (script_title kind) kind (detector_type_value d) generated_at scan_id
         account_id (id_value (tg_region target)) (Some (id_value (tg_resource_id target))) [])
       (\<lambda>hd_text.
       let content =
             unlines shebang_lines @ hd_text @ unlines strict_mode_lines @
             script_assignments kind d account_id target ignore_tag_key ignore_tag_value @ [10] @
             unlines common_functions_lines @ script_body kind d
       in r_bind (validate_common account_id scan_id ignore_tag_key ignore_tag_value) (\<lambda>_.
          r_bind (validate_target d target) (\<lambda>_.
          r_bind (assert_safe content) (\<lambda>_.
          Inr \<lparr>gs_kind = kind,
               gs_filename =
                 lit ''cloudzombie-'' @ script_action kind d @ lit ''-'' @
                 id_value (tg_resource_id target) @ lit ''-'' @ id_value (tg_region target) @
                 lit ''.sh'',
               gs_content = content,
               gs_checks = script_checks kind d account_id target,
               gs_warnings = script_warnings d\<rparr>))))))"

section \<open>The bulk script\<close>

type_synonym bulk_target = "detector_type \<times> script_target"

definition bulk_call :: "bulk_target \<Rightarrow> pystr" where
  "bulk_call dt =
     (if fst dt = UNATTACHED_EBS_VOLUME then lit ''  process_volume \"''
      else lit ''  process_address \"'') @
     id_value (tg_region (snd dt)) @ lit ''\" \"'' @ id_value (tg_resource_id (snd dt)) @ lit ''\"''"

definition region_comment :: pystr where
  "region_comment =
     lit ''# REGION is used only for the STS identity check; each resource names its own region.''"

definition bulk_assignments ::
  "validated_identifier \<Rightarrow> pystr \<Rightarrow> validated_identifier \<Rightarrow> validated_identifier \<Rightarrow> pystr" where
  "bulk_assignments account_id first_region ignore_tag_key ignore_tag_value =
     readonly (lit ''EXPECTED_ACCOUNT_ID'') (id_value account_id) @
     readonly (lit ''REGION'') first_region @
     region_comment @ [10] @
     readonly (lit ''IGNORE_TAG_KEY'') (id_value ignore_tag_key) @
     readonly (lit ''IGNORE_TAG_VALUE'') (id_value ignore_tag_value) @
     readonly (lit ''CLOUDFORMATION_TAG_KEY'') (lit ''aws:cloudformation:stack-name'')"

definition validate_bulk_target :: "bulk_target \<Rightarrow> py_exc + unit" where
  "validate_bulk_target dt =
     (if fst dt \<notin> set guarded_detectors
      then Inl (ValueError (lit ''bulk scripts support only EBS volumes and Elastic IPs''))
      else validate_target (fst dt) (snd dt))"

definition bulk_warnings :: "pystr list" where
  "bulk_warnings =
     [lit ''Releasing an Elastic IP may be irrecoverable.'',
      lit ''An optional snapshot is not offered in bulk mode.'',
      lit ''CloudZombie cannot prove ownership.'']"

definition bulk_checks :: "validated_identifier \<Rightarrow> pystr list" where
  "bulk_checks account_id =
     [lit ''account verification for '' @ id_value account_id,
      lit ''explicit region per resource'',
      lit ''live state re-fetch per resource'',
      lit ''ignore-tag abort'',
      lit ''CloudFormation-tag abort'',
      lit ''exact confirmation phrase per resource'']"

definition generate_bulk_script ::
  "validated_identifier \<Rightarrow> bulk_target list \<Rightarrow> validated_identifier option \<Rightarrow> datetime \<Rightarrow>
   validated_identifier \<Rightarrow> validated_identifier \<Rightarrow> py_exc + generated_script" where
  "generate_bulk_script account_id targets scan_id generated_at ignore_tag_key ignore_tag_value =
     (if targets = [] then Inl (ValueError (lit ''bulk script requires at least one target''))
      else
        r_bind (validate_common account_id scan_id ignore_tag_key ignore_tag_value) (\<lambda>_.
        r_bind (r_map validate_bulk_target targets) (\<lambda>_.
        let first_region = id_value (tg_region (snd (hd targets)))
        in r_bind (header (lit ''guarded bulk remediation script'') GUARDED_REMEDIATION
             (lit ''multiple'') generated_at scan_id account_id
             (lit ''multiple; see resources'') None (map snd targets)) (\<lambda>hd_text.
        let content =
              unlines shebang_lines @ hd_text @ unlines strict_mode_lines @
              bulk_assignments account_id first_region ignore_tag_key ignore_tag_value @ [10] @
              unlines common_functions_lines @ unlines bulk_functions_lines @
              unlines bulk_main_open_lines @ unlines (map bulk_call targets) @
              unlines bulk_main_close_lines
        in r_bind (validate_common account_id scan_id ignore_tag_key ignore_tag_value) (\<lambda>_.
           r_bind (r_map (\<lambda>dt. validate_target (fst dt) (snd dt)) targets) (\<lambda>_.
           r_bind (assert_safe content) (\<lambda>_.
           r_bind (timestamp generated_at) (\<lambda>ts.
           Inr \<lparr>gs_kind = GUARDED_REMEDIATION,
                gs_filename =
                  lit ''cloudzombie-bulk-remediation-'' @
                  filter (\<lambda>c. c \<noteq> 45 \<and> c \<noteq> 58) ts @ lit ''.sh'',
                gs_content = content,
                gs_checks = bulk_checks account_id,
                gs_warnings = bulk_warnings\<rparr>))))))))"

end
