(* ===== verification/ScriptSafety.thy ===== *)
theory ScriptSafety
  imports Generator
begin

text \<open>
  What holds of every script the generator returns. The first part relates the text to its
  lines; the second checks the constant templates once, over characters; the third gives the
  lines of a script and reads the safety properties off them.
\<close>

section \<open>Lines\<close>

definition clean :: "pystr \<Rightarrow> bool" where
  "clean s \<longleftrightarrow> list_all printable s"

lemma clean_simps [simp]:
  "clean []" "clean (c # s) \<longleftrightarrow> printable c \<and> clean s" "clean (s @ t) \<longleftrightarrow> clean s \<and> clean t"
  by (auto simp: clean_def)

definition no_break :: "pystr \<Rightarrow> bool" where
  "no_break s \<longleftrightarrow> list_all (\<lambda>c. \<not> line_break c) s"

lemma no_break_simps [simp]:
  "no_break []" "no_break (c # s) \<longleftrightarrow> \<not> line_break c \<and> no_break s"
  "no_break (s @ t) \<longleftrightarrow> no_break s \<and> no_break t"
  by (auto simp: no_break_def)

lemma printable_no_break: "printable c \<Longrightarrow> \<not> line_break c"
  by (auto simp: printable_def line_break_def)

lemma clean_no_break: "clean s \<Longrightarrow> no_break s"
  by (induction s) (auto simp: printable_no_break)

lemma splitlines_line: "no_break l \<Longrightarrow> splitlines (l @ 10 # s) = l # splitlines s"
proof (induction l)
  case Nil
  then show ?case by (simp add: line_break_def)
next
  case (Cons c l)
  then show ?case by (auto simp: line_break_def)
qed

lemma unlines_simps [simp]:
  "unlines [] = []" "unlines (l # ls) = l @ 10 # unlines ls"
  "unlines (ks @ ls) = unlines ks @ unlines ls"
  by (simp_all add: unlines_def)

lemma splitlines_unlines: "list_all no_break ls \<Longrightarrow> splitlines (unlines ls) = ls"
  by (induction ls) (simp_all add: splitlines_line)

lemma join_unlines: "join [10] (ls @ [[]]) = unlines ls"
proof (induction ls)
  case (Cons l ls)
  then show ?case by (cases "ls @ [[]]") auto
qed simp

lemma unlines_safe: "list_all clean ls \<Longrightarrow> list_all (\<lambda>c. c = 10 \<or> printable c) (unlines ls)"
  by (induction ls) (auto simp: list_all_iff clean_def)

lemma unlines_clean:
  "list_all (\<lambda>c. c = 10 \<or> printable c) (unlines ls) \<Longrightarrow> list_all (\<lambda>l. 10 \<notin> set l) ls \<Longrightarrow>
   list_all clean ls"
proof (induction ls)
  case (Cons l ls)
  then have "\<forall>c \<in> set l. printable c" by (simp add: list_all_iff) (metis UnI1)
  then show ?case using Cons by (auto simp: list_all_iff clean_def)
qed simp

section \<open>Literals over characters\<close>

fun printable_c :: "char \<Rightarrow> bool" where
  "printable_c (Char b0 b1 b2 b3 b4 b5 b6 b7) \<longleftrightarrow>
     \<not> b7 \<and> (b5 \<or> b6) \<and> \<not> (b0 \<and> b1 \<and> b2 \<and> b3 \<and> b4 \<and> b5 \<and> b6)"

lemma printable_char: "printable (of_char c) \<longleftrightarrow> printable_c c"
proof (cases c)
  case (Char b0 b1 b2 b3 b4 b5 b6 b7)
  then show ?thesis
    by (cases b0; cases b1; cases b2; cases b3; cases b4; cases b5; cases b6; cases b7)
      (simp_all add: printable_def of_char_def)
qed

lemma clean_lit [simp]: "clean (lit s) \<longleftrightarrow> list_all printable_c s"
  by (simp add: clean_def lit_def list_all_iff printable_char)

fun prefix_c :: "string \<Rightarrow> string \<Rightarrow> bool" where
  "prefix_c [] s = True"
| "prefix_c (c # p) [] = False"
| "prefix_c (c # p) (d # s) = (c = d \<and> prefix_c p s)"

lemma of_char_nat_eq [simp]: "(of_char c :: nat) = of_char d \<longleftrightarrow> c = d"
  using inj_of_char by (auto simp: inj_def)

lemma starts_with_lit: "starts_with (lit s) (lit p) \<longleftrightarrow> prefix_c p s"
  by (induction p s rule: prefix_c.induct) (auto simp: lit_def)

lemma starts_with_lit_append:
  "length p \<le> length s \<Longrightarrow> starts_with (lit s @ t) (lit p) \<longleftrightarrow> prefix_c p s"
  by (induction p s rule: prefix_c.induct) (auto simp: lit_def)

section \<open>What a line may call\<close>

text \<open>
  \<open>only_reads l\<close>: wherever the line mentions \<open>aws\<close> as a command word, a describing or
  identifying call follows, or it is the test whether the command line tool is installed.
\<close>

definition read_calls :: "pystr list" where
  "read_calls =
     [lit ''aws ec2 describe-'', lit ''aws sts get-caller-identity'', lit ''aws >/dev/null'']"

fun only_reads :: "pystr \<Rightarrow> bool" where
  "only_reads [] = True"
| "only_reads (c # s) =
     ((starts_with (c # s) (lit ''aws '') \<longrightarrow> list_ex (starts_with (c # s)) read_calls) \<and>
      only_reads s)"

definition comment :: "pystr \<Rightarrow> bool" where
  "comment l \<longleftrightarrow> starts_with l (lit ''#'')"

fun only_reads_c :: "string \<Rightarrow> bool" where
  "only_reads_c [] = True"
| "only_reads_c (c # s) =
     (if c = CHR ''a''
      then (prefix_c ''ws '' s \<longrightarrow>
              prefix_c ''ws ec2 describe-'' s \<or> prefix_c ''ws sts get-caller-identity'' s \<or>
              prefix_c ''ws >/dev/null'' s) \<and>
           only_reads_c s
      else only_reads_c s)"

lemma only_reads_lit: "only_reads (lit s) \<longleftrightarrow> only_reads_c s"
proof (induction s)
  case (Cons c s)
  have "only_reads (lit (c # s)) \<longleftrightarrow>
      (starts_with (lit (c # s)) (lit ''aws '') \<longrightarrow>
       list_ex (starts_with (lit (c # s))) read_calls) \<and> only_reads (lit s)"
    by (simp only: lit_Cons only_reads.simps)
  then show ?case using Cons by (simp add: starts_with_lit read_calls_def)
qed simp

lemma only_reads_no_space: "32 \<notin> set s \<Longrightarrow> only_reads s"
proof (induction s)
  case (Cons c s)
  have "\<not> starts_with (c # s) (lit ''aws '')"
    using Cons.prems by (auto simp: starts_with_iff lit_def)
  then show ?case using Cons by simp
qed simp

section \<open>The templates, checked once\<close>

lemmas template_defs =
  shebang_lines_def strict_mode_lines_def common_functions_lines_def ebs_delete_body_lines_def
  eip_release_body_lines_def investigation_preamble_lines_def ebs_investigation_body_lines_def
  eip_investigation_body_lines_def ec2_investigation_body_lines_def
  snapshot_investigation_body_lines_def bulk_functions_lines_def bulk_main_open_lines_def
  bulk_main_close_lines_def

text \<open>A template line: printable, and not one that starts with \<open>readonly\<close>.\<close>

definition plain :: "pystr \<Rightarrow> bool" where
  "plain l \<longleftrightarrow> clean l \<and> \<not> starts_with l (lit ''readonly '')"

lemma plain_lit [simp]:
  "plain (lit s) \<longleftrightarrow> list_all printable_c s \<and> \<not> prefix_c ''readonly '' s"
  by (simp add: plain_def starts_with_lit)

lemma plain_lit_append [simp]:
  "9 \<le> length s \<Longrightarrow>
   plain (lit s @ t) \<longleftrightarrow> list_all printable_c s \<and> \<not> prefix_c ''readonly '' s \<and> clean t"
  by (auto simp: plain_def starts_with_lit_append)

lemma plain_Nil [simp]: "plain []"
  by (simp add: plain_def lit_def)

lemma clean_special [simp]: "printable 39" "printable 92" "printable 32"
  by (simp_all add: printable_def)

lemma plain_small:
  "list_all plain shebang_lines" "list_all plain strict_mode_lines"
  "list_all plain bulk_main_open_lines" "list_all plain bulk_main_close_lines"
  "list_all plain investigation_preamble_lines"
  by (simp_all add: shebang_lines_def strict_mode_lines_def bulk_main_open_lines_def
      bulk_main_close_lines_def investigation_preamble_lines_def)

lemma plain_common: "list_all plain common_functions_lines"
  by (simp add: common_functions_lines_def)

lemma plain_ebs_delete: "list_all plain ebs_delete_body_lines"
  by (simp add: ebs_delete_body_lines_def)

lemma plain_eip_release: "list_all plain eip_release_body_lines"
  by (simp add: eip_release_body_lines_def)

lemma plain_investigation: "list_all plain (investigation_bodies d)"
  by (cases d) (simp_all add: ebs_investigation_body_lines_def eip_investigation_body_lines_def
      ec2_investigation_body_lines_def snapshot_investigation_body_lines_def)

lemma plain_bulk: "list_all plain bulk_functions_lines"
  by (simp add: bulk_functions_lines_def)

section \<open>Values\<close>

definition value_char :: "nat \<Rightarrow> bool" where
  "value_char c \<longleftrightarrow> tag_char c \<or> unicode_digit c"

definition value_ok :: "pystr \<Rightarrow> bool" where
  "value_ok s \<longleftrightarrow> (\<forall>c \<in> set s. value_char c)"

lemma value_char_small: "value_char c \<Longrightarrow> c \<noteq> 10 \<and> c \<noteq> 32 \<and> c \<noteq> 34"
  by (auto simp: value_char_def tag_char_def lit_def unicode_digit_def nd_zeros_def)

lemma value_ok_notin: "value_ok s \<Longrightarrow> 10 \<notin> set s \<and> 32 \<notin> set s \<and> 34 \<notin> set s"
  using value_char_small by (auto simp: value_ok_def)

lemma pattern_value:
  "validate_pattern k v = Inr x \<Longrightarrow> value_ok v"
  using pattern_chars by (fastforce simp: validate_pattern_Inr value_ok_def value_char_def)

lemma validate_scan_id_text:
  assumes "validate_scan_id v = Inr x"
  shows "value_ok v"
proof -
  have "\<forall>c \<in> set v. lower_char c \<in> set (id_value x)"
    using assms
    by (auto simp: validate_scan_id_def Let_def split: if_splits option.splits)
      (metis image_eqI list.set_map)
  moreover have "\<forall>c \<in> set (id_value x). c = 45 \<or> (48 \<le> c \<and> c \<le> 57) \<or> (97 \<le> c \<and> c \<le> 102)"
    using validate_scan_id_value [OF assms] uuid_text_chars by metis
  ultimately have "\<forall>c \<in> set v. tag_char c"
    by (fastforce simp: lower_char_def tag_char_def lit_def split: if_splits)
  then show ?thesis by (simp add: value_ok_def value_char_def)
qed

lemma scan_id_ascii:
  assumes "validate_scan_id v = Inr x" and "c \<in> set v"
  shows "c < 128"
proof -
  have "lower_char c \<in> set (id_value x)"
    using assms by (auto simp: validate_scan_id_def Let_def split: if_splits option.splits)
      (metis image_eqI list.set_map)
  then have "lower_char c < 128"
    using validate_scan_id_value [OF assms(1)] uuid_text_chars by fastforce
  then show ?thesis by (auto simp: lower_char_def split: if_splits)
qed

lemma require_kind_Inr [simp]: "require_kind i k = Inr u \<longleftrightarrow> id_kind i = k"
  by (simp add: require_kind_def)

lemma validate_common_values:
  assumes "validate_common a sc k v = Inr u"
  shows "value_ok (id_value a)" and "value_ok (scan_value sc)"
    and "value_ok (id_value k)" and "value_ok (id_value v)"
proof -
  have "value_ok (lit ''none'')" by (simp add: value_ok_def value_char_def tag_char_def lit_def)
  then show "value_ok (scan_value sc)"
    using assms
    by (auto simp: validate_common_def validate_scan_option_def scan_value_def r_bind_Inr
        validate_scan_id_text split: option.splits)
qed (use assms in \<open>auto simp: validate_common_def r_bind_Inr validator_defs intro: pattern_value\<close>)

lemma validate_target_values:
  assumes "validate_target d t = Inr u"
  shows "value_ok (id_value (tg_region t))" and "value_ok (id_value (tg_resource_id t))"
  using assms
  by (auto simp: validate_target_def validate_expected_def r_bind_Inr validator_defs
      intro: pattern_value split: detector_type.splits)

section \<open>The lines of a script\<close>

definition header_comments ::
  "pystr \<Rightarrow> script_kind \<Rightarrow> pystr \<Rightarrow> pystr \<Rightarrow> validated_identifier option \<Rightarrow>
   validated_identifier \<Rightarrow> pystr \<Rightarrow> pystr option \<Rightarrow> script_target list \<Rightarrow> pystr list" where
  "header_comments title kind detector ts scan_id account_id region resource targets =
     butlast (header_lines title kind detector ts scan_id account_id region resource targets)"

lemma header_unlines:
  "join [10] (header_lines ti k d ts sc a r re tgs) = unlines (header_comments ti k d ts sc a r re tgs)"
proof -
  have "header_lines ti k d ts sc a r re tgs = header_comments ti k d ts sc a r re tgs @ [[]]"
    by (simp add: header_comments_def header_lines_def header_tail_def butlast_append)
  then show ?thesis by (metis join_unlines)
qed

definition assignment_lines ::
  "script_kind \<Rightarrow> detector_type \<Rightarrow> validated_identifier \<Rightarrow> script_target \<Rightarrow>
   validated_identifier \<Rightarrow> validated_identifier \<Rightarrow> pystr list" where
  "assignment_lines kind d a t k v =
     [readonly_line (lit ''EXPECTED_ACCOUNT_ID'') (id_value a),
      readonly_line (lit ''REGION'') (id_value (tg_region t)),
      readonly_line (resource_variables d) (id_value (tg_resource_id t))] @
     (if kind = GUARDED_REMEDIATION
      then [readonly_line (lit ''IGNORE_TAG_KEY'') (id_value k),
            readonly_line (lit ''IGNORE_TAG_VALUE'') (id_value v),
            readonly_line (lit ''CLOUDFORMATION_TAG_KEY'') (lit ''aws:cloudformation:stack-name'')]
      else [])"

definition body_lines :: "script_kind \<Rightarrow> detector_type \<Rightarrow> pystr list" where
  "body_lines kind d =
     (if kind = INVESTIGATION then investigation_preamble_lines @ investigation_bodies d
      else if d = UNATTACHED_EBS_VOLUME then ebs_delete_body_lines
      else eip_release_body_lines)"

definition script_lines ::
  "script_kind \<Rightarrow> detector_type \<Rightarrow> validated_identifier \<Rightarrow> script_target \<Rightarrow>
   validated_identifier option \<Rightarrow> datetime \<Rightarrow> validated_identifier \<Rightarrow> validated_identifier \<Rightarrow>
   pystr list" where
  "script_lines kind d a t sc at' k v =
     shebang_lines @
     header_comments (script_title kind) kind (detector_type_value d)
       (timestamp_z (instant_of at')) sc a (id_value (tg_region t))
       (Some (id_value (tg_resource_id t))) [] @
     strict_mode_lines @ assignment_lines kind d a t k v @ [[]] @
     common_functions_lines @ body_lines kind d"

lemma script_kind_neq: "kind \<noteq> INVESTIGATION \<longleftrightarrow> kind = GUARDED_REMEDIATION"
  by (cases kind) simp_all

lemma script_assignments_lines: "script_assignments kind d a t k v = unlines (assignment_lines kind d a t k v)"
  by (simp add: script_assignments_def assignment_lines_def readonly_def script_kind_neq)

lemma script_body_lines: "script_body kind d = unlines (body_lines kind d)"
  by (simp add: script_body_def body_lines_def)

lemma script_content:
  "unlines shebang_lines @ unlines (header_comments (script_title kind) kind (detector_type_value d)
     (timestamp_z (instant_of at')) sc a (id_value (tg_region t))
     (Some (id_value (tg_resource_id t))) []) @ unlines strict_mode_lines @
     script_assignments kind d a t k v @ 10 # (unlines common_functions_lines @ script_body kind d) =
   unlines (script_lines kind d a t sc at' k v)"
  by (simp add: script_lines_def script_assignments_lines script_body_lines)

text \<open>When the generator returns, and what.\<close>

lemma generate_script_Inr:
  "generate_script kind d a t sc at' k v = Inr g \<longleftrightarrow>
     validate_common a sc k v = Inr () \<and> validate_target d t = Inr () \<and>
     (kind = GUARDED_REMEDIATION \<longrightarrow> d \<in> set guarded_detectors) \<and> aware at' \<and>
     assert_safe (unlines (script_lines kind d a t sc at' k v)) = Inr () \<and>
     g = \<lparr>gs_kind = kind,
          gs_filename = lit ''cloudzombie-'' @ script_action kind d @ lit ''-'' @
            id_value (tg_resource_id t) @ lit ''-'' @ id_value (tg_region t) @ lit ''.sh'',
          gs_content = unlines (script_lines kind d a t sc at' k v),
          gs_checks = script_checks kind d a t, gs_warnings = script_warnings d\<rparr>"
  by (auto simp: generate_script_def r_bind_Inr Let_def header_def timestamp_def header_unlines
      script_content)

section \<open>Every line is clean\<close>

definition no_newline :: "pystr list \<Rightarrow> bool" where
  "no_newline ls \<longleftrightarrow> list_all (\<lambda>l. 10 \<notin> set l) ls"

lemma no_newline_simps [simp]:
  "no_newline []" "no_newline (l # ls) \<longleftrightarrow> 10 \<notin> set l \<and> no_newline ls"
  "no_newline (ks @ ls) \<longleftrightarrow> no_newline ks \<and> no_newline ls"
  by (simp_all add: no_newline_def)

lemma clean_newline: "clean l \<Longrightarrow> 10 \<notin> set l"
  by (auto simp: clean_def list_all_iff printable_def)

lemma plain_clean: "list_all plain ls \<Longrightarrow> list_all clean ls"
  by (auto simp: list_all_iff plain_def)

lemma clean_no_newline: "list_all clean ls \<Longrightarrow> no_newline ls"
  using clean_newline by (auto simp: list_all_iff no_newline_def)

lemma clean_show_int: "clean (show_int i)"
  using show_nat_digits by (fastforce simp: show_int_def clean_def list_all_iff printable_def)

lemma clean_pad: "clean (pad w i)"
  using clean_show_int by (auto simp: pad_def Let_def clean_def list_all_iff printable_def)

lemma clean_timestamp: "clean (timestamp_z t)"
  by (auto simp: timestamp_z_def date_iso_def clean_pad split: prod.splits)

lemma clean_values:
  "clean (script_kind_value kind)" "clean (detector_type_value d)" "clean (script_title kind)"
  "clean (resource_variables d)"
proof -
  show "clean (script_kind_value kind)" "clean (script_title kind)"
    by (cases kind; simp add: script_title_def)+
  show "clean (detector_type_value d)" "clean (resource_variables d)"
    by (cases d; simp)+
qed

lemma plain_bodies: "list_all plain (body_lines kind d)"
  by (simp add: body_lines_def plain_small plain_investigation plain_ebs_delete plain_eip_release)

lemmas plain_templates =
  plain_small plain_common plain_ebs_delete plain_eip_release plain_investigation plain_bulk
  plain_bodies

lemmas no_newline_templates [simp] = plain_templates [THEN plain_clean, THEN clean_no_newline]

lemma lit_no_newline: "list_all printable_c s \<Longrightarrow> 10 \<notin> set (lit s)"
  by (rule clean_newline) simp

lemma header_comments_simps:
  "header_comments ti k d ts sc a r re tgs =
     [lit ''# Generated by CloudZombie - '' @ ti,
      lit ''# Kind:             '' @ script_kind_value k,
      lit ''# Detector:         '' @ d,
      lit ''# Generated at:     '' @ ts,
      lit ''# Scan ID:          '' @ scan_value sc,
      lit ''# Expected account: '' @ id_value a,
      lit ''# Region:           '' @ r] @
     (case re of
        Some x \<Rightarrow> [lit ''# Resource:         '' @ x]
      | None \<Rightarrow> lit ''# Resources:'' # map target_line tgs) @
     butlast header_tail"
  by (simp add: header_comments_def header_lines_def header_tail_def butlast_append)

lemma header_no_newline:
  assumes "10 \<notin> set ti" and "10 \<notin> set d" and "10 \<notin> set ts" and "10 \<notin> set (scan_value sc)"
    and "10 \<notin> set (id_value a)" and "10 \<notin> set r" and "\<And>x. re = Some x \<Longrightarrow> 10 \<notin> set x"
    and "\<forall>t \<in> set tgs. 10 \<notin> set (id_value (tg_region t)) \<and> 10 \<notin> set (id_value (tg_resource_id t))"
  shows "no_newline (header_comments ti k d ts sc a r re tgs)"
proof -
  have "no_newline (map target_line tgs)"
    using assms(8) by (auto simp: no_newline_def list_all_iff target_line_def lit_no_newline)
  then show ?thesis
    using assms(1-7) clean_newline [OF clean_values(1)]
    by (auto simp: header_comments_simps header_tail_def lit_no_newline split: option.splits)
qed

lemma readonly_no_newline:
  "clean name \<Longrightarrow> 10 \<in> set (readonly_line name v) \<longleftrightarrow> 10 \<in> set v"
  using clean_newline by (auto simp: readonly_line_def lit_no_newline)

lemma script_no_newline:
  assumes "validate_common a sc k v = Inr ()" and "validate_target d t = Inr ()"
  shows "no_newline (script_lines kind d a t sc at' k v)"
proof -
  note vals = validate_common_values [OF assms(1)] validate_target_values [OF assms(2)]
  have "no_newline (assignment_lines kind d a t k v)"
    using vals [THEN value_ok_notin]
    by (auto simp: assignment_lines_def clean_values readonly_no_newline lit_no_newline)
  moreover have "no_newline (header_comments (script_title kind) kind (detector_type_value d)
      (timestamp_z (instant_of at')) sc a (id_value (tg_region t))
      (Some (id_value (tg_resource_id t))) [])"
    using vals [THEN value_ok_notin] clean_values [THEN clean_newline] clean_timestamp [THEN clean_newline]
    by (intro header_no_newline) auto
  ultimately show ?thesis by (simp add: script_lines_def)
qed

section \<open>The last check, characterised\<close>

lemma find_found: "find P xs = Some x \<Longrightarrow> x \<in> set xs \<and> P x"
  by (metis find_Some_iff nth_mem)

lemma assert_safe_Inr:
  "assert_safe s = Inr () \<longleftrightarrow>
     (\<forall>l \<in> set (splitlines s). starts_with l (lit ''readonly '') \<longrightarrow> readonly_ok l) \<and>
     list_all (\<lambda>c. c = 10 \<or> printable c) s"
  by (auto simp: assert_safe_def list_all_iff list_ex_iff find_None_iff split: option.splits
      dest!: find_found)

section \<open>Consequences for one script\<close>

lemma safe_lines:
  assumes "no_newline ls" and "list_all (\<lambda>c. c = 10 \<or> printable c) (unlines ls)"
  shows "list_all clean ls" and "splitlines (unlines ls) = ls"
proof -
  show "list_all clean ls" using assms unlines_clean by (simp add: no_newline_def)
  then have "list_all no_break ls" using clean_no_break by (auto simp: list_all_iff)
  then show "splitlines (unlines ls) = ls" by (rule splitlines_unlines)
qed

lemma script_splitlines:
  assumes "generate_script kind d a t sc at' k v = Inr g"
  shows "splitlines (gs_content g) = script_lines kind d a t sc at' k v"
    and "list_all clean (script_lines kind d a t sc at' k v)"
  using assms script_no_newline [of a sc k v d t kind at'] safe_lines
  by (auto simp: generate_script_Inr assert_safe_Inr)

text \<open>The values of a returned script are ASCII, so they are made of the allowed characters.\<close>

lemma value_ok_clean: "value_ok s \<Longrightarrow> clean s \<Longrightarrow> list_all tag_char s"
  using digit_tag_char
  by (fastforce simp: value_ok_def value_char_def clean_def list_all_iff printable_def)

lemma tag_clean: "list_all tag_char s \<Longrightarrow> clean s"
  using tag_char_printable by (auto simp: clean_def list_all_iff printable_def)

lemma readonly_ok_iff:
  assumes "name \<noteq> []" and "list_all name_char name" and "list_all tag_char v"
  shows "readonly_ok (readonly_line name v)"
proof -
  have "name @ lit ''=\"'' @ v @ lit ''\"'' \<in>
      lang (RSeq (RRep (RClass name_char) 1 n)
        (RSeq (RLit (lit ''=\"'')) (RSeq (RRep (RClass tag_char) 0 n) (RLit (lit ''\"'')))))"
    if "length name + length v \<le> n" for n
  proof -
    have "name \<in> lang (RRep (RClass name_char) 1 n)"
      using assms that by (simp add: list_all_iff Suc_leI del: lang.simps)
    moreover have "v \<in> lang (RRep (RClass tag_char) 0 n)"
      using assms that by (simp add: list_all_iff del: lang.simps)
    ultimately show ?thesis by (auto simp del: lang.simps(6) lang_rep_class)
  qed
  then show ?thesis
    by (simp add: readonly_ok_def fullmatch_lang readonly_rx_def readonly_line_def del: lang.simps(6)
        lang_rep_class)
qed

definition names_ok :: "pystr \<Rightarrow> bool" where
  "names_ok name \<longleftrightarrow> name \<noteq> [] \<and> list_all name_char name"

lemma names_are_ok:
  "names_ok (lit ''EXPECTED_ACCOUNT_ID'')" "names_ok (lit ''REGION'')"
  "names_ok (resource_variables d)" "names_ok (lit ''IGNORE_TAG_KEY'')"
  "names_ok (lit ''IGNORE_TAG_VALUE'')" "names_ok (lit ''CLOUDFORMATION_TAG_KEY'')"
  by (cases d; simp add: names_ok_def lit_def name_char_def)+

lemma stack_tag_ok: "list_all tag_char (lit ''aws:cloudformation:stack-name'')"
  by (simp add: lit_def tag_char_def)

lemma assignment_readonly_ok:
  assumes "list_all tag_char (id_value a)" and "list_all tag_char (id_value (tg_region t))"
    and "list_all tag_char (id_value (tg_resource_id t))" and "list_all tag_char (id_value k)"
    and "list_all tag_char (id_value v)"
  shows "list_all readonly_ok (assignment_lines kind d a t k v)"
  using assms names_are_ok stack_tag_ok
  by (auto simp: assignment_lines_def names_ok_def intro!: readonly_ok_iff)

lemma header_not_readonly:
  "l \<in> set (header_comments ti kd d ts sc a r re tgs) \<Longrightarrow> starts_with l (lit ''#'')"
  by (auto simp: header_comments_simps header_tail_def target_line_def starts_with_lit_append
      starts_with_lit split: option.splits)

lemma comment_not_readonly:
  "starts_with l (lit ''#'') \<Longrightarrow> \<not> starts_with l (lit ''readonly '')"
  by (cases l) (auto simp: lit_def)

lemma header_clean:
  assumes "clean ti" and "clean d" and "clean ts" and "clean (scan_value sc)"
    and "clean (id_value a)" and "clean r" and "\<And>x. re = Some x \<Longrightarrow> clean x"
    and "\<forall>t \<in> set tgs. clean (id_value (tg_region t)) \<and> clean (id_value (tg_resource_id t))"
  shows "list_all clean (header_comments ti k d ts sc a r re tgs)"
  using assms(1-7) clean_values(1) assms(8)
  by (auto simp: header_comments_simps header_tail_def list_all_iff target_line_def
      split: option.splits)

text \<open>Success: identifiers from the validators, an ASCII account and region, an aware time.\<close>

lemma script_lines_clean:
  assumes "list_all tag_char (id_value a)" and "clean (scan_value sc)"
    and "list_all tag_char (id_value (tg_region t))"
    and "list_all tag_char (id_value (tg_resource_id t))" and "list_all tag_char (id_value k)"
    and "list_all tag_char (id_value v)"
  shows "list_all clean (script_lines kind d a t sc at' k v)"
proof -
  have "clean (readonly_line name x)" if "clean name" "clean x" for name x
    using that by (simp add: readonly_line_def)
  then have "list_all clean (assignment_lines kind d a t k v)"
    using assms stack_tag_ok [THEN tag_clean]
    by (auto simp: assignment_lines_def clean_values tag_clean)
  moreover have "list_all clean (header_comments (script_title kind) kind (detector_type_value d)
      (timestamp_z (instant_of at')) sc a (id_value (tg_region t))
      (Some (id_value (tg_resource_id t))) [])"
    using assms by (intro header_clean) (auto simp: clean_values clean_timestamp tag_clean)
  ultimately show ?thesis
    by (simp add: script_lines_def plain_templates [THEN plain_clean])
qed

lemma readonly_lines_of_script:
  assumes "l \<in> set (script_lines kind d a t sc at' k v)" and "starts_with l (lit ''readonly '')"
  shows "l \<in> set (assignment_lines kind d a t k v)"
proof -
  have "\<not> starts_with x (lit ''readonly '')" if "list_all plain ls" "x \<in> set ls" for x ls
    using that by (auto simp: list_all_iff plain_def)
  moreover have "\<not> starts_with [] (lit ''readonly '')" by (simp add: lit_def)
  ultimately show ?thesis
    using assms header_not_readonly comment_not_readonly plain_templates
    unfolding script_lines_def by (auto; blast)
qed

lemma ascii_clean: "value_ok s \<Longrightarrow> is_ascii s \<Longrightarrow> list_all tag_char s"
  using digit_tag_char by (fastforce simp: value_ok_def value_char_def is_ascii_def list_all_iff)

lemma tag_pattern_values:
  assumes "validate_common a sc k v = Inr ()"
  shows "list_all tag_char (id_value k)" and "list_all tag_char (id_value v)"
    and "clean (scan_value sc)"
proof -
  show "list_all tag_char (id_value k)" "list_all tag_char (id_value v)"
    using assms by (auto simp: validate_common_def r_bind_Inr validate_tag_key_iff
        validate_tag_value_iff list_all_iff)
  have "is_ascii (scan_value sc)"
    using assms validate_scan_id_text
    by (auto simp: validate_common_def validate_scan_option_def scan_value_def r_bind_Inr
        is_ascii_def lit_def split: option.splits)
      (use scan_id_ascii in blast)
  then show "clean (scan_value sc)"
    using validate_common_values(2) [OF assms] ascii_clean tag_clean by blast
qed

lemma resource_value_tag:
  assumes "validate_target d t = Inr ()"
  shows "list_all tag_char (id_value (tg_resource_id t))"
  using assms id_tag_chars [OF _ _ prefixes_tag_chars(1)] id_tag_chars [OF _ _ prefixes_tag_chars(2)]
    id_tag_chars [OF _ _ prefixes_tag_chars(3)] id_tag_chars [OF _ _ prefixes_tag_chars(4)]
  by (cases d) (auto simp: validate_target_def validate_expected_def r_bind_Inr validator_defs
      validate_pattern_Inr list_all_iff)

lemma generate_script_ok:
  assumes "validate_common a sc k v = Inr ()" and "validate_target d t = Inr ()"
    and "kind = GUARDED_REMEDIATION \<longrightarrow> d \<in> set guarded_detectors" and "aware at'"
    and "is_ascii (id_value a)" and "is_ascii (id_value (tg_region t))"
  shows "r_ok (generate_script kind d a t sc at' k v)"
proof -
  let ?ls = "script_lines kind d a t sc at' k v"
  note vals = validate_common_values [OF assms(1)] validate_target_values [OF assms(2)]
  have tags: "list_all tag_char (id_value a)" "list_all tag_char (id_value (tg_region t))"
    using vals assms(5,6) ascii_clean by auto
  note all = tags resource_value_tag [OF assms(2)] tag_pattern_values [OF assms(1)]
  have clean: "list_all clean ?ls" using all by (intro script_lines_clean)
  have "splitlines (unlines ?ls) = ?ls"
    using safe_lines(2) [OF clean_no_newline unlines_safe] clean by blast
  moreover have "\<forall>l \<in> set (assignment_lines kind d a t k v). readonly_ok l"
    using assignment_readonly_ok all by (auto simp: list_all_iff)
  ultimately have "assert_safe (unlines ?ls) = Inr ()"
    using unlines_safe [OF clean] readonly_lines_of_script by (auto simp: assert_safe_Inr)
  then show ?thesis using assms generate_script_Inr r_ok_iff by blast
qed

section \<open>An investigation script only reads\<close>

text \<open>The line that prints the command a person may run by hand.\<close>

definition printed_hint :: pystr where
  "printed_hint =
     lit ''  echo \"#   aws ec2 delete-snapshot --region '' @ [92] @ lit ''\"$REGION'' @ [92] @
     lit ''\" --snapshot-id '' @ [92] @ lit ''\"$SNAPSHOT_ID'' @ [92] @ lit ''\"\"''"

definition harmless :: "pystr \<Rightarrow> bool" where
  "harmless l \<longleftrightarrow> comment l \<or> l = printed_hint \<or> only_reads l"

lemma only_reads_readonly:
  assumes "32 \<notin> set name" and "32 \<notin> set v"
  shows "only_reads (readonly_line name v)"
proof -
  have "only_reads (lit ''eadonly '' @ s)" if "32 \<notin> set s" for s
    using only_reads_no_space [OF that] by (simp add: lit_def read_calls_def)
  moreover have "32 \<notin> set (name @ lit ''=\"'' @ v @ lit ''\"'')"
    using assms by (auto simp: lit_def)
  moreover have "lit ''readonly '' = 114 # lit ''eadonly ''" by (simp add: lit_def)
  ultimately show ?thesis by (simp add: readonly_line_def) (simp add: lit_def)
qed

lemma harmless_lit: "only_reads_c s \<Longrightarrow> harmless (lit s)"
  by (simp add: harmless_def only_reads_lit)

lemma harmless_lit_comment: "harmless (lit (CHR ''#'' # s))"
  by (simp add: harmless_def comment_def starts_with_lit)

lemma harmless_hint: "harmless printed_hint"
  by (simp add: harmless_def)

lemma harmless_Nil [simp]: "harmless []"
  by (simp add: harmless_def)

lemma lit_quote: "lit s @ [39] = lit (s @ [CHR 0x27])"
  by (simp add: lit_def)

lemma harmless_common: "list_all harmless common_functions_lines"
  by (simp add: common_functions_lines_def lit_quote harmless_lit)

lemma harmless_small:
  "list_all harmless shebang_lines" "list_all harmless strict_mode_lines"
  "list_all harmless investigation_preamble_lines"
  by (simp_all add: shebang_lines_def strict_mode_lines_def investigation_preamble_lines_def
      harmless_lit)

lemma harmless_ebs: "list_all harmless ebs_investigation_body_lines"
  by (simp add: ebs_investigation_body_lines_def harmless_lit)

lemma harmless_eip: "list_all harmless eip_investigation_body_lines"
  by (simp add: eip_investigation_body_lines_def harmless_lit)

lemma harmless_ec2: "list_all harmless ec2_investigation_body_lines"
  by (simp add: ec2_investigation_body_lines_def harmless_lit)

lemma harmless_snapshot: "list_all harmless snapshot_investigation_body_lines"
  by (simp add: snapshot_investigation_body_lines_def harmless_lit harmless_lit_comment
      harmless_hint [unfolded printed_hint_def append_Cons append_Nil])

lemma harmless_bodies: "list_all harmless (investigation_bodies d)"
  by (cases d) (simp_all add: harmless_ebs harmless_eip harmless_ec2 harmless_snapshot)

lemma names_no_space:
  "32 \<notin> set (lit ''EXPECTED_ACCOUNT_ID'')" "32 \<notin> set (lit ''REGION'')" "32 \<notin> set (resource_variables d)"
  by (cases d; simp add: lit_def)+

lemma investigation_harmless:
  assumes "generate_script INVESTIGATION d a t sc at' k v = Inr g" and "l \<in> set (splitlines (gs_content g))"
  shows "harmless l"
proof -
  from assms have c: "validate_common a sc k v = Inr ()" and tg: "validate_target d t = Inr ()"
    by (auto simp: generate_script_Inr)
  note vals = validate_common_values [OF c] validate_target_values [OF tg]
  have "list_all harmless (assignment_lines INVESTIGATION d a t k v)"
    using vals [THEN value_ok_notin] names_no_space
    by (auto simp: assignment_lines_def harmless_def intro!: only_reads_readonly)
  moreover have "harmless x" if "x \<in> set (header_comments ti kd dd ts sc' a' r re tgs)"
    for x ti kd dd ts sc' a' r re tgs
    using header_not_readonly [OF that] by (simp add: harmless_def comment_def)
  ultimately show ?thesis
    using assms(2) harmless_small harmless_common harmless_bodies [of d]
    unfolding script_splitlines(1) [OF assms(1)] script_lines_def body_lines_def
    by (auto simp: list_all_iff)
qed

end
