(* ===== verification/BulkSafety.thy ===== *)
theory BulkSafety
  imports ScriptSafety
begin

text \<open>
  The guarded scripts: the order of the checks in the \<open>main\<close> function of a single script, the
  lines that change anything, and the lines and calls of a bulk script.
\<close>

section \<open>The main function\<close>

definition main_lines :: "pystr list \<Rightarrow> pystr list" where
  "main_lines ls =
     takeWhile (\<lambda>l. l \<noteq> lit ''}'') (tl (dropWhile (\<lambda>l. l \<noteq> lit ''main() {'') ls))"

definition not_main :: "pystr \<Rightarrow> bool" where
  "not_main l \<longleftrightarrow> l \<noteq> lit ''main() {''"

lemma not_main_lit [simp]: "not_main (lit s) \<longleftrightarrow> s \<noteq> ''main() {''"
  by (simp add: not_main_def)

lemma not_main_Nil [simp]: "not_main []"
  by (simp add: not_main_def lit_def)

lemma main_lines_skip:
  "list_all not_main ks \<Longrightarrow> main_lines (ks @ ls) = main_lines ls"
  by (induction ks) (auto simp: main_lines_def not_main_def)

lemma main_lines_empty: "main_lines ([] # ls) = main_lines ls"
  using main_lines_skip [of "[[]]" ls] by simp

lemma not_main_header:
  "list_all not_main (header_comments ti kd d ts sc a r re tgs)"
  using header_not_readonly by (fastforce simp: list_all_iff not_main_def starts_with_lit)

lemma not_main_readonly: "not_main (readonly_line name v)"
  by (simp add: not_main_def readonly_line_def lit_def)

lemma not_main_assignments: "list_all not_main (assignment_lines kind d a t k v)"
  by (simp add: assignment_lines_def not_main_readonly)

lemma not_main_templates:
  "list_all not_main shebang_lines" "list_all not_main strict_mode_lines"
  "list_all not_main common_functions_lines"
  by (simp_all add: shebang_lines_def strict_mode_lines_def common_functions_lines_def lit_quote)

definition ebs_main :: "pystr list" where
  "ebs_main =
     [lit ''  require_aws_cli'',
      lit ''  verify_account'',
      lit ''  verify_volume_state'',
      lit ''  verify_volume_tags'',
      lit ''  show_current_volume'',
      lit ''  offer_snapshot'',
      lit ''  confirm_deletion'',
      lit ''  aws ec2 delete-volume --region \"$REGION\" --volume-id \"$VOLUME_ID\"'',
      lit ''  echo'',
      lit ''  echo \"Deleted volume $VOLUME_ID in $REGION.\"'']"

definition eip_main :: "pystr list" where
  "eip_main =
     [lit ''  require_aws_cli'',
      lit ''  verify_account'',
      lit ''  verify_address_state'',
      lit ''  verify_address_tags'',
      lit ''  show_current_address'',
      lit ''  confirm_release'',
      lit ''  aws ec2 release-address --region \"$REGION\" --allocation-id \"$ALLOCATION_ID\"'',
      lit ''  echo'',
      lit ''  echo \"Released Elastic IP allocation $ALLOCATION_ID in $REGION.\"'']"

lemma ebs_body_main: "main_lines ebs_delete_body_lines = ebs_main"
  by (simp add: main_lines_def ebs_delete_body_lines_def ebs_main_def)

lemma eip_body_main: "main_lines eip_release_body_lines = eip_main"
  by (simp add: main_lines_def eip_release_body_lines_def eip_main_def)

lemma script_main:
  assumes "generate_script GUARDED_REMEDIATION d a t sc at' k v = Inr g"
  shows "main_lines (splitlines (gs_content g)) =
     (if d = UNATTACHED_EBS_VOLUME then ebs_main else eip_main)"
  unfolding script_splitlines(1) [OF assms] script_lines_def body_lines_def
  by (simp add: main_lines_skip main_lines_empty not_main_header not_main_assignments
      not_main_templates ebs_body_main eip_body_main)

section \<open>The lines that change something\<close>

definition changing :: "pystr list \<Rightarrow> pystr list" where
  "changing ls = filter (\<lambda>l. \<not> harmless l) ls"

lemma changing_append [simp]: "changing (ks @ ls) = changing ks @ changing ls"
  by (simp add: changing_def)

lemma changing_none: "list_all harmless ls \<Longrightarrow> changing ls = []"
  by (auto simp: changing_def list_all_iff)

definition hint_c :: string where
  "hint_c = ''  echo '' @ [CHR 0x22] @ ''#   aws ec2 delete-snapshot --region '' @
     [CHR 0x5C, CHR 0x22] @ ''$REGION'' @ [CHR 0x5C, CHR 0x22] @ '' --snapshot-id '' @
     [CHR 0x5C, CHR 0x22] @ ''$SNAPSHOT_ID'' @ [CHR 0x5C, CHR 0x22, CHR 0x22]"

lemma printed_hint_lit: "printed_hint = lit hint_c"
  by (simp add: printed_hint_def hint_c_def lit_def)

lemma harmless_lit_iff:
  "harmless (lit s) \<longleftrightarrow> prefix_c ''#'' s \<or> only_reads_c s \<or> s = hint_c"
  by (auto simp: harmless_def comment_def starts_with_lit only_reads_lit printed_hint_lit)

definition ebs_changes :: "pystr list" where
  "ebs_changes =
     [lit ''      if ! snapshot_id=\"$(aws ec2 create-snapshot --region \"$REGION\" --volume-id \"$VOLUME_ID\" --description \"CloudZombie pre-deletion snapshot\" --query SnapshotId --output text)\"; then'',
      lit ''      if ! aws ec2 wait snapshot-completed --region \"$REGION\" --snapshot-ids \"$snapshot_id\"; then'',
      lit ''  aws ec2 delete-volume --region \"$REGION\" --volume-id \"$VOLUME_ID\"'']"

definition eip_changes :: "pystr list" where
  "eip_changes =
     [lit ''  aws ec2 release-address --region \"$REGION\" --allocation-id \"$ALLOCATION_ID\"'']"

lemma ebs_body_changing: "changing ebs_delete_body_lines = ebs_changes"
  by (simp add: changing_def ebs_delete_body_lines_def ebs_changes_def harmless_lit_iff
      hint_c_def)

lemma eip_body_changing: "changing eip_release_body_lines = eip_changes"
  by (simp add: changing_def eip_release_body_lines_def eip_changes_def harmless_lit_iff
      hint_c_def)

lemma header_harmless: "list_all harmless (header_comments ti kd d ts sc a r re tgs)"
  using header_not_readonly by (fastforce simp: list_all_iff harmless_def comment_def)

lemma readonly_harmless:
  "names_ok name \<Longrightarrow> value_ok v \<Longrightarrow> harmless (readonly_line name v)"
  using value_ok_notin [of v]
  by (auto simp: harmless_def names_ok_def list_all_iff name_char_def intro!: only_reads_readonly)

lemma stack_tag_value_ok: "value_ok (lit ''aws:cloudformation:stack-name'')"
  using stack_tag_ok by (auto simp: value_ok_def value_char_def list_all_iff)

lemma assignments_harmless:
  assumes "validate_common a sc k v = Inr ()" and "validate_target d t = Inr ()"
  shows "list_all harmless (assignment_lines kind d a t k v)"
  using validate_common_values [OF assms(1)] validate_target_values [OF assms(2)]
    stack_tag_value_ok
  by (auto simp: assignment_lines_def names_are_ok intro!: readonly_harmless)

lemma script_changing:
  assumes "generate_script GUARDED_REMEDIATION d a t sc at' k v = Inr g"
  shows "changing (splitlines (gs_content g)) =
     (if d = UNATTACHED_EBS_VOLUME then ebs_changes else eip_changes)"
proof -
  from assms have "validate_common a sc k v = Inr ()" and "validate_target d t = Inr ()"
    by (auto simp: generate_script_Inr)
  note asg = assignments_harmless [OF this]
  have "changing ([] # ls) = changing ls" for ls by (simp add: changing_def)
  then show ?thesis
    unfolding script_splitlines(1) [OF assms] script_lines_def body_lines_def
    by (simp add: changing_none asg header_harmless harmless_small harmless_common
        ebs_body_changing eip_body_changing)
qed

section \<open>Bulk scripts\<close>

definition bulk_assignment_lines ::
  "validated_identifier \<Rightarrow> pystr \<Rightarrow> validated_identifier \<Rightarrow> validated_identifier \<Rightarrow> pystr list" where
  "bulk_assignment_lines a r k v =
     [readonly_line (lit ''EXPECTED_ACCOUNT_ID'') (id_value a),
      readonly_line (lit ''REGION'') r,
      region_comment,
      readonly_line (lit ''IGNORE_TAG_KEY'') (id_value k),
      readonly_line (lit ''IGNORE_TAG_VALUE'') (id_value v),
      readonly_line (lit ''CLOUDFORMATION_TAG_KEY'') (lit ''aws:cloudformation:stack-name'')]"

definition bulk_lines ::
  "validated_identifier \<Rightarrow> bulk_target list \<Rightarrow> validated_identifier option \<Rightarrow> datetime \<Rightarrow>
   validated_identifier \<Rightarrow> validated_identifier \<Rightarrow> pystr list" where
  "bulk_lines a tgs sc at' k v =
     shebang_lines @
     header_comments (lit ''guarded bulk remediation script'') GUARDED_REMEDIATION
       (lit ''multiple'') (timestamp_z (instant_of at')) sc a (lit ''multiple; see resources'')
       None (map snd tgs) @
     strict_mode_lines @
     bulk_assignment_lines a (id_value (tg_region (snd (hd tgs)))) k v @ [[]] @
     common_functions_lines @ bulk_functions_lines @ bulk_main_open_lines @
     map bulk_call tgs @ bulk_main_close_lines"

lemma bulk_content:
  "unlines shebang_lines @
     unlines (header_comments (lit ''guarded bulk remediation script'') GUARDED_REMEDIATION
       (lit ''multiple'') (timestamp_z (instant_of at')) sc a (lit ''multiple; see resources'')
       None (map snd tgs)) @
     unlines strict_mode_lines @
     bulk_assignments a (id_value (tg_region (snd (hd tgs)))) k v @ 10 #
     (unlines common_functions_lines @ unlines bulk_functions_lines @ unlines bulk_main_open_lines @
      unlines (map bulk_call tgs) @ unlines bulk_main_close_lines) =
   unlines (bulk_lines a tgs sc at' k v)"
  by (simp add: bulk_lines_def bulk_assignments_def bulk_assignment_lines_def readonly_def)

lemma validate_bulk_targets:
  "r_map validate_bulk_target tgs = Inr us \<Longrightarrow>
   \<forall>dt \<in> set tgs. fst dt \<in> set guarded_detectors \<and> validate_target (fst dt) (snd dt) = Inr ()"
  by (induction tgs arbitrary: us)
    (auto simp: r_bind_Inr validate_bulk_target_def split: if_splits)

lemma validate_targets_again:
  "\<forall>dt \<in> set tgs. validate_target (fst dt) (snd dt) = Inr () \<Longrightarrow>
   r_map (\<lambda>dt. validate_target (fst dt) (snd dt)) tgs = Inr (map (\<lambda>_. ()) tgs)"
  by (induction tgs) auto

lemma validate_bulk_targets_ok:
  "\<forall>dt \<in> set tgs. fst dt \<in> set guarded_detectors \<and> validate_target (fst dt) (snd dt) = Inr () \<Longrightarrow>
   r_map validate_bulk_target tgs = Inr (map (\<lambda>_. ()) tgs)"
  by (induction tgs) (auto simp: validate_bulk_target_def)

lemma generate_bulk_script_Inr:
  assumes "generate_bulk_script a tgs sc at' k v = Inr g"
  shows "tgs \<noteq> []" and "validate_common a sc k v = Inr ()" and "aware at'"
    and "\<forall>dt \<in> set tgs. fst dt \<in> set guarded_detectors \<and> validate_target (fst dt) (snd dt) = Inr ()"
    and "gs_content g = unlines (bulk_lines a tgs sc at' k v)" and "assert_safe (gs_content g) = Inr ()"
    and "gs_kind g = GUARDED_REMEDIATION"
proof -
  note * = assms [unfolded generate_bulk_script_def]
  show ne: "tgs \<noteq> []" using * by (auto split: if_splits)
  with * obtain us where us: "r_map validate_bulk_target tgs = Inr us"
    by (auto simp: r_bind_Inr)
  show "\<forall>dt \<in> set tgs. fst dt \<in> set guarded_detectors \<and> validate_target (fst dt) (snd dt) = Inr ()"
    using validate_bulk_targets [OF us] .
  show "validate_common a sc k v = Inr ()" "aware at'"
    using * ne by (auto simp: r_bind_Inr header_def timestamp_def Let_def split: if_splits)
  show "gs_content g = unlines (bulk_lines a tgs sc at' k v)" "assert_safe (gs_content g) = Inr ()"
    "gs_kind g = GUARDED_REMEDIATION"
    using * ne
    by (auto simp: r_bind_Inr header_def timestamp_def Let_def header_unlines bulk_content
        split: if_splits)
qed

lemma bulk_call_no_newline:
  assumes "validate_target d t = Inr ()"
  shows "10 \<notin> set (bulk_call (d, t))"
  using validate_target_values [OF assms, THEN value_ok_notin]
  by (auto simp: bulk_call_def lit_no_newline)

lemma bulk_no_newline:
  assumes "validate_common a sc k v = Inr ()" and "tgs \<noteq> []"
    and "\<forall>dt \<in> set tgs. validate_target (fst dt) (snd dt) = Inr ()"
  shows "no_newline (bulk_lines a tgs sc at' k v)"
proof -
  note vals = validate_common_values [OF assms(1), THEN value_ok_notin]
  have tvals: "10 \<notin> set (id_value (tg_region (snd dt))) \<and> 10 \<notin> set (id_value (tg_resource_id (snd dt)))"
    if "dt \<in> set tgs" for dt
    using assms(3) that validate_target_values [THEN value_ok_notin] by blast
  have "no_newline (bulk_assignment_lines a (id_value (tg_region (snd (hd tgs)))) k v)"
    using vals tvals [of "hd tgs"] assms(2)
    by (simp add: bulk_assignment_lines_def readonly_no_newline lit_no_newline region_comment_def)
  moreover have "no_newline (header_comments (lit ''guarded bulk remediation script'')
      GUARDED_REMEDIATION (lit ''multiple'') (timestamp_z (instant_of at')) sc a
      (lit ''multiple; see resources'') None (map snd tgs))"
    using vals tvals clean_timestamp [THEN clean_newline]
    by (intro header_no_newline) (auto simp: lit_no_newline)
  moreover have "no_newline (map bulk_call tgs)"
    using assms(3) bulk_call_no_newline by (fastforce simp: no_newline_def list_all_iff)
  ultimately show ?thesis by (simp add: bulk_lines_def)
qed

lemma bulk_splitlines:
  assumes "generate_bulk_script a tgs sc at' k v = Inr g"
  shows "splitlines (gs_content g) = bulk_lines a tgs sc at' k v"
    and "list_all clean (bulk_lines a tgs sc at' k v)"
  using generate_bulk_script_Inr [OF assms] bulk_no_newline [of a sc k v tgs at'] safe_lines
  by (auto simp: assert_safe_Inr)

lemma bulk_call_not_main: "not_main (bulk_call dt)"
  by (simp add: not_main_def bulk_call_def lit_def)

lemma bulk_call_inside: "bulk_call dt \<noteq> lit ''}''"
  by (simp add: bulk_call_def lit_def)

lemma not_main_bulk: "list_all not_main bulk_functions_lines"
  "list_all not_main (bulk_assignment_lines a r k v)"
  by (simp add: bulk_functions_lines_def)
    (simp add: bulk_assignment_lines_def not_main_readonly region_comment_def)

lemma takeWhile_map_all: "(\<And>x. P (f x)) \<Longrightarrow> takeWhile P (map f xs @ ys) = map f xs @ takeWhile P ys"
  by (induction xs) auto

text \<open>The main function of a bulk script calls one helper per target, with both ids quoted.\<close>

lemma bulk_main:
  assumes "generate_bulk_script a tgs sc at' k v = Inr g"
  shows "main_lines (splitlines (gs_content g)) =
     [lit ''  require_aws_cli'', lit ''  verify_account''] @ map bulk_call tgs @
     [lit ''  bulk_summary'']"
proof -
  have "main_lines (bulk_main_open_lines @ map bulk_call tgs @ bulk_main_close_lines) =
      [lit ''  require_aws_cli'', lit ''  verify_account''] @ map bulk_call tgs @
      [lit ''  bulk_summary'']"
    by (simp add: main_lines_def bulk_main_open_lines_def bulk_main_close_lines_def
        takeWhile_map_all [where P = "\<lambda>l. l \<noteq> lit ''}''"] bulk_call_inside)
  then show ?thesis
    unfolding bulk_splitlines(1) [OF assms] bulk_lines_def
    by (simp add: main_lines_skip main_lines_empty not_main_header not_main_bulk not_main_templates)
qed

text \<open>Success of a bulk script.\<close>

lemma bulk_lines_clean:
  assumes "list_all tag_char (id_value a)" and "clean (scan_value sc)"
    and "\<forall>dt \<in> set tgs. list_all tag_char (id_value (tg_region (snd dt))) \<and>
           list_all tag_char (id_value (tg_resource_id (snd dt)))"
    and "tgs \<noteq> []" and "list_all tag_char (id_value k)" and "list_all tag_char (id_value v)"
  shows "list_all clean (bulk_lines a tgs sc at' k v)"
proof -
  have "list_all clean (header_comments (lit ''guarded bulk remediation script'')
      GUARDED_REMEDIATION (lit ''multiple'') (timestamp_z (instant_of at')) sc a
      (lit ''multiple; see resources'') None (map snd tgs))"
    using assms(1-3) by (intro header_clean) (auto simp: clean_timestamp tag_clean)
  moreover have "list_all clean (bulk_assignment_lines a (id_value (tg_region (snd (hd tgs)))) k v)"
    using assms tag_clean
    by (simp add: bulk_assignment_lines_def readonly_line_def region_comment_def)
  moreover have "list_all clean (map bulk_call tgs)"
    using assms(3) tag_clean by (auto simp: list_all_iff bulk_call_def)
  ultimately show ?thesis by (simp add: bulk_lines_def plain_templates [THEN plain_clean])
qed

lemma readonly_lines_of_bulk:
  assumes "l \<in> set (bulk_lines a tgs sc at' k v)" and "starts_with l (lit ''readonly '')"
  shows "l \<in> set (bulk_assignment_lines a (id_value (tg_region (snd (hd tgs)))) k v)"
proof -
  have "\<not> starts_with x (lit ''readonly '')" if "list_all plain ls" "x \<in> set ls" for x ls
    using that by (auto simp: list_all_iff plain_def)
  moreover have "\<not> starts_with [] (lit ''readonly '')" by (simp add: lit_def)
  moreover have "\<not> starts_with (bulk_call dt) (lit ''readonly '')" for dt
    by (simp add: bulk_call_def lit_def)
  ultimately show ?thesis
    using assms header_not_readonly comment_not_readonly plain_templates
    unfolding bulk_lines_def by (auto; blast)
qed

lemma bulk_assignment_ok:
  assumes "list_all tag_char (id_value a)" and "list_all tag_char r"
    and "list_all tag_char (id_value k)" and "list_all tag_char (id_value v)"
    and "l \<in> set (bulk_assignment_lines a r k v)" and "starts_with l (lit ''readonly '')"
  shows "readonly_ok l"
proof -
  have "\<not> starts_with region_comment (lit ''readonly '')"
    by (simp add: region_comment_def starts_with_lit)
  then show ?thesis
    using assms names_are_ok stack_tag_ok
    by (auto simp: bulk_assignment_lines_def names_ok_def intro!: readonly_ok_iff)
qed

lemma generate_bulk_script_ok:
  assumes "tgs \<noteq> []" and "validate_common a sc k v = Inr ()" and "aware at'"
    and targets: "\<forall>dt \<in> set tgs. fst dt \<in> set guarded_detectors \<and>
           validate_target (fst dt) (snd dt) = Inr ()"
    and "is_ascii (id_value a)" and ascii: "\<forall>dt \<in> set tgs. is_ascii (id_value (tg_region (snd dt)))"
  shows "r_ok (generate_bulk_script a tgs sc at' k v)"
proof -
  let ?ls = "bulk_lines a tgs sc at' k v"
  have a: "list_all tag_char (id_value a)"
    using validate_common_values [OF assms(2)] assms(5) ascii_clean by auto
  have tg: "\<forall>dt \<in> set tgs. list_all tag_char (id_value (tg_region (snd dt))) \<and>
      list_all tag_char (id_value (tg_resource_id (snd dt)))"
    using targets ascii validate_target_values(1) ascii_clean resource_value_tag by blast
  note tags = tag_pattern_values [OF assms(2)]
  have clean: "list_all clean ?ls" using bulk_lines_clean [OF a _ tg assms(1)] tags by blast
  have "splitlines (unlines ?ls) = ?ls"
    using safe_lines(2) [OF clean_no_newline unlines_safe] clean by blast
  moreover have "list_all tag_char (id_value (tg_region (snd (hd tgs))))" using tg assms(1) by simp
  ultimately have "assert_safe (unlines ?ls) = Inr ()"
    using unlines_safe [OF clean] readonly_lines_of_bulk bulk_assignment_ok [OF a _ tags(1,2)]
    by (auto simp: assert_safe_Inr)
  then show ?thesis
    using assms(1-3) validate_bulk_targets_ok [OF targets] validate_targets_again [of tgs] targets
    by (simp add: generate_bulk_script_def header_def timestamp_def header_unlines Let_def bulk_content)
qed

end
