(* ===== verification/ScriptService.thy ===== *)
theory ScriptService
  imports Remediation BulkSafety
begin

text \<open>
  \<open>app/services/script_service.py\<close>: the script for one finding, of the kind that eligibility
  decides, and the bulk script for a selection of findings, which takes the eligible findings
  of one account and reports the others with a reason. The clock's \<open>now\<close> is the argument
  \<open>now\<close>.
\<close>

section \<open>The service\<close>

definition target_of :: "finding \<Rightarrow> py_exc + script_target" where
  "target_of f =
     r_bind (validate_region (f_region f) None) (\<lambda>region.
     r_bind (validate_resource_id (f_resource_type f) (f_resource_id f)) (\<lambda>resource_id.
     Inr \<lparr>tg_region = region, tg_resource_id = resource_id\<rparr>))"

definition script_for_finding ::
  "app_settings \<Rightarrow> datetime \<Rightarrow> finding \<Rightarrow> py_exc + generated_script" where
  "script_for_finding st now f =
     r_bind (validate_account_id (f_account_id f)) (\<lambda>account_id.
     r_bind (target_of f) (\<lambda>target.
     r_bind (validate_scan_id (uuid_text (f_last_scan_id f))) (\<lambda>scan_id.
     r_bind (validate_tag_key (st_ignore_tag_key st)) (\<lambda>key.
     r_bind (validate_tag_value (st_ignore_tag_value st)) (\<lambda>value.
     generate_script (fst (script_kind_for f)) (f_detector_type f) account_id target
       (Some scan_id) now key value)))))"

record bulk_script_result =
  br_script :: "generated_script option"
  br_included :: "uuid list"
  br_skipped :: "(pystr \<times> pystr) list"

record bulk_selection =
  bs_included :: "finding list"
  bs_skipped :: "(pystr \<times> pystr) list"
  bs_first_account_id :: "pystr option"

definition other_account_reason :: pystr where
  "other_account_reason =
     lit ''Finding belongs to a different AWS account than the first eligible finding.''"

text \<open>One iteration of the loop over the selected findings.\<close>

definition select_finding :: "bulk_selection \<Rightarrow> finding \<Rightarrow> bulk_selection" where
  "select_finding sel f =
     (case script_kind_for f of
        (kind, reason) \<Rightarrow>
          if kind = GUARDED_REMEDIATION \<and> reason = None then
            (let first = (case bs_first_account_id sel of
                            None \<Rightarrow> f_account_id f
                          | Some a \<Rightarrow> a);
                 sel' = sel\<lparr>bs_first_account_id := Some first\<rparr>
             in if f_account_id f \<noteq> first
                then sel'\<lparr>bs_skipped :=
                       bs_skipped sel' @ [(uuid_text (f_id f), other_account_reason)]\<rparr>
                else sel'\<lparr>bs_included := bs_included sel' @ [f]\<rparr>)
          else
            sel\<lparr>bs_skipped := bs_skipped sel @
              [(uuid_text (f_id f),
                case reason of Some r \<Rightarrow> script_unavailable_text r | None \<Rightarrow> lit ''Not eligible.'')]\<rparr>)"

definition select_bulk :: "finding list \<Rightarrow> bulk_selection" where
  "select_bulk fs =
     foldl select_finding \<lparr>bs_included = [], bs_skipped = [], bs_first_account_id = None\<rparr> fs"

definition bulk_script ::
  "app_settings \<Rightarrow> datetime \<Rightarrow> finding list \<Rightarrow> py_exc + bulk_script_result" where
  "bulk_script st now fs =
     (let sel = select_bulk fs; included = bs_included sel
      in if included = []
         then Inr \<lparr>br_script = None, br_included = [], br_skipped = bs_skipped sel\<rparr>
         else
           r_bind (validate_account_id (f_account_id (hd included))) (\<lambda>account_id.
           r_bind (r_map (\<lambda>f. r_bind (target_of f) (\<lambda>t. Inr (f_detector_type f, t))) included) (\<lambda>targets.
           r_bind (validate_scan_id (uuid_text (f_last_scan_id (hd included)))) (\<lambda>scan_id.
           r_bind (validate_tag_key (st_ignore_tag_key st)) (\<lambda>key.
           r_bind (validate_tag_value (st_ignore_tag_value st)) (\<lambda>value.
           r_bind (generate_bulk_script account_id targets (Some scan_id) now key value)
             (\<lambda>script.
           Inr \<lparr>br_script = Some script, br_included = map f_id included,
                br_skipped = bs_skipped sel\<rparr>)))))))"

section \<open>The selection\<close>

definition eligible :: "finding \<Rightarrow> bool" where
  "eligible f \<longleftrightarrow> fst (script_kind_for f) = GUARDED_REMEDIATION"

definition first_account :: "finding list \<Rightarrow> pystr option" where
  "first_account fs = map_option f_account_id (find eligible fs)"

definition selected :: "pystr option \<Rightarrow> finding \<Rightarrow> bool" where
  "selected acct f \<longleftrightarrow> eligible f \<and> acct = Some (f_account_id f)"

definition skip_reason :: "finding \<Rightarrow> pystr" where
  "skip_reason f =
     (case snd (script_kind_for f) of
        None \<Rightarrow> other_account_reason
      | Some r \<Rightarrow> script_unavailable_text r)"

definition skip_entry :: "finding \<Rightarrow> pystr \<times> pystr" where
  "skip_entry f = (uuid_text (f_id f), skip_reason f)"

lemma select_finding_skip:
  assumes "\<not> eligible f"
  shows "select_finding sel f = sel\<lparr>bs_skipped := bs_skipped sel @ [skip_entry f]\<rparr>"
  using assms script_kind_reason [of f]
  by (auto simp: select_finding_def eligible_def skip_entry_def skip_reason_def split: prod.splits
      option.splits)

lemma select_finding_eligible:
  assumes "eligible f"
  shows "select_finding sel f =
     (let first = (case bs_first_account_id sel of None \<Rightarrow> f_account_id f | Some a \<Rightarrow> a);
          sel' = sel\<lparr>bs_first_account_id := Some first\<rparr>
      in if f_account_id f = first then sel'\<lparr>bs_included := bs_included sel' @ [f]\<rparr>
         else sel'\<lparr>bs_skipped := bs_skipped sel' @ [skip_entry f]\<rparr>)"
proof -
  have "script_kind_for f = (GUARDED_REMEDIATION, None)"
    using assms script_kind_reason [of f] by (simp add: eligible_def prod_eq_iff)
  then show ?thesis by (simp add: select_finding_def skip_entry_def skip_reason_def Let_def)
qed

lemma foldl_selected:
  assumes "bs_first_account_id sel = Some a"
  shows "foldl select_finding sel fs =
     sel\<lparr>bs_included := bs_included sel @ filter (selected (Some a)) fs,
         bs_skipped := bs_skipped sel @ map skip_entry (filter (Not \<circ> selected (Some a)) fs)\<rparr>"
  using assms
proof (induction fs arbitrary: sel)
  case (Cons f fs)
  show ?case
  proof (cases "eligible f")
    case True
    then have "select_finding sel f =
        (if selected (Some a) f then sel\<lparr>bs_included := bs_included sel @ [f]\<rparr>
         else sel\<lparr>bs_skipped := bs_skipped sel @ [skip_entry f]\<rparr>)"
      using Cons.prems by (auto simp: select_finding_eligible selected_def Let_def)
    then show ?thesis using Cons.prems by (simp add: Cons.IH)
  next
    case False
    then show ?thesis
      using Cons.prems by (simp add: Cons.IH select_finding_skip selected_def)
  qed
qed simp

lemma foldl_unselected:
  assumes "bs_first_account_id sel = None"
  shows "bs_included (foldl select_finding sel fs) =
           bs_included sel @ filter (selected (first_account fs)) fs
     \<and> bs_skipped (foldl select_finding sel fs) =
           bs_skipped sel @ map skip_entry (filter (Not \<circ> selected (first_account fs)) fs)"
  using assms
proof (induction fs arbitrary: sel)
  case (Cons f fs)
  show ?case
  proof (cases "eligible f")
    case True
    then have "select_finding sel f =
        sel\<lparr>bs_first_account_id := Some (f_account_id f), bs_included := bs_included sel @ [f]\<rparr>"
      using Cons.prems by (simp add: select_finding_eligible Let_def)
    then show ?thesis
      using True by (simp add: foldl_selected first_account_def selected_def [abs_def] comp_def)
  next
    case False
    then show ?thesis
      using Cons.prems by (simp add: Cons.IH select_finding_skip first_account_def selected_def)
  qed
qed simp

lemma select_bulk_spec:
  "bs_included (select_bulk fs) = filter (selected (first_account fs)) fs"
  "bs_skipped (select_bulk fs) = map skip_entry (filter (Not \<circ> selected (first_account fs)) fs)"
  using foldl_unselected [of "\<lparr>bs_included = [], bs_skipped = [], bs_first_account_id = None\<rparr>" fs]
  by (simp_all add: select_bulk_def)

section \<open>What the service returns\<close>

lemma target_of_values:
  assumes "target_of f = Inr t"
  shows "id_value (tg_region t) = f_region f" and "id_value (tg_resource_id t) = f_resource_id f"
  using assms
  by (cases "f_resource_type f"; auto simp: target_of_def r_bind_Inr validate_resource_id_def
      validator_defs validate_pattern_Inr)+

lemma script_for_finding_Inr:
  assumes "script_for_finding st now f = Inr g"
  obtains a t sc k v where "generate_script (fst (script_kind_for f)) (f_detector_type f) a t
      (Some sc) now k v = Inr g"
    and "id_value a = f_account_id f" and "target_of f = Inr t"
    and "id_value k = st_ignore_tag_key st" and "id_value v = st_ignore_tag_value st"
proof -
  from assms obtain a t sc k v where *: "validate_account_id (f_account_id f) = Inr a"
    "target_of f = Inr t" "validate_tag_key (st_ignore_tag_key st) = Inr k"
    "validate_tag_value (st_ignore_tag_value st) = Inr v"
    "generate_script (fst (script_kind_for f)) (f_detector_type f) a t (Some sc) now k v = Inr g"
    by (auto simp: script_for_finding_def r_bind_Inr)
  then show ?thesis
    using that by (simp add: validate_account_id_iff validate_tag_key_iff validate_tag_value_iff)
qed

lemma for_finding_kind:
  assumes "script_for_finding st now f = Inr g"
  shows "gs_kind g = fst (script_kind_for f)"
  using assms by (elim script_for_finding_Inr) (simp add: generate_script_Inr)

definition call_for :: "finding \<Rightarrow> pystr" where
  "call_for f =
     (if f_detector_type f = UNATTACHED_EBS_VOLUME then lit ''  process_volume \"''
      else lit ''  process_address \"'') @
     f_region f @ lit ''\" \"'' @ f_resource_id f @ lit ''\"''"

lemma bulk_targets_calls:
  assumes "r_map (\<lambda>f. r_bind (target_of f) (\<lambda>t. Inr (f_detector_type f, t))) fs = Inr tgs"
  shows "map bulk_call tgs = map call_for fs"
  using assms
proof (induction fs arbitrary: tgs)
  case (Cons f fs)
  then obtain t tgs' where "target_of f = Inr t" "tgs = (f_detector_type f, t) # tgs'"
    "r_map (\<lambda>f. r_bind (target_of f) (\<lambda>t. Inr (f_detector_type f, t))) fs = Inr tgs'"
    by auto
  then show ?case
    using Cons.IH target_of_values [of f t] by (simp add: bulk_call_def call_for_def)
qed simp

lemma bulk_script_Inr:
  assumes "bulk_script st now fs = Inr r"
  shows "br_included r = map f_id (filter (selected (first_account fs)) fs)"
    and "br_skipped r = map skip_entry (filter (Not \<circ> selected (first_account fs)) fs)"
    and "br_script r = None \<longleftrightarrow> find eligible fs = None"
    and "br_script r = Some g \<Longrightarrow>
      main_lines (splitlines (gs_content g)) =
        [lit ''  require_aws_cli'', lit ''  verify_account''] @
        map call_for (filter (selected (first_account fs)) fs) @ [lit ''  bulk_summary'']"
proof -
  let ?inc = "filter (selected (first_account fs)) fs"
  note * = assms [unfolded bulk_script_def Let_def select_bulk_spec]
  show "br_included r = map f_id ?inc"
    and "br_skipped r = map skip_entry (filter (Not \<circ> selected (first_account fs)) fs)"
    using * by (auto simp: r_bind_Inr split: if_splits)
  have none: "?inc = [] \<longleftrightarrow> find eligible fs = None"
  proof (cases "find eligible fs")
    case None
    then show ?thesis by (auto simp: filter_empty_conv selected_def find_None_iff)
  next
    case (Some f)
    then have "selected (first_account fs) f" and "f \<in> set fs"
      using find_found [OF Some] by (simp_all add: selected_def first_account_def)
    then show ?thesis using Some by (auto simp: filter_empty_conv)
  qed
  then show "br_script r = None \<longleftrightarrow> find eligible fs = None"
    using * by (auto simp: r_bind_Inr split: if_splits)
  show "main_lines (splitlines (gs_content g)) =
      [lit ''  require_aws_cli'', lit ''  verify_account''] @ map call_for ?inc @
      [lit ''  bulk_summary'']" if g: "br_script r = Some g"
  proof (cases "?inc = []")
    case True
    then show ?thesis using * g by auto
  next
    case False
    with * g obtain a tgs sc k v where
      t: "r_map (\<lambda>f. r_bind (target_of f) (\<lambda>t. Inr (f_detector_type f, t))) ?inc = Inr tgs"
      and gen: "generate_bulk_script a tgs (Some sc) now k v = Inr g"
      by (auto simp: r_bind_Inr)
    show ?thesis using bulk_main [OF gen] bulk_targets_calls [OF t] by simp
  qed
qed

section \<open>When a script is returned\<close>

text \<open>The resource type that each detector reports.\<close>

fun reported_type :: "detector_type \<Rightarrow> resource_type" where
  "reported_type UNATTACHED_EBS_VOLUME = EBS_VOLUME"
| "reported_type UNASSOCIATED_ELASTIC_IP = ELASTIC_IP"
| "reported_type STOPPED_EC2_INSTANCE = EC2_INSTANCE"
| "reported_type SNAPSHOT_MISSING_SOURCE_VOLUME = EBS_SNAPSHOT"

definition scriptable :: "app_settings \<Rightarrow> finding \<Rightarrow> bool" where
  "scriptable st f \<longleftrightarrow>
     r_ok (validate_account_id (f_account_id f)) \<and> is_ascii (f_account_id f) \<and>
     r_ok (validate_region (f_region f) None) \<and> is_ascii (f_region f) \<and>
     f_resource_type f = reported_type (f_detector_type f) \<and>
     r_ok (validate_resource_id (f_resource_type f) (f_resource_id f)) \<and>
     f_last_scan_id f < 16 ^ 32 \<and>
     r_ok (validate_tag_key (st_ignore_tag_key st)) \<and>
     r_ok (validate_tag_value (st_ignore_tag_value st))"

lemma target_of_valid:
  assumes "f_resource_type f = reported_type (f_detector_type f)" and "target_of f = Inr t"
  shows "validate_target (f_detector_type f) t = Inr ()"
  using assms
  by (cases "f_detector_type f")
    (auto simp: target_of_def r_bind_Inr validate_target_def validate_expected_def
      validate_resource_id_def validator_defs validate_pattern_Inr)

lemma target_of_ok:
  "r_ok (target_of f) \<longleftrightarrow>
     r_ok (validate_region (f_region f) None) \<and>
     r_ok (validate_resource_id (f_resource_type f) (f_resource_id f))"
  by (auto simp: target_of_def r_ok_iff r_bind_Inr)

lemma guarded_detector:
  "fst (script_kind_for f) = GUARDED_REMEDIATION \<Longrightarrow> f_detector_type f \<in> set guarded_detectors"
  by (cases "f_detector_type f") (auto simp: script_kind_for_def guarded_detectors_def split: if_splits)

lemma validate_common_stored:
  assumes "validate_account_id acct = Inr a" and "n < 16 ^ 32"
    and "validate_tag_key key = Inr k" and "validate_tag_value value = Inr v"
  shows "validate_common a (Some \<lparr>id_kind = K_SCAN_ID, id_value = uuid_text n\<rparr>) k v = Inr ()"
proof -
  have "a = \<lparr>id_kind = K_ACCOUNT_ID, id_value = acct\<rparr>" "k = \<lparr>id_kind = K_TAG_KEY, id_value = key\<rparr>"
    "v = \<lparr>id_kind = K_TAG_VALUE, id_value = value\<rparr>"
    using assms by (simp_all add: validate_account_id_iff validate_tag_key_iff validate_tag_value_iff)
  then show ?thesis
    using assms validate_scan_id_uuid [OF assms(2)]
    by (simp add: validate_common_def validate_scan_option_def require_kind_def)
qed

lemma script_for_finding_ok:
  assumes "scriptable st f" and "aware now"
  shows "r_ok (script_for_finding st now f)"
proof -
  from assms(1) obtain a t k v where *: "validate_account_id (f_account_id f) = Inr a"
    "target_of f = Inr t" "validate_tag_key (st_ignore_tag_key st) = Inr k"
    "validate_tag_value (st_ignore_tag_value st) = Inr v"
    using target_of_ok [of f] by (auto simp: scriptable_def r_ok_iff)
  let ?sc = "\<lparr>id_kind = K_SCAN_ID, id_value = uuid_text (f_last_scan_id f)\<rparr>"
  have n: "f_last_scan_id f < 16 ^ 32" using assms(1) by (simp add: scriptable_def)
  have "is_ascii (id_value a)" and "is_ascii (id_value (tg_region t))"
    using assms(1) * target_of_values [OF *(2)] by (simp_all add: scriptable_def validate_account_id_iff)
  then have "r_ok (generate_script (fst (script_kind_for f)) (f_detector_type f) a t (Some ?sc) now k v)"
    using validate_common_stored [OF *(1) n *(3,4)] target_of_valid [OF _ *(2)] assms
      guarded_detector [of f]
    by (intro generate_script_ok) (simp_all add: scriptable_def)
  then show ?thesis
    using * validate_scan_id_uuid [OF n] by (simp add: script_for_finding_def)
qed

lemma bulk_targets_ok:
  assumes "\<forall>f \<in> set fs. scriptable st f \<and> fst (script_kind_for f) = GUARDED_REMEDIATION"
  obtains tgs where "r_map (\<lambda>f. r_bind (target_of f) (\<lambda>t. Inr (f_detector_type f, t))) fs = Inr tgs"
    and "length tgs = length fs"
    and "\<forall>dt \<in> set tgs. fst dt \<in> set guarded_detectors \<and>
           validate_target (fst dt) (snd dt) = Inr () \<and> is_ascii (id_value (tg_region (snd dt)))"
proof -
  have "\<exists>tgs. r_map (\<lambda>f. r_bind (target_of f) (\<lambda>t. Inr (f_detector_type f, t))) fs = Inr tgs \<and>
      length tgs = length fs \<and>
      (\<forall>dt \<in> set tgs. fst dt \<in> set guarded_detectors \<and>
         validate_target (fst dt) (snd dt) = Inr () \<and> is_ascii (id_value (tg_region (snd dt))))"
    using assms
  proof (induction fs)
    case (Cons f fs)
    then obtain t where t: "target_of f = Inr t"
      using target_of_ok [of f] by (auto simp: scriptable_def r_ok_iff)
    have "f_resource_type f = reported_type (f_detector_type f)" and "is_ascii (f_region f)"
      using Cons.prems by (simp_all add: scriptable_def)
    then have "validate_target (f_detector_type f) t = Inr ()" and "is_ascii (id_value (tg_region t))"
      using target_of_valid [OF _ t] target_of_values [OF t] by simp_all
    then show ?case using Cons t guarded_detector [of f] by fastforce
  qed simp
  then show ?thesis using that by blast
qed

lemma bulk_script_ok:
  assumes "\<forall>f \<in> set fs. selected (first_account fs) f \<longrightarrow> scriptable st f" and "aware now"
  shows "r_ok (bulk_script st now fs)"
proof -
  let ?inc = "filter (selected (first_account fs)) fs"
  show ?thesis
  proof (cases "?inc = []")
    case True
    then show ?thesis by (simp add: bulk_script_def select_bulk_spec)
  next
    case False
    have all: "\<forall>f \<in> set ?inc. scriptable st f \<and> fst (script_kind_for f) = GUARDED_REMEDIATION"
      using assms(1) by (auto simp: selected_def eligible_def)
    then obtain tgs where t: "r_map (\<lambda>f. r_bind (target_of f) (\<lambda>t. Inr (f_detector_type f, t))) ?inc = Inr tgs"
      and tgs: "length tgs = length ?inc" "\<forall>dt \<in> set tgs. fst dt \<in> set guarded_detectors \<and>
        validate_target (fst dt) (snd dt) = Inr () \<and> is_ascii (id_value (tg_region (snd dt)))"
      by (rule bulk_targets_ok)
    have hd: "scriptable st (hd ?inc)" using all hd_in_set [OF False] by blast
    then obtain a k v where v: "validate_account_id (f_account_id (hd ?inc)) = Inr a"
      "validate_tag_key (st_ignore_tag_key st) = Inr k"
      "validate_tag_value (st_ignore_tag_value st) = Inr v"
      by (auto simp: scriptable_def r_ok_iff)
    let ?sc = "\<lparr>id_kind = K_SCAN_ID, id_value = uuid_text (f_last_scan_id (hd ?inc))\<rparr>"
    have n: "f_last_scan_id (hd ?inc) < 16 ^ 32" and "is_ascii (id_value a)"
      using hd v by (simp_all add: scriptable_def validate_account_id_iff)
    moreover have "tgs \<noteq> []" using tgs(1) False by auto
    ultimately have "r_ok (generate_bulk_script a tgs (Some ?sc) now k v)"
      using validate_common_stored [OF v(1) n v(2,3)] tgs assms(2)
      by (intro generate_bulk_script_ok) auto
    then show ?thesis
      using t v validate_scan_id_uuid [OF n] False
      by (simp add: bulk_script_def Let_def select_bulk_spec)
  qed
qed

end
