(* ===== verification/ScanRunner.thy ===== *)
theory ScanRunner
  imports Runs FindingService
begin

text \<open>
  \<open>app/services/scan_runner.py\<close> and the identity status of \<open>app/services/app_context.py\<close>.
  \<open>start_scan\<close> is the part of \<open>start\<close> under the lock: it refuses a second scan, both by the
  runner's own field and by a running row in the table, and commits a running row. \<open>execute\<close>
  is \<open>_execute\<close>, whose exception handler marks the row failed.

  The step relation \<open>runner_step\<close> interleaves starts, executions, changes of a finding's status
  and restarts of the process. An execution is one step: its effect on findings and scans is
  one transaction, and only one execution can be under way. The invariant of the reachable
  states gives at most one running scan; the last section shows what a restart in the middle
  of a scan leaves behind.
\<close>

section \<open>The state\<close>

record identity_status =
  is_account_id :: "pystr option"
  is_principal_arn :: "pystr option"
  is_identity_type :: "identity_type option"
  is_verified_at :: "instant option"
  is_error :: "pystr option"

definition new_identity_status :: identity_status where
  "new_identity_status =
     \<lparr>is_account_id = None, is_principal_arn = None, is_identity_type = None,
      is_verified_at = None, is_error = None\<rparr>"

definition update_identity :: "identity_status \<Rightarrow> identity \<Rightarrow> instant \<Rightarrow> identity_status" where
  "update_identity st ident verified =
     st\<lparr>is_account_id := Some (id_account_id ident),
        is_principal_arn := Some (id_principal_arn ident),
        is_identity_type := Some (id_identity_type ident),
        is_verified_at := Some verified, is_error := None\<rparr>"

text \<open>\<open>refresh\<close> catches provider errors only; \<open>outcome\<close> is what \<open>get_identity()\<close> does.\<close>

definition refresh_identity ::
  "identity_status \<Rightarrow> py_exc + identity \<Rightarrow> instant \<Rightarrow> py_exc + identity_status" where
  "refresh_identity st outcome now =
     (case outcome of
        Inl (Prov e) \<Rightarrow>
          Inr (st\<lparr>is_error := Some (provider_error_str e), is_verified_at := Some now\<rparr>)
      | Inl e \<Rightarrow> Inl e
      | Inr ident \<Rightarrow> Inr (update_identity st ident now))"

record runner =
  rn_db :: db
  rn_current :: "uuid option"
  rn_identity :: identity_status

section \<open>Starting\<close>

definition ScanConflictError :: py_exc where
  "ScanConflictError =
     PyExc (lit ''ScanConflictError'') (lit ''A scan is already running.'')"

definition running_rows :: "db \<Rightarrow> scan list" where
  "running_rows d = filter (\<lambda>s. s_status s = SCAN_RUNNING) (db_scans d)"

definition start_scan ::
  "mode \<Rightarrow> runner \<Rightarrow> pystr list option \<Rightarrow> instant \<Rightarrow> py_exc + uuid \<times> runner" where
  "start_scan m r regions now =
     (if rn_current r \<noteq> None then Inl ScanConflictError
      else if running_rows (rn_db r) \<noteq> [] then Inl ScanConflictError
      else
        (let d = rn_db r; i = db_next_id d; s = new_scan i m regions now
         in Inr (i, r\<lparr>rn_db := d\<lparr>db_scans := put_scan (db_scans d) s, db_next_id := Suc i\<rparr>,
                      rn_current := Some i\<rparr>)))"

section \<open>Executing\<close>

text \<open>
  What the thread builds before the scan (\<open>SettingsService.load\<close>, \<open>build_provider\<close>, the
  pricing service and its cache) is the argument \<open>built\<close>: an exception, or the four
  ingredients of a run.
\<close>

record 's ingredients =
  in_provider :: cloud_provider
  in_pricing :: "'s pricing"
  in_settings :: app_settings
  in_state :: 's

definition internal_error :: "py_exc \<Rightarrow> error_entry" where
  "internal_error e = scan_error (lit ''internal_error'') (exc_text e)"

text \<open>The \<open>try\<close> block: the runner's state after it, and the exception that left it.\<close>

definition execute_try ::
  "mode \<Rightarrow> py_exc + 's ingredients \<Rightarrow> py_exc + identity \<Rightarrow> instant \<Rightarrow> runner \<Rightarrow> uuid \<Rightarrow>
   pystr list option \<Rightarrow> runner \<times> py_exc option" where
  "execute_try m built outcome now r i regions =
     (case built of
        Inl e \<Rightarrow> (r, Some e)
      | Inr g \<Rightarrow>
          (case snd (run_scan (in_provider g) (in_pricing g) (in_settings g) (rn_db r) (in_state g)
                       regions (Some i) now now) of
             Inl e \<Rightarrow> (r, Some e)
           | Inr (d, s) \<Rightarrow>
               (let r' = r\<lparr>rn_db := d\<rparr>
                in if m = LIVE \<and> truthy (s_account_id s)
                   then (case refresh_identity (rn_identity r) outcome now of
                           Inl e \<Rightarrow> (r', Some e)
                         | Inr st \<Rightarrow> (r'\<lparr>rn_identity := st\<rparr>, None))
                   else (r', None))))"

definition mark_failed :: "db \<Rightarrow> uuid \<Rightarrow> instant \<Rightarrow> py_exc \<Rightarrow> db" where
  "mark_failed d i now e =
     (case get_scan d i of
        None \<Rightarrow> d
      | Some s \<Rightarrow> fst (fail_scan d s now (internal_error e)))"

definition execute ::
  "mode \<Rightarrow> py_exc + 's ingredients \<Rightarrow> py_exc + identity \<Rightarrow> instant \<Rightarrow> runner \<Rightarrow> uuid \<Rightarrow>
   pystr list option \<Rightarrow> runner" where
  "execute m built outcome now r i regions =
     (case execute_try m built outcome now r i regions of
        (r', exc) \<Rightarrow>
          (let r'' = (case exc of
                        None \<Rightarrow> r'
                      | Some e \<Rightarrow> r'\<lparr>rn_db := mark_failed (rn_db r') i now e\<rparr>)
           in r''\<lparr>rn_current := (if rn_current r'' = Some i then None else rn_current r'')\<rparr>))"

section \<open>The table of scans\<close>

definition wf_scans :: "db \<Rightarrow> bool" where
  "wf_scans d \<longleftrightarrow>
     distinct (map s_id (db_scans d)) \<and> (\<forall>s \<in> set (db_scans d). s_id s < db_next_id d)"

lemma put_scan_ids:
  "map s_id (put_scan ss t) =
     (if s_id t \<in> s_id ` set ss then map s_id ss else map s_id ss @ [s_id t])"
  by (auto simp: put_scan_def comp_def)

lemma put_scan_set: "s \<in> set (put_scan ss t) \<longleftrightarrow> s = t \<or> (s \<in> set ss \<and> s_id s \<noteq> s_id t)"
proof (cases "s_id t \<in> s_id ` set ss")
  case True
  then obtain x where "x \<in> set ss" and "s_id x = s_id t" by (metis imageE)
  then show ?thesis using True by (auto simp: put_scan_def)
next
  case False
  then have "\<forall>x \<in> set ss. s_id x \<noteq> s_id t" by (metis imageI)
  then show ?thesis using False by (auto simp: put_scan_def)
qed

lemma get_put_scan: "find (\<lambda>s. s_id s = s_id t) (put_scan ss t) = Some t"
proof (cases "s_id t \<in> s_id ` set ss")
  case True
  then show ?thesis by (simp add: put_scan_def) (induction ss; auto)
next
  case False
  then have "find (\<lambda>s. s_id s = s_id t) ss = None"
    by (simp add: find_None_iff) (metis image_eqI)
  then show ?thesis using False by (simp add: put_scan_def find_append)
qed

lemma running_put:
  assumes "s_status t \<noteq> SCAN_RUNNING" and "\<forall>s \<in> set (running_rows d). s_id s = s_id t"
  shows "running_rows (d\<lparr>db_scans := put_scan (db_scans d) t\<rparr>) = []"
  using assms by (auto simp: running_rows_def put_scan_set filter_empty_conv)

text \<open>A run writes its own row and no other.\<close>

lemma reconcile_scans:
  assumes "reconcile d s region dt cs cov st t = Inr (d', r)"
  shows "db_scans d' = db_scans d \<and> db_next_id d \<le> db_next_id d'"
proof -
  have "db_scans (rs_db rs') = db_scans (rs_db rs) \<and> db_next_id (rs_db rs) \<le> db_next_id (rs_db rs')"
    if "reconcile_candidate st dt s t rs c = Inr rs'" for rs rs' c
    using that by (auto simp: reconcile_candidate_def Let_def r_bind_Inr)
  then have "db_scans (rs_db rs) = db_scans d \<and> db_next_id d \<le> db_next_id (rs_db rs)"
    if "r_fold (reconcile_candidate st dt s t) (start_state d) cs = Inr rs" for rs
    using r_fold_invariant [OF that, where P = "\<lambda>rs. db_scans (rs_db rs) = db_scans d \<and>
        db_next_id d \<le> db_next_id (rs_db rs)"]
    by (fastforce simp: start_state_def)
  then show ?thesis
    using assms by (auto simp: reconcile_def Let_def r_bind_Inr resolve_missing_def split: if_splits)
qed

lemma cells_scans:
  assumes "r_fold (reconcile_cell s st t) acc cells = Inr acc'"
  shows "db_scans (ac_db acc') = db_scans (ac_db acc) \<and> db_next_id (ac_db acc) \<le> db_next_id (ac_db acc')"
proof -
  have "db_scans (ac_db v) = db_scans (ac_db u) \<and> db_next_id (ac_db u) \<le> db_next_id (ac_db v)"
    if "reconcile_cell s st t u c = Inr v" for u v c
    using that reconcile_scans by (fastforce simp: reconcile_cell_def r_bind_Inr split: prod.splits)
  note step = this
  show ?thesis
  proof (rule r_fold_invariant [OF assms, where P = "\<lambda>v. db_scans (ac_db v) = db_scans (ac_db acc) \<and>
        db_next_id (ac_db acc) \<le> db_next_id (ac_db v)"])
    fix u x v
    assume "db_scans (ac_db u) = db_scans (ac_db acc) \<and> db_next_id (ac_db acc) \<le> db_next_id (ac_db u)"
      and "reconcile_cell s st t u x = Inr v"
    then show "db_scans (ac_db v) = db_scans (ac_db acc) \<and> db_next_id (ac_db acc) \<le> db_next_id (ac_db v)"
      using step by fastforce
  qed simp
qed

lemma final_not_running: "final_status runnable dets \<noteq> SCAN_RUNNING"
  by (simp add: final_status_def)

definition finished_row :: "db \<Rightarrow> db \<Rightarrow> scan \<Rightarrow> bool" where
  "finished_row d d' s' \<longleftrightarrow>
     db_scans d' = put_scan (db_scans d) s' \<and> s_status s' \<noteq> SCAN_RUNNING \<and>
     s_finished_at s' \<noteq> None \<and> db_next_id d \<le> db_next_id d'"

lemma fail_scan_row:
  "fail_scan d s now e = (d', s') \<Longrightarrow> finished_row d d' s' \<and> s_id s' = s_id s"
  by (auto simp: fail_scan_def Let_def finished_row_def)

lemma scan_regions_row:
  assumes "scan_regions P pricing st ident infos regions s d ps t now = (ps', Inr (d', s'))"
  shows "finished_row d d' s' \<and> s_id s' = s_id s"
  using assms cells_scans
  by (fastforce simp: scan_regions_def finish_scan_def Let_def finished_row_def final_not_running
      split: if_splits prod.splits)

lemma run_scan_own_row:
  assumes "run_scan P pricing st d ps regions (Some i) t now = (ps', Inr (d', s'))"
  shows "finished_row d d' s' \<and> s_id s' = i"
proof -
  from assms obtain s where s: "get_scan d i = Some s" "s_id s = i"
    by (auto simp: run_scan_def scan_row_def get_scan_def find_Some_iff
        split: option.splits if_splits)
  then show ?thesis
    using assms fail_scan_row [of d _ now _ d' s'] scan_regions_row
    by (fastforce simp: run_scan_def scan_row_def Let_def
        split: sum.splits py_exc.splits provider_error.splits if_splits)
qed

section \<open>A start followed by its execution\<close>

lemma get_scan_row: "finished_row d d' s \<Longrightarrow> get_scan d' (s_id s) = Some s"
  by (simp add: finished_row_def get_scan_def get_put_scan)

definition closed :: "db \<Rightarrow> uuid \<Rightarrow> bool" where
  "closed d i \<longleftrightarrow>
     (\<exists>s. get_scan d i = Some s \<and> s_status s \<noteq> SCAN_RUNNING \<and> s_finished_at s \<noteq> None)"

text \<open>What one execution does to the table: one finished row replaces the row of the scan.\<close>

lemma mark_failed_row:
  assumes "get_scan d i = Some s0"
  shows "\<exists>s. finished_row d (mark_failed d i now e) s \<and> s_id s = i \<and> s_status s = SCAN_FAILED"
proof -
  have "s_id s0 = i" using assms by (auto simp: get_scan_def find_Some_iff)
  then show ?thesis
    using assms by (auto simp: mark_failed_def fail_scan_def Let_def finished_row_def)
qed

lemma finished_row_twice:
  assumes "finished_row d d1 s1" and "finished_row d1 d2 s2" and "s_id s2 = s_id s1"
  shows "finished_row d d2 s2"
proof -
  have "put_scan (put_scan ss s1) s2 = put_scan ss s2" for ss
  proof (cases "s_id s1 \<in> s_id ` set ss")
    case True
    then have "s_id s2 \<in> s_id ` set (put_scan ss s1)" and "s_id s2 \<in> s_id ` set ss"
      using assms(3) put_scan_ids [of ss s1] by (metis list.set_map)+
    then show ?thesis using True assms(3) by (auto simp: put_scan_def)
  next
    case False
    then have "map (\<lambda>s. if s_id s = s_id s1 then s2 else s) ss = ss"
      by (intro map_idI) (auto, metis image_eqI)
    then show ?thesis using False assms(3) by (simp add: put_scan_def)
  qed
  then show ?thesis using assms(1,2) by (simp add: finished_row_def)
qed

lemma execute_row:
  assumes "get_scan (rn_db r) i = Some s0"
  shows "\<exists>s. finished_row (rn_db r) (rn_db (execute m built outcome now r i regions)) s \<and> s_id s = i"
proof -
  obtain r' exc where tried: "execute_try m built outcome now r i regions = (r', exc)" by fastforce
  consider (same) e where "rn_db r' = rn_db r" "exc = Some e"
    | (committed) s where "finished_row (rn_db r) (rn_db r') s" "s_id s = i"
  proof (cases built)
    case (Inl e)
    then show ?thesis using tried same by (auto simp: execute_try_def)
  next
    case (Inr g)
    obtain ps res where run: "run_scan (in_provider g) (in_pricing g) (in_settings g) (rn_db r) (in_state g)
        regions (Some i) now now = (ps, res)" by fastforce
    show ?thesis
    proof (cases res)
      case (Inl e)
      then show ?thesis using tried same Inr run by (auto simp: execute_try_def)
    next
      case res: (Inr ds)
      obtain d' s' where "ds = (d', s')" by fastforce
      with run res have "run_scan (in_provider g) (in_pricing g) (in_settings g) (rn_db r) (in_state g)
        regions (Some i) now now = (ps, Inr (d', s'))" by simp
      from run_scan_own_row [OF this] have row: "finished_row (rn_db r) d' s' \<and> s_id s' = i" .
      moreover have "rn_db r' = d'"
        using tried Inr run res \<open>ds = (d', s')\<close>
        by (auto simp: execute_try_def Let_def split: if_splits sum.splits)
      ultimately show ?thesis using committed by blast
    qed
  qed
  then show ?thesis
  proof cases
    case same
    then show ?thesis
      using tried mark_failed_row [OF assms] by (fastforce simp: execute_def Let_def)
  next
    case committed
    show ?thesis
    proof (cases exc)
      case None
      then show ?thesis using tried committed by (auto simp: execute_def Let_def)
    next
      case (Some e)
      have "get_scan (rn_db r') i = Some s" using get_scan_row committed by blast
      then obtain s2 where "finished_row (rn_db r') (mark_failed (rn_db r') i now e) s2" "s_id s2 = i"
        using mark_failed_row by blast
      then show ?thesis
        using tried Some finished_row_twice [OF committed(1)] committed(2) by (auto simp: execute_def Let_def)
    qed
  qed
qed

lemma execute_current:
  assumes "rn_current r = Some i"
  shows "rn_current (execute m built outcome now r i regions) = None"
proof -
  have "rn_current (fst (execute_try m built outcome now r i regions)) = Some i"
    using assms
    by (auto simp: execute_try_def Let_def split: sum.splits prod.splits)
  then show ?thesis by (auto simp: execute_def Let_def split: prod.splits option.splits)
qed

lemma start_scan_Inr:
  assumes "start_scan m r regions now = Inr (i, r')"
  shows "rn_current r = None" and "running_rows (rn_db r) = []" and "rn_current r' = Some i"
    and "i = db_next_id (rn_db r)" and "db_next_id (rn_db r') = Suc i"
    and "db_scans (rn_db r') = put_scan (db_scans (rn_db r)) (new_scan i m regions now)"
    and "db_findings (rn_db r') = db_findings (rn_db r)"
    and "db_observations (rn_db r') = db_observations (rn_db r)"
  using assms by (auto simp: start_scan_def Let_def split: if_splits)

lemma start_execute_closed:
  assumes "start_scan m r regions now = Inr (i, r1)"
  shows "closed (rn_db (execute m built outcome now' r1 i regions)) i"
    and "rn_current (execute m built outcome now' r1 i regions) = None"
proof -
  have "s_id (new_scan i m regions now) = i" by (simp add: new_scan_def)
  then have "get_scan (rn_db r1) i = Some (new_scan i m regions now)"
    using get_put_scan [of "new_scan i m regions now" "db_scans (rn_db r)"]
    by (simp add: get_scan_def start_scan_Inr(6) [OF assms])
  from execute_row [OF this] obtain s where
    "finished_row (rn_db r1) (rn_db (execute m built outcome now' r1 i regions)) s" "s_id s = i" by blast
  then show "closed (rn_db (execute m built outcome now' r1 i regions)) i"
    using get_scan_row by (auto simp: closed_def finished_row_def)
  show "rn_current (execute m built outcome now' r1 i regions) = None"
    using execute_current start_scan_Inr(3) [OF assms] .
qed

section \<open>The runner as a transition system\<close>

type_synonym cached_ingredients = "(json price_row list) ingredients"

inductive runner_step :: "runner \<Rightarrow> runner \<Rightarrow> bool" where
  Start: "start_scan m r regions now = Inr (i, r') \<Longrightarrow> runner_step r r'"
| Execute: "rn_current r = Some i \<Longrightarrow> built = (b :: py_exc + cached_ingredients) \<Longrightarrow>
    runner_step r (execute m built outcome now r i regions)"
| Patch: "service_patch (rn_db r) j status reason now = Inr (d, f) \<Longrightarrow>
    runner_step r (r\<lparr>rn_db := d\<rparr>)"
| Restart: "runner_step r (r\<lparr>rn_current := None, rn_identity := new_identity_status\<rparr>)"

inductive_cases runner_stepE: "runner_step r r'"

inductive reachable :: "runner \<Rightarrow> runner \<Rightarrow> bool" where
  reach_refl: "reachable r r"
| reach_step: "reachable r r' \<Longrightarrow> runner_step r' r'' \<Longrightarrow> reachable r r''"

definition runner_inv :: "runner \<Rightarrow> bool" where
  "runner_inv r \<longleftrightarrow>
     wf_scans (rn_db r) \<and> length (running_rows (rn_db r)) \<le> 1 \<and>
     (\<forall>i. rn_current r = Some i \<longrightarrow>
        (\<exists>s. get_scan (rn_db r) i = Some s) \<and> (\<forall>s \<in> set (running_rows (rn_db r)). s_id s = i))"

lemma finished_running:
  assumes "finished_row d d' s"
  shows "running_rows d' = filter (\<lambda>x. s_id x \<noteq> s_id s) (running_rows d)"
proof -
  have fin: "s_status s \<noteq> SCAN_RUNNING" and rows: "db_scans d' = put_scan (db_scans d) s"
    using assms by (auto simp: finished_row_def)
  have "filter (\<lambda>x. s_status x = SCAN_RUNNING) (map (\<lambda>x. if s_id x = s_id s then s else x) ss) =
      filter (\<lambda>x. s_id x \<noteq> s_id s) (filter (\<lambda>x. s_status x = SCAN_RUNNING) ss)" for ss :: "scan list"
    using fin by (induction ss) auto
  moreover have "filter (\<lambda>x. s_status x = SCAN_RUNNING) ss =
      filter (\<lambda>x. s_id x \<noteq> s_id s) (filter (\<lambda>x. s_status x = SCAN_RUNNING) ss)"
    if "s_id s \<notin> s_id ` set ss" for ss :: "scan list"
    using that by (induction ss) auto
  ultimately show ?thesis
    using fin unfolding running_rows_def rows put_scan_def by simp
qed

lemma wf_scans_put:
  assumes "wf_scans d" and "db_scans d' = put_scan (db_scans d) s" and "s_id s < db_next_id d'"
    and "db_next_id d \<le> db_next_id d'"
  shows "wf_scans d'"
proof -
  have "distinct (map s_id (put_scan (db_scans d) s))"
    using assms(1) by (simp add: put_scan_ids wf_scans_def)
  then show ?thesis using assms by (fastforce simp: wf_scans_def put_scan_set)
qed

lemma get_scan_bound: "wf_scans d \<Longrightarrow> get_scan d i = Some s \<Longrightarrow> i < db_next_id d"
  by (auto simp: wf_scans_def get_scan_def find_Some_iff dest!: nth_mem)

lemma patch_scans:
  assumes "service_patch d j status reason now = Inr (d', f)"
  shows "db_scans d' = db_scans d" and "db_next_id d' = db_next_id d"
  using assms by (auto simp: service_patch_def r_bind_Inr)

lemma start_running:
  assumes "start_scan m r regions now = Inr (i, r')" and "wf_scans (rn_db r)"
  shows "running_rows (rn_db r') = [new_scan i m regions now]"
proof -
  have "s_id (new_scan i m regions now) \<notin> s_id ` set (db_scans (rn_db r))"
    using assms(2) start_scan_Inr(4) [OF assms(1)] by (auto simp: wf_scans_def new_scan_def)
  then show ?thesis
    using start_scan_Inr(2,6) [OF assms(1)]
    by (simp add: running_rows_def put_scan_def) (simp add: new_scan_def)
qed

lemma runner_step_inv:
  assumes "runner_step r r'" and "runner_inv r"
  shows "runner_inv r'"
  using assms
proof (cases rule: runner_step.cases)
  case (Start m regions now i)
  note row = start_scan_Inr [OF Start]
  have wf: "wf_scans (rn_db r)" using assms(2) by (simp add: runner_inv_def)
  have id: "s_id (new_scan i m regions now) = i" by (simp add: new_scan_def)
  have "wf_scans (rn_db r')" using wf row(4,5,6) id by (intro wf_scans_put [OF wf row(6)]) simp_all
  moreover have "get_scan (rn_db r') i = Some (new_scan i m regions now)"
    using get_put_scan [of "new_scan i m regions now" "db_scans (rn_db r)"] row(6) id
    by (simp add: get_scan_def)
  ultimately show ?thesis
    using start_running [OF Start wf] row(3) id by (simp add: runner_inv_def)
next
  case (Execute i built b m outcome now regions)
  from assms(2) Execute obtain s0 where s0: "get_scan (rn_db r) i = Some s0"
    and wf: "wf_scans (rn_db r)" and len: "length (running_rows (rn_db r)) \<le> 1"
    by (auto simp: runner_inv_def)
  from execute_row [OF s0] obtain s where row: "finished_row (rn_db r) (rn_db r') s" and id: "s_id s = i"
    using Execute by blast
  have "wf_scans (rn_db r')"
    using wf_scans_put [OF wf, of "rn_db r'" s] row id get_scan_bound [OF wf s0]
    by (auto simp: finished_row_def)
  moreover have "length (running_rows (rn_db r')) \<le> 1"
    using len finished_running [OF row] le_trans length_filter_le by metis
  moreover have "rn_current r' = None" unfolding Execute(1) by (rule execute_current [OF Execute(2)])
  ultimately show ?thesis by (simp add: runner_inv_def)
next
  case (Patch j status reason now d f)
  then show ?thesis
    using assms(2) patch_scans [OF Patch(2)]
    by (simp add: runner_inv_def wf_scans_def running_rows_def get_scan_def)
next
  case Restart
  then show ?thesis using assms(2) by (simp add: runner_inv_def)
qed

lemma reachable_inv:
  "reachable r0 r \<Longrightarrow> runner_inv r0 \<Longrightarrow> runner_inv r"
  by (induction rule: reachable.induct) (auto intro: runner_step_inv)

section \<open>After a restart\<close>

text \<open>
  A runner that holds no scan while the table has a running row: the row was left by a process
  that ended in the middle of a scan. No operation of the program changes that row again.
\<close>

definition orphaned :: "runner \<Rightarrow> bool" where
  "orphaned r \<longleftrightarrow> rn_current r = None \<and> running_rows (rn_db r) \<noteq> []"

lemma orphaned_conflict: "orphaned r \<Longrightarrow> start_scan m r regions now = Inl ScanConflictError"
  by (simp add: orphaned_def start_scan_def)

lemma orphaned_step:
  assumes "runner_step r r'" and "orphaned r"
  shows "orphaned r'"
  using assms
proof (cases rule: runner_step.cases)
  case (Patch j status reason now d f)
  then show ?thesis
    using assms(2) patch_scans [OF Patch(2)] by (simp add: orphaned_def running_rows_def)
qed (auto simp: orphaned_def start_scan_def)

lemma orphaned_forever: "reachable r0 r \<Longrightarrow> orphaned r0 \<Longrightarrow> orphaned r"
  by (induction rule: reachable.induct) (auto intro: orphaned_step)

lemma restart_orphans:
  assumes "start_scan m r regions now = Inr (i, r1)" and "wf_scans (rn_db r)"
  shows "orphaned (r1\<lparr>rn_current := None, rn_identity := new_identity_status\<rparr>)"
  using start_running [OF assms] by (simp add: orphaned_def)

section \<open>A user's change keeps the invariant of the tables\<close>

lemma service_patch_inv:
  assumes "scan_inv t d" and "service_patch d i status reason now = Inr (d', g)"
  shows "scan_inv t d'"
    and "\<exists>f \<in> set (db_findings d). f_id f = i \<and> key_of g = key_of f \<and>
           (f_status f = OPEN \<and> status = lit ''dismissed'' \<and> f_status g = DISMISSED \<or>
            f_status f = DISMISSED \<and> status = lit ''open'' \<and> f_status g = OPEN)"
proof -
  have wf: "wf_db d" using assms(1) by (simp add: scan_inv_def)
  obtain f where f: "f \<in> set (db_findings d)" "f_id f = i" and p: "patch_finding f status reason now = Inr g"
    and d': "d' = d\<lparr>db_findings := update_row (db_findings d) g\<rparr>"
    by (rule service_patch_Inr [OF wf assms(2)])
  note keeps = patch_keeps [OF p]
  have fs: "wf_findings (db_findings d)" using wf by (simp add: wf_db_def)
  have set': "set (update_row (db_findings d) g) = insert g (set (db_findings d) - {f})"
    by (rule set_update_row [OF fs f(1) keeps(1) [symmetric]])
  have ids: "map f_id (update_row (db_findings d) g) = map f_id (db_findings d)"
    by (rule map_ids_update_row)
  have "map key_of (update_row (db_findings d) g) = map key_of (db_findings d)"
    by (rule update_row_keys [OF fs f(1) keeps(1,2) [symmetric]])
  with ids fs have "wf_findings (update_row (db_findings d) g)" by (simp add: wf_findings_def)
  moreover have "f_id ` set (update_row (db_findings d) g) = f_id ` set (db_findings d)"
    by (rule ids_update_row)
  then have "\<forall>x \<in> set (update_row (db_findings d) g). f_id x < db_next_id d"
    using wf set' f keeps(1) by (auto simp: wf_db_def)
  ultimately have "wf_db d'"
    using wf ids_update_row [of "db_findings d" g] by (simp add: wf_db_def d')
  moreover have "counted d'"
    using assms(1) f set' keeps by (auto simp: counted_def scan_inv_def d')
  moreover have "\<forall>x \<in> set (db_findings d'). lifecycle t x \<and> judged x"
    using assms(1) f set' keeps by (auto simp: scan_inv_def d')
  ultimately show "scan_inv t d'" by (simp add: scan_inv_def)
  have "f_status f = OPEN \<and> status = lit ''dismissed'' \<and> f_status g = DISMISSED \<or>
      f_status f = DISMISSED \<and> status = lit ''open'' \<and> f_status g = OPEN"
    using p by (auto simp: patch_finding_def split: if_splits)
  then show "\<exists>f \<in> set (db_findings d). f_id f = i \<and> key_of g = key_of f \<and>
           (f_status f = OPEN \<and> status = lit ''dismissed'' \<and> f_status g = DISMISSED \<or>
            f_status f = DISMISSED \<and> status = lit ''open'' \<and> f_status g = OPEN)"
    using f keeps(2) by blast
qed

lemma service_patch_error:
  assumes "wf_db d" and "service_patch d i status reason now = Inl e" and "f \<in> set (db_findings d)"
    and "f_id f = i"
  shows "\<not> r_ok (patch_finding f status reason now)"
proof -
  have "get_finding d i = Some f" using get_finding_Some [OF assms(1)] assms(3,4) by blast
  then show ?thesis
    using assms(2) by (auto simp: service_patch_def service_get_def r_bind_Inl)
qed

end
