(* ===== verification/Example.thy ===== *)
theory Example
  imports Runs ScriptService ScanRunner
begin

text \<open>
  A small account on which the properties are evaluated: one region with an old unattached
  volume, a reserved address and a stack, scanned twice, thirty days apart, into an empty
  database, with the shipped price table.
\<close>

section \<open>The account\<close>

definition ex_region :: pystr where "ex_region = lit ''us-east-1''"
definition ex_account :: pystr where "ex_account = lit ''123456789012''"
definition ex_volume_id :: pystr where "ex_volume_id = lit ''vol-0123abcd''"
definition ex_attached_id :: pystr where "ex_attached_id = lit ''vol-0123abce''"

definition ex_identity :: identity where
  "ex_identity =
     \<lparr>id_account_id = ex_account, id_principal_arn = lit ''arn:aws:iam::123456789012:user/x'',
      id_identity_type = ID_USER, id_user_id = lit ''AID''\<rparr>"

definition ex_volume :: volume where
  "ex_volume =
     \<lparr>v_volume_id = ex_volume_id, v_state = lit ''available'', v_volume_type = lit ''gp3'',
      v_size_gib = 100, v_iops = Some 3000, v_throughput_mibps = Some 125, v_encrypted = True,
      v_created_at = 0, v_snapshot_id = None, v_attachments = [], v_tags = [],
      v_availability_zone = lit ''us-east-1a''\<rparr>"

definition ex_attached :: volume where
  "ex_attached =
     ex_volume\<lparr>v_volume_id := ex_attached_id, v_state := lit ''in-use'',
       v_attachments := [\<lparr>at_instance_id = lit ''i-0123abcd'', at_device = lit ''/dev/xvda'',
                          at_state = lit ''attached''\<rparr>]\<rparr>"

definition ex_stack :: stack_resource where
  "ex_stack =
     \<lparr>sr_region = ex_region, sr_stack_name = lit ''web'', sr_stack_id = lit ''stack/web'',
      sr_logical_id = lit ''Data'', sr_physical_id = Some ex_attached_id,
      sr_resource_type = lit ''AWS::EC2::Volume'', sr_resource_status = lit ''CREATE_COMPLETE''\<rparr>"

definition ex_provider :: cloud_provider where
  "ex_provider =
     \<lparr>cp_mode = LIVE,
      get_identity = Inr ex_identity,
      list_regions = Inr [\<lparr>ri_name = ex_region, ri_opt_in_status = OPT_IN_NOT_REQUIRED\<rparr>],
      list_volumes = (\<lambda>r. Inr [ex_volume, ex_attached]),
      list_addresses = (\<lambda>r. Inl (Prov (ProviderPermissionError (lit ''ec2:DescribeAddresses'') (Some r)))),
      list_instances = (\<lambda>r. Inr []),
      list_snapshots = (\<lambda>r. Inr []),
      list_images = (\<lambda>r. Inr []),
      get_snapshot_attributes =
        (\<lambda>r sid. Inr \<lparr>sa_snapshot_id = sid, sa_shared_user_ids = [], sa_shared_groups = []\<rparr>),
      get_snapshot_locks = (\<lambda>r ids. Inr []),
      list_stack_resources = (\<lambda>r. Inr [ex_stack]),
      get_prices = (\<lambda>svc fs. Inr [])\<rparr>"

definition ex_pricing :: "unit \<Rightarrow> pricing_request \<Rightarrow> unit \<times> pricing_result" where
  "ex_pricing = estimate default_settings None (fallback_backend fallback_prices)"

definition empty_db :: db where
  "empty_db = \<lparr>db_scans = [], db_findings = [], db_observations = [], db_next_id = 0\<rparr>"

definition day :: "int \<Rightarrow> instant" where
  "day n = n * us_per_day"

section \<open>What its provider reports\<close>

lemma ex_ebs: "ebs_scan ex_provider r ctx = Inr [ebs_candidate ctx r ex_volume]"
  by (simp add: ebs_scan_def ex_provider_def ebs_condition_def ex_volume_def ex_attached_def)

lemma ex_eip:
  "eip_scan ex_provider r ctx =
     Inl (Prov (ProviderPermissionError (lit ''ec2:DescribeAddresses'') (Some r)))"
  by (simp add: eip_scan_def ex_provider_def)

lemma ex_ec2: "ec2_scan ex_provider r ctx = Inr []"
  by (simp add: ec2_scan_def ex_provider_def Let_def)

lemma ex_snapshots: "snapshot_scan ex_provider r ctx = Inr []"
  by (simp add: snapshot_scan_def ex_provider_def Let_def)

lemma ex_lists_once: "lists_once ex_provider r ctx"
  by (simp add: lists_once_def detectors_def ex_ebs ex_eip ex_ec2 ex_snapshots)

lemma ex_provider_simps [simp]:
  "get_identity ex_provider = Inr ex_identity"
  "list_regions ex_provider =
     Inr [\<lparr>ri_name = ex_region, ri_opt_in_status = OPT_IN_NOT_REQUIRED\<rparr>]"
  "list_stack_resources ex_provider r = Inr [ex_stack]" "cp_mode ex_provider = LIVE"
  by (simp_all add: ex_provider_def)

lemma ex_cells:
  "\<exists>ps' rd. detect_region ex_provider pricing st ident t ps r = (ps', rd) \<and>
     map (\<lambda>c. (dc_detector_type c, dc_status c)) (rd_cells rd) =
       [(UNATTACHED_EBS_VOLUME, CELL_COMPLETE), (UNASSOCIATED_ELASTIC_IP, CELL_MISSING_PERMISSION),
        (STOPPED_EC2_INSTANCE, CELL_COMPLETE), (SNAPSHOT_MISSING_SOURCE_VOLUME, CELL_COMPLETE)]"
proof -
  have p: "provider_only (list_stack_resources ex_provider r)" by (simp add: provider_only_def)
  have ebs: "\<exists>rs' es. run_detector ex_provider pricing r ctx rs
      \<lparr>det_type = UNATTACHED_EBS_VOLUME, det_resource = EBS_VOLUME,
       det_required_operations = ops, det_scan = ebs_scan\<rparr> = (rs', Inr es)" for ctx rs ops
    using enrich_total [OF p] by (simp add: run_detector_def ex_ebs del: enrich.simps)
  obtain rs1 es where 1: "run_detector ex_provider pricing r (context_of st ident t r)
      \<lparr>rg_resolver = new_resolver, rg_pricing = ps, rg_warnings = []\<rparr>
      \<lparr>det_type = UNATTACHED_EBS_VOLUME, det_resource = EBS_VOLUME,
       det_required_operations = [lit ''ec2:DescribeVolumes''], det_scan = ebs_scan\<rparr> = (rs1, Inr es)"
    using ebs by blast
  show ?thesis
    using 1 unfolding detect_region_def detectors_def context_of_def Let_def
    by (simp add: run_detector_def ex_eip ex_ec2 ex_snapshots complete_cell_def split: prod.splits)
qed

section \<open>Scans of it\<close>

definition ex_run :: "db \<Rightarrow> instant \<Rightarrow> unit \<times> (py_exc + db \<times> scan)" where
  "ex_run d t = run_scan ex_provider ex_pricing default_settings d () None None t t"

definition ex_key :: finding_key where
  "ex_key = (ex_account, ex_region, EBS_VOLUME, ex_volume_id, UNATTACHED_EBS_VOLUME)"

lemma ex_fixed [simp]: "id_account_id ex_identity = ex_account"
  by (simp add: ex_identity_def)

text \<open>On any well-formed database that has no row of the new scan, the scan ends normally.\<close>

lemma ex_run_ok:
  assumes "wf_db d" and "\<forall>ob \<in> set (db_observations d). ob_scan_id ob \<noteq> db_next_id d"
  shows "\<exists>d' s'. ex_run d t = ((), Inr (d', s'))"
proof -
  have "\<exists>ps' d' s'. run_scan ex_provider ex_pricing default_settings d () None None t t = (ps', Inr (d', s'))"
    by (rule run_scan_total [OF _ _ default_thresholds_total _ assms(1) _ assms(2)])
      (simp_all add: provider_only_def default_settings_def ex_lists_once)
  then show ?thesis by (simp add: ex_run_def)
qed

lemma ex_run_facts:
  assumes "ex_run d t = ((), Inr (d', s'))"
  shows "s_requested_regions s' = [ex_region]" and "s_account_id s' = Some ex_account"
    and "s_started_at s' = t"
    and "cell_complete s' ex_region UNATTACHED_EBS_VOLUME"
    and "\<not> cell_complete s' ex_region UNASSOCIATED_ELASTIC_IP"
proof -
  note run = assms [unfolded ex_run_def]
  note row = run_scan_row [OF run ex_provider_simps(1,2)]
  show requested: "s_requested_regions s' = [ex_region]" and "s_account_id s' = Some ex_account"
    and "s_started_at s' = t"
    using row by (simp_all add: default_settings_def dedup_id)
  show "cell_complete s' ex_region UNATTACHED_EBS_VOLUME"
    and "\<not> cell_complete s' ex_region UNASSOCIATED_ELASTIC_IP"
  proof -
    consider (1) "failed_early d d' s'" "\<not> (r_ok (get_identity ex_provider) \<and> r_ok (list_regions ex_provider))"
      | (2) ident infos s d1 dets acc where
      "ran ex_provider ex_pricing default_settings d () None None t d' s' ident infos s d1 dets acc"
      by (rule run_scan_cases [OF run]) blast+
    then have "cell_complete s' ex_region UNATTACHED_EBS_VOLUME \<and>
      \<not> cell_complete s' ex_region UNASSOCIATED_ELASTIC_IP"
    proof cases
      case 1
      then show ?thesis by simp
    next
      case 2
      then obtain ps' where ident: "ident = ex_identity"
        "infos = [\<lparr>ri_name = ex_region, ri_opt_in_status = OPT_IN_NOT_REQUIRED\<rparr>]" and det:
        "run_detections ex_provider ex_pricing default_settings ident (s_started_at s) () infos
           [ex_region] = (ps', dets)" using requested by (auto simp: ran_def)
      have "\<not> not_opted_in infos ex_region"
        by (simp add: not_opted_in_def dict_index_def ident)
      with run_detections_good(3) [OF det] obtain rd ps1 ps2 where rd: "dets = [rd]"
        "detect_region ex_provider ex_pricing default_settings ident (s_started_at s) ps1 ex_region = (ps2, rd)"
        by auto
      from ex_cells [of ex_pricing default_settings ex_identity "s_started_at s" ps1 ex_region] rd ident have
        cells: "map (\<lambda>c. (dc_detector_type c, dc_status c)) (rd_cells rd) =
       [(UNATTACHED_EBS_VOLUME, CELL_COMPLETE), (UNASSOCIATED_ELASTIC_IP, CELL_MISSING_PERMISSION),
        (STOPPED_EC2_INSTANCE, CELL_COMPLETE), (SNAPSHOT_MISSING_SOURCE_VOLUME, CELL_COMPLETE)]"
        by auto
      have "rd_region rd = ex_region" using detect_region_good [OF rd(2)] by simp
      moreover from cells obtain c1 c2 c3 c4 where c: "rd_cells rd = [c1, c2, c3, c4]"
        "dc_detector_type c1 = UNATTACHED_EBS_VOLUME" "dc_status c1 = CELL_COMPLETE"
        "dc_detector_type c2 = UNASSOCIATED_ELASTIC_IP" "dc_status c2 = CELL_MISSING_PERMISSION"
        by auto
      ultimately have "(ex_region, c1) \<in> set (all_cells dets)" "(ex_region, c2) \<in> set (all_cells dets)"
        using rd(1) by (auto simp: all_cells_def)
      note in_cells = this
      with ran_coverage [OF 2 in_cells(1)] ran_coverage [OF 2 in_cells(2)] c
      show ?thesis by simp
    qed
    then show "cell_complete s' ex_region UNATTACHED_EBS_VOLUME"
      and "\<not> cell_complete s' ex_region UNASSOCIATED_ELASTIC_IP" by auto
  qed
qed

lemma empty_db_wf: "wf_db empty_db"
  by (simp add: empty_db_def wf_db_def wf_findings_def)

lemma empty_db_inv: "scan_inv t empty_db"
  by (simp add: scan_inv_def empty_db_wf counted_def) (simp add: empty_db_def)

lemma ex_candidate_key: "candidate_key (ebs_candidate (context_of st ex_identity t r) r ex_volume) =
    (ex_account, r, EBS_VOLUME, ex_volume_id, UNATTACHED_EBS_VOLUME)"
  by (simp add: candidate_key_def ebs_candidate_def candidate_def context_of_def ex_volume_def
      ex_identity_def Let_def)

lemma ex_run_empty: "\<exists>d' s'. ex_run empty_db t = ((), Inr (d', s'))"
  by (rule ex_run_ok) (simp_all add: empty_db_def wf_db_def wf_findings_def)

section \<open>A finding that may get a deleting script\<close>

definition ex_finding :: finding where
  "ex_finding =
     \<lparr>f_id = 5, f_account_id = ex_account, f_region = ex_region, f_resource_type = EBS_VOLUME,
      f_resource_id = ex_volume_id, f_detector_type = UNATTACHED_EBS_VOLUME, f_title = [],
      f_summary = [], f_resource_created_at = None, f_first_observed_at = day 1,
      f_last_observed_at = day 20, f_streak_started_at = day 1, f_observation_count = 2,
      f_consecutive_observations = 2, f_persistence_state = PERSISTENT,
      f_detection_confidence = DC_HIGH, f_remediation_risk = RISK_LOW,
      f_cost_confidence = COST_UNAVAILABLE, f_estimated_monthly_cost = None,
      f_cost_explanation = [], f_pricing_source = PRICE_UNAVAILABLE, f_pricing_timestamp = None,
      f_cost_line_items = [], f_evidence = [], f_known_dependencies = [],
      f_ownership = Some default_ownership, f_related_resource_ids = [], f_status = OPEN,
      f_resolved_at = None, f_dismissed_at = None, f_dismiss_reason = None,
      f_ignore_reason = None, f_first_scan_id = 1, f_last_scan_id = 3, f_created_at = day 1,
      f_updated_at = day 20\<rparr>"

lemma ex_finding_kind: "script_kind_for ex_finding = (GUARDED_REMEDIATION, None)"
  by (simp add: script_kind_for_def ex_finding_def owner_status_def default_ownership_def)

lemma ex_finding_judged: "judged ex_finding"
  by (simp add: judged_def ex_finding_def default_ownership_def classify_remediation_risk_def)

lemma ex_account_ok: "r_ok (validate_account_id ex_account)"
proof -
  have "\<forall>c \<in> set ex_account. ascii_digit c" by (simp add: ex_account_def lit_def ascii_digit_def)
  then show ?thesis
    using ascii_digit_unicode by (auto simp: r_ok_iff validate_account_id_iff ex_account_def)
qed

lemma ex_ascii: "is_ascii ex_account" "is_ascii ex_region"
  by (simp_all add: ex_account_def ex_region_def lit_def is_ascii_def)

lemma lang_seq: "u \<in> lang r \<Longrightarrow> v \<in> lang s \<Longrightarrow> u @ v \<in> lang (RSeq r s)"
  by auto

lemma ex_region_ok: "r_ok (validate_region ex_region None)"
proof -
  have "lit ''us'' \<in> lang (RRep lower_class 2 4)"
    by (simp add: lower_class_def lit_def del: lang.simps)
  moreover have "lit ''-'' @ lit ''east'' \<in> lang (RSeq (RLit (lit ''-'')) (RRep lower_class 2 12))"
    by (intro lang_seq) (simp_all add: lower_class_def lit_def del: lang.simps)
  then have "concat [lit ''-'' @ lit ''east''] \<in>
      lang (RRep (RSeq (RLit (lit ''-'')) (RRep lower_class 2 12)) 1 3)"
    unfolding lang.simps(6) by fastforce
  moreover have "lit ''-'' @ lit ''1'' \<in> lang (RSeq (RLit (lit ''-'')) digit_class)"
    by (intro lang_seq) (simp_all add: digit_class_def lit_def ascii_digit_unicode ascii_digit_def)
  ultimately have "lit ''us'' @ concat [lit ''-'' @ lit ''east''] @ lit ''-'' @ lit ''1'' \<in> lang region_rx"
    unfolding region_rx_def by (intro lang_seq [of "lit ''us''"] lang_seq [of "concat [lit ''-'' @ lit ''east'']"])
  moreover have "lit ''us'' @ concat [lit ''-'' @ lit ''east''] @ lit ''-'' @ lit ''1'' = ex_region"
    by (simp add: ex_region_def lit_def)
  ultimately have "fullmatch region_rx ex_region" by (simp add: fullmatch_lang)
  moreover have "\<not> has_control ex_region" by (simp add: has_control_def ex_region_def lit_def)
  ultimately show ?thesis by (simp add: validate_region_def validate_pattern_def)
qed

lemma ex_volume_ok: "r_ok (validate_resource_id EBS_VOLUME ex_volume_id)"
proof -
  have "lit ''vol-'' @ lit ''0123abcd'' @ [] \<in> lang (aws_id_rx (lit ''vol-''))"
    unfolding aws_id_rx_def ROpt_def
    by (intro lang_seq) (simp_all add: lit_def del: lang.simps(6))
  moreover have "lit ''vol-'' @ lit ''0123abcd'' @ [] = ex_volume_id"
    by (simp add: ex_volume_id_def lit_def)
  ultimately have "fullmatch (aws_id_rx (lit ''vol-'')) ex_volume_id" by (simp add: fullmatch_lang)
  moreover have "\<not> has_control ex_volume_id" by (simp add: has_control_def ex_volume_id_def lit_def)
  ultimately show ?thesis
    by (simp add: validate_resource_id_def validate_volume_id_def validate_pattern_def)
qed

lemma ex_tags_ok:
  "r_ok (validate_tag_key (st_ignore_tag_key default_settings))"
  "r_ok (validate_tag_value (st_ignore_tag_value default_settings))"
  by (simp_all add: default_settings_def r_ok_iff validate_tag_key_iff validate_tag_value_iff)
    (simp_all add: lit_def tag_char_def)

lemma ex_scriptable: "scriptable default_settings ex_finding"
  using ex_account_ok ex_ascii ex_region_ok ex_volume_ok ex_tags_ok
  by (simp add: scriptable_def ex_finding_def)

lemma ex_script: "\<exists>g. script_for_finding default_settings (utc 0) ex_finding = Inr g"
  using script_for_finding_ok [OF ex_scriptable, of "utc 0"] by (simp add: r_ok_iff)

text \<open>The same finding before it met the threshold.\<close>

definition ex_new_finding :: finding where
  "ex_new_finding =
     ex_finding\<lparr>f_id := 6, f_persistence_state := NEWLY_OBSERVED, f_remediation_risk := RISK_REVIEW,
       f_consecutive_observations := 1, f_observation_count := 1, f_resource_id := ex_attached_id\<rparr>"

lemma ex_new_finding_kind: "script_kind_for ex_new_finding = (INVESTIGATION, Some R_NEWLY_OBSERVED)"
  by (simp add: script_kind_for_def ex_new_finding_def ex_finding_def owner_status_def
      default_ownership_def)

lemma ex_attached_ok: "r_ok (validate_resource_id EBS_VOLUME ex_attached_id)"
proof -
  have "lit ''vol-'' @ lit ''0123abce'' @ [] \<in> lang (aws_id_rx (lit ''vol-''))"
    unfolding aws_id_rx_def ROpt_def
    by (intro lang_seq) (simp_all add: lit_def del: lang.simps(6))
  moreover have "lit ''vol-'' @ lit ''0123abce'' @ [] = ex_attached_id"
    by (simp add: ex_attached_id_def lit_def)
  ultimately have "fullmatch (aws_id_rx (lit ''vol-'')) ex_attached_id" by (simp add: fullmatch_lang)
  moreover have "\<not> has_control ex_attached_id"
    by (simp add: has_control_def ex_attached_id_def lit_def)
  ultimately show ?thesis
    by (simp add: validate_resource_id_def validate_volume_id_def validate_pattern_def)
qed

lemma ex_new_script: "\<exists>g. script_for_finding default_settings (utc 0) ex_new_finding = Inr g"
proof -
  have "scriptable default_settings ex_new_finding"
    using ex_scriptable ex_attached_ok
    by (simp add: scriptable_def ex_new_finding_def) (simp add: ex_finding_def)
  then show ?thesis using script_for_finding_ok [of _ _ "utc 0"] by (simp add: r_ok_iff)
qed

lemma ex_bulk: "\<exists>r. bulk_script default_settings (utc 0) [ex_new_finding, ex_finding] = Inr r"
  using bulk_script_ok [of "[ex_new_finding, ex_finding]" default_settings "utc 0"] ex_scriptable
    ex_new_finding_kind by (auto simp: r_ok_iff selected_def eligible_def)

text \<open>A database with the eligible finding and its two observations.\<close>

definition ex_observation :: "uuid \<Rightarrow> uuid \<Rightarrow> observation" where
  "ex_observation i scan_id =
     \<lparr>ob_id = i, ob_finding_id = 5, ob_scan_id = scan_id, ob_observed_at = day 1,
      ob_status = OPEN, ob_persistence_state = NEWLY_OBSERVED, ob_remediation_risk = RISK_REVIEW,
      ob_estimated_monthly_cost = None, ob_cost_confidence = COST_UNAVAILABLE, ob_evidence = []\<rparr>"

definition ex_db :: db where
  "ex_db =
     \<lparr>db_scans = [], db_findings = [ex_finding],
      db_observations = [ex_observation 7 1, ex_observation 8 3], db_next_id = 9\<rparr>"

lemma ex_db_inv: "scan_inv (day 20) ex_db"
proof -
  have "wf_db ex_db"
    by (simp add: wf_db_def wf_findings_def ex_db_def ex_observation_def ex_finding_def)
  moreover have "counted ex_db"
    by (simp add: counted_def ex_db_def rows_of_def ex_observation_def ex_finding_def)
  moreover have "lifecycle (day 20) ex_finding"
    by (simp add: lifecycle_def ex_finding_def day_def us_per_day_def)
  ultimately show ?thesis using ex_finding_judged by (simp add: scan_inv_def ex_db_def)
qed

lemma ex_finding_type: "f_detector_type ex_finding = UNATTACHED_EBS_VOLUME"
  by (simp add: ex_finding_def)

section \<open>A runner with an empty database\<close>

definition ex_runner :: runner where
  "ex_runner = \<lparr>rn_db = empty_db, rn_current = None, rn_identity = new_identity_status\<rparr>"

definition ex_started :: runner where
  "ex_started =
     ex_runner\<lparr>rn_db := empty_db\<lparr>db_scans := [new_scan 0 DEMO None 0], db_next_id := 1\<rparr>,
               rn_current := Some 0\<rparr>"

lemma ex_runner_inv: "runner_inv ex_runner"
  by (simp add: runner_inv_def ex_runner_def wf_scans_def empty_db_def running_rows_def)

lemma ex_start: "start_scan DEMO ex_runner None 0 = Inr (0, ex_started)"
  by (simp add: start_scan_def ex_runner_def ex_started_def running_rows_def empty_db_def
      put_scan_def Let_def)

section \<open>A cell of the stored finding\<close>

definition ex_scan :: scan where
  "ex_scan = (new_scan 9 LIVE None (day 30))\<lparr>s_account_id := Some ex_account\<rparr>"

lemma ex_scan_account: "scan_account ex_scan = ex_account"
  by (simp add: ex_scan_def scan_account_def)

definition ex_candidate :: finding_candidate where
  "ex_candidate = ebs_candidate (context_of default_settings ex_identity 0 ex_region) ex_region ex_volume"

lemma ex_candidate_type: "fc_detector_type ex_candidate = UNATTACHED_EBS_VOLUME"
  using ex_candidate_key by (simp add: ex_candidate_def candidate_key_def)

lemma ex_db_findings: "db_findings ex_db = [ex_finding]"
  by (simp add: ex_db_def)

lemma ex_db_facts:
  "finding_at ex_db ex_key = Some ex_finding" "active ex_finding"
  "lost ex_account ex_region UNATTACHED_EBS_VOLUME [] ex_finding"
  "key_in_cell ex_account ex_region UNATTACHED_EBS_VOLUME ex_key"
  by (simp_all add: finding_at_def get_by_identity_key ex_db_def key_of_def ex_finding_def ex_key_def
      active_def lost_def in_cell_def key_in_cell_def)

lemma ex_reconcile:
  "\<exists>d' r. reconcile ex_db ex_scan ex_region UNATTACHED_EBS_VOLUME [] CELL_COMPLETE default_settings (day 30)
     = Inr (d', r)"
proof -
  have "wf_db ex_db" using ex_db_inv by (simp add: scan_inv_def)
  from reconcile_ok [OF this default_thresholds_total, of "[]" ex_scan] show ?thesis
    by (simp add: r_ok_iff unobserved_def)
qed

lemma ex_run_db: "\<exists>d' s'. ex_run ex_db t = ((), Inr (d', s'))"
proof (rule ex_run_ok)
  show "wf_db ex_db" using ex_db_inv by (simp add: scan_inv_def)
qed (simp add: ex_db_def ex_observation_def)

lemma new_resolver_inv: "resolver_inv P region new_resolver"
  by (simp add: resolver_inv_def new_resolver_def)

lemma ex_resolve: "\<exists>rv' ow. resolve ex_provider ex_region new_resolver c = (rv', Inr ow)"
  by (simp add: resolve_def load_index_def new_resolver_def split: prod.splits)

section \<open>A price\<close>

definition ex_gp2 :: ebs_pricing_request where
  "ex_gp2 =
     \<lparr>er_region = ex_region, er_volume_type = lit ''gp2'', er_size_gib = 8, er_iops = None,
      er_throughput_mibps = None\<rparr>"

definition ex_prices :: unit_prices where
  "ex_prices =
     \<lparr>up_volumes = [lit ''gp2'' \<mapsto>
        \<lparr>vp_storage_gib_month = Dec 1 (- 1), vp_iops_month = None,
         vp_throughput_mibps_month = None, vp_iops_tiers = []\<rparr>],
      up_snapshot_standard_gib_month = None, up_snapshot_archive_gib_month = None,
      up_public_ipv4_hourly = None\<rparr>"

definition ex_line :: line_item where
  "ex_line =
     line (lit ''gp2'' @ lit '' storage: '' @ show_int 8 @ lit '' GiB'') (dec_of_int 8)
       (lit ''GiB-month'') (Dec 1 (- 1))"

lemma ex_calculate: "\<exists>amount notes. calculate_ebs ex_gp2 ex_prices = Inr (amount, [ex_line], notes)"
  by (simp add: calculate_ebs_def ex_gp2_def ex_prices_def ex_line_def storage_line_def type_lines_def)

lemma ex_line_fits: "fits 2 1000 (li_monthly_cost ex_line)"
  by (simp add: ex_line_def) code_simp

section \<open>A list query\<close>

definition ex_query :: list_query where
  "ex_query =
     \<lparr>q_resource_type = None, q_region = None, q_statuses = None, q_detection_confidence = None,
      q_remediation_risk = None, q_cost_confidence = None, q_ownership = None,
      q_persistence_state = None, q_first_observed_before = None, q_first_observed_after = None,
      q_min_observation_count = None, q_q = None, q_sort = SORT_REGION, q_descending = False,
      q_page = 1, q_page_size = 20\<rparr>"

lemma ex_query_matches: "filter (matches ex_query) (db_findings ex_db) = [ex_finding]"
  by (simp add: ex_query_def matches_def if_truthy_def ex_db_findings)

end
