(* ===== verification/PyValue.thy ===== *)
theory PyValue
  imports ProviderBase PyTime
begin

text \<open>
  The values a response of AWS is made of, as botocore parses them: \<open>None\<close>, booleans,
  integers, strings, datetimes, lists and dictionaries (association lists, a later entry of a
  key replaces an earlier one when the dictionary is built, so keys are taken to be distinct).

  The operations are those the mapping and the wrappers use: truth, \<open>in\<close>, \<open>get\<close>, iteration,
  \<open>str\<close> and \<open>int\<close>. botocore parses a member of a response by the shape the service model gives
  it, so \<open>str\<close> meets strings and \<open>int\<close> integers; what the two give on datetimes, lists and
  dictionaries, and \<open>int\<close> on strings, are fields of the parameter \<open>pylib\<close>. Its third field is
  \<open>json.loads\<close>, with \<open>None\<close> for \<open>JSONDecodeError\<close> and \<open>TypeError\<close>.
\<close>

section \<open>Values\<close>

datatype pyval =
    VNone
  | VBool bool
  | VInt int
  | VStr pystr
  | VTime datetime
  | VList "pyval list"
  | VDict "(pystr \<times> pyval) list"

record pylib =
  pl_str :: "pyval \<Rightarrow> pystr"
  pl_int :: "pyval \<Rightarrow> py_exc + int"
  pl_json :: "pyval \<Rightarrow> json option"

fun type_name :: "pyval \<Rightarrow> string" where
  "type_name VNone = ''NoneType''"
| "type_name (VBool b) = ''bool''"
| "type_name (VInt i) = ''int''"
| "type_name (VStr s) = ''str''"
| "type_name (VTime d) = ''datetime.datetime''"
| "type_name (VList vs) = ''list''"
| "type_name (VDict kvs) = ''dict''"

definition TypeError :: "pystr \<Rightarrow> py_exc" where
  "TypeError m = PyExc (lit ''TypeError'') m"

definition AttributeError :: "pystr \<Rightarrow> py_exc" where
  "AttributeError m = PyExc (lit ''AttributeError'') m"

text \<open>\<open>bool(v)\<close>.\<close>

fun py_bool :: "pyval \<Rightarrow> bool" where
  "py_bool VNone = False"
| "py_bool (VBool b) = b"
| "py_bool (VInt i) = (i \<noteq> 0)"
| "py_bool (VStr s) = (s \<noteq> [])"
| "py_bool (VTime d) = True"
| "py_bool (VList vs) = (vs \<noteq> [])"
| "py_bool (VDict kvs) = (kvs \<noteq> [])"

fun py_str :: "pylib \<Rightarrow> pyval \<Rightarrow> pystr" where
  "py_str L VNone = lit ''None''"
| "py_str L (VBool b) = (if b then lit ''True'' else lit ''False'')"
| "py_str L (VInt i) = show_int i"
| "py_str L (VStr s) = s"
| "py_str L v = pl_str L v"

fun py_int :: "pylib \<Rightarrow> pyval \<Rightarrow> py_exc + int" where
  "py_int L (VInt i) = Inr i"
| "py_int L (VBool b) = Inr (if b then 1 else 0)"
| "py_int L v = pl_int L v"

text \<open>Iterating a value: the keys of a dictionary, the characters of a string.\<close>

fun py_iter :: "pyval \<Rightarrow> py_exc + pyval list" where
  "py_iter (VList vs) = Inr vs"
| "py_iter (VStr s) = Inr (map (\<lambda>c. VStr [c]) s)"
| "py_iter (VDict kvs) = Inr (map (\<lambda>(k, v). VStr k) kvs)"
| "py_iter v =
     Inl (TypeError ([39] @ lit (type_name v) @ [39] @ lit '' object is not iterable''))"

text \<open>\<open>v.get(key)\<close>, a method of dictionaries only.\<close>

fun py_get :: "pyval \<Rightarrow> pystr \<Rightarrow> py_exc + pyval option" where
  "py_get (VDict kvs) key = Inr (map_of kvs key)"
| "py_get v key =
     Inl (AttributeError ([39] @ lit (type_name v) @ [39] @ lit '' object has no attribute '' @
       [39] @ lit ''get'' @ [39]))"

text \<open>\<open>v.get(key, default)\<close>.\<close>

definition py_get_or :: "pyval \<Rightarrow> pystr \<Rightarrow> pyval \<Rightarrow> py_exc + pyval" where
  "py_get_or v key dflt =
     r_bind (py_get v key) (\<lambda>x. Inr (case x of None \<Rightarrow> dflt | Some y \<Rightarrow> y))"

text \<open>\<open>key in v\<close>.\<close>

fun py_in :: "pystr \<Rightarrow> pyval \<Rightarrow> py_exc + bool" where
  "py_in key (VDict kvs) = Inr (map_of kvs key \<noteq> None)"
| "py_in key (VList vs) = Inr (VStr key \<in> set vs)"
| "py_in key (VStr s) = Inr (contains_str s key)"
| "py_in key v =
     Inl (TypeError (lit ''argument of type '' @ [39] @ lit (type_name v) @ [39] @
       lit '' is not iterable''))"

text \<open>\<open>v[key]\<close> with a string key.\<close>

fun py_index :: "pyval \<Rightarrow> pystr \<Rightarrow> py_exc + pyval" where
  "py_index (VDict kvs) key =
     (case map_of kvs key of Some v \<Rightarrow> Inr v
      | None \<Rightarrow> Inl (PyExc (lit ''KeyError'') ([39] @ key @ [39])))"
| "py_index (VList vs) key =
     Inl (TypeError (lit ''list indices must be integers or slices, not str''))"
| "py_index (VStr s) key =
     Inl (TypeError (lit ''string indices must be integers, not '' @ [39] @ lit ''str'' @ [39]))"
| "py_index v key =
     Inl (TypeError ([39] @ lit (type_name v) @ [39] @ lit '' object is not subscriptable''))"

lemma py_get_or_dict [simp]:
  "py_get_or (VDict kvs) key dflt =
     Inr (case map_of kvs key of None \<Rightarrow> dflt | Some y \<Rightarrow> y)"
  by (simp add: py_get_or_def)

end
