(* ===== verification/AwsClient.thy ===== *)
theory AwsClient
  imports PyValue Unicode
begin

text \<open>
  The client side of the AWS provider: \<open>providers/aws/errors.py\<close> (exceptions of botocore become
  provider errors), \<open>providers/aws/readonly.py\<close> (retries, pages and the eleven wrapped
  operations) and \<open>providers/aws/guard.py\<close> (the operations that may be called at all).

  boto3 is the parameter \<open>aws_client\<close>: what a call of a method does to the world and returns or
  raises, and what iterating a paginator yields (all pages, or the exception that ended it).
  Sleeping is recorded as the list of delays, in seconds. The loop over \<open>NextToken\<close> may run for
  ever: its result is \<open>None\<close> then.
\<close>

section \<open>Exceptions of botocore\<close>

text \<open>
  The classes the code tests for; \<open>EndpointConnectionError\<close> is a subclass of botocore's
  \<open>ConnectionError\<close>, whose other instances are \<open>X_Connection\<close>. \<open>ae_code\<close> and \<open>ae_message\<close> are
  the fields of \<open>exc.response["Error"]\<close>, if there are any, and \<open>ae_text\<close> is \<open>str(exc)\<close>.
\<close>

datatype exc_class =
    X_NoCredentials
  | X_NoRegion
  | X_PartialCredentials
  | X_ProfileNotFound
  | X_EndpointConnection
  | X_Connection
  | X_Other

record aws_exc =
  ae_class :: exc_class
  ae_code :: "pystr option"
  ae_message :: "pystr option"
  ae_text :: pystr

definition permission_codes :: "pystr list" where
  "permission_codes =
     [lit ''AccessDenied'', lit ''AccessDeniedException'', lit ''UnauthorizedOperation'']"

definition throttling_codes :: "pystr list" where
  "throttling_codes =
     [lit ''Throttling'', lit ''ThrottlingException'', lit ''RequestLimitExceeded'',
      lit ''TooManyRequestsException'']"

definition credential_codes :: "pystr list" where
  "credential_codes =
     [lit ''ExpiredToken'', lit ''ExpiredTokenException'', lit ''SignatureDoesNotMatch'',
      lit ''UnrecognizedClientException'']"

definition transient_codes :: "pystr list" where
  "transient_codes =
     [lit ''RequestExpired'', lit ''InternalError'', lit ''ServiceUnavailable'',
      lit ''InternalFailure'']"

definition or_empty :: "pystr option \<Rightarrow> pystr" where
  "or_empty v = (case v of None \<Rightarrow> [] | Some s \<Rightarrow> s)"

definition client_error_code :: "aws_exc \<Rightarrow> pystr \<times> pystr" where
  "client_error_code e = (or_empty (ae_code e), or_empty (ae_message e))"

text \<open>
  \<open>str.lower\<close> is the one of ASCII here: the lower-case texts searched for contain no \<open>k\<close>, and
  the only other character beyond ASCII whose lower-case form has an ASCII letter gives an \<open>i\<close>
  followed by a combining dot, which neither text contains.
\<close>

definition translate_client_error :: "aws_exc \<Rightarrow> pystr \<Rightarrow> pystr option \<Rightarrow> provider_error" where
  "translate_client_error e operation region =
     (case client_error_code e of
        (code, message) \<Rightarrow>
          (let lower_message = map lower_char message;
               told = (if message \<noteq> [] then message else code)
           in if ae_class e \<in> {X_NoCredentials, X_NoRegion, X_PartialCredentials, X_ProfileNotFound}
              then ProviderCredentialsError (ae_text e)
              else if ae_class e = X_EndpointConnection then ProviderRegionUnavailableError region
              else if ae_class e = X_Connection then ProviderTransientError (ae_text e)
              else if code \<in> set permission_codes \<or>
                      code = lit ''AuthFailure'' \<and> contains_str lower_message (lit ''not authorized'')
              then ProviderPermissionError operation region
              else if code = lit ''OptInRequired'' \<or>
                      code = lit ''InvalidClientTokenId'' \<and> contains_str lower_message (lit ''region'')
              then ProviderRegionUnavailableError region
              else if code \<in> set throttling_codes
              then ProviderThrottledError (lit ''throttled while calling '' @ operation)
              else if code \<in> set credential_codes \<or> code = lit ''InvalidClientTokenId''
              then ProviderCredentialsError told
              else if code \<in> set transient_codes then ProviderTransientError told
              else ProviderError
                     (operation @ lit '' failed: '' @ (if told \<noteq> [] then told else ae_text e))))"

section \<open>Retries\<close>

definition throttled :: "aws_exc \<Rightarrow> bool" where
  "throttled e \<longleftrightarrow> fst (client_error_code e) \<in> set throttling_codes"

text \<open>\<open>min(0.5 * (2**attempt), 8.0)\<close>, exact in binary floating point.\<close>

definition delay :: "nat \<Rightarrow> rat" where
  "delay attempt = min (1 / 2 * 2 ^ attempt) 8"

text \<open>The loop \<open>for attempt in range(4)\<close>, over the attempts that are left.\<close>

fun attempts ::
  "('w \<Rightarrow> 'w \<times> (aws_exc + 'r)) \<Rightarrow> pystr \<Rightarrow> pystr option \<Rightarrow> nat list \<Rightarrow> 'w \<Rightarrow>
   'w \<times> rat list \<times> (py_exc + 'r)" where
  "attempts meth operation region [] w =
     (w, [], Inl (PyExc (lit ''AssertionError'') (lit ''unreachable'')))"
| "attempts meth operation region (attempt # rest) w =
     (case meth w of
        (w', Inr r) \<Rightarrow> (w', [], Inr r)
      | (w', Inl e) \<Rightarrow>
          if throttled e \<and> attempt < 3 then
            (case attempts meth operation region rest w' of
               (w'', slept, r) \<Rightarrow> (w'', delay attempt # slept, r))
          else (w', [], Inl (Prov (translate_client_error e operation region))))"

definition invoke ::
  "('w \<Rightarrow> 'w \<times> (aws_exc + 'r)) \<Rightarrow> pystr \<Rightarrow> pystr option \<Rightarrow> 'w \<Rightarrow>
   'w \<times> rat list \<times> (py_exc + 'r)" where
  "invoke meth operation region w = attempts meth operation region [0..<4] w"

section \<open>Pages\<close>

text \<open>\<open>page.get(result_key, [])\<close> as the argument of \<open>extend\<close>.\<close>

definition items_of_page :: "pystr \<Rightarrow> pyval \<Rightarrow> py_exc + pyval list" where
  "items_of_page result_key page = r_bind (py_get_or page result_key (VList [])) py_iter"

text \<open>An exception of Python inside the \<open>try\<close> block, as \<open>except Exception\<close> sees it.\<close>

fun plain_exc :: "py_exc \<Rightarrow> aws_exc" where
  "plain_exc (PyExc t m) =
     \<lparr>ae_class = X_Other, ae_code = None, ae_message = None, ae_text = m\<rparr>"
| "plain_exc (Prov e) =
     \<lparr>ae_class = X_Other, ae_code = None, ae_message = None, ae_text = provider_error_str e\<rparr>"

definition read_pages ::
  "('w \<Rightarrow> 'w \<times> (aws_exc + pyval list)) \<Rightarrow> pystr \<Rightarrow> 'w \<Rightarrow> 'w \<times> (aws_exc + pyval list)" where
  "read_pages pages result_key w =
     (case pages w of
        (w', Inl e) \<Rightarrow> (w', Inl e)
      | (w', Inr ps) \<Rightarrow>
          (w', case r_map (items_of_page result_key) ps of
                 Inl e \<Rightarrow> Inl (plain_exc e)
               | Inr items \<Rightarrow> Inr (concat items)))"

definition listing :: "pystr \<Rightarrow> pyval list \<Rightarrow> pyval" where
  "listing result_key items = VDict [(result_key, VList items)]"

definition listed ::
  "pystr \<Rightarrow> 'w \<times> rat list \<times> (py_exc + pyval list) \<Rightarrow> 'w \<times> rat list \<times> (py_exc + pyval)" where
  "listed result_key out = (case out of (w, slept, r) \<Rightarrow> (w, slept, map_sum id (listing result_key) r))"

definition paginate ::
  "('w \<Rightarrow> 'w \<times> (aws_exc + pyval list)) \<Rightarrow> pystr \<Rightarrow> pystr option \<Rightarrow> pystr \<Rightarrow> 'w \<Rightarrow>
   'w \<times> rat list \<times> (py_exc + pyval)" where
  "paginate pages operation region result_key w =
     listed result_key (attempts (read_pages pages result_key) operation region [0..<4] w)"

text \<open>The loop over \<open>NextToken\<close>.\<close>

definition truthy_val :: "pyval option \<Rightarrow> bool" where
  "truthy_val v = (case v of None \<Rightarrow> False | Some x \<Rightarrow> py_bool x)"

partial_function (option) collect_pages ::
  "(pyval option \<Rightarrow> 'w \<Rightarrow> 'w \<times> (aws_exc + pyval)) \<Rightarrow> pystr \<Rightarrow> pystr option \<Rightarrow> pystr \<Rightarrow>
   pyval list \<Rightarrow> pyval option \<Rightarrow> rat list \<Rightarrow> 'w \<Rightarrow> ('w \<times> rat list \<times> (py_exc + pyval list)) option"
  where
  "collect_pages fetch operation region result_key combined token slept w =
     (case invoke (fetch token) operation region w of
        (w', pauses, r) \<Rightarrow>
          (case r_bind r (\<lambda>page.
                  r_bind (items_of_page result_key page) (\<lambda>items.
                  r_bind (py_get page (lit ''NextToken'')) (\<lambda>token'. Inr (items, token')))) of
             Inl e \<Rightarrow> Some (w', slept @ pauses, Inl e)
           | Inr (items, token') \<Rightarrow>
               if \<not> truthy_val token' then Some (w', slept @ pauses, Inr (combined @ items))
               else collect_pages fetch operation region result_key (combined @ items) token'
                      (slept @ pauses) w'))"

definition paginate_manually ::
  "(pyval option \<Rightarrow> 'w \<Rightarrow> 'w \<times> (aws_exc + pyval)) \<Rightarrow> pystr \<Rightarrow> pystr option \<Rightarrow> pystr \<Rightarrow> 'w \<Rightarrow>
   ('w \<times> rat list \<times> (py_exc + pyval)) option" where
  "paginate_manually fetch operation region result_key w =
     map_option (listed result_key)
       (collect_pages fetch operation region result_key [] None [] w)"

section \<open>The wrapped operations\<close>

record 'w aws_client =
  cl_region :: "pystr option"
  cl_call :: "pystr \<Rightarrow> (pystr \<times> pyval) list \<Rightarrow> 'w \<Rightarrow> 'w \<times> (aws_exc + pyval)"
  cl_pages :: "pystr \<Rightarrow> (pystr \<times> pyval) list \<Rightarrow> 'w \<Rightarrow> 'w \<times> (aws_exc + pyval list)"

type_synonym 'w response = "'w \<times> rat list \<times> (py_exc + pyval)"

definition describe_regions :: "'w aws_client \<Rightarrow> 'w \<Rightarrow> 'w response" where
  "describe_regions C w =
     invoke (cl_call C (lit ''describe_regions'') [(lit ''AllRegions'', VBool True)])
       (lit ''ec2:DescribeRegions'') (cl_region C) w"

definition describe_volumes :: "'w aws_client \<Rightarrow> 'w \<Rightarrow> 'w response" where
  "describe_volumes C w =
     paginate (cl_pages C (lit ''describe_volumes'') [])
       (lit ''ec2:DescribeVolumes'') (cl_region C) (lit ''Volumes'') w"

definition describe_addresses :: "'w aws_client \<Rightarrow> 'w \<Rightarrow> 'w response" where
  "describe_addresses C w =
     invoke (cl_call C (lit ''describe_addresses'') [])
       (lit ''ec2:DescribeAddresses'') (cl_region C) w"

definition describe_instances :: "'w aws_client \<Rightarrow> 'w \<Rightarrow> 'w response" where
  "describe_instances C w =
     paginate (cl_pages C (lit ''describe_instances'') [])
       (lit ''ec2:DescribeInstances'') (cl_region C) (lit ''Reservations'') w"

definition describe_snapshots :: "'w aws_client \<Rightarrow> 'w \<Rightarrow> 'w response" where
  "describe_snapshots C w =
     paginate (cl_pages C (lit ''describe_snapshots'')
         [(lit ''OwnerIds'', VList [VStr (lit ''self'')])])
       (lit ''ec2:DescribeSnapshots'') (cl_region C) (lit ''Snapshots'') w"

definition describe_images :: "'w aws_client \<Rightarrow> 'w \<Rightarrow> 'w response" where
  "describe_images C w =
     paginate (cl_pages C (lit ''describe_images'')
         [(lit ''Owners'', VList [VStr (lit ''self'')])])
       (lit ''ec2:DescribeImages'') (cl_region C) (lit ''Images'') w"

definition describe_snapshot_attribute :: "'w aws_client \<Rightarrow> pystr \<Rightarrow> 'w \<Rightarrow> 'w response" where
  "describe_snapshot_attribute C snapshot_id w =
     invoke (cl_call C (lit ''describe_snapshot_attribute'')
         [(lit ''SnapshotId'', VStr snapshot_id),
          (lit ''Attribute'', VStr (lit ''createVolumePermission''))])
       (lit ''ec2:DescribeSnapshotAttribute'') (cl_region C) w"

definition describe_locked_snapshots ::
  "'w aws_client \<Rightarrow> pystr list \<Rightarrow> 'w \<Rightarrow> 'w response option" where
  "describe_locked_snapshots C snapshot_ids w =
     paginate_manually
       (\<lambda>token. cl_call C (lit ''describe_locked_snapshots'')
          ((lit ''SnapshotIds'', VList (map VStr snapshot_ids)) #
           (case token of None \<Rightarrow> [] | Some t \<Rightarrow> [(lit ''NextToken'', t)])))
       (lit ''ec2:DescribeLockedSnapshots'') (cl_region C) (lit ''Snapshots'') w"

definition get_caller_identity :: "'w aws_client \<Rightarrow> 'w \<Rightarrow> 'w response" where
  "get_caller_identity C w =
     invoke (cl_call C (lit ''get_caller_identity'') [])
       (lit ''sts:GetCallerIdentity'') (cl_region C) w"

definition get_products ::
  "'w aws_client \<Rightarrow> pystr \<Rightarrow> pyval list \<Rightarrow> 'w \<Rightarrow> 'w response" where
  "get_products C service_code filters w =
     paginate (cl_pages C (lit ''get_products'')
         [(lit ''ServiceCode'', VStr service_code), (lit ''Filters'', VList filters)])
       (lit ''pricing:GetProducts'') (cl_region C) (lit ''PriceList'') w"

definition list_stacks :: "'w aws_client \<Rightarrow> 'w \<Rightarrow> 'w response" where
  "list_stacks C w =
     paginate (cl_pages C (lit ''list_stacks'') [])
       (lit ''cloudformation:ListStacks'') (cl_region C) (lit ''StackSummaries'') w"

definition stack_resources :: "'w aws_client \<Rightarrow> pystr \<Rightarrow> 'w \<Rightarrow> 'w response" where
  "stack_resources C stack_name w =
     paginate (cl_pages C (lit ''list_stack_resources'') [(lit ''StackName'', VStr stack_name)])
       (lit ''cloudformation:ListStackResources'') (cl_region C)
       (lit ''StackResourceSummaries'') w"

section \<open>The guard\<close>

definition allowed_operations :: "pystr list" where
  "allowed_operations =
     [lit ''ec2:DescribeRegions'', lit ''ec2:DescribeVolumes'', lit ''ec2:DescribeAddresses'',
      lit ''ec2:DescribeInstances'', lit ''ec2:DescribeSnapshots'', lit ''ec2:DescribeImages'',
      lit ''ec2:DescribeSnapshotAttribute'', lit ''ec2:DescribeLockedSnapshots'',
      lit ''sts:GetCallerIdentity'', lit ''pricing:GetProducts'',
      lit ''cloudformation:ListStacks'', lit ''cloudformation:ListStackResources'']"

record op_model =
  om_signing_name :: pystr
  om_name :: pystr

definition operation_name :: "op_model \<Rightarrow> pystr" where
  "operation_name m = map lower_char (om_signing_name m) @ lit '':'' @ om_name m"

definition reject_disallowed :: "op_model \<Rightarrow> py_exc + unit" where
  "reject_disallowed m =
     (if operation_name m \<notin> set allowed_operations
      then Inl (Prov (OperationNotAllowedError (operation_name m)))
      else Inr ())"

text \<open>
  A client whose events run the guard before a request: botocore calls the handlers of
  \<open>provide-client-params\<close> and \<open>before-call\<close> with the model of the operation, and an exception
  of a handler leaves the call before anything is sent. \<open>models\<close> is the service model's
  operation for the name of a client method.
\<close>

definition guard_call ::
  "op_model \<Rightarrow> ('w \<Rightarrow> 'w \<times> (aws_exc + 'r)) \<Rightarrow> 'w \<Rightarrow> 'w \<times> (aws_exc + 'r)" where
  "guard_call m request w =
     (case reject_disallowed m of
        Inl e \<Rightarrow> (w, Inl (plain_exc e))
      | Inr u \<Rightarrow> request w)"

definition guarded_client :: "(pystr \<Rightarrow> op_model) \<Rightarrow> 'w aws_client \<Rightarrow> 'w aws_client" where
  "guarded_client models C =
     C\<lparr>cl_call := \<lambda>name kwargs. guard_call (models name) (cl_call C name kwargs),
       cl_pages := \<lambda>name kwargs. guard_call (models name) (cl_pages C name kwargs)\<rparr>"

section \<open>What reaches AWS\<close>

text \<open>The verb of an operation, after the service's name, is one of reading.\<close>

definition reading :: "pystr \<Rightarrow> bool" where
  "reading operation \<longleftrightarrow>
     list_ex (starts_with (tl (dropWhile (\<lambda>c. c \<noteq> 58) operation)))
       [lit ''Describe'', lit ''Get'', lit ''List'']"

lemma allowed_reading: "operation \<in> set allowed_operations \<Longrightarrow> reading operation"
  by (auto simp: allowed_operations_def reading_def lit_def)

lemma guard_call_cases:
  "operation_name m \<in> set allowed_operations \<and> guard_call m request = request \<or>
   operation_name m \<notin> set allowed_operations \<and>
     (\<forall>w. guard_call m request w =
        (w, Inl (plain_exc (Prov (OperationNotAllowedError (operation_name m))))))"
  by (auto simp: guard_call_def reject_disallowed_def)

text \<open>The service model of the methods the wrappers use.\<close>

definition method_table :: "(pystr \<times> op_model) list" where
  "method_table =
     map (\<lambda>(meth, service, name).
            (lit meth, \<lparr>om_signing_name = lit service, om_name = lit name\<rparr>))
       [(''describe_regions'', ''ec2'', ''DescribeRegions''),
        (''describe_volumes'', ''ec2'', ''DescribeVolumes''),
        (''describe_addresses'', ''ec2'', ''DescribeAddresses''),
        (''describe_instances'', ''ec2'', ''DescribeInstances''),
        (''describe_snapshots'', ''ec2'', ''DescribeSnapshots''),
        (''describe_images'', ''ec2'', ''DescribeImages''),
        (''describe_snapshot_attribute'', ''ec2'', ''DescribeSnapshotAttribute''),
        (''describe_locked_snapshots'', ''ec2'', ''DescribeLockedSnapshots''),
        (''get_caller_identity'', ''sts'', ''GetCallerIdentity''),
        (''get_products'', ''pricing'', ''GetProducts''),
        (''list_stacks'', ''cloudformation'', ''ListStacks''),
        (''list_stack_resources'', ''cloudformation'', ''ListStackResources'')]"

definition models_ok :: "(pystr \<Rightarrow> op_model) \<Rightarrow> bool" where
  "models_ok models \<longleftrightarrow> (\<forall>(meth, m) \<in> set method_table. models meth = m)"

lemma table_allowed: "(meth, m) \<in> set method_table \<Longrightarrow> operation_name m \<in> set allowed_operations"
  by (auto simp: method_table_def operation_name_def allowed_operations_def lit_def lower_char_def)

lemma guard_passes:
  assumes "models_ok models" and "(meth, m) \<in> set method_table"
  shows "guard_call (models meth) request = request"
  using assms table_allowed [OF assms(2)] guard_call_cases [of m request]
  by (auto simp: models_ok_def)

lemma table_methods:
  "\<forall>meth \<in> set [''describe_regions'', ''describe_volumes'', ''describe_addresses'',
       ''describe_instances'', ''describe_snapshots'', ''describe_images'',
       ''describe_snapshot_attribute'', ''describe_locked_snapshots'', ''get_caller_identity'',
       ''get_products'', ''list_stacks'', ''list_stack_resources''].
     \<exists>m. (lit meth, m) \<in> set method_table"
  by (auto simp: method_table_def)

lemma guarded_passes:
  assumes "models_ok models"
    and "meth \<in> set [''describe_regions'', ''describe_volumes'', ''describe_addresses'',
       ''describe_instances'', ''describe_snapshots'', ''describe_images'',
       ''describe_snapshot_attribute'', ''describe_locked_snapshots'', ''get_caller_identity'',
       ''get_products'', ''list_stacks'', ''list_stack_resources'']"
  shows "cl_call (guarded_client models C) (lit meth) = cl_call C (lit meth)"
    and "cl_pages (guarded_client models C) (lit meth) = cl_pages C (lit meth)"
proof -
  obtain m where m: "(lit meth, m) \<in> set method_table"
    using bspec [OF table_methods assms(2)] by blast
  show "cl_call (guarded_client models C) (lit meth) = cl_call C (lit meth)"
    and "cl_pages (guarded_client models C) (lit meth) = cl_pages C (lit meth)"
    by (simp_all add: guarded_client_def guard_passes [OF assms(1) m])
qed

lemma guarded_region [simp]: "cl_region (guarded_client models C) = cl_region C"
  by (simp add: guarded_client_def)

text \<open>The guard does not get in the way of a wrapper.\<close>

lemma guarded_wrappers:
  assumes "models_ok models"
  shows "describe_regions (guarded_client models C) = describe_regions C"
    and "describe_volumes (guarded_client models C) = describe_volumes C"
    and "describe_addresses (guarded_client models C) = describe_addresses C"
    and "describe_instances (guarded_client models C) = describe_instances C"
    and "describe_snapshots (guarded_client models C) = describe_snapshots C"
    and "describe_images (guarded_client models C) = describe_images C"
    and "describe_snapshot_attribute (guarded_client models C) = describe_snapshot_attribute C"
    and "describe_locked_snapshots (guarded_client models C) = describe_locked_snapshots C"
    and "get_caller_identity (guarded_client models C) = get_caller_identity C"
    and "get_products (guarded_client models C) = get_products C"
    and "list_stacks (guarded_client models C) = list_stacks C"
    and "stack_resources (guarded_client models C) = stack_resources C"
  by (simp_all add: fun_eq_iff describe_regions_def describe_volumes_def describe_addresses_def
      describe_instances_def describe_snapshots_def describe_images_def
      describe_snapshot_attribute_def describe_locked_snapshots_def get_caller_identity_def
      get_products_def list_stacks_def stack_resources_def guarded_passes [OF assms])

section \<open>Retries and pages\<close>

text \<open>The world before the attempt number \<open>n\<close>, when the earlier ones failed.\<close>

fun before_attempt :: "('w \<Rightarrow> 'w \<times> 'a) \<Rightarrow> nat \<Rightarrow> 'w \<Rightarrow> 'w" where
  "before_attempt meth 0 w = w"
| "before_attempt meth (Suc n) w = before_attempt meth n (fst (meth w))"

definition too_fast :: "aws_exc + 'r \<Rightarrow> bool" where
  "too_fast out \<longleftrightarrow> (case out of Inl e \<Rightarrow> throttled e | Inr r \<Rightarrow> False)"

definition outcome_after ::
  "('w \<Rightarrow> 'w \<times> (aws_exc + 'r)) \<Rightarrow> pystr \<Rightarrow> pystr option \<Rightarrow> 'w \<Rightarrow> nat \<Rightarrow> nat \<Rightarrow>
   'w \<Rightarrow> py_exc + 'r \<Rightarrow> bool" where
  "outcome_after meth operation region w k final w' r \<longleftrightarrow>
     k \<le> final \<and> (\<forall>i < k. too_fast (snd (meth (before_attempt meth i w)))) \<and>
     w' = before_attempt meth (Suc k) w \<and>
     (case snd (meth (before_attempt meth k w)) of
        Inr x \<Rightarrow> r = Inr x
      | Inl e \<Rightarrow> r = Inl (Prov (translate_client_error e operation region)) \<and>
          (throttled e \<longrightarrow> k = final))"

lemma outcome_after_Suc:
  assumes "too_fast (snd (meth w))"
    and "outcome_after meth operation region (fst (meth w)) k final w' r"
  shows "outcome_after meth operation region w (Suc k) (Suc final) w' r"
proof -
  have "too_fast (snd (meth (before_attempt meth i w)))" if "i < Suc k" for i
    using assms that by (cases i) (auto simp: outcome_after_def)
  then show ?thesis using assms(2) by (simp add: outcome_after_def split: sum.splits)
qed

lemma attempts_outcome:
  assumes "attempts meth operation region [3 - n..<4] w = (w', slept, r)" and "n \<le> 3"
  shows "slept = map delay [3 - n..<3 - n + length slept] \<and>
     outcome_after meth operation region w (length slept) n w' r"
  using assms
proof (induction n arbitrary: w slept)
  case 0
  then show ?case by (auto simp: outcome_after_def split: prod.splits sum.splits)
next
  case (Suc n)
  have step: "[3 - Suc n..<4] = (3 - Suc n) # [3 - n..<4]"
    using Suc.prems(2) by (subst upt_conv_Cons) (auto intro!: arg_cong2 [where f = upt])
  have here: "attempts meth operation region ((3 - Suc n) # [3 - n..<4]) w = (w', slept, r)"
    using Suc.prems(1) unfolding step .
  show ?case
  proof (cases "\<exists>e. snd (meth w) = Inl e \<and> throttled e")
    case True
    then obtain w1 e where m: "meth w = (w1, Inl e)" and e: "throttled e"
      by (metis prod.collapse)
    obtain slept1 where rest: "attempts meth operation region [3 - n..<4] w1 = (w', slept1, r)"
        and slept: "slept = delay (3 - Suc n) # slept1"
      using here m e by (auto split: prod.splits if_splits)
    define b where "b = 3 - Suc n"
    have b: "3 - n = Suc b" using Suc.prems(2) by (simp add: b_def)
    have "slept1 = map delay [Suc b..<Suc b + length slept1]"
      and out: "outcome_after meth operation region w1 (length slept1) n w' r"
      using Suc.IH [OF rest] Suc.prems(2) b by auto
    moreover have "[b..<b + length slept] = b # [Suc b..<Suc b + length slept1]"
      using slept by (subst upt_conv_Cons) (simp_all del: upt_Suc)
    ultimately have "slept = map delay [b..<b + length slept]" using slept by (simp add: b_def)
    moreover have "outcome_after meth operation region w (length slept) (Suc n) w' r"
      using outcome_after_Suc [of meth w operation region "length slept1" n w' r] out m e slept
      by (simp add: too_fast_def)
    ultimately show ?thesis by (simp add: b_def)
  next
    case False
    with here have "slept = []" and "w' = fst (meth w)"
      and "case snd (meth w) of
             Inl e \<Rightarrow> \<not> throttled e \<and> r = Inl (Prov (translate_client_error e operation region))
           | Inr x \<Rightarrow> r = Inr x"
      by (auto split: prod.splits sum.splits)
    then show ?thesis by (auto simp: outcome_after_def split: sum.splits)
  qed
qed

lemma attempts_four:
  assumes "attempts meth operation region [0..<4] w = (w', slept, r)"
  shows "slept = take (length slept) [1 / 2, 1, 2] \<and>
     outcome_after meth operation region w (length slept) 3 w' r"
proof -
  have "slept = map delay [0..<length slept]" and k: "length slept \<le> 3"
    and out: "outcome_after meth operation region w (length slept) 3 w' r"
    using attempts_outcome [of meth operation region 3 w w' slept r] assms
    by (auto simp: outcome_after_def)
  moreover have "map delay [0..<length slept] = take (length slept) (map delay [0..<3])"
    using k by (simp add: take_map min_absorb1)
  moreover have "map delay [0..<3] = [1 / 2, 1, 2]" by (simp add: delay_def upt_rec)
  ultimately show ?thesis by simp
qed

text \<open>Only exceptions of the provider leave a call.\<close>

lemma attempts_provider_error:
  "attempts meth operation region [0..<4] w = (w', slept, Inl e) \<Longrightarrow> \<exists>pe. e = Prov pe"
  by (drule attempts_four) (auto simp: outcome_after_def split: sum.splits)

text \<open>
  An endpoint that serves its items in pages: the first page on a call without a token, and
  with each page but the last the token of the next one.
\<close>

definition serves ::
  "(pyval option \<Rightarrow> 'w \<Rightarrow> 'w \<times> (aws_exc + pyval)) \<Rightarrow> pystr \<Rightarrow> (nat \<Rightarrow> pyval) \<Rightarrow>
   pyval list list \<Rightarrow> bool" where
  "serves fetch result_key name pages \<longleftrightarrow>
     pages \<noteq> [] \<and> result_key \<noteq> lit ''NextToken'' \<and> (\<forall>k. py_bool (name k)) \<and>
     (\<forall>k < length pages. \<forall>w. snd (fetch (if k = 0 then None else Some (name k)) w) =
        Inr (VDict ((result_key, VList (pages ! k)) #
          (if Suc k < length pages then [(lit ''NextToken'', name (Suc k))] else []))))"

lemma invoke_ok:
  assumes "snd (meth w) = Inr r"
  shows "invoke meth operation region w = (fst (meth w), [], Inr r)"
  using assms by (cases "meth w") (simp add: invoke_def upt_rec)

lemma collect_pages_serves:
  assumes "serves fetch result_key name pages" and "k < length pages"
  shows "\<exists>w'. collect_pages fetch operation region result_key combined
           (if k = 0 then None else Some (name k)) slept w =
         Some (w', slept, Inr (combined @ concat (drop k pages)))"
  using assms(2)
proof (induction "length pages - Suc k" arbitrary: k combined w)
  case 0
  let ?token = "if k = 0 then None else Some (name k)"
  have last: "Suc k = length pages" using 0 by simp
  have page: "snd (fetch ?token w) = Inr (VDict [(result_key, VList (pages ! k))])"
    using assms(1) 0(2) last by (simp add: serves_def)
  have "drop k pages = [pages ! k]" using last 0(2) by (metis Cons_nth_drop_Suc drop_all order_refl)
  moreover have "result_key \<noteq> lit ''NextToken''" using assms(1) by (simp add: serves_def)
  ultimately show ?case
    by (subst collect_pages.simps)
       (simp add: invoke_ok [of "fetch ?token", OF page] items_of_page_def truthy_val_def)
next
  case (Suc n)
  let ?token = "if k = 0 then None else Some (name k)"
  have nxt: "Suc k < length pages" using Suc.hyps(2) by simp
  have page: "snd (fetch ?token w) =
      Inr (VDict [(result_key, VList (pages ! k)), (lit ''NextToken'', name (Suc k))])"
    using assms(1) Suc.prems nxt by (simp add: serves_def)
  have key: "result_key \<noteq> lit ''NextToken''" and truthy: "py_bool (name (Suc k))"
    using assms(1) by (simp_all add: serves_def)
  have "collect_pages fetch operation region result_key combined ?token slept w =
      collect_pages fetch operation region result_key (combined @ pages ! k) (Some (name (Suc k)))
        slept (fst (fetch ?token w))"
    using key truthy
    by (subst collect_pages.simps)
       (simp add: invoke_ok [of "fetch ?token", OF page] items_of_page_def truthy_val_def)
  moreover obtain w' where "collect_pages fetch operation region result_key (combined @ pages ! k)
        (if Suc k = 0 then None else Some (name (Suc k))) slept (fst (fetch ?token w)) =
      Some (w', slept, Inr ((combined @ pages ! k) @ concat (drop (Suc k) pages)))"
    using Suc.hyps(1) [of "Suc k"] Suc.hyps(2) nxt by fastforce
  moreover have "concat (drop k pages) = pages ! k @ concat (drop (Suc k) pages)"
    using Suc.prems by (metis Cons_nth_drop_Suc concat.simps(2))
  ultimately show ?case by auto
qed

lemma paginate_manually_serves:
  assumes "serves fetch result_key name pages"
  shows "\<exists>w'. paginate_manually fetch operation region result_key w =
     Some (w', [], Inr (listing result_key (concat pages)))"
proof -
  have "0 < length pages" using assms by (simp add: serves_def)
  from collect_pages_serves [OF assms this, of operation region "[]" "[]" w]
  show ?thesis by (auto simp: paginate_manually_def listed_def)
qed

text \<open>An endpoint that hands out a token with every page is asked for ever.\<close>

definition endless :: "(pyval option \<Rightarrow> 'w \<Rightarrow> 'w \<times> (aws_exc + pyval)) \<Rightarrow> pystr \<Rightarrow> bool" where
  "endless fetch result_key \<longleftrightarrow>
     (\<forall>token w. \<exists>kvs items t. snd (fetch token w) = Inr (VDict kvs) \<and>
        map_of kvs result_key = Some (VList items) \<and>
        map_of kvs (lit ''NextToken'') = Some t \<and> py_bool t)"

lemma collect_pages_endless:
  assumes "endless fetch result_key"
  shows "collect_pages fetch operation region result_key combined token slept w = None"
proof (rule ccontr)
  assume "collect_pages fetch operation region result_key combined token slept w \<noteq> None"
  then obtain out where
    out: "collect_pages fetch operation region result_key combined token slept w = Some out"
    by blast
  have "\<not> endless fetch result_key"
  proof (rule collect_pages.raw_induct
      [where P = "\<lambda>fetch operation region result_key combined token slept w out.
                    \<not> endless fetch result_key"])
    fix rec fetch operation region result_key combined token slept w out
    assume IH: "\<And>fetch operation region result_key combined token slept w out.
        rec fetch operation region result_key combined token slept w = Some out \<Longrightarrow>
        \<not> endless fetch result_key"
      and step: "(case invoke (fetch token) operation region w of
        (w', pauses, r) \<Rightarrow>
          (case r_bind r (\<lambda>page.
                  r_bind (items_of_page result_key page) (\<lambda>items.
                  r_bind (py_get page (lit ''NextToken'')) (\<lambda>token'. Inr (items, token')))) of
             Inl e \<Rightarrow> Some (w', slept @ pauses, Inl e)
           | Inr (items, token') \<Rightarrow>
               if \<not> truthy_val token' then Some (w', slept @ pauses, Inr (combined @ items))
               else rec fetch operation region result_key (combined @ items) token'
                      (slept @ pauses) w')) = Some out"
    show "\<not> endless fetch result_key"
    proof
      assume "endless fetch result_key"
      then obtain kvs items t where page: "snd (fetch token w) = Inr (VDict kvs)"
          "map_of kvs result_key = Some (VList items)" "map_of kvs (lit ''NextToken'') = Some t"
          "py_bool t"
        unfolding endless_def by meson
      have "rec fetch operation region result_key (combined @ items) (Some t) slept
          (fst (fetch token w)) = Some out"
        using step page
        by (simp add: invoke_ok [of "fetch token", OF page(1)] items_of_page_def truthy_val_def)
      with IH \<open>endless fetch result_key\<close> show False by blast
    qed
  qed (fact out)
  with assms show False by blast
qed

end
