(* ===== verification/AwsMapping.thy ===== *)
theory AwsMapping
  imports PyValue "HOL-Library.AList"
begin

text \<open>
  \<open>providers/aws/mapping.py\<close>: the responses of AWS as the records of the provider interface. The
  arguments of a constructor are evaluated in the order of the source, so the first malformed
  field decides the error. A generator or comprehension stops at its first exception.
\<close>

section \<open>Fields\<close>

definition malformed :: "pystr \<Rightarrow> py_exc" where
  "malformed message = Prov (ProviderMalformedResponseError message)"

definition required_field :: "pyval \<Rightarrow> pystr \<Rightarrow> py_exc + pyval" where
  "required_field data key =
     (let missing = Inl (malformed (lit ''missing required field '' @ key))
      in r_bind (py_in key data) (\<lambda>present.
           if \<not> present then missing
           else r_bind (py_index data key) (\<lambda>v. if v = VNone then missing else Inr v)))"

definition datetime_field :: "pyval \<Rightarrow> pystr \<Rightarrow> py_exc + instant" where
  "datetime_field data key =
     r_bind (required_field data key) (\<lambda>v.
       case v of
         VTime d \<Rightarrow>
           if \<not> aware d
           then Inl (malformed (lit ''field '' @ key @ lit '' is not timezone-aware''))
           else Inr (instant_of d)
       | _ \<Rightarrow> Inl (malformed (lit ''field '' @ key @ lit '' is not a datetime'')))"

text \<open>\<open>str(_required(data, key))\<close>, and \<open>int\<close> in the place of \<open>str\<close>.\<close>

definition required_str :: "pylib \<Rightarrow> pyval \<Rightarrow> pystr \<Rightarrow> py_exc + pystr" where
  "required_str L data key = r_bind (required_field data key) (\<lambda>v. Inr (py_str L v))"

definition required_int :: "pylib \<Rightarrow> pyval \<Rightarrow> pystr \<Rightarrow> py_exc + int" where
  "required_int L data key = r_bind (required_field data key) (py_int L)"

text \<open>\<open>str(data[key]) if data.get(key) else None\<close>.\<close>

definition optional_str :: "pylib \<Rightarrow> pyval \<Rightarrow> pystr \<Rightarrow> py_exc + pystr option" where
  "optional_str L data key =
     r_bind (py_get data key) (\<lambda>v.
       Inr (case v of None \<Rightarrow> None | Some x \<Rightarrow> if py_bool x then Some (py_str L x) else None))"

text \<open>\<open>int(data[key]) if data.get(key) is not None else None\<close>.\<close>

definition optional_int :: "pylib \<Rightarrow> pyval \<Rightarrow> pystr \<Rightarrow> py_exc + int option" where
  "optional_int L data key =
     r_bind (py_get data key) (\<lambda>v.
       case v of
         None \<Rightarrow> Inr None
       | Some x \<Rightarrow>
           if x = VNone then Inr None else r_bind (py_int L x) (\<lambda>i. Inr (Some i)))"

text \<open>\<open>str(data.get(key, fallback))\<close>.\<close>

definition str_or :: "pylib \<Rightarrow> pyval \<Rightarrow> pystr \<Rightarrow> pystr \<Rightarrow> py_exc + pystr" where
  "str_or L data key fallback =
     r_bind (py_get_or data key (VStr fallback)) (\<lambda>v. Inr (py_str L v))"

text \<open>\<open>bool(data.get(key, False))\<close>.\<close>

definition bool_or_false :: "pyval \<Rightarrow> pystr \<Rightarrow> py_exc + bool" where
  "bool_or_false data key = r_bind (py_get_or data key (VBool False)) (\<lambda>v. Inr (py_bool v))"

text \<open>\<open>for item in data.get(key, [])\<close>.\<close>

definition items_of :: "pyval \<Rightarrow> pystr \<Rightarrow> py_exc + pyval list" where
  "items_of data key = r_bind (py_get_or data key (VList [])) py_iter"

text \<open>A comprehension with a condition: \<open>None\<close> where it does not hold.\<close>

definition r_filter_map :: "('a \<Rightarrow> 'e + 'b option) \<Rightarrow> 'a list \<Rightarrow> 'e + 'b list" where
  "r_filter_map f xs = r_bind (r_map f xs) (\<lambda>ys. Inr (List.map_filter id ys))"

text \<open>A dict comprehension: a key keeps its first place and takes its last value.\<close>

definition map_tags :: "pylib \<Rightarrow> pyval option \<Rightarrow> py_exc + tags" where
  "map_tags L items =
     r_bind (py_iter (case items of None \<Rightarrow> VList []
                      | Some v \<Rightarrow> if py_bool v then v else VList [])) (\<lambda>xs.
       r_fold (\<lambda>tags item.
           r_bind (py_in (lit ''Key'') item) (\<lambda>present.
             if \<not> present then Inr tags
             else r_bind (py_index item (lit ''Key'')) (\<lambda>k.
                  r_bind (str_or L item (lit ''Value'') []) (\<lambda>v.
                  Inr (AList.update (py_str L k) v tags))))) [] xs)"

definition tags_field :: "pylib \<Rightarrow> pyval \<Rightarrow> py_exc + tags" where
  "tags_field L data = r_bind (py_get data (lit ''Tags'')) (map_tags L)"

section \<open>Resources\<close>

definition map_attachment :: "pylib \<Rightarrow> pyval \<Rightarrow> py_exc + attachment" where
  "map_attachment L item =
     r_bind (required_str L item (lit ''InstanceId'')) (\<lambda>i.
     r_bind (required_str L item (lit ''Device'')) (\<lambda>d.
     r_bind (required_str L item (lit ''State'')) (\<lambda>s.
     Inr \<lparr>at_instance_id = i, at_device = d, at_state = s\<rparr>)))"

definition map_volume :: "pylib \<Rightarrow> pyval \<Rightarrow> py_exc + volume" where
  "map_volume L data =
     r_bind (required_str L data (lit ''VolumeId'')) (\<lambda>volume_id.
     r_bind (required_str L data (lit ''State'')) (\<lambda>state.
     r_bind (required_str L data (lit ''VolumeType'')) (\<lambda>volume_type.
     r_bind (required_int L data (lit ''Size'')) (\<lambda>size_gib.
     r_bind (optional_int L data (lit ''Iops'')) (\<lambda>iops.
     r_bind (optional_int L data (lit ''Throughput'')) (\<lambda>throughput.
     r_bind (bool_or_false data (lit ''Encrypted'')) (\<lambda>encrypted.
     r_bind (datetime_field data (lit ''CreateTime'')) (\<lambda>created_at.
     r_bind (optional_str L data (lit ''SnapshotId'')) (\<lambda>snapshot_id.
     r_bind (items_of data (lit ''Attachments'')) (\<lambda>items.
     r_bind (r_map (map_attachment L) items) (\<lambda>attachments.
     r_bind (tags_field L data) (\<lambda>tags.
     r_bind (required_str L data (lit ''AvailabilityZone'')) (\<lambda>zone.
     Inr \<lparr>v_volume_id = volume_id, v_state = state, v_volume_type = volume_type,
          v_size_gib = size_gib, v_iops = iops, v_throughput_mibps = throughput,
          v_encrypted = encrypted, v_created_at = created_at, v_snapshot_id = snapshot_id,
          v_attachments = attachments, v_tags = tags, v_availability_zone = zone\<rparr>)))))))))))))"

definition map_address :: "pylib \<Rightarrow> pyval \<Rightarrow> py_exc + address" where
  "map_address L data =
     r_bind (optional_str L data (lit ''AllocationId'')) (\<lambda>allocation_id.
     r_bind (required_str L data (lit ''PublicIp'')) (\<lambda>public_ip.
     r_bind (optional_str L data (lit ''AssociationId'')) (\<lambda>association_id.
     r_bind (optional_str L data (lit ''InstanceId'')) (\<lambda>instance_id.
     r_bind (optional_str L data (lit ''NetworkInterfaceId'')) (\<lambda>network_interface_id.
     r_bind (str_or L data (lit ''Domain'') (lit ''vpc'')) (\<lambda>domain.
     r_bind (tags_field L data) (\<lambda>tags.
     Inr \<lparr>ad_allocation_id = allocation_id, ad_public_ip = public_ip,
          ad_association_id = association_id, ad_instance_id = instance_id,
          ad_network_interface_id = network_interface_id, ad_domain = domain,
          ad_tags = tags\<rparr>)))))))"

definition map_block_device :: "pylib \<Rightarrow> pyval \<Rightarrow> py_exc + block_device option" where
  "map_block_device L item =
     r_bind (py_get item (lit ''Ebs'')) (\<lambda>ebs.
       if (case ebs of None \<Rightarrow> True | Some v \<Rightarrow> \<not> py_bool v) then Inr None
       else
         r_bind (required_str L item (lit ''DeviceName'')) (\<lambda>device_name.
         r_bind (required_str L (the ebs) (lit ''VolumeId'')) (\<lambda>volume_id.
         r_bind (str_or L (the ebs) (lit ''Status'') (lit ''attached'')) (\<lambda>status.
         Inr (Some \<lparr>bd_device_name = device_name, bd_volume_id = volume_id,
                    bd_status = status\<rparr>)))))"

definition map_instance :: "pylib \<Rightarrow> pyval \<Rightarrow> py_exc + ec2_instance" where
  "map_instance L data =
     r_bind (required_str L data (lit ''InstanceId'')) (\<lambda>instance_id.
     r_bind (py_get_or data (lit ''State'') (VDict [])) (\<lambda>st.
     r_bind (required_str L st (lit ''Name'')) (\<lambda>state.
     r_bind (required_str L data (lit ''InstanceType'')) (\<lambda>instance_type.
     r_bind (datetime_field data (lit ''LaunchTime'')) (\<lambda>launched_at.
     r_bind (items_of data (lit ''BlockDeviceMappings'')) (\<lambda>items.
     r_bind (r_filter_map (map_block_device L) items) (\<lambda>block_devices.
     r_bind (tags_field L data) (\<lambda>tags.
     r_bind (optional_str L data (lit ''PlatformDetails'')) (\<lambda>platform.
     Inr \<lparr>in_instance_id = instance_id, in_state = state, in_instance_type = instance_type,
          in_launched_at = launched_at, in_block_devices = block_devices, in_tags = tags,
          in_platform = platform\<rparr>)))))))))"

definition map_snapshot :: "pylib \<Rightarrow> pyval \<Rightarrow> py_exc + snapshot" where
  "map_snapshot L data =
     r_bind (required_str L data (lit ''SnapshotId'')) (\<lambda>snapshot_id.
     r_bind (optional_str L data (lit ''VolumeId'')) (\<lambda>volume_id.
     r_bind (required_str L data (lit ''OwnerId'')) (\<lambda>owner_id.
     r_bind (required_str L data (lit ''State'')) (\<lambda>state.
     r_bind (datetime_field data (lit ''StartTime'')) (\<lambda>started_at.
     r_bind (required_int L data (lit ''VolumeSize'')) (\<lambda>volume_size_gib.
     r_bind (str_or L data (lit ''StorageTier'') (lit ''standard'')) (\<lambda>storage_tier.
     r_bind (bool_or_false data (lit ''Encrypted'')) (\<lambda>encrypted.
     r_bind (str_or L data (lit ''Description'') []) (\<lambda>description.
     r_bind (tags_field L data) (\<lambda>tags.
     Inr \<lparr>sn_snapshot_id = snapshot_id, sn_volume_id = volume_id, sn_owner_id = owner_id,
          sn_state = state, sn_started_at = started_at, sn_volume_size_gib = volume_size_gib,
          sn_storage_tier = storage_tier, sn_encrypted = encrypted,
          sn_description = description, sn_tags = tags\<rparr>))))))))))"

definition image_snapshot_id :: "pylib \<Rightarrow> pyval \<Rightarrow> py_exc + pystr option" where
  "image_snapshot_id L item =
     r_bind (py_get_or item (lit ''Ebs'') (VDict [])) (\<lambda>ebs. optional_str L ebs (lit ''SnapshotId''))"

definition map_image :: "pylib \<Rightarrow> pyval \<Rightarrow> py_exc + image" where
  "map_image L data =
     r_bind (items_of data (lit ''BlockDeviceMappings'')) (\<lambda>items.
     r_bind (r_filter_map (image_snapshot_id L) items) (\<lambda>snapshot_ids.
     r_bind (required_str L data (lit ''ImageId'')) (\<lambda>image_id.
     r_bind (str_or L data (lit ''Name'') []) (\<lambda>name.
     r_bind (required_str L data (lit ''State'')) (\<lambda>state.
     r_bind (tags_field L data) (\<lambda>tags.
     Inr \<lparr>im_image_id = image_id, im_name = name, im_state = state,
          im_snapshot_ids = snapshot_ids, im_tags = tags\<rparr>))))))"

fun opt_in_value :: "opt_in_status \<Rightarrow> pystr" where
  "opt_in_value OPT_IN_NOT_REQUIRED = lit ''opt-in-not-required''"
| "opt_in_value OPTED_IN = lit ''opted-in''"
| "opt_in_value NOT_OPTED_IN = lit ''not-opted-in''"

definition map_region :: "pylib \<Rightarrow> pyval \<Rightarrow> py_exc + region_info" where
  "map_region L data =
     r_bind (str_or L data (lit ''OptInStatus'') (lit ''opt-in-not-required'')) (\<lambda>status.
       case find (\<lambda>o'. opt_in_value o' = status) [OPT_IN_NOT_REQUIRED, OPTED_IN, NOT_OPTED_IN] of
         None \<Rightarrow> Inl (malformed (lit ''invalid region opt-in status '' @ status))
       | Some valid_status \<Rightarrow>
           r_bind (required_str L data (lit ''RegionName'')) (\<lambda>name.
           Inr \<lparr>ri_name = name, ri_opt_in_status = valid_status\<rparr>))"

definition identity_type_of :: "pystr \<Rightarrow> identity_type" where
  "identity_type_of arn =
     (if contains_str arn (lit '':assumed-role/'') then ID_ASSUMED_ROLE
      else if contains_str arn (lit '':role/'') then ID_ROLE
      else if contains_str arn (lit '':user/'') then ID_USER
      else if ends_with arn (lit '':root'') then ID_ROOT
      else ID_UNKNOWN)"

definition map_identity :: "pylib \<Rightarrow> pyval \<Rightarrow> py_exc + identity" where
  "map_identity L data =
     r_bind (required_str L data (lit ''Arn'')) (\<lambda>arn.
     r_bind (required_str L data (lit ''Account'')) (\<lambda>account_id.
     r_bind (required_str L data (lit ''UserId'')) (\<lambda>user_id.
     Inr \<lparr>id_account_id = account_id, id_principal_arn = arn,
          id_identity_type = identity_type_of arn, id_user_id = user_id\<rparr>)))"

definition map_snapshot_attributes :: "pylib \<Rightarrow> pyval \<Rightarrow> py_exc + snapshot_attributes" where
  "map_snapshot_attributes L data =
     r_bind (py_get_or data (lit ''CreateVolumePermissions'') (VList [])) (\<lambda>permissions.
     r_bind (required_str L data (lit ''SnapshotId'')) (\<lambda>snapshot_id.
     r_bind (r_bind (py_iter permissions)
               (r_filter_map (\<lambda>item. optional_str L item (lit ''UserId'')))) (\<lambda>user_ids.
     r_bind (r_bind (py_iter permissions)
               (r_filter_map (\<lambda>item. optional_str L item (lit ''Group'')))) (\<lambda>groups.
     Inr \<lparr>sa_snapshot_id = snapshot_id, sa_shared_user_ids = user_ids,
          sa_shared_groups = groups\<rparr>))))"

text \<open>Membership in a set of \<open>None\<close> and four texts; lists and dictionaries have no hash.\<close>

definition lock_state_of :: "pylib \<Rightarrow> pyval option \<Rightarrow> py_exc + lock_state option" where
  "lock_state_of L raw =
     (let invalid = (\<lambda>v. Inl (malformed (lit ''invalid snapshot lock state '' @ py_str L v)))
      in case raw of
           None \<Rightarrow> Inr None
         | Some VNone \<Rightarrow> Inr None
         | Some (VStr s) \<Rightarrow>
             (case find (\<lambda>l. lock_state_value l = s)
                [LOCK_COMPLIANCE, LOCK_GOVERNANCE, LOCK_COMPLIANCE_COOLOFF, LOCK_EXPIRED] of
                None \<Rightarrow> invalid (VStr s)
              | Some l \<Rightarrow> Inr (Some l))
         | Some (VList vs) \<Rightarrow> Inl (TypeError (lit ''unhashable type: '' @ [39] @ lit ''list'' @ [39]))
         | Some (VDict kvs) \<Rightarrow> Inl (TypeError (lit ''unhashable type: '' @ [39] @ lit ''dict'' @ [39]))
         | Some v \<Rightarrow> invalid v)"

definition map_snapshot_lock :: "pylib \<Rightarrow> pyval \<Rightarrow> py_exc + snapshot_lock" where
  "map_snapshot_lock L data =
     r_bind (r_bind (py_get data (lit ''LockState'')) (lock_state_of L)) (\<lambda>lock_state.
     r_bind (required_str L data (lit ''SnapshotId'')) (\<lambda>snapshot_id.
     Inr \<lparr>sl_snapshot_id = snapshot_id, sl_lock_state = lock_state\<rparr>))"

fun is_object :: "json \<Rightarrow> bool" where
  "is_object (JDict kvs) = True"
| "is_object j = False"

definition parse_price_list :: "pylib \<Rightarrow> pyval list \<Rightarrow> py_exc + json list" where
  "parse_price_list L items =
     r_map (\<lambda>item.
       case pl_json L item of
         None \<Rightarrow> Inl (malformed (lit ''invalid AWS price-list JSON''))
       | Some document \<Rightarrow>
           if \<not> is_object document
           then Inl (malformed (lit ''AWS price-list document is not an object''))
           else Inr document) items"

definition map_stack_resource :: "pylib \<Rightarrow> pystr \<Rightarrow> pyval \<Rightarrow> pyval \<Rightarrow> py_exc + stack_resource" where
  "map_stack_resource L region stack data =
     r_bind (required_str L stack (lit ''StackName'')) (\<lambda>stack_name.
     r_bind (required_str L stack (lit ''StackId'')) (\<lambda>stack_id.
     r_bind (required_str L data (lit ''LogicalResourceId'')) (\<lambda>logical_id.
     r_bind (optional_str L data (lit ''PhysicalResourceId'')) (\<lambda>physical_id.
     r_bind (required_str L data (lit ''ResourceType'')) (\<lambda>resource_type.
     r_bind (required_str L data (lit ''ResourceStatus'')) (\<lambda>resource_status.
     Inr \<lparr>sr_region = region, sr_stack_name = stack_name, sr_stack_id = stack_id,
          sr_logical_id = logical_id, sr_physical_id = physical_id,
          sr_resource_type = resource_type, sr_resource_status = resource_status\<rparr>))))))"

section \<open>The mapping inverts the responses\<close>

text \<open>
  The response AWS documents for a resource: a member without a value is left out, as are
  empty texts of optional members.
\<close>

definition str_member :: "string \<Rightarrow> pystr option \<Rightarrow> (pystr \<times> pyval) list" where
  "str_member key v = (case v of None \<Rightarrow> [] | Some s \<Rightarrow> [(lit key, VStr s)])"

definition int_member :: "string \<Rightarrow> int option \<Rightarrow> (pystr \<times> pyval) list" where
  "int_member key v = (case v of None \<Rightarrow> [] | Some i \<Rightarrow> [(lit key, VInt i)])"

definition tag_value :: "pystr \<times> pystr \<Rightarrow> pyval" where
  "tag_value t = VDict [(lit ''Key'', VStr (fst t)), (lit ''Value'', VStr (snd t))]"

definition tags_value :: "tags \<Rightarrow> pyval" where
  "tags_value tags = VList (map tag_value tags)"

definition attachment_value :: "attachment \<Rightarrow> pyval" where
  "attachment_value a =
     VDict [(lit ''InstanceId'', VStr (at_instance_id a)), (lit ''Device'', VStr (at_device a)),
            (lit ''State'', VStr (at_state a))]"

definition volume_value :: "volume \<Rightarrow> pyval" where
  "volume_value v =
     VDict ([(lit ''VolumeId'', VStr (v_volume_id v)), (lit ''State'', VStr (v_state v)),
             (lit ''VolumeType'', VStr (v_volume_type v)), (lit ''Size'', VInt (v_size_gib v)),
             (lit ''Encrypted'', VBool (v_encrypted v)),
             (lit ''CreateTime'', VTime (utc (v_created_at v))),
             (lit ''Attachments'', VList (map attachment_value (v_attachments v))),
             (lit ''Tags'', tags_value (v_tags v)),
             (lit ''AvailabilityZone'', VStr (v_availability_zone v))] @
            int_member ''Iops'' (v_iops v) @ int_member ''Throughput'' (v_throughput_mibps v) @
            str_member ''SnapshotId'' (v_snapshot_id v))"

definition address_value :: "address \<Rightarrow> pyval" where
  "address_value a =
     VDict ([(lit ''PublicIp'', VStr (ad_public_ip a)), (lit ''Domain'', VStr (ad_domain a)),
             (lit ''Tags'', tags_value (ad_tags a))] @
            str_member ''AllocationId'' (ad_allocation_id a) @
            str_member ''AssociationId'' (ad_association_id a) @
            str_member ''InstanceId'' (ad_instance_id a) @
            str_member ''NetworkInterfaceId'' (ad_network_interface_id a))"

definition block_device_value :: "block_device \<Rightarrow> pyval" where
  "block_device_value b =
     VDict [(lit ''DeviceName'', VStr (bd_device_name b)),
            (lit ''Ebs'', VDict [(lit ''VolumeId'', VStr (bd_volume_id b)),
                                 (lit ''Status'', VStr (bd_status b))])]"

definition instance_value :: "ec2_instance \<Rightarrow> pyval" where
  "instance_value i =
     VDict ([(lit ''InstanceId'', VStr (in_instance_id i)),
             (lit ''State'', VDict [(lit ''Name'', VStr (in_state i))]),
             (lit ''InstanceType'', VStr (in_instance_type i)),
             (lit ''LaunchTime'', VTime (utc (in_launched_at i))),
             (lit ''BlockDeviceMappings'', VList (map block_device_value (in_block_devices i))),
             (lit ''Tags'', tags_value (in_tags i))] @
            str_member ''PlatformDetails'' (in_platform i))"

definition snapshot_value :: "snapshot \<Rightarrow> pyval" where
  "snapshot_value s =
     VDict ([(lit ''SnapshotId'', VStr (sn_snapshot_id s)), (lit ''OwnerId'', VStr (sn_owner_id s)),
             (lit ''State'', VStr (sn_state s)), (lit ''StartTime'', VTime (utc (sn_started_at s))),
             (lit ''VolumeSize'', VInt (sn_volume_size_gib s)),
             (lit ''StorageTier'', VStr (sn_storage_tier s)),
             (lit ''Encrypted'', VBool (sn_encrypted s)),
             (lit ''Description'', VStr (sn_description s)),
             (lit ''Tags'', tags_value (sn_tags s))] @
            str_member ''VolumeId'' (sn_volume_id s))"

text \<open>Tag keys are unique, and an optional member that is present is not empty.\<close>

definition tags_ok :: "tags \<Rightarrow> bool" where
  "tags_ok tags \<longleftrightarrow> distinct (map fst tags)"

lemma required_field_dict:
  "map_of kvs key = Some v \<Longrightarrow> v \<noteq> VNone \<Longrightarrow> required_field (VDict kvs) key = Inr v"
  by (simp add: required_field_def)

lemma required_str_dict:
  "map_of kvs key = Some (VStr s) \<Longrightarrow> required_str L (VDict kvs) key = Inr s"
  by (simp add: required_str_def required_field_dict)

lemma required_int_dict:
  "map_of kvs key = Some (VInt i) \<Longrightarrow> required_int L (VDict kvs) key = Inr i"
  by (simp add: required_int_def required_field_dict)

lemma datetime_field_dict:
  "map_of kvs key = Some (VTime (utc t)) \<Longrightarrow> datetime_field (VDict kvs) key = Inr t"
  by (simp add: datetime_field_def required_field_dict)

lemma optional_str_dict:
  "map_of kvs key = None \<Longrightarrow> optional_str L (VDict kvs) key = Inr None"
  "map_of kvs key = Some (VStr s) \<Longrightarrow> s \<noteq> [] \<Longrightarrow> optional_str L (VDict kvs) key = Inr (Some s)"
  by (simp_all add: optional_str_def)

lemma optional_int_dict:
  "map_of kvs key = None \<Longrightarrow> optional_int L (VDict kvs) key = Inr None"
  "map_of kvs key = Some (VInt i) \<Longrightarrow> optional_int L (VDict kvs) key = Inr (Some i)"
  by (simp_all add: optional_int_def)

lemma str_or_dict:
  "map_of kvs key = Some (VStr s) \<Longrightarrow> str_or L (VDict kvs) key fallback = Inr s"
  by (simp add: str_or_def)

lemma bool_or_false_dict:
  "map_of kvs key = Some (VBool b) \<Longrightarrow> bool_or_false (VDict kvs) key = Inr b"
  by (simp add: bool_or_false_def)

lemma items_of_dict:
  "map_of kvs key = Some (VList vs) \<Longrightarrow> items_of (VDict kvs) key = Inr vs"
  by (simp add: items_of_def)

lemma update_fresh: "k \<notin> fst ` set al \<Longrightarrow> AList.update k v al = al @ [(k, v)]"
  by (induction al) auto

lemma map_tags_value:
  assumes "tags_ok tags"
  shows "map_tags L (Some (tags_value tags)) = Inr tags"
proof -
  have "r_fold (\<lambda>tags item.
           r_bind (py_in (lit ''Key'') item) (\<lambda>present.
             if \<not> present then Inr tags
             else r_bind (py_index item (lit ''Key'')) (\<lambda>k.
                  r_bind (str_or L item (lit ''Value'') []) (\<lambda>v.
                  Inr (AList.update (py_str L k) v tags))))) acc (map tag_value ts) =
        (Inr (acc @ ts) :: py_exc + tags)" if "distinct (map fst (acc @ ts))" for acc ts
    using that
  proof (induction ts arbitrary: acc)
    case (Cons t ts)
    have "fst t \<notin> fst ` set acc" using Cons.prems by auto
    then show ?case using Cons.IH [of "acc @ [t]"] Cons.prems
      by (simp add: tag_value_def str_or_def update_fresh)
  qed simp
  from this [of "[]" tags] show ?thesis
    using assms by (auto simp: map_tags_def tags_value_def tags_ok_def)
qed

lemma tags_field_dict:
  "map_of kvs (lit ''Tags'') = Some (tags_value tags) \<Longrightarrow> tags_ok tags \<Longrightarrow>
     tags_field L (VDict kvs) = Inr tags"
  by (simp add: tags_field_def map_tags_value)

lemma map_attachment_value: "map_attachment L (attachment_value a) = Inr a"
  by (simp add: map_attachment_def attachment_value_def required_str_dict)

lemma map_block_device_value: "map_block_device L (block_device_value b) = Inr (Some b)"
  by (simp add: map_block_device_def block_device_value_def required_str_dict str_or_dict)

lemma r_map_values: "(\<And>x. f (g x) = Inr (h x)) \<Longrightarrow> r_map f (map g xs) = Inr (map h xs)"
  by (induction xs) simp_all

lemma r_filter_map_values:
  assumes "\<And>x. f (g x) = Inr (Some x)"
  shows "r_filter_map f (map g xs) = Inr xs"
proof -
  have "List.map_filter id (map Some xs) = xs" by (induction xs) (simp_all add: map_filter_simps)
  then show ?thesis using r_map_values [of f g Some xs] assms by (simp add: r_filter_map_def)
qed

lemma map_attachment_values: "r_map (map_attachment L) (map attachment_value xs) = Inr xs"
  using r_map_values [of "map_attachment L" attachment_value "\<lambda>a. a" xs]
  by (simp add: map_attachment_value)

lemma map_block_device_values:
  "r_filter_map (map_block_device L) (map block_device_value bs) = Inr bs"
  by (rule r_filter_map_values) (rule map_block_device_value)

lemmas value_fields =
  required_str_dict required_int_dict datetime_field_dict optional_str_dict optional_int_dict
  str_or_dict bool_or_false_dict items_of_dict tags_field_dict

lemma map_volume_value:
  assumes "tags_ok (v_tags v)" and "v_snapshot_id v \<noteq> Some []"
  shows "map_volume L (volume_value v) = Inr v"
proof (cases v)
  case (fields i st ty size iops thr enc t snap ats tags zone)
  then show ?thesis using assms
    by (cases iops; cases thr; cases snap)
       (simp_all add: map_volume_def volume_value_def value_fields str_member_def int_member_def
          map_attachment_values)
qed

lemma map_address_value:
  assumes "tags_ok (ad_tags a)" and "ad_allocation_id a \<noteq> Some []"
    and "ad_association_id a \<noteq> Some []" and "ad_instance_id a \<noteq> Some []"
    and "ad_network_interface_id a \<noteq> Some []"
  shows "map_address L (address_value a) = Inr a"
proof (cases a)
  case (fields alloc ip assoc inst eni dom tags)
  then show ?thesis using assms
    by (cases alloc; cases assoc; cases inst; cases eni)
       (simp_all add: map_address_def address_value_def value_fields str_member_def)
qed

lemma map_instance_value:
  assumes "tags_ok (in_tags i)" and "in_platform i \<noteq> Some []"
  shows "map_instance L (instance_value i) = Inr i"
proof (cases i)
  case (fields i' st ty t bds tags platform)
  then show ?thesis using assms
    by (cases platform)
       (simp_all add: map_instance_def instance_value_def value_fields str_member_def
          map_block_device_values)
qed

lemma map_snapshot_value:
  assumes "tags_ok (sn_tags s)" and "sn_volume_id s \<noteq> Some []"
  shows "map_snapshot L (snapshot_value s) = Inr s"
proof (cases s)
  case (fields i vol own st t size tier enc desc tags)
  then show ?thesis using assms
    by (cases vol) (simp_all add: map_snapshot_def snapshot_value_def value_fields str_member_def)
qed

end
