(* ===== verification/AwsProvider.thy ===== *)
theory AwsProvider
  imports AwsClient AwsMapping
begin

text \<open>
  \<open>providers/aws/provider.py\<close>: the operations of the live provider, each a wrapped call and the
  mapping of its response. The clients are a parameter: one for STS, the home region's EC2
  client, one for prices, and per region one for EC2 and one for CloudFormation; the wrappers
  the provider keeps per region have no state of their own. Delays of retries are not part of
  a result here. The listing of snapshot locks may run for ever (\<open>AwsClient\<close>).
\<close>

record 'w aws_clients =
  ac_sts :: "'w aws_client"
  ac_regions :: "'w aws_client"
  ac_pricing :: "'w aws_client"
  ac_ec2 :: "pystr \<Rightarrow> 'w aws_client"
  ac_cloudformation :: "pystr \<Rightarrow> 'w aws_client"

definition mapped :: "(pyval \<Rightarrow> py_exc + 'a) \<Rightarrow> 'w response \<Rightarrow> 'w \<times> (py_exc + 'a)" where
  "mapped f out = (case out of (w, slept, r) \<Rightarrow> (w, r_bind r f))"

text \<open>\<open>[f(item) for item in response.get(key, [])]\<close>.\<close>

definition each :: "(pyval \<Rightarrow> py_exc + 'a) \<Rightarrow> pystr \<Rightarrow> pyval \<Rightarrow> py_exc + 'a list" where
  "each f key response = r_bind (items_of response key) (r_map f)"

section \<open>The operations\<close>

definition aws_get_identity :: "pylib \<Rightarrow> 'w aws_clients \<Rightarrow> 'w \<Rightarrow> 'w \<times> (py_exc + identity)" where
  "aws_get_identity L K w = mapped (map_identity L) (get_caller_identity (ac_sts K) w)"

definition aws_list_regions ::
  "pylib \<Rightarrow> 'w aws_clients \<Rightarrow> 'w \<Rightarrow> 'w \<times> (py_exc + region_info list)" where
  "aws_list_regions L K w =
     mapped (each (map_region L) (lit ''Regions'')) (describe_regions (ac_regions K) w)"

definition aws_list_volumes ::
  "pylib \<Rightarrow> 'w aws_clients \<Rightarrow> pystr \<Rightarrow> 'w \<Rightarrow> 'w \<times> (py_exc + volume list)" where
  "aws_list_volumes L K region w =
     mapped (each (map_volume L) (lit ''Volumes'')) (describe_volumes (ac_ec2 K region) w)"

definition aws_list_addresses ::
  "pylib \<Rightarrow> 'w aws_clients \<Rightarrow> pystr \<Rightarrow> 'w \<Rightarrow> 'w \<times> (py_exc + address list)" where
  "aws_list_addresses L K region w =
     mapped (each (map_address L) (lit ''Addresses'')) (describe_addresses (ac_ec2 K region) w)"

definition aws_list_instances ::
  "pylib \<Rightarrow> 'w aws_clients \<Rightarrow> pystr \<Rightarrow> 'w \<Rightarrow> 'w \<times> (py_exc + ec2_instance list)" where
  "aws_list_instances L K region w =
     mapped (\<lambda>response.
         r_bind (each (each (map_instance L) (lit ''Instances'')) (lit ''Reservations'') response)
           (\<lambda>lists. Inr (concat lists)))
       (describe_instances (ac_ec2 K region) w)"

definition aws_list_snapshots ::
  "pylib \<Rightarrow> 'w aws_clients \<Rightarrow> pystr \<Rightarrow> 'w \<Rightarrow> 'w \<times> (py_exc + snapshot list)" where
  "aws_list_snapshots L K region w =
     mapped (each (map_snapshot L) (lit ''Snapshots'')) (describe_snapshots (ac_ec2 K region) w)"

definition aws_list_images ::
  "pylib \<Rightarrow> 'w aws_clients \<Rightarrow> pystr \<Rightarrow> 'w \<Rightarrow> 'w \<times> (py_exc + image list)" where
  "aws_list_images L K region w =
     mapped (each (map_image L) (lit ''Images'')) (describe_images (ac_ec2 K region) w)"

definition aws_get_snapshot_attributes ::
  "pylib \<Rightarrow> 'w aws_clients \<Rightarrow> pystr \<Rightarrow> pystr \<Rightarrow> 'w \<Rightarrow> 'w \<times> (py_exc + snapshot_attributes)" where
  "aws_get_snapshot_attributes L K region snapshot_id w =
     mapped (map_snapshot_attributes L)
       (describe_snapshot_attribute (ac_ec2 K region) snapshot_id w)"

definition aws_get_snapshot_locks ::
  "pylib \<Rightarrow> 'w aws_clients \<Rightarrow> pystr \<Rightarrow> pystr list \<Rightarrow> 'w \<Rightarrow>
   ('w \<times> (py_exc + snapshot_lock list)) option" where
  "aws_get_snapshot_locks L K region snapshot_ids w =
     (if snapshot_ids = [] then Some (w, Inr [])
      else
        map_option (mapped (each (map_snapshot_lock L) (lit ''Snapshots'')))
          (describe_locked_snapshots (ac_ec2 K region) snapshot_ids w))"

text \<open>The loop over the stacks; the resources of a stack are asked for one stack at a time.\<close>

fun resources_of_stacks ::
  "pylib \<Rightarrow> 'w aws_client \<Rightarrow> pystr \<Rightarrow> pyval list \<Rightarrow> 'w \<Rightarrow> 'w \<times> (py_exc + stack_resource list)" where
  "resources_of_stacks L C region [] w = (w, Inr [])"
| "resources_of_stacks L C region (stack # stacks) w =
     (case py_get stack (lit ''StackStatus'') of
        Inl e \<Rightarrow> (w, Inl e)
      | Inr status \<Rightarrow>
          if status = Some (VStr (lit ''DELETE_COMPLETE''))
          then resources_of_stacks L C region stacks w
          else
            (case py_index stack (lit ''StackName'') of
               Inl e \<Rightarrow> (w, Inl e)
             | Inr name \<Rightarrow>
                 (case mapped (each (map_stack_resource L region stack)
                           (lit ''StackResourceSummaries''))
                         (stack_resources C (py_str L name) w) of
                    (w', Inl e) \<Rightarrow> (w', Inl e)
                  | (w', Inr resources) \<Rightarrow>
                      (case resources_of_stacks L C region stacks w' of
                         (w'', r) \<Rightarrow> (w'', r_bind r (\<lambda>rest. Inr (resources @ rest)))))))"

definition aws_list_stack_resources ::
  "pylib \<Rightarrow> 'w aws_clients \<Rightarrow> pystr \<Rightarrow> 'w \<Rightarrow> 'w \<times> (py_exc + stack_resource list)" where
  "aws_list_stack_resources L K region w =
     (case mapped (\<lambda>response. items_of response (lit ''StackSummaries''))
             (list_stacks (ac_cloudformation K region) w) of
        (w', Inl e) \<Rightarrow> (w', Inl e)
      | (w', Inr stacks) \<Rightarrow> resources_of_stacks L (ac_cloudformation K region) region stacks w')"

definition aws_get_prices ::
  "pylib \<Rightarrow> 'w aws_clients \<Rightarrow> pystr \<Rightarrow> (pystr \<times> pystr) list \<Rightarrow> 'w \<Rightarrow> 'w \<times> (py_exc + json list)" where
  "aws_get_prices L K service_code filters w =
     mapped (\<lambda>response. r_bind (items_of response (lit ''PriceList'')) (parse_price_list L))
       (get_products (ac_pricing K) service_code
          (map (\<lambda>(field, value).
                  VDict [(lit ''Type'', VStr (lit ''TERM_MATCH'')), (lit ''Field'', VStr field),
                         (lit ''Value'', VStr value)]) filters) w)"

section \<open>Listings come through whole\<close>

text \<open>A paginator that yields the given items in pages.\<close>

definition yields ::
  "('w \<Rightarrow> 'w \<times> (aws_exc + pyval list)) \<Rightarrow> pystr \<Rightarrow> pyval list list \<Rightarrow> 'w \<Rightarrow> bool" where
  "yields pages key chunks w \<longleftrightarrow>
     snd (pages w) = Inr (map (\<lambda>chunk. VDict [(key, VList chunk)]) chunks)"

lemma items_of_chunks:
  "r_map (items_of_page key) (map (\<lambda>chunk. VDict [(key, VList chunk)]) chunks) = Inr chunks"
  by (induction chunks) (simp_all add: items_of_page_def)

lemma paginate_yields:
  assumes "yields pages key chunks w"
  shows "paginate pages operation region key w =
     (fst (pages w), [], Inr (listing key (concat chunks)))"
proof -
  have "read_pages pages key w = (fst (pages w), Inr (concat chunks))"
    using assms items_of_chunks [of key chunks]
    by (cases "pages w") (simp add: yields_def read_pages_def)
  then show ?thesis by (simp add: paginate_def listed_def upt_rec)
qed

lemma each_listing: "each f key (listing key items) = r_map f items"
  by (simp add: each_def items_of_def listing_def)

lemma r_map_values_ok:
  "(\<And>x. x \<in> set xs \<Longrightarrow> f (g x) = Inr x) \<Longrightarrow> r_map f (map g xs) = Inr xs"
  by (induction xs) simp_all

lemma list_volumes_yields:
  assumes "yields (cl_pages (ac_ec2 K region) (lit ''describe_volumes'') []) (lit ''Volumes'')
      (map (map volume_value) chunks) w"
    and "\<forall>v \<in> set (concat chunks). tags_ok (v_tags v) \<and> v_snapshot_id v \<noteq> Some []"
  shows "snd (aws_list_volumes L K region w) = Inr (concat chunks)"
proof -
  have "r_map (map_volume L) (map volume_value (concat chunks)) = Inr (concat chunks)"
    using assms(2) map_volume_value by (intro r_map_values_ok) blast
  then show ?thesis
    unfolding aws_list_volumes_def describe_volumes_def paginate_yields [OF assms(1)]
    by (simp add: mapped_def each_listing map_concat)
qed

lemma list_snapshots_yields:
  assumes "yields (cl_pages (ac_ec2 K region) (lit ''describe_snapshots'')
      [(lit ''OwnerIds'', VList [VStr (lit ''self'')])]) (lit ''Snapshots'')
      (map (map snapshot_value) chunks) w"
    and "\<forall>s \<in> set (concat chunks). tags_ok (sn_tags s) \<and> sn_volume_id s \<noteq> Some []"
  shows "snd (aws_list_snapshots L K region w) = Inr (concat chunks)"
proof -
  have "r_map (map_snapshot L) (map snapshot_value (concat chunks)) = Inr (concat chunks)"
    using assms(2) map_snapshot_value by (intro r_map_values_ok) blast
  then show ?thesis
    unfolding aws_list_snapshots_def describe_snapshots_def paginate_yields [OF assms(1)]
    by (simp add: mapped_def each_listing map_concat)
qed

text \<open>Instances come in reservations, within the pages.\<close>

definition reservation_value :: "ec2_instance list \<Rightarrow> pyval" where
  "reservation_value instances =
     VDict [(lit ''Instances'', VList (map instance_value instances))]"

lemma list_instances_yields:
  assumes "yields (cl_pages (ac_ec2 K region) (lit ''describe_instances'') []) (lit ''Reservations'')
      (map (map reservation_value) chunks) w"
    and "\<forall>i \<in> set (concat (concat chunks)). tags_ok (in_tags i) \<and> in_platform i \<noteq> Some []"
  shows "snd (aws_list_instances L K region w) = Inr (concat (concat chunks))"
proof -
  have one: "each (map_instance L) (lit ''Instances'') (reservation_value xs) = Inr xs"
    if "xs \<in> set (concat chunks)" for xs
  proof -
    have "r_map (map_instance L) (map instance_value xs) = Inr xs"
      using assms(2) map_instance_value that by (intro r_map_values_ok) auto
    then show ?thesis by (simp add: reservation_value_def each_def items_of_def)
  qed
  have "r_map (each (map_instance L) (lit ''Instances''))
      (map reservation_value (concat chunks)) = Inr (concat chunks)"
    using one by (intro r_map_values_ok) blast
  then show ?thesis
    unfolding aws_list_instances_def describe_instances_def paginate_yields [OF assms(1)]
    by (simp add: mapped_def each_listing map_concat)
qed

lemma list_addresses_answers:
  assumes "snd (cl_call (ac_ec2 K region) (lit ''describe_addresses'') [] w) =
      Inr (VDict [(lit ''Addresses'', VList (map address_value ads))])"
    and "\<forall>a \<in> set ads. tags_ok (ad_tags a) \<and> ad_allocation_id a \<noteq> Some [] \<and>
       ad_association_id a \<noteq> Some [] \<and> ad_instance_id a \<noteq> Some [] \<and>
       ad_network_interface_id a \<noteq> Some []"
  shows "snd (aws_list_addresses L K region w) = Inr ads"
proof -
  have "r_map (map_address L) (map address_value ads) = Inr ads"
    using assms(2) map_address_value by (intro r_map_values_ok) blast
  then show ?thesis
    using each_listing [of "map_address L" "lit ''Addresses''" "map address_value ads"]
    unfolding aws_list_addresses_def describe_addresses_def invoke_ok [of "cl_call _ _ _", OF assms(1)]
    by (simp add: mapped_def listing_def)
qed

section \<open>Only provider errors come from a wrapped call\<close>

lemma invoke_provider_error:
  "invoke meth operation region w = (w', slept, Inl e) \<Longrightarrow> \<exists>pe. e = Prov pe"
  unfolding invoke_def by (rule attempts_provider_error)

lemma paginate_provider_error:
  "paginate pages operation region key w = (w', slept, Inl e) \<Longrightarrow> \<exists>pe. e = Prov pe"
  unfolding paginate_def listed_def
  by (auto split: prod.splits sum.splits simp: map_sum_def dest!: attempts_provider_error)

end
