(* ===== verification/Memoizing.thy ===== *)
theory Memoizing
  imports ProviderBase
begin

text \<open>
  \<open>app/providers/memoizing.py\<close>: the provider of one scan. The provider behind it is a record of
  state transformers over an arbitrary world \<open>'w\<close>, so that one call may have another outcome
  each time. \<open>ScanScopedProvider\<close> keeps the outcome of the calls it memoizes, values and
  provider errors, and passes the other calls through. A lock per key makes one call a step.

  The engine's model takes a provider that is a record of functions. \<open>memo_again\<close> justifies
  it: along any sequence of calls, a memoized call that was answered is answered the same way
  for the rest of the scan, without a further call of the provider behind.
\<close>

section \<open>Calls and answers\<close>

record 'w live_provider =
  lp_mode :: mode
  lp_get_identity :: "'w \<Rightarrow> 'w \<times> (py_exc + identity)"
  lp_list_regions :: "'w \<Rightarrow> 'w \<times> (py_exc + region_info list)"
  lp_list_volumes :: "pystr \<Rightarrow> 'w \<Rightarrow> 'w \<times> (py_exc + volume list)"
  lp_list_addresses :: "pystr \<Rightarrow> 'w \<Rightarrow> 'w \<times> (py_exc + address list)"
  lp_list_instances :: "pystr \<Rightarrow> 'w \<Rightarrow> 'w \<times> (py_exc + ec2_instance list)"
  lp_list_snapshots :: "pystr \<Rightarrow> 'w \<Rightarrow> 'w \<times> (py_exc + snapshot list)"
  lp_list_images :: "pystr \<Rightarrow> 'w \<Rightarrow> 'w \<times> (py_exc + image list)"
  lp_get_snapshot_attributes ::
    "pystr \<Rightarrow> pystr \<Rightarrow> 'w \<Rightarrow> 'w \<times> (py_exc + snapshot_attributes)"
  lp_get_snapshot_locks ::
    "pystr \<Rightarrow> pystr list \<Rightarrow> 'w \<Rightarrow> 'w \<times> (py_exc + snapshot_lock list)"
  lp_list_stack_resources :: "pystr \<Rightarrow> 'w \<Rightarrow> 'w \<times> (py_exc + stack_resource list)"
  lp_get_prices :: "pystr \<Rightarrow> (pystr \<times> pystr) list \<Rightarrow> 'w \<Rightarrow> 'w \<times> (py_exc + json list)"

text \<open>The values of the cache, one constructor per type of answer.\<close>

datatype answer =
    A_identity identity
  | A_regions "region_info list"
  | A_volumes "volume list"
  | A_addresses "address list"
  | A_instances "ec2_instance list"
  | A_snapshots "snapshot list"
  | A_images "image list"
  | A_attributes snapshot_attributes
  | A_locks "snapshot_lock list"
  | A_stacks "stack_resource list"
  | A_prices "json list"

datatype call =
    C_identity
  | C_regions
  | C_volumes pystr
  | C_addresses pystr
  | C_instances pystr
  | C_snapshots pystr
  | C_images pystr
  | C_attributes pystr pystr
  | C_locks pystr "pystr list"
  | C_stacks pystr
  | C_prices pystr "(pystr \<times> pystr) list"

definition answered :: "('a \<Rightarrow> answer) \<Rightarrow> 'w \<times> (py_exc + 'a) \<Rightarrow> 'w \<times> (py_exc + answer)" where
  "answered wrap out = (fst out, map_sum id wrap (snd out))"

text \<open>The call of the provider behind.\<close>

fun load :: "'w live_provider \<Rightarrow> call \<Rightarrow> 'w \<Rightarrow> 'w \<times> (py_exc + answer)" where
  "load P C_identity w = answered A_identity (lp_get_identity P w)"
| "load P C_regions w = answered A_regions (lp_list_regions P w)"
| "load P (C_volumes region) w = answered A_volumes (lp_list_volumes P region w)"
| "load P (C_addresses region) w = answered A_addresses (lp_list_addresses P region w)"
| "load P (C_instances region) w = answered A_instances (lp_list_instances P region w)"
| "load P (C_snapshots region) w = answered A_snapshots (lp_list_snapshots P region w)"
| "load P (C_images region) w = answered A_images (lp_list_images P region w)"
| "load P (C_attributes region i) w =
     answered A_attributes (lp_get_snapshot_attributes P region i w)"
| "load P (C_locks region ids) w = answered A_locks (lp_get_snapshot_locks P region ids w)"
| "load P (C_stacks region) w = answered A_stacks (lp_list_stack_resources P region w)"
| "load P (C_prices service filters) w = answered A_prices (lp_get_prices P service filters w)"

text \<open>The keys of the cache; the calls without one are passed through.\<close>

type_synonym memo_key = "pystr \<times> pystr option"

fun key_of_call :: "call \<Rightarrow> memo_key option" where
  "key_of_call C_identity = Some (lit ''get_identity'', None)"
| "key_of_call C_regions = Some (lit ''list_regions'', None)"
| "key_of_call (C_volumes region) = Some (lit ''list_volumes'', Some region)"
| "key_of_call (C_addresses region) = Some (lit ''list_addresses'', Some region)"
| "key_of_call (C_instances region) = Some (lit ''list_instances'', Some region)"
| "key_of_call (C_snapshots region) = Some (lit ''list_snapshots'', Some region)"
| "key_of_call (C_images region) = Some (lit ''list_images'', Some region)"
| "key_of_call (C_attributes region i) = None"
| "key_of_call (C_locks region ids) = None"
| "key_of_call (C_stacks region) = Some (lit ''list_stack_resources'', Some region)"
| "key_of_call (C_prices service filters) = None"

section \<open>The memoizing provider\<close>

record 'w scoped =
  sp_world :: 'w
  sp_cache :: "memo_key \<rightharpoonup> provider_error + answer"

definition new_scoped :: "'w \<Rightarrow> 'w scoped" where
  "new_scoped w = \<lparr>sp_world = w, sp_cache = Map.empty\<rparr>"

definition raised :: "provider_error + answer \<Rightarrow> py_exc + answer" where
  "raised cached = map_sum Prov id cached"

definition memoize ::
  "memo_key \<Rightarrow> ('w \<Rightarrow> 'w \<times> (py_exc + answer)) \<Rightarrow> 'w scoped \<Rightarrow> 'w scoped \<times> (py_exc + answer)" where
  "memoize key ld s =
     (case sp_cache s key of
        Some cached \<Rightarrow> (s, raised cached)
      | None \<Rightarrow>
          (case ld (sp_world s) of
             (w, Inl (Prov e)) \<Rightarrow>
               (\<lparr>sp_world = w, sp_cache = (sp_cache s)(key \<mapsto> Inl e)\<rparr>, Inl (Prov e))
           | (w, Inl (PyExc t m)) \<Rightarrow> (s\<lparr>sp_world := w\<rparr>, Inl (PyExc t m))
           | (w, Inr v) \<Rightarrow>
               (\<lparr>sp_world = w, sp_cache = (sp_cache s)(key \<mapsto> Inr v)\<rparr>, Inr v)))"

text \<open>One call of the scan: the new state and the reply.\<close>

definition scoped_call ::
  "'w live_provider \<Rightarrow> call \<Rightarrow> 'w scoped \<Rightarrow> 'w scoped \<times> (py_exc + answer)" where
  "scoped_call P c s =
     (case key_of_call c of
        Some key \<Rightarrow> memoize key (load P c) s
      | None \<Rightarrow> (case load P c (sp_world s) of (w, r) \<Rightarrow> (s\<lparr>sp_world := w\<rparr>, r)))"

fun run_calls ::
  "'w live_provider \<Rightarrow> call list \<Rightarrow> 'w scoped \<Rightarrow> 'w scoped \<times> (py_exc + answer) list" where
  "run_calls P [] s = (s, [])"
| "run_calls P (c # cs) s =
     (case scoped_call P c s of (s', r) \<Rightarrow>
        (case run_calls P cs s' of (s'', rs) \<Rightarrow> (s'', r # rs)))"

section \<open>A key stands for one call\<close>

lemma key_of_call_inj: "key_of_call c = Some k \<Longrightarrow> key_of_call c' = Some k \<Longrightarrow> c = c'"
  by (cases c; cases c'; auto)

section \<open>What the cache keeps\<close>

text \<open>A reply settles a call unless it is an exception the cache does not catch.\<close>

fun settled :: "py_exc + answer \<Rightarrow> bool" where
  "settled (Inl (PyExc t m)) = False"
| "settled r = True"

definition holds :: "call \<Rightarrow> py_exc + answer \<Rightarrow> 'w scoped \<Rightarrow> bool" where
  "holds c r s \<longleftrightarrow>
     (\<exists>key cached. key_of_call c = Some key \<and> sp_cache s key = Some cached \<and> raised cached = r)"

lemma holds_call: "holds c r s \<Longrightarrow> scoped_call P c s = (s, r)"
  by (auto simp: holds_def scoped_call_def memoize_def)

lemma call_holds:
  assumes "scoped_call P c s = (s', r)" and "key_of_call c \<noteq> None" and "settled r"
  shows "holds c r s'"
  using assms
  by (auto simp: holds_def scoped_call_def memoize_def raised_def
      split: option.splits prod.splits sum.splits py_exc.splits)

lemma cache_grows:
  assumes "scoped_call P c s = (s', r)" and "sp_cache s k = Some v"
  shows "sp_cache s' k = Some v"
  using assms
  by (auto simp: scoped_call_def memoize_def
      split: option.splits prod.splits sum.splits py_exc.splits)

lemma holds_kept: "scoped_call P c s = (s', r) \<Longrightarrow> holds c' r' s \<Longrightarrow> holds c' r' s'"
  using cache_grows by (fastforce simp: holds_def)

lemma run_calls_kept: "run_calls P cs s = (s', rs) \<Longrightarrow> holds c r s \<Longrightarrow> holds c r s'"
proof (induction cs arbitrary: s rs)
  case (Cons c' cs)
  then show ?case using holds_kept by (auto split: prod.splits) blast
qed simp

lemma run_calls_length: "run_calls P cs s = (s', rs) \<Longrightarrow> length rs = length cs"
  by (induction cs arbitrary: s rs) (auto split: prod.splits)

lemma run_calls_append:
  "run_calls P (cs @ ds) s =
     (case run_calls P cs s of (s', rs) \<Rightarrow>
        (case run_calls P ds s' of (s'', rs') \<Rightarrow> (s'', rs @ rs')))"
  by (induction cs arbitrary: s) (auto split: prod.splits)

lemma run_calls_take:
  assumes "run_calls P cs s = (s', rs)" and "k < length cs"
  obtains s1 s2 where "run_calls P (take k cs) s = (s1, take k rs)"
    and "scoped_call P (cs ! k) s1 = (s2, rs ! k)"
    and "run_calls P (take (Suc k) cs) s = (s2, take (Suc k) rs)"
proof -
  have split: "cs = take k cs @ cs ! k # drop (Suc k) cs" using assms(2) by (rule id_take_nth_drop)
  obtain s1 rs1 where one: "run_calls P (take k cs) s = (s1, rs1)" by fastforce
  obtain s2 r where two: "scoped_call P (cs ! k) s1 = (s2, r)" by fastforce
  obtain s3 rs3 where three: "run_calls P (drop (Suc k) cs) s2 = (s3, rs3)" by fastforce
  have "run_calls P (take k cs @ cs ! k # drop (Suc k) cs) s = (s3, rs1 @ r # rs3)"
    by (simp add: run_calls_append one two three)
  then have rs: "rs = rs1 @ r # rs3" using assms(1) split by simp
  have len: "length rs1 = k" using run_calls_length [OF one] assms(2) by simp
  have "run_calls P (take k cs @ [cs ! k]) s = (s2, rs1 @ [r])"
    by (simp add: run_calls_append one two)
  then have "run_calls P (take (Suc k) cs) s = (s2, take (Suc k) rs)"
    using rs len assms(2) by (simp add: take_Suc_conv_app_nth)
  moreover have "take k rs = rs1" and "rs ! k = r" using rs len by (simp_all add: nth_append)
  ultimately show ?thesis using that one two by simp
qed

lemma memo_again:
  assumes run: "run_calls P cs s = (s', rs)" and ij: "i < j" "j < length cs"
    and same: "cs ! j = cs ! i" and key: "key_of_call (cs ! i) \<noteq> None" and set: "settled (rs ! i)"
  shows "rs ! j = rs ! i \<and>
     fst (run_calls P (take (Suc j) cs) s) = fst (run_calls P (take j cs) s)"
proof -
  have "i < length cs" using ij by simp
  then obtain s1 where i: "run_calls P (take (Suc i) cs) s = (s1, take (Suc i) rs)"
      and h: "holds (cs ! i) (rs ! i) s1"
    using run_calls_take [OF run] call_holds [OF _ key set] by metis
  obtain s2 s3 where j: "run_calls P (take j cs) s = (s2, take j rs)"
      "scoped_call P (cs ! j) s2 = (s3, rs ! j)"
      "run_calls P (take (Suc j) cs) s = (s3, take (Suc j) rs)"
    using run_calls_take [OF run ij(2)] by metis
  have "take j cs = take (Suc i) cs @ drop (Suc i) (take j cs)"
    using ij(1) by (metis Suc_leI append_take_drop_id min.absorb1 take_take)
  moreover obtain s4 rs4 where rest: "run_calls P (drop (Suc i) (take j cs)) s1 = (s4, rs4)"
    by fastforce
  ultimately have "s4 = s2"
    using j(1) run_calls_append [of P "take (Suc i) cs" "drop (Suc i) (take j cs)" s] i by simp
  with run_calls_kept [OF rest h] have "holds (cs ! j) (rs ! i) s2" using same by simp
  from holds_call [OF this, of P] j(2) have "s3 = s2" "rs ! j = rs ! i" by auto
  then show ?thesis using j by simp
qed

end
