(* ===== verification/LiveProvider.thy ===== *)
theory LiveProvider
  imports AwsProvider Memoizing
begin

text \<open>
  The live provider as the program makes it: \<open>AwsProvider.__init__\<close> with the guard of
  \<open>providers/aws/guard.py\<close> on the session and on every client, and the wrappers per region that
  are made at the first call and kept. The state is the provider and the world behind boto3.

  A session is the parameter \<open>aws_session\<close>: which attributes it has and what making a client
  does. A lock makes looking up and making a wrapper one step.
\<close>

section \<open>Sessions\<close>

text \<open>
  \<open>ss_create_client\<close> is \<open>session.create_client\<close>, if there is one, and \<open>ss_client\<close> is
  \<open>session.client\<close>: the service and the region to the client or the exception.
\<close>

type_synonym 'w client_maker = "pystr \<Rightarrow> pystr \<Rightarrow> 'w \<Rightarrow> 'w \<times> (aws_exc + 'w aws_client)"

record 'w aws_session =
  ss_has_register :: bool
  ss_has_events :: bool
  ss_has_inner :: bool
  ss_region_name :: "pystr option"
  ss_create_client :: "'w client_maker option"
  ss_client :: "'w client_maker"

text \<open>Where \<open>install_operation_guard\<close> registers its handlers.\<close>

datatype event_system = Session_itself | Session_events | Inner_session

definition install_operation_guard :: "'w aws_session \<Rightarrow> py_exc + event_system" where
  "install_operation_guard S =
     (if ss_has_register S then Inr Session_itself
      else if ss_has_events S then Inr Session_events
      else if ss_has_inner S then Inr Inner_session
      else Inl (TypeError (lit ''unsupported AWS session type'')))"

definition make_client :: "'w aws_session \<Rightarrow> 'w client_maker" where
  "make_client S = (case ss_create_client S of Some f \<Rightarrow> f | None \<Rightarrow> ss_client S)"

definition open_client ::
  "(pystr \<Rightarrow> op_model) \<Rightarrow> 'w aws_session \<Rightarrow> 'w client_maker" where
  "open_client models S service region w =
     (case make_client S service region w of
        (w', r) \<Rightarrow> (w', map_sum id (guarded_client models) r))"

section \<open>Making the provider\<close>

text \<open>An exception that leaves the provider: one of Python's, or one of botocore as it is.\<close>

datatype live_exc = Py py_exc | Boto aws_exc

record 'w live =
  lv_session :: "'w aws_session"
  lv_sts :: "'w aws_client"
  lv_regions :: "'w aws_client"
  lv_pricing :: "'w aws_client"
  lv_ec2 :: "pystr \<rightharpoonup> 'w aws_client"
  lv_cloudformation :: "pystr \<rightharpoonup> 'w aws_client"

text \<open>Of the exceptions of the \<open>try\<close> block four classes are translated.\<close>

definition session_error :: "pystr option \<Rightarrow> live_exc \<Rightarrow> live_exc" where
  "session_error default_region e =
     (case e of
        Boto x \<Rightarrow>
          if ae_class x \<in> {X_NoCredentials, X_NoRegion, X_PartialCredentials, X_ProfileNotFound}
          then Py (Prov (translate_client_error x (lit ''aws:CreateSession'') default_region))
          else Boto x
      | Py x \<Rightarrow> Py x)"

definition boto :: "('w \<Rightarrow> 'w \<times> (aws_exc + 'a)) \<Rightarrow> 'w \<Rightarrow> 'w \<times> (live_exc + 'a)" where
  "boto m w = (case m w of (w', r) \<Rightarrow> (w', map_sum Boto id r))"

definition home_region :: "'w aws_session \<Rightarrow> pystr" where
  "home_region S =
     (if truthy (ss_region_name S) then the (ss_region_name S) else lit ''us-east-1'')"

definition init_clients ::
  "(pystr \<Rightarrow> op_model) \<Rightarrow> 'w aws_session \<Rightarrow> 'w \<Rightarrow> 'w \<times> (live_exc + 'w live)" where
  "init_clients models S =
     s_bind (s_lift (map_sum Py id (install_operation_guard S))) (\<lambda>e.
     s_bind (boto (open_client models S (lit ''sts'') (home_region S))) (\<lambda>sts.
     s_bind (boto (open_client models S (lit ''ec2'') (home_region S))) (\<lambda>regions.
     s_bind (boto (open_client models S (lit ''pricing'') (lit ''us-east-1''))) (\<lambda>pricing.
       s_lift (Inr \<lparr>lv_session = S, lv_sts = sts, lv_regions = regions, lv_pricing = pricing,
                    lv_ec2 = Map.empty, lv_cloudformation = Map.empty\<rparr>)))))"

text \<open>\<open>make_session\<close> is \<open>boto3.Session\<close>, of the profile and the default region.\<close>

definition aws_init ::
  "(pystr \<Rightarrow> op_model) \<Rightarrow> (pystr option \<Rightarrow> pystr option \<Rightarrow> 'w \<Rightarrow> 'w \<times> (aws_exc + 'w aws_session)) \<Rightarrow>
   pystr option \<Rightarrow> pystr option \<Rightarrow> 'w aws_session option \<Rightarrow> 'w \<Rightarrow> 'w \<times> (live_exc + 'w live)" where
  "aws_init models make_session profile_name default_region given w =
     (case s_bind (case given of
                     Some S \<Rightarrow> s_lift (Inr S)
                   | None \<Rightarrow> boto (make_session profile_name default_region))
                  (init_clients models) w of
        (w', Inl e) \<Rightarrow> (w', Inl (session_error default_region e))
      | (w', Inr lv) \<Rightarrow> (w', Inr lv))"

section \<open>Wrappers per region\<close>

type_synonym 'w live_state = "'w live \<times> 'w"

definition live_ec2 ::
  "(pystr \<Rightarrow> op_model) \<Rightarrow> pystr \<Rightarrow> 'w live_state \<Rightarrow> 'w live_state \<times> (live_exc + 'w aws_client)" where
  "live_ec2 models region s =
     (case s of (lv, w) \<Rightarrow>
        (case lv_ec2 lv region of
           Some C \<Rightarrow> ((lv, w), Inr C)
         | None \<Rightarrow>
             (case open_client models (lv_session lv) (lit ''ec2'') region w of
                (w', Inl e) \<Rightarrow> ((lv, w'), Inl (Boto e))
              | (w', Inr C) \<Rightarrow> ((lv\<lparr>lv_ec2 := (lv_ec2 lv)(region \<mapsto> C)\<rparr>, w'), Inr C))))"

definition live_cloudformation ::
  "(pystr \<Rightarrow> op_model) \<Rightarrow> pystr \<Rightarrow> 'w live_state \<Rightarrow> 'w live_state \<times> (live_exc + 'w aws_client)" where
  "live_cloudformation models region s =
     (case s of (lv, w) \<Rightarrow>
        (case lv_cloudformation lv region of
           Some C \<Rightarrow> ((lv, w), Inr C)
         | None \<Rightarrow>
             (case open_client models (lv_session lv) (lit ''cloudformation'') region w of
                (w', Inl e) \<Rightarrow> ((lv, w'), Inl (Boto e))
              | (w', Inr C) \<Rightarrow>
                  ((lv\<lparr>lv_cloudformation := (lv_cloudformation lv)(region \<mapsto> C)\<rparr>, w'), Inr C))))"

section \<open>Calls\<close>

text \<open>The clients of a state in which the wrapper of the region is the client \<open>C\<close>.\<close>

definition clients_of :: "'w live \<Rightarrow> 'w aws_client \<Rightarrow> 'w aws_clients" where
  "clients_of lv C =
     \<lparr>ac_sts = lv_sts lv, ac_regions = lv_regions lv, ac_pricing = lv_pricing lv,
      ac_ec2 = (\<lambda>region. C), ac_cloudformation = (\<lambda>region. C)\<rparr>"

definition with_wrapper ::
  "('w live_state \<Rightarrow> 'w live_state \<times> (live_exc + 'w aws_client)) \<Rightarrow>
   ('w aws_clients \<Rightarrow> 'w \<Rightarrow> ('w \<times> (py_exc + answer)) option) \<Rightarrow> 'w live_state \<Rightarrow>
   ('w live_state \<times> (live_exc + answer)) option" where
  "with_wrapper wrapper op s =
     (case wrapper s of
        (s', Inl e) \<Rightarrow> Some (s', Inl e)
      | ((lv, w), Inr C) \<Rightarrow>
          map_option (\<lambda>(w', r). ((lv, w'), map_sum Py id r)) (op (clients_of lv C) w))"

text \<open>The three calls that need no wrapper of a region use the clients of the constructor.\<close>

definition with_home ::
  "('w aws_client) \<Rightarrow> ('w aws_clients \<Rightarrow> 'w \<Rightarrow> ('w \<times> (py_exc + answer)) option) \<Rightarrow> 'w live_state \<Rightarrow>
   ('w live_state \<times> (live_exc + answer)) option" where
  "with_home C = with_wrapper (\<lambda>s. (s, Inr C))"

fun live_call ::
  "pylib \<Rightarrow> (pystr \<Rightarrow> op_model) \<Rightarrow> call \<Rightarrow> 'w live_state \<Rightarrow>
   ('w live_state \<times> (live_exc + answer)) option" where
  "live_call L models C_identity s =
     with_home (lv_sts (fst s)) (\<lambda>K w. Some (answered A_identity (aws_get_identity L K w))) s"
| "live_call L models C_regions s =
     with_home (lv_regions (fst s)) (\<lambda>K w. Some (answered A_regions (aws_list_regions L K w))) s"
| "live_call L models (C_volumes region) s =
     with_wrapper (live_ec2 models region)
       (\<lambda>K w. Some (answered A_volumes (aws_list_volumes L K region w))) s"
| "live_call L models (C_addresses region) s =
     with_wrapper (live_ec2 models region)
       (\<lambda>K w. Some (answered A_addresses (aws_list_addresses L K region w))) s"
| "live_call L models (C_instances region) s =
     with_wrapper (live_ec2 models region)
       (\<lambda>K w. Some (answered A_instances (aws_list_instances L K region w))) s"
| "live_call L models (C_snapshots region) s =
     with_wrapper (live_ec2 models region)
       (\<lambda>K w. Some (answered A_snapshots (aws_list_snapshots L K region w))) s"
| "live_call L models (C_images region) s =
     with_wrapper (live_ec2 models region)
       (\<lambda>K w. Some (answered A_images (aws_list_images L K region w))) s"
| "live_call L models (C_attributes region i) s =
     with_wrapper (live_ec2 models region)
       (\<lambda>K w. Some (answered A_attributes (aws_get_snapshot_attributes L K region i w))) s"
| "live_call L models (C_locks region ids) s =
     (if ids = [] then Some (s, Inr (A_locks []))
      else with_wrapper (live_ec2 models region)
             (\<lambda>K w. map_option (answered A_locks) (aws_get_snapshot_locks L K region ids w)) s)"
| "live_call L models (C_stacks region) s =
     with_wrapper (live_cloudformation models region)
       (\<lambda>K w. Some (answered A_stacks (aws_list_stack_resources L K region w))) s"
| "live_call L models (C_prices service filters) s =
     with_home (lv_pricing (fst s)) (\<lambda>K w. Some (answered A_prices (aws_get_prices L K service filters w))) s"

text \<open>Calls one after the other, each whatever the earlier ones gave.\<close>

fun live_calls ::
  "pylib \<Rightarrow> (pystr \<Rightarrow> op_model) \<Rightarrow> call list \<Rightarrow> 'w live_state \<Rightarrow>
   ('w live_state \<times> (live_exc + answer) list) option" where
  "live_calls L models [] s = Some (s, [])"
| "live_calls L models (c # cs) s =
     (case live_call L models c s of
        None \<Rightarrow> None
      | Some (s', r) \<Rightarrow> map_option (\<lambda>(s'', rs). (s'', r # rs)) (live_calls L models cs s'))"

section \<open>What reaches AWS\<close>

text \<open>
  \<open>P\<close> is any property of the world. A client that keeps it does so whatever is called; a raw
  client is only asked to keep it by the calls of allowed operations.
\<close>

definition keeps :: "('w \<Rightarrow> bool) \<Rightarrow> 'w aws_client \<Rightarrow> bool" where
  "keeps P C \<longleftrightarrow>
     (\<forall>name kwargs w. P w \<longrightarrow> P (fst (cl_call C name kwargs w)) \<and> P (fst (cl_pages C name kwargs w)))"

definition allowed_keep :: "('w \<Rightarrow> bool) \<Rightarrow> (pystr \<Rightarrow> op_model) \<Rightarrow> 'w aws_client \<Rightarrow> bool" where
  "allowed_keep P models C \<longleftrightarrow>
     (\<forall>name kwargs w. operation_name (models name) \<in> set allowed_operations \<longrightarrow> P w \<longrightarrow>
        P (fst (cl_call C name kwargs w)) \<and> P (fst (cl_pages C name kwargs w)))"

definition session_keeps :: "('w \<Rightarrow> bool) \<Rightarrow> (pystr \<Rightarrow> op_model) \<Rightarrow> 'w aws_session \<Rightarrow> bool" where
  "session_keeps P models S \<longleftrightarrow>
     (\<forall>service region w. P w \<longrightarrow> P (fst (make_client S service region w)) \<and>
        (\<forall>C. snd (make_client S service region w) = Inr C \<longrightarrow> allowed_keep P models C))"

lemma guarded_keeps: "allowed_keep P models C \<Longrightarrow> keeps P (guarded_client models C)"
  by (auto simp: allowed_keep_def keeps_def guarded_client_def guard_call_def reject_disallowed_def)

lemma keepsD:
  assumes "keeps P C" and "P w"
  shows "P (fst (cl_call C name kwargs w))" and "P (fst (cl_pages C name kwargs w))"
  using assms by (simp_all add: keeps_def)

lemma attempts_keeps:
  assumes "\<And>w. P w \<Longrightarrow> P (fst (meth w))" and "P w"
  shows "P (fst (attempts meth operation region ns w))"
  using assms(2)
proof (induction ns arbitrary: w)
  case (Cons n ns)
  obtain w' r where m: "meth w = (w', r)" by fastforce
  with assms(1) [OF Cons.prems] have "P w'" by simp
  with Cons.IH [of w'] m show ?case by (auto split: sum.split prod.split)
qed simp

lemma invoke_keeps:
  "(\<And>w. P w \<Longrightarrow> P (fst (meth w))) \<Longrightarrow> P w \<Longrightarrow> P (fst (invoke meth operation region w))"
  unfolding invoke_def by (rule attempts_keeps)

lemma fst_listed [simp]: "fst (listed key out) = fst out"
  by (simp add: listed_def split: prod.split)

lemma read_pages_keeps:
  "(\<And>w. P w \<Longrightarrow> P (fst (pages w))) \<Longrightarrow> P w \<Longrightarrow> P (fst (read_pages pages key w))"
  by (fastforce simp: read_pages_def split: prod.split sum.split)

lemma paginate_keeps:
  "(\<And>w. P w \<Longrightarrow> P (fst (pages w))) \<Longrightarrow> P w \<Longrightarrow> P (fst (paginate pages operation region key w))"
  unfolding paginate_def fst_listed by (rule attempts_keeps) (rule read_pages_keeps)

lemma collect_pages_keeps:
  assumes "\<And>token w. P w \<Longrightarrow> P (fst (fetch token w))"
    and "collect_pages fetch operation region key combined token slept w = Some out" and "P w"
  shows "P (fst out)"
proof -
  have "(\<forall>token w. P w \<longrightarrow> P (fst (fetch token w))) \<longrightarrow> P w \<longrightarrow> P (fst out)"
  proof (rule collect_pages.raw_induct [OF _ assms(2), where P = "\<lambda>fetch operation region key combined
      token slept w out. (\<forall>token w. P w \<longrightarrow> P (fst (fetch token w))) \<longrightarrow> P w \<longrightarrow> P (fst out)"],
      intro impI, goal_cases)
    case (1 collect fetch operation region key combined token slept w out)
    obtain w' pauses r where inv: "invoke (fetch token) operation region w = (w', pauses, r)"
      by (metis prod.collapse)
    have "P w'" using invoke_keeps [of P "fetch token" w operation region] 1(3,4) inv by simp
    then show ?case
      using 1 inv by (auto split: sum.splits prod.splits if_splits)
  qed
  with assms(1,3) show ?thesis by blast
qed

text \<open>The wrapped operations.\<close>

lemma wrappers_keep:
  assumes "keeps P C" and "P w"
  shows "P (fst (get_caller_identity C w))" and "P (fst (describe_regions C w))"
    and "P (fst (describe_volumes C w))" and "P (fst (describe_addresses C w))"
    and "P (fst (describe_instances C w))" and "P (fst (describe_snapshots C w))"
    and "P (fst (describe_images C w))" and "P (fst (describe_snapshot_attribute C i w))"
    and "P (fst (list_stacks C w))" and "P (fst (stack_resources C name w))"
    and "P (fst (get_products C service filters w))"
  unfolding get_caller_identity_def describe_regions_def describe_volumes_def
    describe_addresses_def describe_instances_def describe_snapshots_def describe_images_def
    describe_snapshot_attribute_def list_stacks_def stack_resources_def get_products_def
  by (rule invoke_keeps [where P = P] paginate_keeps [where P = P], erule keepsD [OF assms(1)],
      rule assms(2))+

lemma locks_keep:
  assumes "keeps P C" and "P w" and "describe_locked_snapshots C ids w = Some out"
  shows "P (fst out)"
proof -
  from assms(3) obtain pages where out: "fst out = fst pages" and pages: "collect_pages
      (\<lambda>token. cl_call C (lit ''describe_locked_snapshots'')
         ((lit ''SnapshotIds'', VList (map VStr ids)) #
          (case token of None \<Rightarrow> [] | Some t \<Rightarrow> [(lit ''NextToken'', t)])))
      (lit ''ec2:DescribeLockedSnapshots'') (cl_region C) (lit ''Snapshots'') [] None [] w = Some pages"
    unfolding describe_locked_snapshots_def paginate_manually_def map_option_eq_Some by auto
  show ?thesis
    unfolding out by (rule collect_pages_keeps [where P = P, OF _ pages assms(2)], erule keepsD [OF assms(1)])
qed

lemma fst_mapped [simp]: "fst (mapped f out) = fst out"
  by (simp add: mapped_def split: prod.split)

lemma mapped_world: "mapped f out = (w, r) \<Longrightarrow> w = fst out"
  by (metis fst_conv fst_mapped)

lemma fst_answered [simp]: "fst (answered wrap out) = fst out"
  by (simp add: answered_def)

lemma stacks_keep:
  assumes "keeps P C" and "P w"
  shows "P (fst (resources_of_stacks L C region stacks w))"
  using assms(2)
proof (induction stacks arbitrary: w)
  case (Cons stack stacks)
  have stack_keeps: "P w'" if "mapped (each (map_stack_resource L region stack)
      (lit ''StackResourceSummaries'')) (stack_resources C (py_str L name) w) = (w', r)" for name w' r
    using wrappers_keep(10) [where P = P, OF assms(1) Cons.prems] mapped_world [OF that] by simp
  have rest_keeps: "P w'" if "resources_of_stacks L C region stacks w1 = (w', r)" and "P w1" for w1 w' r
    using Cons.IH [OF that(2)] that(1) by simp
  show ?case
    using Cons.prems Cons.IH
    by (auto split: sum.split prod.split intro: rest_keeps stack_keeps)
qed simp

definition all_keep :: "('w \<Rightarrow> bool) \<Rightarrow> 'w aws_clients \<Rightarrow> pystr \<Rightarrow> bool" where
  "all_keep P K region \<longleftrightarrow>
     keeps P (ac_sts K) \<and> keeps P (ac_regions K) \<and> keeps P (ac_pricing K) \<and>
     keeps P (ac_ec2 K region) \<and> keeps P (ac_cloudformation K region)"

lemma operations_keep:
  assumes "all_keep P K region" and "P w"
  shows "P (fst (aws_get_identity L K w))" and "P (fst (aws_list_regions L K w))"
    and "P (fst (aws_list_volumes L K region w))" and "P (fst (aws_list_addresses L K region w))"
    and "P (fst (aws_list_instances L K region w))" and "P (fst (aws_list_snapshots L K region w))"
    and "P (fst (aws_list_images L K region w))"
    and "P (fst (aws_get_snapshot_attributes L K region i w))"
    and "P (fst (aws_get_prices L K service filters w))"
    and "P (fst (aws_list_stack_resources L K region w))"
proof -
  have keep: "keeps P (ac_sts K)" "keeps P (ac_regions K)" "keeps P (ac_pricing K)"
    "keeps P (ac_ec2 K region)" "keeps P (ac_cloudformation K region)"
    using assms(1) by (simp_all add: all_keep_def)
  show "P (fst (aws_get_identity L K w))" and "P (fst (aws_list_regions L K w))"
    and "P (fst (aws_list_volumes L K region w))" and "P (fst (aws_list_addresses L K region w))"
    and "P (fst (aws_list_instances L K region w))" and "P (fst (aws_list_snapshots L K region w))"
    and "P (fst (aws_list_images L K region w))"
    and "P (fst (aws_get_snapshot_attributes L K region i w))"
    and "P (fst (aws_get_prices L K service filters w))"
    unfolding aws_get_identity_def aws_list_regions_def aws_list_volumes_def
      aws_list_addresses_def aws_list_instances_def aws_list_snapshots_def aws_list_images_def
      aws_get_snapshot_attributes_def aws_get_prices_def fst_mapped
    by (rule wrappers_keep [where P = P], rule keep, rule assms(2))+
  have "P (fst (list_stacks (ac_cloudformation K region) w))"
    by (rule wrappers_keep(9) [where P = P, OF keep(5) assms(2)])
  then show "P (fst (aws_list_stack_resources L K region w))"
    by (cases "mapped (\<lambda>response. items_of response (lit ''StackSummaries''))
          (list_stacks (ac_cloudformation K region) w)")
      (auto simp: aws_list_stack_resources_def intro: stacks_keep [where P = P, OF keep(5)] dest: mapped_world
        split: sum.split)
qed

section \<open>The provider over time\<close>

definition live_inv :: "('w \<Rightarrow> bool) \<Rightarrow> (pystr \<Rightarrow> op_model) \<Rightarrow> 'w live_state \<Rightarrow> bool" where
  "live_inv P models s \<longleftrightarrow>
     P (snd s) \<and> session_keeps P models (lv_session (fst s)) \<and>
     keeps P (lv_sts (fst s)) \<and> keeps P (lv_regions (fst s)) \<and> keeps P (lv_pricing (fst s)) \<and>
     (\<forall>C \<in> ran (lv_ec2 (fst s)) \<union> ran (lv_cloudformation (fst s)). keeps P C)"

text \<open>The wrappers of a state are kept.\<close>

definition wrappers_kept :: "'w live_state \<Rightarrow> 'w live_state \<Rightarrow> bool" where
  "wrappers_kept s s' \<longleftrightarrow>
     lv_sts (fst s') = lv_sts (fst s) \<and> lv_regions (fst s') = lv_regions (fst s) \<and>
     lv_pricing (fst s') = lv_pricing (fst s) \<and> lv_ec2 (fst s) \<subseteq>\<^sub>m lv_ec2 (fst s') \<and>
     lv_cloudformation (fst s) \<subseteq>\<^sub>m lv_cloudformation (fst s')"

lemma wrappers_kept_refl [simp]: "wrappers_kept s s"
  by (simp add: wrappers_kept_def)

lemma wrappers_kept_trans: "wrappers_kept s s' \<Longrightarrow> wrappers_kept s' s'' \<Longrightarrow> wrappers_kept s s''"
  using map_le_trans by (fastforce simp: wrappers_kept_def)

lemma open_client_keeps:
  assumes "session_keeps P models S" and "P w" and "open_client models S service region w = (w', r)"
  shows "P w'" and "r = Inr C \<Longrightarrow> keeps P C"
proof -
  obtain r0 where made: "make_client S service region w = (w', r0)" and r: "r = map_sum id (guarded_client models) r0"
    using assms(3) by (auto simp: open_client_def split: prod.splits)
  from assms(1,2) have "P (fst (make_client S service region w))"
    and raw: "\<And>C. snd (make_client S service region w) = Inr C \<Longrightarrow> allowed_keep P models C"
    by (auto simp: session_keeps_def)
  with made show "P w'" by simp
  show "keeps P C" if "r = Inr C"
    using that r raw made guarded_keeps by (cases r0) auto
qed

definition good_wrapper ::
  "('w \<Rightarrow> bool) \<Rightarrow> (pystr \<Rightarrow> op_model) \<Rightarrow> 'w live_state \<Rightarrow> 'w live_state \<times> (live_exc + 'w aws_client) \<Rightarrow> bool" where
  "good_wrapper P models s out \<longleftrightarrow>
     live_inv P models (fst out) \<and> wrappers_kept s (fst out) \<and> (\<forall>C. snd out = Inr C \<longrightarrow> keeps P C)"

lemma live_ec2_good:
  assumes "live_inv P models s"
  shows "good_wrapper P models s (live_ec2 models region s)"
proof -
  obtain lv w where s: "s = (lv, w)" by fastforce
  show ?thesis
  proof (cases "lv_ec2 lv region")
    case (Some C)
    then have "C \<in> ran (lv_ec2 lv)" by (rule ranI)
    with Some s assms show ?thesis by (simp add: good_wrapper_def live_ec2_def live_inv_def)
  next
    case None
    obtain w' r where made: "open_client models (lv_session lv) (lit ''ec2'') region w = (w', r)" by fastforce
    from assms s open_client_keeps [OF _ _ made, of P]
    have "P w'" "\<And>C. r = Inr C \<Longrightarrow> keeps P C" by (simp_all add: live_inv_def)
    then show ?thesis
      using assms s None made
      by (cases r) (auto simp: good_wrapper_def live_ec2_def live_inv_def wrappers_kept_def map_le_def ran_def)
  qed
qed

lemma live_cloudformation_good:
  assumes "live_inv P models s"
  shows "good_wrapper P models s (live_cloudformation models region s)"
proof -
  obtain lv w where s: "s = (lv, w)" by fastforce
  show ?thesis
  proof (cases "lv_cloudformation lv region")
    case (Some C)
    then have "C \<in> ran (lv_cloudformation lv)" by (rule ranI)
    with Some s assms show ?thesis by (simp add: good_wrapper_def live_cloudformation_def live_inv_def)
  next
    case None
    obtain w' r where made: "open_client models (lv_session lv) (lit ''cloudformation'') region w = (w', r)"
      by fastforce
    from assms s open_client_keeps [OF _ _ made, of P]
    have "P w'" "\<And>C. r = Inr C \<Longrightarrow> keeps P C" by (simp_all add: live_inv_def)
    then show ?thesis
      using assms s None made
      by (cases r)
        (auto simp: good_wrapper_def live_cloudformation_def live_inv_def wrappers_kept_def map_le_def ran_def)
  qed
qed

lemma with_wrapper_good:
  assumes "good_wrapper P models s (wrapper s)" and "with_wrapper wrapper op s = Some (s', r)"
    and "\<And>K w out. all_keep P K region \<Longrightarrow> P w \<Longrightarrow> op K w = Some out \<Longrightarrow> P (fst out)"
  shows "live_inv P models s' \<and> wrappers_kept s s'"
proof -
  obtain lv w x where made: "wrapper s = ((lv, w), x)" by (metis prod.collapse)
  show ?thesis
  proof (cases x)
    case (Inl e)
    with assms(1,2) made show ?thesis by (auto simp: with_wrapper_def good_wrapper_def)
  next
    case (Inr C)
    with assms(1) made have inv: "live_inv P models (lv, w)" and kept: "wrappers_kept s (lv, w)"
      and C: "keeps P C" by (simp_all add: good_wrapper_def)
    from assms(2) made Inr obtain w' r' where op: "op (clients_of lv C) w = Some (w', r')"
      and s': "s' = (lv, w')" by (auto simp: with_wrapper_def)
    have "all_keep P (clients_of lv C) region" using inv C by (simp add: all_keep_def clients_of_def live_inv_def)
    moreover have "P w" using inv by (simp add: live_inv_def)
    ultimately have "P w'" using assms(3) [OF _ _ op] by simp
    then show ?thesis using inv kept s' by (simp add: live_inv_def wrappers_kept_def)
  qed
qed

text \<open>The three ways a call gets its client.\<close>

lemma ec2_run:
  assumes "with_wrapper (live_ec2 models region) (\<lambda>K w. Some (answered wrap (f K w))) s = Some (s', r)"
    and "live_inv P models s" and "\<And>K w. all_keep P K region \<Longrightarrow> P w \<Longrightarrow> P (fst (f K w))"
  shows "live_inv P models s' \<and> wrappers_kept s s'"
  by (rule with_wrapper_good [where wrapper = "live_ec2 models region" and region = region,
        OF live_ec2_good [OF assms(2)] assms(1)]) (simp only: option.inject, hypsubst, simp add: assms(3))

lemma cloudformation_run:
  assumes "with_wrapper (live_cloudformation models region) (\<lambda>K w. Some (answered wrap (f K w))) s = Some (s', r)"
    and "live_inv P models s" and "\<And>K w. all_keep P K region \<Longrightarrow> P w \<Longrightarrow> P (fst (f K w))"
  shows "live_inv P models s' \<and> wrappers_kept s s'"
  by (rule with_wrapper_good [where wrapper = "live_cloudformation models region" and region = region,
        OF live_cloudformation_good [OF assms(2)] assms(1)]) (simp only: option.inject, hypsubst, simp add: assms(3))

lemma home_run:
  assumes "with_home C (\<lambda>K w. Some (answered wrap (f K w))) s = Some (s', r)"
    and "live_inv P models s" and "keeps P C" and "\<And>K w. all_keep P K [] \<Longrightarrow> P w \<Longrightarrow> P (fst (f K w))"
  shows "live_inv P models s' \<and> wrappers_kept s s'"
proof -
  have good: "good_wrapper P models s (s, Inr C)" using assms(2,3) by (simp add: good_wrapper_def)
  show ?thesis
    by (rule with_wrapper_good [where wrapper = "\<lambda>s. (s, Inr C)" and region = "[]",
          OF good assms(1) [unfolded with_home_def]]) (simp only: option.inject, hypsubst, simp add: assms(4))
qed

lemma locks_run:
  assumes "live_call L models (C_locks region ids) s = Some (s', r)" and "live_inv P models s"
  shows "live_inv P models s' \<and> wrappers_kept s s'"
proof (cases "ids = []")
  case True
  then show ?thesis using assms by simp
next
  case False
  let ?op = "\<lambda>K w. map_option (answered A_locks) (aws_get_snapshot_locks L K region ids w)"
  have locks: "P (fst out)" if "all_keep P K region" "P w" "?op K w = Some out" for K w out
    using that locks_keep [of P "ac_ec2 K region" w ids]
    by (auto simp: all_keep_def aws_get_snapshot_locks_def dest!: mapped_world split: if_splits)
  from False assms(1) have "with_wrapper (live_ec2 models region) ?op s = Some (s', r)" by simp
  from with_wrapper_good [where wrapper = "live_ec2 models region", OF live_ec2_good [OF assms(2)] this] locks
  show ?thesis by blast
qed

lemma live_call_good:
  assumes "live_call L models c s = Some (s', r)" and "live_inv P models s"
  shows "live_inv P models s' \<and> wrappers_kept s s'"
proof -
  have home: "keeps P (lv_sts (fst s))" "keeps P (lv_regions (fst s))" "keeps P (lv_pricing (fst s))"
    using assms(2) by (simp_all add: live_inv_def)
  show ?thesis
  proof (cases c)
    case (C_locks region ids)
    then show ?thesis using locks_run assms by blast
  qed (use assms(1) in \<open>auto elim!: ec2_run [OF _ assms(2)] cloudformation_run [OF _ assms(2)]
      home_run [OF _ assms(2)] intro: home operations_keep\<close>)
qed

lemma live_calls_good:
  assumes "live_calls L models cs s = Some (s', rs)" and "live_inv P models s"
  shows "live_inv P models s' \<and> wrappers_kept s s' \<and> length rs = length cs"
  using assms
proof (induction cs arbitrary: s rs)
  case (Cons c cs)
  from Cons.prems(1) obtain s1 r1 rs1 where one: "live_call L models c s = Some (s1, r1)"
    and more: "live_calls L models cs s1 = Some (s', rs1)" and rs: "rs = r1 # rs1"
    by (auto split: option.splits)
  from live_call_good [OF one Cons.prems(2)] have "live_inv P models s1" "wrappers_kept s s1" by simp_all
  with Cons.IH [OF more] rs wrappers_kept_trans [of s s1 s'] show ?case by simp
qed simp

text \<open>The constructor: on a session that keeps the property, it makes a provider that does.\<close>

lemma boto_open:
  "boto (open_client models S service region) w = (w', Inr C) \<Longrightarrow>
     open_client models S service region w = (w', Inr C)"
  by (auto simp: boto_def map_sum_def split: prod.splits sum.splits)

lemma boto_open_world:
  "boto (open_client models S service region) w = (w', r) \<Longrightarrow>
     fst (open_client models S service region w) = w'"
  by (auto simp: boto_def split: prod.splits)

lemma init_clients_good:
  assumes "init_clients models S w = (w', Inr lv)" and "session_keeps P models S" and "P w"
  shows "live_inv P models (lv, w')"
proof -
  from assms(1) obtain sts w1 regions w2 pricing where
    1: "boto (open_client models S (lit ''sts'') (home_region S)) w = (w1, Inr sts)" and
    2: "boto (open_client models S (lit ''ec2'') (home_region S)) w1 = (w2, Inr regions)" and
    3: "boto (open_client models S (lit ''pricing'') (lit ''us-east-1'')) w2 = (w', Inr pricing)" and
    lv: "lv = \<lparr>lv_session = S, lv_sts = sts, lv_regions = regions, lv_pricing = pricing,
                lv_ec2 = Map.empty, lv_cloudformation = Map.empty\<rparr>"
    unfolding init_clients_def s_bind_Inr by auto
  note sts = open_client_keeps [OF assms(2,3) boto_open [OF 1]]
  note regions = open_client_keeps [OF assms(2) sts(1) boto_open [OF 2]]
  note pricing = open_client_keeps [OF assms(2) regions(1) boto_open [OF 3]]
  show ?thesis using assms(2) sts regions pricing by (simp add: live_inv_def lv)
qed

definition source_keeps ::
  "('w \<Rightarrow> bool) \<Rightarrow> (pystr \<Rightarrow> op_model) \<Rightarrow> (pystr option \<Rightarrow> pystr option \<Rightarrow> 'w \<Rightarrow> 'w \<times> (aws_exc + 'w aws_session)) \<Rightarrow>
   'w aws_session option \<Rightarrow> bool" where
  "source_keeps P models make_session given \<longleftrightarrow>
     (\<forall>S. given = Some S \<longrightarrow> session_keeps P models S) \<and>
     (\<forall>profile region w. P w \<longrightarrow> P (fst (make_session profile region w)) \<and>
        (\<forall>S. snd (make_session profile region w) = Inr S \<longrightarrow> session_keeps P models S))"

lemma aws_init_good:
  assumes "aws_init models make_session profile_name default_region given w = (w', Inr lv)"
    and "source_keeps P models make_session given" and "P w"
  shows "live_inv P models (lv, w')"
proof (cases given)
  case None
  with assms(1) obtain w1 S where made: "make_session profile_name default_region w = (w1, Inr S)"
    and init: "init_clients models S w1 = (w', Inr lv)"
    by (auto simp: aws_init_def s_bind_def boto_def map_sum_def split: prod.splits sum.splits)
  from assms(2,3) have "P (fst (make_session profile_name default_region w))"
    "\<forall>S. snd (make_session profile_name default_region w) = Inr S \<longrightarrow> session_keeps P models S"
    by (auto simp: source_keeps_def)
  with made init_clients_good [OF init] show ?thesis by simp
next
  case (Some S)
  with assms(1) have "init_clients models S w = (w', Inr lv)"
    by (auto simp: aws_init_def s_bind_def split: prod.splits sum.splits)
  with Some assms(2,3) init_clients_good show ?thesis by (auto simp: source_keeps_def)
qed

text \<open>Only the listing of locks may run for ever.\<close>

lemma live_call_total:
  assumes "\<And>region ids. c = C_locks region ids \<Longrightarrow> ids = []"
  shows "\<exists>out. live_call L models c s = Some out"
  using assms by (cases c) (auto simp: with_home_def with_wrapper_def split: prod.splits sum.splits)

lemma live_calls_total:
  assumes "\<forall>c \<in> set cs. \<forall>region ids. c = C_locks region ids \<longrightarrow> ids = []"
  shows "\<exists>out. live_calls L models cs s = Some out"
  using assms
proof (induction cs arbitrary: s)
  case (Cons c cs)
  then obtain s1 r1 where "live_call L models c s = Some (s1, r1)"
    using live_call_total [of c L models s] by auto
  with Cons.IH [of s1] Cons.prems show ?case by auto
qed simp

end
