(* ===== verification/ExampleAws.thy ===== *)
theory ExampleAws
  imports Example LiveProvider
begin

text \<open>
  An AWS of a few calls, for the properties of the live provider: a client that counts its
  calls and serves the volumes of \<open>Example\<close> in two pages, a method that is throttled twice, an
  endpoint with two pages and one whose pages never end, and a provider that answers
  differently every time.
\<close>

section \<open>A provider that changes its mind\<close>

definition failing :: "nat \<Rightarrow> nat \<times> (py_exc + 'a)" where
  "failing w = (Suc w, Inl (Prov (ProviderTransientError (show_nat w))))"

definition ex_live :: "nat live_provider" where
  "ex_live =
     \<lparr>lp_mode = LIVE, lp_get_identity = failing, lp_list_regions = failing,
      lp_list_volumes = (\<lambda>r. failing), lp_list_addresses = (\<lambda>r. failing),
      lp_list_instances = (\<lambda>r. failing), lp_list_snapshots = (\<lambda>r. failing),
      lp_list_images = (\<lambda>r. failing), lp_get_snapshot_attributes = (\<lambda>r i. failing),
      lp_get_snapshot_locks = (\<lambda>r is'. failing), lp_list_stack_resources = (\<lambda>r. failing),
      lp_get_prices = (\<lambda>s f. failing)\<rparr>"

lemma ex_live_replies:
  "snd (run_calls ex_live [C_regions, C_regions] (new_scoped 0)) !  0 =
     Inl (Prov (ProviderTransientError (show_nat 0)))"
  by (simp add: ex_live_def scoped_call_def memoize_def answered_def failing_def new_scoped_def
      del: show_nat.simps)

section \<open>A client\<close>

definition ex_lib :: pylib where
  "ex_lib =
     \<lparr>pl_str = (\<lambda>v. lit (type_name v)),
      pl_int = (\<lambda>v. Inl (TypeError (lit ''not a number''))), pl_json = (\<lambda>v. None)\<rparr>"

definition no_such_method :: aws_exc where
  "no_such_method =
     \<lparr>ae_class = X_Other, ae_code = None, ae_message = None, ae_text = lit ''no such method''\<rparr>"

definition throttling :: aws_exc where
  "throttling =
     \<lparr>ae_class = X_Other, ae_code = Some (lit ''Throttling''), ae_message = None,
      ae_text = lit ''slow down''\<rparr>"

definition volume_page :: "volume list \<Rightarrow> pyval" where
  "volume_page vs = VDict [(lit ''Volumes'', VList (map volume_value vs))]"

definition ex_client :: "nat aws_client" where
  "ex_client =
     \<lparr>cl_region = Some ex_region,
      cl_call = (\<lambda>name kwargs w. (Suc w, Inl no_such_method)),
      cl_pages = (\<lambda>name kwargs w.
        (Suc w, if name = lit ''describe_volumes''
                then Inr [volume_page [ex_volume], volume_page [ex_attached]]
                else Inl no_such_method))\<rparr>"

definition ex_clients :: "nat aws_clients" where
  "ex_clients =
     \<lparr>ac_sts = ex_client, ac_regions = ex_client, ac_pricing = ex_client,
      ac_ec2 = (\<lambda>region. ex_client), ac_cloudformation = (\<lambda>region. ex_client)\<rparr>"

lemma ex_client_yields:
  "yields (cl_pages (ac_ec2 ex_clients ex_region) (lit ''describe_volumes'') []) (lit ''Volumes'')
     (map (map volume_value) [[ex_volume], [ex_attached]]) 0"
  by (simp add: yields_def ex_clients_def ex_client_def volume_page_def)

lemma ex_volumes_ok:
  "\<forall>v \<in> set (concat [[ex_volume], [ex_attached]]).
     tags_ok (v_tags v) \<and> v_snapshot_id v \<noteq> Some []"
  by (simp add: ex_volume_def ex_attached_def tags_ok_def)

text \<open>The service model, with a deleting operation beside the reading ones.\<close>

definition ex_models :: "pystr \<Rightarrow> op_model" where
  "ex_models meth =
     (case map_of method_table meth of
        Some m \<Rightarrow> m
      | None \<Rightarrow> \<lparr>om_signing_name = lit ''ec2'', om_name = lit ''DeleteVolume''\<rparr>)"

lemma ex_models_ok: "models_ok ex_models"
proof -
  have "distinct (map fst method_table)" by (simp add: method_table_def)
  then show ?thesis by (auto simp: models_ok_def ex_models_def)
qed

lemma ex_models_delete:
  "operation_name (ex_models (lit ''delete_volume'')) = lit ''ec2:DeleteVolume''"
  "lit ''ec2:DeleteVolume'' \<notin> set allowed_operations"
  by (simp_all add: ex_models_def method_table_def operation_name_def allowed_operations_def)
     (simp add: lit_def lower_char_def)

section \<open>Retries and pages\<close>

definition ex_method :: "nat \<Rightarrow> nat \<times> (aws_exc + pyval)" where
  "ex_method w = (Suc w, if w < 2 then Inl throttling else Inr VNone)"

lemma ex_method_invoked:
  "invoke ex_method (lit ''ec2:DescribeRegions'') None 0 = (3, [1 / 2, 1], Inr VNone)"
  by (simp add: invoke_def ex_method_def throttled_def throttling_def client_error_code_def
      or_empty_def throttling_codes_def delay_def upt_rec)

definition ex_fetch :: "pyval option \<Rightarrow> nat \<Rightarrow> nat \<times> (aws_exc + pyval)" where
  "ex_fetch token w =
     (Suc w,
      Inr (if token = None
           then VDict [(lit ''Snapshots'', VList [VInt 1, VInt 2]),
                       (lit ''NextToken'', VStr (lit ''page''))]
           else VDict [(lit ''Snapshots'', VList [VInt 3])]))"

lemma ex_fetch_serves:
  "serves ex_fetch (lit ''Snapshots'') (\<lambda>k. VStr (lit ''page'')) [[VInt 1, VInt 2], [VInt 3]]"
  by (auto simp: serves_def ex_fetch_def less_Suc_eq numeral_2_eq_2)

definition ex_endless :: "pyval option \<Rightarrow> nat \<Rightarrow> nat \<times> (aws_exc + pyval)" where
  "ex_endless token w =
     (Suc w, Inr (VDict [(lit ''Snapshots'', VList []), (lit ''NextToken'', VStr (lit ''page''))]))"

lemma ex_endless_endless: "endless ex_endless (lit ''Snapshots'')"
  by (simp add: endless_def ex_endless_def)

section \<open>A session whose clients log the operations they are sent\<close>

definition log_client :: "pystr list aws_client" where
  "log_client =
     \<lparr>cl_region = Some ex_region,
      cl_call = (\<lambda>name kwargs sent. (sent @ [operation_name (ex_models name)], Inl no_such_method)),
      cl_pages = (\<lambda>name kwargs sent. (sent @ [operation_name (ex_models name)], Inl no_such_method))\<rparr>"

definition log_session :: "pystr list aws_session" where
  "log_session =
     \<lparr>ss_has_register = False, ss_has_events = True, ss_has_inner = True, ss_region_name = None,
      ss_create_client = None, ss_client = (\<lambda>service region sent. (sent, Inr log_client))\<rparr>"

definition no_session ::
  "pystr option \<Rightarrow> pystr option \<Rightarrow> pystr list \<Rightarrow> pystr list \<times> (aws_exc + pystr list aws_session)" where
  "no_session profile region sent = (sent, Inl no_such_method)"

definition log_reads :: "pystr list \<Rightarrow> bool" where
  "log_reads sent \<longleftrightarrow> (\<forall>operation \<in> set sent. reading operation)"

lemma log_source_keeps: "source_keeps log_reads ex_models no_session (Some log_session)"
proof -
  have "allowed_keep log_reads ex_models log_client"
    using allowed_reading by (auto simp: allowed_keep_def log_reads_def log_client_def)
  then have "session_keeps log_reads ex_models log_session"
    by (auto simp: session_keeps_def log_session_def make_client_def)
  then show ?thesis by (simp add: source_keeps_def no_session_def)
qed

lemma log_provider: "\<exists>lv. aws_init ex_models no_session None None (Some log_session) [] = ([], Inr lv)"
  by (simp add: aws_init_def init_clients_def install_operation_guard_def log_session_def boto_def
      open_client_def make_client_def s_bind_def)

end
