(* ===== verification/DecimalText.thy ===== *)
theory DecimalText
  imports PyDecimal Unicode
begin

text \<open>
  Decimals as text: \<open>str(d)\<close> and \<open>Decimal(s)\<close> of the standard library, which the pricing code
  uses to store prices in a payload and to read the prices and ranges of a price document.

  \<open>dec_str\<close> is \<open>Decimal.__str__\<close>: positional notation while the exponent is not positive and
  at most five zeros follow the point, scientific notation otherwise. \<open>dec_read\<close> is the
  constructor on a string: white space at both ends is stripped, underscores are dropped, the
  decimal digits of any script count as digits, and the rest is a number, an infinity or a NaN
  in letters of any case. The round trip \<open>dec_read (dec_str d)\<close> is exact for every decimal.
\<close>

section \<open>Printing\<close>

text \<open>\<open>"%+d" % n\<close>.\<close>

definition show_signed :: "int \<Rightarrow> pystr" where
  "show_signed n = (if n < 0 then show_int n else lit ''+'' @ show_int n)"

definition dec_str :: "decimal \<Rightarrow> pystr" where
  "dec_str d =
     (let digits = show_nat (nat \<bar>coeff d\<bar>);
          len = int (length digits);
          leftdigits = expo d + len;
          dotplace = (if expo d \<le> 0 \<and> leftdigits > - 6 then leftdigits else 1);
          (intpart, fracpart) =
            (if dotplace \<le> 0 then (lit ''0'', lit ''.'' @ replicate (nat (- dotplace)) 48 @ digits)
             else if dotplace \<ge> len then (digits @ replicate (nat (dotplace - len)) 48, [])
             else (take (nat dotplace) digits, lit ''.'' @ drop (nat dotplace) digits))
      in (if coeff d < 0 then lit ''-'' else []) @ intpart @ fracpart @
         (if leftdigits = dotplace then [] else lit ''E'' @ show_signed (leftdigits - dotplace)))"

section \<open>Reading\<close>

text \<open>What \<open>Decimal(s)\<close> gives; \<open>None\<close> below stands for \<open>decimal.InvalidOperation\<close>.\<close>

datatype py_decimal = Finite decimal | Infinite | Not_a_number

text \<open>The ASCII digit of a decimal digit of any script; other characters stay.\<close>

definition to_ascii_digit :: "nat \<Rightarrow> nat" where
  "to_ascii_digit c =
     (case find (\<lambda>z. z \<le> c \<and> c < z + 10) nd_zeros of None \<Rightarrow> c | Some z \<Rightarrow> 48 + (c - z))"

definition numeric_text :: "pystr \<Rightarrow> pystr" where
  "numeric_text s = map to_ascii_digit (filter (\<lambda>c. c \<noteq> 95) (strip s))"

definition is_sign :: "nat \<Rightarrow> bool" where
  "is_sign c \<longleftrightarrow> c = 43 \<or> c = 45"

text \<open>An optional \<open>[-+]\<close>: whether it is a minus, and the rest.\<close>

fun read_sign :: "pystr \<Rightarrow> bool \<times> pystr" where
  "read_sign [] = (False, [])"
| "read_sign (c # s) = (if is_sign c then (c = 45, s) else (False, c # s))"

text \<open>The longest run of ASCII digits.\<close>

definition read_digits :: "pystr \<Rightarrow> pystr \<times> pystr" where
  "read_digits s = (takeWhile ascii_digit s, dropWhile ascii_digit s)"

text \<open>\<open>(E(?P<exp>[-+]?\d+))?\<close> up to the end of the text.\<close>

fun read_exponent :: "pystr \<Rightarrow> int option" where
  "read_exponent [] = Some 0"
| "read_exponent (c # s) =
     (if c \<noteq> 69 \<and> c \<noteq> 101 then None
      else case read_sign s of
             (neg, t) \<Rightarrow>
               (if t \<noteq> [] \<and> list_all ascii_digit t
                then Some (if neg then - int (digits_value t) else int (digits_value t))
                else None))"

text \<open>An optional point and the digits after it.\<close>

fun read_fraction :: "pystr \<Rightarrow> pystr \<times> pystr" where
  "read_fraction [] = ([], [])"
| "read_fraction (c # s) = (if c = 46 then read_digits s else ([], c # s))"

definition read_number :: "pystr \<Rightarrow> (nat \<times> int) option" where
  "read_number s =
     (let (ip, rest) = read_digits s; (fp, rest') = read_fraction rest
      in if ip = [] \<and> fp = [] then None
         else case read_exponent rest' of
                None \<Rightarrow> None
              | Some e \<Rightarrow> Some (digits_value (ip @ fp), e - int (length fp)))"

definition is_infinity :: "pystr \<Rightarrow> bool" where
  "is_infinity s \<longleftrightarrow> map lower_char s \<in> {lit ''inf'', lit ''infinity''}"

text \<open>\<open>s?NaN\<close> with diagnostic digits.\<close>

definition is_nan :: "pystr \<Rightarrow> bool" where
  "is_nan s \<longleftrightarrow>
     (let t = map lower_char s; u = (if starts_with t (lit ''s'') then drop 1 t else t)
      in starts_with u (lit ''nan'') \<and> list_all ascii_digit (drop 3 u))"

definition dec_read :: "pystr \<Rightarrow> py_decimal option" where
  "dec_read s =
     (let (neg, body) = read_sign (numeric_text s)
      in case read_number body of
           Some (c, e) \<Rightarrow> Some (Finite (Dec (if neg then - int c else int c) e))
         | None \<Rightarrow>
             (if is_infinity body then Some Infinite
              else if is_nan body then Some Not_a_number
              else None))"

text \<open>\<open>int(d)\<close> truncates towards zero.\<close>

definition dec_to_int :: "decimal \<Rightarrow> int" where
  "dec_to_int d =
     (if 0 \<le> expo d then coeff d * 10 ^ nat (expo d)
      else sgn (coeff d) * (\<bar>coeff d\<bar> div 10 ^ nat (- expo d)))"

section \<open>The round trip\<close>

text \<open>Texts of the characters that printing uses are left alone by \<open>numeric_text\<close>.\<close>

definition plain_char :: "nat \<Rightarrow> bool" where
  "plain_char c \<longleftrightarrow> ascii_digit c \<or> c = 43 \<or> c = 45 \<or> c = 46 \<or> c = 69"

lemma to_ascii_digit_ascii:
  assumes "c < 128"
  shows "to_ascii_digit c = c"
proof (cases "find (\<lambda>z. z \<le> c \<and> c < z + 10) nd_zeros")
  case (Some z)
  then have "z \<in> set nd_zeros" and "z \<le> c" by (auto simp: find_Some_iff)
  then have "z = 48" using assms nd_zeros_ascii by fastforce
  with Some \<open>z \<le> c\<close> show ?thesis by (simp add: to_ascii_digit_def)
qed (simp add: to_ascii_digit_def)

lemma plain_char_facts:
  assumes "plain_char c"
  shows "\<not> py_space c" and "c \<noteq> 95" and "to_ascii_digit c = c"
  using assms by (auto simp: plain_char_def ascii_digit_def py_space_def to_ascii_digit_ascii)

lemma dropWhile_none: "\<forall>c \<in> set s. \<not> P c \<Longrightarrow> dropWhile P s = s"
  by (cases s) auto

lemma numeric_text_plain:
  assumes "\<forall>c \<in> set s. plain_char c"
  shows "numeric_text s = s"
proof -
  have "strip s = s"
    using assms by (simp add: strip_def dropWhile_none plain_char_facts)
  moreover have "filter (\<lambda>c. c \<noteq> 95) s = s"
    using assms by (simp add: filter_id_conv plain_char_facts)
  moreover have "map to_ascii_digit s = s"
    using assms by (induction s) (auto simp: plain_char_facts)
  ultimately show ?thesis by (simp add: numeric_text_def)
qed

lemma show_nat_ascii: "c \<in> set (show_nat n) \<Longrightarrow> ascii_digit c"
  using show_nat_digits by (simp add: ascii_digit_def)

lemma ascii_digit_48 [simp]: "ascii_digit 48"
  by (simp add: ascii_digit_def)

lemma read_digits_append:
  assumes "\<forall>c \<in> set ds. ascii_digit c" and "rest = [] \<or> \<not> ascii_digit (hd rest)"
  shows "read_digits (ds @ rest) = (ds, rest)"
  using assms by (cases rest) (auto simp: read_digits_def takeWhile_append dropWhile_append)

lemma digits_value_append:
  "digits_value (xs @ ys) = digits_value xs * 10 ^ length ys + digits_value ys"
  by (induction ys rule: rev_induct)
     (simp_all add: digits_value_snoc algebra_simps digits_value_def [of "[]"]
        flip: append_assoc)

lemma digits_value_zeros [simp]: "digits_value (replicate n 48) = 0"
  by (induction n) (simp_all add: digits_value_def)

lemma digits_value_leading_zeros [simp]: "digits_value (48 # ds) = digits_value ds"
  by (simp add: digits_value_def)

text \<open>The exponent part, printed and read.\<close>

definition exponent_text :: "int \<Rightarrow> pystr" where
  "exponent_text n = (if n = 0 then [] else lit ''E'' @ show_signed n)"

lemma read_exponent_text: "read_exponent (exponent_text n) = Some n"
  by (auto simp: exponent_text_def show_signed_def show_int_def lit_def is_sign_def
      list_all_iff show_nat_ascii digits_value_show_nat)

lemma exponent_text_head: "exponent_text n = [] \<or> hd (exponent_text n) = 69"
  by (simp add: exponent_text_def lit_def)

lemma exponent_text_plain: "c \<in> set (exponent_text n) \<Longrightarrow> plain_char c"
  by (auto simp: exponent_text_def show_signed_def show_int_def lit_def plain_char_def
      show_nat_ascii split: if_splits)

text \<open>A number made of digits, an optional fraction and an exponent.\<close>

lemma read_number_text:
  assumes "\<forall>c \<in> set ip. ascii_digit c" and "\<forall>c \<in> set fp. ascii_digit c" and "ip \<noteq> []"
  shows "read_number (ip @ (if fp = [] then [] else lit ''.'' @ fp) @ exponent_text n) =
    Some (digits_value (ip @ fp), n - int (length fp))"
proof -
  let ?rest = "(if fp = [] then [] else lit ''.'' @ fp) @ exponent_text n"
  have "?rest = [] \<or> \<not> ascii_digit (hd ?rest)"
    using exponent_text_head [of n] by (auto simp: lit_def ascii_digit_def)
  then have ip: "read_digits (ip @ ?rest) = (ip, ?rest)"
    using assms(1) by (rule read_digits_append [rotated])
  have "exponent_text n = [] \<or> \<not> ascii_digit (hd (exponent_text n))"
    using exponent_text_head [of n] by (auto simp: ascii_digit_def)
  then have fp: "read_digits (fp @ exponent_text n) = (fp, exponent_text n)"
    using assms(2) by (rule read_digits_append [rotated])
  have "read_fraction ?rest = (fp, exponent_text n)"
    using fp exponent_text_head [of n] by (cases "exponent_text n") (auto simp: lit_def)
  with ip assms(3) show ?thesis by (simp add: read_number_def read_exponent_text)
qed

lemma dec_read_text:
  assumes "\<forall>c \<in> set ip. ascii_digit c" and "\<forall>c \<in> set fp. ascii_digit c" and "ip \<noteq> []"
  shows "dec_read ((if neg then lit ''-'' else []) @ ip @
      (if fp = [] then [] else lit ''.'' @ fp) @ exponent_text n) =
    Some (Finite (Dec (if neg then - int (digits_value (ip @ fp))
                       else int (digits_value (ip @ fp))) (n - int (length fp))))"
proof -
  let ?body = "ip @ (if fp = [] then [] else lit ''.'' @ fp) @ exponent_text n"
  have "\<forall>c \<in> set ((if neg then lit ''-'' else []) @ ?body). plain_char c"
    using assms(1,2) by (auto simp: plain_char_def lit_def dest: exponent_text_plain)
  then have "numeric_text ((if neg then lit ''-'' else []) @ ?body) =
      (if neg then lit ''-'' else []) @ ?body" by (rule numeric_text_plain)
  moreover have "read_sign ((if neg then lit ''-'' else []) @ ?body) = (neg, ?body)"
    using assms(1,3) by (cases ip) (auto simp: lit_def is_sign_def ascii_digit_def)
  ultimately show ?thesis
    using read_number_text [OF assms, of n] by (simp add: dec_read_def)
qed

text \<open>The printed text has that form.\<close>

lemma dec_str_form:
  obtains ip fp n where "dec_str d =
      (if coeff d < 0 then lit ''-'' else []) @ ip @ (if fp = [] then [] else lit ''.'' @ fp) @
      exponent_text n"
    and "\<forall>c \<in> set ip. ascii_digit c" and "\<forall>c \<in> set fp. ascii_digit c" and "ip \<noteq> []"
    and "digits_value (ip @ fp) = nat \<bar>coeff d\<bar>" and "n - int (length fp) = expo d"
proof -
  let ?ds = "show_nat (nat \<bar>coeff d\<bar>)"
  let ?len = "int (length ?ds)"
  define left where "left = expo d + ?len"
  define dot where "dot = (if expo d \<le> 0 \<and> left > - 6 then left else 1)"
  have ds: "\<forall>c \<in> set ?ds. ascii_digit c" by (simp add: show_nat_ascii)
  have len: "1 \<le> ?len" by (cases ?ds) (auto dest: arg_cong [of _ _ length])
  have str: "dec_str d = (if coeff d < 0 then lit ''-'' else []) @
      (if dot \<le> 0 then lit ''0'' @ lit ''.'' @ replicate (nat (- dot)) 48 @ ?ds
       else if ?len \<le> dot then ?ds @ replicate (nat (dot - ?len)) 48
       else take (nat dot) ?ds @ lit ''.'' @ drop (nat dot) ?ds) @ exponent_text (left - dot)"
    unfolding dec_str_def Let_def left_def [symmetric] dot_def [symmetric]
    by (cases "dot \<le> 0"; cases "?len \<le> dot") (simp_all add: exponent_text_def)
  consider (small) "dot \<le> 0" | (whole) "0 < dot" "?len \<le> dot" | (inside) "0 < dot" "dot < ?len"
    by linarith
  then show thesis
  proof cases
    case small
    then have dot: "dot = left" by (auto simp: dot_def split: if_splits)
    have n: "left - dot - int (length (replicate (nat (- dot)) 48 @ ?ds)) = expo d"
      using small by (simp add: dot left_def)
    show thesis
      by (rule that [of "lit ''0''" "replicate (nat (- dot)) 48 @ ?ds", OF _ _ _ _ _ n])
         (use ds small in \<open>auto simp: str lit_def digits_value_append digits_value_show_nat\<close>)
  next
    case whole
    then have dot: "dot = ?len" using len by (auto simp: dot_def left_def split: if_splits)
    have n: "left - dot - int (length ([] :: pystr)) = expo d" by (simp add: dot left_def)
    show thesis
      by (rule that [of ?ds "[]", OF _ _ _ _ _ n])
         (use ds whole in \<open>auto simp: str dot digits_value_show_nat\<close>)
  next
    case inside
    then have k: "nat dot < length ?ds" by simp
    have n: "left - dot - int (length (drop (nat dot) ?ds)) = expo d"
      using inside k by (simp add: left_def of_nat_diff)
    show thesis
      by (rule that [of "take (nat dot) ?ds" "drop (nat dot) ?ds", OF _ _ _ _ _ n])
         (use ds inside k in \<open>auto simp: str digits_value_show_nat
            dest: in_set_takeD in_set_dropD\<close>)
  qed
qed

lemma dec_read_str [simp]: "dec_read (dec_str d) = Some (Finite d)"
proof -
  obtain ip fp n where "dec_str d =
      (if coeff d < 0 then lit ''-'' else []) @ ip @ (if fp = [] then [] else lit ''.'' @ fp) @
      exponent_text n"
    and "\<forall>c \<in> set ip. ascii_digit c" "\<forall>c \<in> set fp. ascii_digit c" "ip \<noteq> []"
    and v: "digits_value (ip @ fp) = nat \<bar>coeff d\<bar>" and x: "n - int (length fp) = expo d"
    by (rule dec_str_form)
  note form = this
  have "dec_read (dec_str d) = Some (Finite (Dec (if coeff d < 0
      then - int (digits_value (ip @ fp)) else int (digits_value (ip @ fp)))
      (n - int (length fp))))"
    unfolding form(1) by (rule dec_read_text [OF form(2-4)])
  then show ?thesis by (cases d) (simp add: v x)
qed

lemma dec_str_nonempty [simp]: "dec_str d \<noteq> []"
proof
  assume "dec_str d = []"
  moreover obtain ip fp n where "dec_str d =
      (if coeff d < 0 then lit ''-'' else []) @ ip @ (if fp = [] then [] else lit ''.'' @ fp) @
      exponent_text n" and "ip \<noteq> []" by (rule dec_str_form)
  ultimately show False by simp
qed

lemma dec_read_examples:
  "dec_read (lit '' 0.1_250 '') = Some (Finite (Dec 1250 (-4)))"
  "dec_read (lit ''.5'') = Some (Finite (Dec 5 (-1)))"
  "dec_read (lit ''-Infinity'') = Some Infinite"
  "dec_read (lit ''sNaN12'') = Some Not_a_number"
  "dec_read (lit ''1,5'') = None"
  by (simp_all add: dec_read_def numeric_text_def strip_def py_space_def lit_def is_sign_def
      to_ascii_digit_ascii read_number_def read_digits_def ascii_digit_def digits_value_def
      is_infinity_def is_nan_def lower_char_def)

end
