(* ===== verification/IsoTime.thy ===== *)
theory IsoTime
  imports PyTime Unicode
begin

text \<open>
  \<open>datetime.fromisoformat\<close> on the texts that \<open>datetime.isoformat\<close> writes: the date, the time
  with or without microseconds, and an optional offset in hours and minutes. The reader is a
  chain of fixed-width fields; \<open>None\<close> means that the text is none of these (the standard
  library accepts more, which its users here take as a parameter). The round trip with
  \<open>datetime_iso_utc\<close> covers every instant of the years 1 to 9999.
\<close>

section \<open>The calendar, backwards\<close>

definition day_of_ymd :: "int \<Rightarrow> int \<Rightarrow> int \<Rightarrow> int" where
  "day_of_ymd y m d =
     days_before_year y + sum_list (take (nat (m - 1)) (month_lengths y)) + (d - 1)"

definition valid_ymd :: "int \<Rightarrow> int \<Rightarrow> int \<Rightarrow> bool" where
  "valid_ymd y m d \<longleftrightarrow>
     1 \<le> y \<and> y \<le> 9999 \<and> 1 \<le> m \<and> m \<le> 12 \<and> 1 \<le> d \<and> d \<le> month_lengths y ! nat (m - 1)"

text \<open>The days of the years 1 to 9999, and their instants.\<close>

definition max_day :: int where "max_day = 3652059"

definition in_calendar :: "instant \<Rightarrow> bool" where
  "in_calendar t \<longleftrightarrow> 0 \<le> t \<and> t < max_day * us_per_day"

lemma find_month_inverse:
  assumes "0 \<le> d" and "d < sum_list ls" and "find_month ls m d = (m', dd)"
  shows "\<exists>k < length ls. m' = m + int k \<and> 1 \<le> dd \<and> dd \<le> ls ! k \<and>
           sum_list (take k ls) + (dd - 1) = d"
  using assms
proof (induction ls m d rule: find_month.induct)
  case (2 l ls m d)
  show ?case
  proof (cases "d < l")
    case False
    with 2 obtain k where "k < length ls" "m' = m + 1 + int k" "1 \<le> dd" "dd \<le> ls ! k"
      "sum_list (take k ls) + (dd - 1) = d - l" by auto
    then show ?thesis by (intro exI [of _ "Suc k"]) auto
  qed (use 2 in auto)
qed simp

lemma year_lengths: "sum_list (month_lengths y) = (if is_leap y then 366 else 365)"
  by (simp add: month_lengths_def)

text \<open>The number of days before a year, from the digits of its cycles.\<close>

lemma days_before_cycles:
  assumes "0 \<le> c1" "c1 \<le> 3" "0 \<le> c4" "c4 \<le> 24" "0 \<le> c100" "c100 \<le> 3"
  shows "days_before_year (c400 * 400 + 1 + c100 * 100 + c4 * 4 + c1) =
    c400 * 146097 + c100 * 36524 + c4 * 1461 + c1 * 365"
proof -
  let ?z = "c400 * 400 + c100 * 100 + c4 * 4 + c1"
  have "?z div 4 = c400 * 100 + c100 * 25 + c4" using assms by linarith
  moreover have "?z div 100 = c400 * 4 + c100" using assms by linarith
  moreover have "?z div 400 = c400" using assms by linarith
  moreover have "c400 * 400 + 1 + c100 * 100 + c4 * 4 + c1 - 1 = ?z" by simp
  ultimately have "days_before_year (c400 * 400 + 1 + c100 * 100 + c4 * 4 + c1) =
      ?z * 365 + (c400 * 100 + c100 * 25 + c4) - (c400 * 4 + c100) + c400"
    unfolding days_before_year_def Let_def by (simp only:)
  then show ?thesis by simp
qed

lemma cycle_bounds:
  fixes n :: int
  assumes "a = n mod 146097" "b = a mod 36524" "c = b mod 1461"
  shows "0 \<le> a div 36524" "a div 36524 \<le> 4" "0 \<le> b div 1461" "b div 1461 \<le> 24"
    "0 \<le> c div 365" "c div 365 \<le> 4" "a div 36524 = 4 \<Longrightarrow> b = 0" "c div 365 = 4 \<Longrightarrow> c = 1460"
proof -
  have a: "0 \<le> a" "a < 146097" and b: "0 \<le> b" "b < 36524" and c: "0 \<le> c" "c < 1461"
    using assms by auto
  show "0 \<le> a div 36524" "a div 36524 \<le> 4" "0 \<le> b div 1461" "b div 1461 \<le> 24"
    "0 \<le> c div 365" "c div 365 \<le> 4" using a b c by linarith+
  have "a = a div 36524 * 36524 + b" by (simp add: assms(2))
  then show "a div 36524 = 4 \<Longrightarrow> b = 0" using a b by linarith
  show "c div 365 = 4 \<Longrightarrow> c = 1460" using c by linarith
qed

lemma leap_after_four:
  assumes "0 \<le> c4" "c4 < 24"
  shows "is_leap (c400 * 400 + 1 + c100 * 100 + c4 * 4 + 3)"
proof -
  let ?y = "c400 * 400 + 1 + c100 * 100 + c4 * 4 + 3"
  have "?y = (c4 * 4 + 4) + 100 * (c400 * 4 + c100)" by simp
  then have "?y mod 100 = (c4 * 4 + 4) mod 100" by (metis mod_mult_self2)
  also have "\<dots> = c4 * 4 + 4" using assms by simp
  finally have "?y mod 100 \<noteq> 0" using assms(1) by simp
  moreover have "?y = 4 * (c400 * 100 + c100 * 25 + c4 + 1)" by simp
  then have "?y mod 4 = 0" by (metis mod_mult_self1_is_0)
  ultimately show ?thesis by (simp add: is_leap_def)
qed

lemma leap_400: "is_leap (c400 * 400 + 400)"
  by (simp add: is_leap_def)

lemma december_31: "is_leap y \<Longrightarrow> day_of_ymd y 12 31 = days_before_year y + 365"
  by (simp add: day_of_ymd_def month_lengths_def numeral_eq_Suc)

lemma ymd_of_day_inverse:
  assumes "ymd_of_day n = (y, m, d)"
  shows "day_of_ymd y m d = n" and "1 \<le> m" and "m \<le> 12" and "1 \<le> d"
    and "d \<le> month_lengths y ! nat (m - 1)"
proof -
  define c400 where "c400 = n div 146097"
  define a where "a = n mod 146097"
  define c100 where "c100 = a div 36524"
  define b where "b = a mod 36524"
  define c4 where "c4 = b div 1461"
  define c where "c = b mod 1461"
  define c1 where "c1 = c div 365"
  define e where "e = c mod 365"
  define year where "year = c400 * 400 + 1 + c100 * 100 + c4 * 4 + c1"
  note bounds = cycle_bounds [OF a_def b_def c_def, folded c100_def c4_def c1_def]
  have n: "n = c400 * 146097 + c100 * 36524 + c4 * 1461 + c1 * 365 + e"
    unfolding c400_def c100_def c4_def c1_def e_def c_def b_def a_def
    by (simp add: algebra_simps)
  have ymd: "(y, m, d) =
      (if c1 = 4 \<or> c100 = 4 then (year - 1, 12, 31)
       else (case find_month (month_lengths year) 1 e of (m, dd) \<Rightarrow> (year, m, dd)))"
    using assms unfolding ymd_of_day_def Let_def year_def e_def c1_def c_def c4_def b_def c100_def
      a_def c400_def by simp
  have e: "0 \<le> e" "e < 365" by (simp_all add: e_def)
  consider (last) "c100 = 4" | (leap) "c100 \<noteq> 4" "c1 = 4" | (usual) "c100 \<noteq> 4" "c1 \<noteq> 4" by blast
  then have "day_of_ymd y m d = n \<and> 1 \<le> m \<and> m \<le> 12 \<and> 1 \<le> d \<and> d \<le> month_lengths y ! nat (m - 1)"
  proof cases
    case last
    with bounds have b0: "b = 0" by blast
    then have z: "c4 = 0" "c1 = 0" "e = 0" by (simp_all add: c4_def c1_def e_def c_def)
    with ymd last have y: "y = c400 * 400 + 400" "m = 12" "d = 31" by (simp_all add: year_def)
    have "c400 * 400 + 400 = c400 * 400 + 1 + 3 * 100 + 24 * 4 + 3" by simp
    then have "days_before_year y = c400 * 146097 + 3 * 36524 + 24 * 1461 + 3 * 365"
      using days_before_cycles [of 3 24 3 c400] y(1) by (simp add: add.commute)
    then show ?thesis
      using december_31 [of y] leap_400 [of c400] y z last n by (simp add: month_lengths_def)
  next
    case leap
    with bounds have c: "c = 1460" by blast
    then have z: "e = 0" by (simp add: e_def)
    have "c4 \<noteq> 24"
    proof
      assume "c4 = 24"
      have "b = c4 * 1461 + c" by (simp add: c4_def c_def)
      with \<open>c4 = 24\<close> c have "b = 36524" by simp
      moreover have "b < 36524" by (simp add: b_def)
      ultimately show False by simp
    qed
    then have c4: "c4 < 24" using bounds by simp
    with ymd leap have y: "y = c400 * 400 + 1 + c100 * 100 + c4 * 4 + 3" "m = 12" "d = 31"
      by (simp_all add: year_def)
    have "days_before_year y = c400 * 146097 + c100 * 36524 + c4 * 1461 + 3 * 365"
      unfolding y using bounds leap c4 by (intro days_before_cycles) auto
    then show ?thesis
      using december_31 [of y] leap_after_four [of c4 c400 c100] bounds(3) c4 y z leap n
      by (simp add: month_lengths_def)
  next
    case usual
    have year: "days_before_year year = c400 * 146097 + c100 * 36524 + c4 * 1461 + c1 * 365"
      unfolding year_def using bounds usual by (intro days_before_cycles) auto
    obtain m' dd where f: "find_month (month_lengths year) 1 e = (m', dd)" by fastforce
    with ymd usual have y: "y = year" "m = m'" "d = dd" by simp_all
    have "e < sum_list (month_lengths year)" using e(2) year_lengths [of year] by simp
    from find_month_inverse [OF e(1) this f] obtain k where k: "k < length (month_lengths year)"
      "m' = 1 + int k" "1 \<le> dd" "dd \<le> month_lengths year ! k"
      "sum_list (take k (month_lengths year)) + (dd - 1) = e" by blast
    have "length (month_lengths year) = 12" by (simp add: month_lengths_def)
    with k y year n show ?thesis by (simp add: day_of_ymd_def)
  qed
  then show "day_of_ymd y m d = n" "1 \<le> m" "m \<le> 12" "1 \<le> d" "d \<le> month_lengths y ! nat (m - 1)"
    by blast+
qed

text \<open>The days of the calendar have years 1 to 9999.\<close>

lemma last_year:
  fixes n :: int
  assumes "n < 3652059" and "a = n mod 146097" "b = a mod 36524" "c = b mod 1461"
  shows "n div 146097 * 400 + 1 + a div 36524 * 100 + b div 1461 * 4 + c div 365 \<le> 9999"
proof -
  note bounds = cycle_bounds [OF assms(2-4)]
  have n: "n = n div 146097 * 146097 + a" and a: "a = a div 36524 * 36524 + b"
    and b: "b = b div 1461 * 1461 + c" using assms(2-4) by simp_all
  have pos: "0 \<le> a" "0 \<le> b" "0 \<le> c" using assms(2-4) by simp_all
  have c400: "n div 146097 \<le> 24" using n pos assms(1) by linarith
  show ?thesis
  proof (cases "n div 146097 = 24 \<and> a div 36524 = 3 \<and> b div 1461 = 24")
    case True
    then have "c \<le> 1094" using n a b assms(1) by linarith
    then have "c div 365 \<le> 2" by linarith
    with True show ?thesis by simp
  next
    case False
    have "n div 146097 = 24 \<Longrightarrow> a div 36524 \<le> 3" using n a pos assms(1) by linarith
    with False c400 bounds(2,4,6) show ?thesis by linarith
  qed
qed

lemma year_bounds:
  assumes "ymd_of_day n = (y, m, d)" and "0 \<le> n" and "n < max_day"
  shows "1 \<le> y" and "y \<le> 9999"
proof -
  define a where "a = n mod 146097"
  define b where "b = a mod 36524"
  define c where "c = b mod 1461"
  note bounds = cycle_bounds [OF a_def b_def c_def]
  define year where "year = n div 146097 * 400 + 1 + a div 36524 * 100 + b div 1461 * 4 + c div 365"
  obtain m' d' where f: "find_month (month_lengths year) 1 (c mod 365) = (m', d')" by fastforce
  have "(y, m, d) =
      (if c div 365 = 4 \<or> a div 36524 = 4 then (year - 1, 12, 31)
       else (case find_month (month_lengths year) 1 (c mod 365) of (m, dd) \<Rightarrow> (year, m, dd)))"
    using assms(1) unfolding ymd_of_day_def Let_def year_def c_def b_def a_def by simp
  then have y: "y = year \<or> y = year - 1 \<and> (c div 365 = 4 \<or> a div 36524 = 4)"
    unfolding f by (simp split: if_splits)
  have first: "1 \<le> y" if "0 \<le> i" "0 \<le> j" "0 \<le> k" "0 \<le> l" "year = i * 400 + 1 + j * 100 + k * 4 + l"
    "y = year \<or> y = year - 1 \<and> (l = 4 \<or> j = 4)" for i j k l :: int
    using that by linarith
  have "0 \<le> n div 146097" using assms(2) by simp
  from first [OF this bounds(1,3,5) year_def y] show "1 \<le> y" .
  have "year \<le> 9999"
    unfolding year_def using assms(3) a_def b_def c_def by (intro last_year) (simp_all add: max_day_def)
  with y show "y \<le> 9999" by auto
qed

section \<open>Reading\<close>

text \<open>A field of \<open>w\<close> digits and a fixed character, with the rest of the text.\<close>

definition read_field :: "nat \<Rightarrow> pystr \<Rightarrow> (int \<times> pystr) option" where
  "read_field w s =
     (let f = take w s
      in if length f = w \<and> list_all ascii_digit f then Some (int (digits_value f), drop w s)
         else None)"

fun expect :: "nat \<Rightarrow> pystr \<Rightarrow> pystr option" where
  "expect c [] = None"
| "expect c (x # s) = (if x = c then Some s else None)"

text \<open>\<open>YYYY-MM-DD\<close> as a day number.\<close>

definition read_date :: "pystr \<Rightarrow> (int \<times> pystr) option" where
  "read_date s =
     Option.bind (read_field 4 s) (\<lambda>(y, s).
     Option.bind (expect 45 s) (\<lambda>s.
     Option.bind (read_field 2 s) (\<lambda>(m, s).
     Option.bind (expect 45 s) (\<lambda>s.
     Option.bind (read_field 2 s) (\<lambda>(d, s).
       if valid_ymd y m d then Some (day_of_ymd y m d, s) else None)))))"

text \<open>\<open>HH:MM:SS\<close> in seconds.\<close>

definition read_time :: "pystr \<Rightarrow> (int \<times> pystr) option" where
  "read_time s =
     Option.bind (read_field 2 s) (\<lambda>(h, s).
     Option.bind (expect 58 s) (\<lambda>s.
     Option.bind (read_field 2 s) (\<lambda>(m, s).
     Option.bind (expect 58 s) (\<lambda>s.
     Option.bind (read_field 2 s) (\<lambda>(sec, s).
       if h < 24 \<and> m < 60 \<and> sec < 60 then Some (h * 3600 + m * 60 + sec, s) else None)))))"

text \<open>An optional fraction of six digits.\<close>

fun read_micro :: "pystr \<Rightarrow> (int \<times> pystr) option" where
  "read_micro [] = Some (0, [])"
| "read_micro (c # s) = (if c = 46 then read_field 6 s else Some (0, c # s))"

text \<open>Nothing, or an offset \<open>+HH:MM\<close> or \<open>-HH:MM\<close> up to the end.\<close>

fun read_offset :: "pystr \<Rightarrow> int option option" where
  "read_offset [] = Some None"
| "read_offset (c # s) =
     (if c \<noteq> 43 \<and> c \<noteq> 45 then None
      else Option.bind (read_field 2 s) (\<lambda>(h, s).
           Option.bind (expect 58 s) (\<lambda>s.
           Option.bind (read_field 2 s) (\<lambda>(m, s).
             if s = [] \<and> h < 24 \<and> m < 60
             then Some (Some ((if c = 45 then -1 else 1) * (h * 3600 + m * 60) * us_per_second))
             else None))))"

definition read_iso :: "pystr \<Rightarrow> datetime option" where
  "read_iso s =
     Option.bind (read_date s) (\<lambda>(day, s).
     Option.bind (expect 84 s) (\<lambda>s.
     Option.bind (read_time s) (\<lambda>(sec, s).
     Option.bind (read_micro s) (\<lambda>(us, s).
     Option.bind (read_offset s) (\<lambda>off.
       Some \<lparr>wall = day * us_per_day + sec * us_per_second + us, utcoffset = off\<rparr>)))))"

section \<open>The round trip\<close>

lemma length_show_nat: "n < 10 ^ Suc k \<Longrightarrow> length (show_nat n) \<le> Suc k"
proof (induction k arbitrary: n)
  case 0
  then show ?case by (simp add: show_nat.simps [of n])
next
  case (Suc k)
  then have "n div 10 < 10 ^ Suc k" by (simp add: less_mult_imp_div_less mult.commute)
  with Suc.IH [of "n div 10"] show ?case by (subst show_nat.simps) auto
qed

lemma pad_facts:
  assumes "0 \<le> i" and "i < 10 ^ Suc k"
  shows "length (pad (Suc k) i) = Suc k" and "\<forall>c \<in> set (pad (Suc k) i). ascii_digit c"
    and "digits_value (pad (Suc k) i) = nat i"
proof -
  have "nat i < 10 ^ Suc k" using assms by (simp add: nat_less_iff)
  then have l: "length (show_nat (nat i)) \<le> Suc k" by (rule length_show_nat)
  have p: "pad (Suc k) i = replicate (Suc k - length (show_nat (nat i))) 48 @ show_nat (nat i)"
    using assms(1) by (simp add: pad_def show_int_def Let_def)
  show "length (pad (Suc k) i) = Suc k" using l by (simp add: p)
  show "\<forall>c \<in> set (pad (Suc k) i). ascii_digit c"
    using show_nat_digits by (auto simp: p ascii_digit_def)
  have "digits_value (replicate n 48 @ ds) = digits_value ds" for n ds
    by (induction n) (simp_all add: digits_value_def)
  then show "digits_value (pad (Suc k) i) = nat i" by (simp add: p digits_value_show_nat)
qed

lemma read_field_pad:
  assumes "0 \<le> i" and "i < 10 ^ Suc k"
  shows "read_field (Suc k) (pad (Suc k) i @ rest) = Some (i, rest)"
  using pad_facts [OF assms] assms(1) by (simp add: read_field_def list_all_iff)

lemma read_pad [simp]:
  "0 \<le> i \<Longrightarrow> i < 100 \<Longrightarrow> read_field 2 (pad 2 i @ rest) = Some (i, rest)"
  "0 \<le> i \<Longrightarrow> i < 10000 \<Longrightarrow> read_field 4 (pad 4 i @ rest) = Some (i, rest)"
  "0 \<le> i \<Longrightarrow> i < 1000000 \<Longrightarrow> read_field 6 (pad 6 i @ rest) = Some (i, rest)"
  using read_field_pad [of i 1 rest] read_field_pad [of i 3 rest] read_field_pad [of i 5 rest]
  by (simp_all add: numeral_eq_Suc)

lemma expect_lit [simp]:
  "expect 45 (lit ''-'' @ s) = Some s" "expect 58 (lit '':'' @ s) = Some s"
  "expect 84 (lit ''T'' @ s) = Some s"
  by (simp_all add: lit_def)

lemma read_date_iso:
  assumes "in_calendar t"
  shows "read_date (date_iso t @ rest) = Some (t div us_per_day, rest)"
proof -
  let ?n = "t div us_per_day"
  have "0 \<le> t" "t < 315537897600000000"
    using assms by (simp_all add: in_calendar_def max_day_def us_per_day_def)
  then have n: "0 \<le> ?n" "?n < max_day"
    unfolding max_day_def us_per_day_def by linarith+
  obtain y m d where ymd: "ymd_of_day ?n = (y, m, d)" by (cases "ymd_of_day ?n")
  note inv = ymd_of_day_inverse [OF ymd] and yb = year_bounds [OF ymd n]
  have "month_lengths y ! nat (m - 1) \<le> 31" using inv(2,3)
    by (auto simp: month_lengths_def nth_Cons')
  with inv yb show ?thesis
    by (simp add: date_iso_def ymd read_date_def valid_ymd_def)
qed

lemma read_time_text:
  assumes "0 \<le> h" "h < 24" "0 \<le> m" "m < 60" "0 \<le> s" "s < 60"
  shows "read_time (pad 2 h @ lit '':'' @ pad 2 m @ lit '':'' @ pad 2 s @ rest) =
    Some (h * 3600 + m * 60 + s, rest)"
  using assms by (simp add: read_time_def)

lemma time_hms_facts:
  assumes "time_hms t = (h, m, s, us)"
  shows "0 \<le> h" "h < 24" "0 \<le> m" "m < 60" "0 \<le> s" "s < 60" "0 \<le> us" "us < us_per_second"
    and "(h * 3600 + m * 60 + s) * us_per_second + us = t mod us_per_day"
proof -
  define r where "r = t mod us_per_day"
  define q where "q = r div us_per_second"
  have r: "0 \<le> r" "r < 86400 * us_per_second"
    by (simp_all add: r_def us_per_day_def us_per_second_def)
  have q: "0 \<le> q" "q < 86400"
    using r by (simp_all add: q_def us_per_second_def div_less_iff_less_mult)
  have eqs: "h = q div 3600" "m = (q div 60) mod 60" "s = q mod 60" "us = r mod us_per_second"
    using assms by (simp_all add: time_hms_def Let_def r_def q_def)
  show "0 \<le> h" "h < 24" "0 \<le> m" "m < 60" "0 \<le> s" "s < 60" "0 \<le> us" "us < us_per_second"
    using q by (simp_all add: eqs us_per_second_def)
  have "h * 3600 + m * 60 + s = q"
  proof -
    have "q div 60 div 60 = h" by (simp add: eqs zdiv_zmult2_eq [symmetric])
    then have "q div 60 = h * 60 + m" using div_mult_mod_eq [of "q div 60" 60] by (simp add: eqs)
    moreover have "q = q div 60 * 60 + s" by (simp add: eqs)
    ultimately show ?thesis by simp
  qed
  then show "(h * 3600 + m * 60 + s) * us_per_second + us = t mod us_per_day"
    by (simp add: eqs(4) q_def r_def [symmetric])
qed

lemma read_micro_text:
  assumes "0 \<le> us" and "us < us_per_second"
  shows "read_micro ((if us = 0 then [] else lit ''.'' @ pad 6 us) @ lit ''+00:00'') =
    Some (us, lit ''+00:00'')"
  using assms by (simp add: lit_def us_per_second_def)

lemma read_iso_utc:
  assumes "in_calendar t"
  shows "read_iso (datetime_iso_utc t) = Some (utc t)"
proof -
  obtain h m s us where hms: "time_hms t = (h, m, s, us)" by (cases "time_hms t")
  note facts = time_hms_facts [OF hms]
  have off: "read_offset (lit ''+00:00'') = Some (Some 0)"
    by (simp add: lit_def read_field_def ascii_digit_def digits_value_def)
  have "t div us_per_day * us_per_day + (h * 3600 + m * 60 + s) * us_per_second + us = t"
    using facts(9) div_mult_mod_eq [of t us_per_day] by linarith
  then show ?thesis
    using read_date_iso [OF assms] read_time_text [OF facts(1-6)] read_micro_text [OF facts(7,8)]
      off
    by (simp add: datetime_iso_utc_def hms read_iso_def utc_def)
qed

end
