(* ===== verification/PyJson.thy ===== *)
theory PyJson
  imports DecimalText IsoTime PyValue
begin

text \<open>
  Python's operations on the values that \<open>json.loads\<close> gives, as the price interface and the
  demo provider use them: \<open>get\<close>, subscripts, \<open>values()\<close>, iteration, truth, \<open>str\<close>, \<open>Decimal\<close>
  and \<open>datetime.fromisoformat\<close>, each with the exception a value of another type raises. The
  keys of a dictionary are taken to be distinct.

  The parameter \<open>json_lib\<close> holds what the standard library does beyond the model: the text of
  lists and dictionaries, \<open>Decimal\<close> and \<open>int\<close> on values other than texts and integers, and
  \<open>fromisoformat\<close> on texts that \<open>isoformat\<close> does not write.
\<close>

record json_lib =
  jl_str :: "json \<Rightarrow> pystr"
  jl_repr :: "json \<Rightarrow> pystr"
  jl_decimal :: "json \<Rightarrow> py_exc + py_decimal"
  jl_int :: "json \<Rightarrow> py_exc + int"
  jl_fromiso :: "pystr \<Rightarrow> py_exc + datetime"

fun j_type :: "json \<Rightarrow> string" where
  "j_type JNull = ''NoneType''"
| "j_type (JBool b) = ''bool''"
| "j_type (JInt i) = ''int''"
| "j_type (JFloat t) = ''float''"
| "j_type (JStr s) = ''str''"
| "j_type (JList vs) = ''list''"
| "j_type (JDict kvs) = ''dict''"

definition quoted :: "string \<Rightarrow> pystr" where
  "quoted s = [39] @ lit s @ [39]"

definition no_attribute :: "json \<Rightarrow> string \<Rightarrow> py_exc" where
  "no_attribute v name =
     AttributeError (quoted (j_type v) @ lit '' object has no attribute '' @ quoted name)"

text \<open>\<open>v.get(key)\<close> with any string and with a literal one, and \<open>v.get(key, default)\<close>.\<close>

fun j_lookup :: "json \<Rightarrow> pystr \<Rightarrow> py_exc + json option" where
  "j_lookup (JDict kvs) key = Inr (map_of kvs key)"
| "j_lookup v key = Inl (no_attribute v ''get'')"

fun j_get :: "json \<Rightarrow> string \<Rightarrow> py_exc + json option" where
  "j_get (JDict kvs) key = Inr (map_of kvs (lit key))"
| "j_get v key = Inl (no_attribute v ''get'')"

definition j_get_or :: "json \<Rightarrow> string \<Rightarrow> json \<Rightarrow> py_exc + json" where
  "j_get_or v key dflt =
     r_bind (j_get v key) (\<lambda>x. Inr (case x of None \<Rightarrow> dflt | Some y \<Rightarrow> y))"

text \<open>\<open>v[key]\<close> with a key that is a string.\<close>

fun j_index :: "json \<Rightarrow> string \<Rightarrow> py_exc + json" where
  "j_index (JDict kvs) key =
     (case map_of kvs (lit key) of
        Some v \<Rightarrow> Inr v
      | None \<Rightarrow> Inl (PyExc (lit ''KeyError'') (quoted key)))"
| "j_index (JList vs) key =
     Inl (TypeError (lit ''list indices must be integers or slices, not str''))"
| "j_index (JStr s) key =
     Inl (TypeError (lit ''string indices must be integers, not '' @ quoted ''str''))"
| "j_index v key =
     Inl (TypeError (quoted (j_type v) @ lit '' object is not subscriptable''))"

text \<open>\<open>v.values()\<close> and \<open>v.items()\<close>.\<close>

fun j_values :: "json \<Rightarrow> py_exc + json list" where
  "j_values (JDict kvs) = Inr (map snd kvs)"
| "j_values v = Inl (no_attribute v ''values'')"

fun j_items :: "json \<Rightarrow> py_exc + (pystr \<times> json) list" where
  "j_items (JDict kvs) = Inr kvs"
| "j_items v = Inl (no_attribute v ''items'')"

fun j_iter :: "json \<Rightarrow> py_exc + json list" where
  "j_iter (JList vs) = Inr vs"
| "j_iter (JStr s) = Inr (map (\<lambda>c. JStr [c]) s)"
| "j_iter (JDict kvs) = Inr (map (\<lambda>(k, v). JStr k) kvs)"
| "j_iter v = Inl (TypeError (quoted (j_type v) @ lit '' object is not iterable''))"

fun j_truthy :: "json \<Rightarrow> bool" where
  "j_truthy JNull = False"
| "j_truthy (JBool b) = b"
| "j_truthy (JInt i) = (i \<noteq> 0)"
| "j_truthy (JFloat t) = (t \<notin> {lit ''0.0'', lit ''-0.0''})"
| "j_truthy (JStr s) = (s \<noteq> [])"
| "j_truthy (JList vs) = (vs \<noteq> [])"
| "j_truthy (JDict kvs) = (kvs \<noteq> [])"

fun j_str :: "json_lib \<Rightarrow> json \<Rightarrow> pystr" where
  "j_str L JNull = lit ''None''"
| "j_str L (JBool b) = (if b then lit ''True'' else lit ''False'')"
| "j_str L (JInt i) = show_int i"
| "j_str L (JFloat t) = t"
| "j_str L (JStr s) = s"
| "j_str L v = jl_str L v"

text \<open>\<open>v in {None, ...}\<close> hashes \<open>v\<close>.\<close>

fun unhashable :: "json \<Rightarrow> bool" where
  "unhashable (JList vs) = True"
| "unhashable (JDict kvs) = True"
| "unhashable v = False"

definition InvalidOperation :: py_exc where
  "InvalidOperation =
     PyExc (lit ''InvalidOperation'') (lit ''[<class '' @ quoted ''decimal.ConversionSyntax'' @ lit ''>]'')"

text \<open>\<open>Decimal(v)\<close>.\<close>

fun j_decimal :: "json_lib \<Rightarrow> json \<Rightarrow> py_exc + py_decimal" where
  "j_decimal L (JStr s) =
     (case dec_read s of None \<Rightarrow> Inl InvalidOperation | Some d \<Rightarrow> Inr d)"
| "j_decimal L (JInt i) = Inr (Finite (dec_of_int i))"
| "j_decimal L (JBool b) = Inr (Finite (dec_of_int (if b then 1 else 0)))"
| "j_decimal L JNull =
     Inl (TypeError (lit ''conversion from NoneType to Decimal is not supported''))"
| "j_decimal L v = jl_decimal L v"

text \<open>\<open>int(v)\<close>.\<close>

fun j_int :: "json_lib \<Rightarrow> json \<Rightarrow> py_exc + int" where
  "j_int L (JInt i) = Inr i"
| "j_int L (JBool b) = Inr (if b then 1 else 0)"
| "j_int L v = jl_int L v"

text \<open>\<open>datetime.fromisoformat(v)\<close>.\<close>

fun j_fromiso :: "json_lib \<Rightarrow> json \<Rightarrow> py_exc + datetime" where
  "j_fromiso L (JStr s) = (case read_iso s of Some d \<Rightarrow> Inr d | None \<Rightarrow> jl_fromiso L s)"
| "j_fromiso L v = Inl (TypeError (lit ''fromisoformat: argument must be str''))"

lemma j_get_or_dict [simp]:
  "j_get_or (JDict kvs) key dflt =
     Inr (case map_of kvs (lit key) of None \<Rightarrow> dflt | Some y \<Rightarrow> y)"
  by (simp add: j_get_or_def)

lemma j_decimal_str [simp]: "j_decimal L (JStr (dec_str d)) = Inr (Finite d)"
  by simp

lemma j_fromiso_utc: "in_calendar t \<Longrightarrow> j_fromiso L (JStr (datetime_iso_utc t)) = Inr (utc t)"
  by (simp add: read_iso_utc)

end
