(* ===== verification/PriceApi.thy ===== *)
theory PriceApi
  imports PyJson Pricing Memoizing Persistence "HOL-Library.List_Lexorder"
begin

text \<open>
  The back end of the AWS price list (\<open>app/pricing/aws_api.py\<close>): reading unit prices out of price
  list documents, the payload that is cached, the cache key, and the estimate.

  The provider and the clock live in a world \<open>'w\<close>, the cache in a state \<open>'c\<close>, and the operations
  are a record \<open>price_env\<close>. Of the standard library, SHA-256 and the order in which a set of
  strings is iterated are fields of it.
\<close>

section \<open>Reading a price list document\<close>

definition bad_price :: py_exc where
  "bad_price = PricingLookupError (lit ''unparseable USD price dimension'')"

text \<open>\<open>_price\<close>; the two subscripts raise \<open>KeyError\<close> or \<open>TypeError\<close> only.\<close>

definition price_of :: "json_lib \<Rightarrow> json \<Rightarrow> py_exc + decimal" where
  "price_of L dimension =
     (case r_bind (j_index dimension ''pricePerUnit'') (\<lambda>v. j_index v ''USD'') of
        Inl e \<Rightarrow> Inl bad_price
      | Inr v \<Rightarrow> (case dec_read (j_str L v) of Some (Finite d) \<Rightarrow> Inr d | _ \<Rightarrow> Inl bad_price))"

text \<open>\<open>_range\<close>; a missing range is \<open>None\<close>, and so is a \<open>null\<close>.\<close>

definition bad_range :: "json_lib \<Rightarrow> json \<Rightarrow> py_exc" where
  "bad_range L v = PricingLookupError (lit ''unparseable pricing range '' @ jl_repr L v)"

definition range_of :: "json_lib \<Rightarrow> json option \<Rightarrow> py_exc + int option" where
  "range_of L value =
     (case value of
        None \<Rightarrow> Inr None
      | Some v \<Rightarrow>
          if unhashable v then Inl (TypeError (lit ''unhashable type: '' @ quoted (j_type v)))
          else if v = JNull \<or> v = JStr (lit ''Inf'') then Inr None
          else (case dec_read (j_str L v) of
                  Some (Finite d) \<Rightarrow> Inr (Some (dec_to_int d))
                | Some Infinite \<Rightarrow>
                    Inl (PyExc (lit ''OverflowError'') (lit ''cannot convert Infinity to integer''))
                | _ \<Rightarrow> Inl (bad_range L v)))"

text \<open>\<open>_dimensions\<close>.\<close>

definition dimensions :: "json \<Rightarrow> py_exc + json list" where
  "dimensions document =
     r_bind (j_get_or document ''terms'' (JDict [])) (\<lambda>ts.
     r_bind (j_get_or ts ''OnDemand'' (JDict [])) (\<lambda>on_demand.
     r_bind (j_values on_demand) (\<lambda>terms.
     r_bind
       (r_map (\<lambda>t. r_bind (j_get_or t ''priceDimensions'' (JDict [])) j_values) terms)
       (\<lambda>dss. Inr (concat dss)))))"

definition usage_type :: "json_lib \<Rightarrow> json \<Rightarrow> py_exc + pystr" where
  "usage_type L document =
     r_bind (j_get_or document ''product'' (JDict [])) (\<lambda>product.
     r_bind (j_get_or product ''attributes'' (JDict [])) (\<lambda>attributes.
     r_bind (j_get_or attributes ''usagetype'' (JStr [])) (\<lambda>u. Inr (j_str L u))))"

text \<open>The first dimension of a unit, looking at no dimension behind it.\<close>

fun find_unit :: "pystr \<Rightarrow> json list \<Rightarrow> py_exc + json option" where
  "find_unit unit [] = Inr None"
| "find_unit unit (d # ds) =
     r_bind (j_get d ''unit'') (\<lambda>u. if u = Some (JStr unit) then Inr (Some d) else find_unit unit ds)"

text \<open>\<open>_single_price\<close>.\<close>

fun single_price ::
  "json_lib \<Rightarrow> pystr \<Rightarrow> pystr option \<Rightarrow> pystr option \<Rightarrow> json list \<Rightarrow> py_exc + decimal" where
  "single_price L unit suffix part [] =
     Inl (PricingLookupError (lit ''missing pricing dimension unit='' @ unit @
       lit '' usage_suffix='' @ (case suffix of None \<Rightarrow> lit ''None'' | Some t \<Rightarrow> t)))"
| "single_price L unit suffix part (document # documents) =
     r_bind (usage_type L document) (\<lambda>usage.
       if truthy suffix \<and> \<not> ends_with usage (the suffix)
       then single_price L unit suffix part documents
       else
         r_bind (dimensions document) (\<lambda>ds.
         r_bind (find_unit unit ds) (\<lambda>found.
           case found of
             Some d \<Rightarrow> price_of L d
           | None \<Rightarrow>
               if truthy part \<and> contains_str usage (the part) \<and> ds \<noteq> []
               then price_of L (hd ds)
               else single_price L unit suffix part documents)))"

section \<open>Unit prices of a volume type\<close>

text \<open>\<open>UnitPrices\<close> with its dictionary of volume types in the order of insertion.\<close>

record api_prices =
  ap_volumes :: "(pystr \<times> volume_unit_prices) list"
  ap_snapshot_standard :: "decimal option"
  ap_snapshot_archive :: "decimal option"
  ap_public_ipv4 :: "decimal option"

definition unit_prices_of :: "api_prices \<Rightarrow> unit_prices" where
  "unit_prices_of p =
     \<lparr>up_volumes = map_of (ap_volumes p),
      up_snapshot_standard_gib_month = ap_snapshot_standard p,
      up_snapshot_archive_gib_month = ap_snapshot_archive p,
      up_public_ipv4_hourly = ap_public_ipv4 p\<rparr>"

text \<open>The loop over the system operations: which dimensions are IOPS and which throughput.\<close>

fun sort_dimension ::
  "pystr \<Rightarrow> json list \<times> json list \<Rightarrow> json \<Rightarrow> py_exc + json list \<times> json list" where
  "sort_dimension usage (iops, throughput) d =
     r_bind (j_get d ''unit'') (\<lambda>unit.
       Inr ((if unit = Some (JStr (lit ''IOPS-Mo'')) \<or>
                contains_str usage (lit ''VolumeP-IOPS'') \<and> unit \<noteq> Some (JStr (lit ''MiBps-Mo''))
             then iops @ [d] else iops),
            (if unit = Some (JStr (lit ''MiBps-Mo'')) \<or>
                contains_str usage (lit ''VolumeP-Throughput'')
             then throughput @ [d] else throughput)))"

definition sort_document ::
  "json_lib \<Rightarrow> json list \<times> json list \<Rightarrow> json \<Rightarrow> py_exc + json list \<times> json list" where
  "sort_document L acc document =
     r_bind (usage_type L document) (\<lambda>usage.
     r_bind (dimensions document) (r_fold (sort_dimension usage) acc))"

definition tier_of :: "json_lib \<Rightarrow> json \<Rightarrow> py_exc + iops_tier" where
  "tier_of L d =
     r_bind (j_get d ''beginRange'') (\<lambda>b. r_bind (range_of L b) (\<lambda>from.
     r_bind (j_get d ''endRange'') (\<lambda>e. r_bind (range_of L e) (\<lambda>upto.
     r_bind (price_of L d) (\<lambda>p.
       Inr \<lparr>it_begin = or_zero from, it_end = upto, it_unit_price = p\<rparr>)))))"

text \<open>The IOPS price, the throughput price and the tiers of a type with system operations.\<close>

definition operation_prices ::
  "json_lib \<Rightarrow> pystr \<Rightarrow> json list \<Rightarrow> py_exc + decimal option \<times> decimal option \<times> iops_tier list" where
  "operation_prices L volume_type documents =
     r_bind (r_fold (sort_document L) ([], []) documents) (\<lambda>(iops_ds, throughput_ds).
     r_bind
       (if volume_type = lit ''io2''
        then (if iops_ds = []
              then Inl (PricingLookupError (lit ''missing io2 IOPS pricing dimensions''))
              else r_bind (r_map (tier_of L) iops_ds) (\<lambda>ts. Inr (None, sort_key it_begin ts)))
        else (if iops_ds = []
              then Inl (PricingLookupError
                     (lit ''missing '' @ volume_type @ lit '' IOPS pricing dimension''))
              else r_bind (price_of L (hd iops_ds)) (\<lambda>p. Inr (Some p, []))))
       (\<lambda>(iops, tiers).
     r_bind
       (if volume_type = lit ''gp3''
        then (if throughput_ds = []
              then Inl (PricingLookupError (lit ''missing gp3 throughput pricing dimension''))
              else r_bind (price_of L (hd throughput_ds)) (\<lambda>p. Inr (Some p)))
        else Inr None)
       (\<lambda>throughput. Inr (iops, throughput, tiers))))"

section \<open>Loading from the provider\<close>

record ('w, 'c) price_env =
  pe_get_prices :: "pystr \<Rightarrow> (pystr \<times> pystr) list \<Rightarrow> 'w \<Rightarrow> 'w \<times> (py_exc + json list)"
  pe_now :: "'w \<Rightarrow> 'w \<times> instant"
  pe_cache_get :: "'c \<Rightarrow> instant \<Rightarrow> pystr \<Rightarrow> json option"
  pe_cache_set :: "'c \<Rightarrow> instant \<Rightarrow> pystr \<Rightarrow> json \<Rightarrow> 'c"
  pe_sha256 :: "pystr \<Rightarrow> pystr"
  pe_set_order :: "pystr list \<Rightarrow> pystr list"
  pe_json :: json_lib

definition documents ::
  "('w, 'c) price_env \<Rightarrow> string \<Rightarrow> pystr \<Rightarrow> (string \<times> pystr) list \<Rightarrow> 'w \<Rightarrow>
   'w \<times> (py_exc + json list)" where
  "documents E service_code region filters =
     pe_get_prices E (lit service_code)
       ((lit ''regionCode'', region) # map (\<lambda>(k, v). (lit k, v)) filters)"

definition volume_prices ::
  "('w, 'c) price_env \<Rightarrow> pystr \<Rightarrow> pystr \<Rightarrow> 'w \<Rightarrow> 'w \<times> (py_exc + volume_unit_prices)" where
  "volume_prices E region volume_type =
     s_bind (documents E ''AmazonEC2'' region
               [(''productFamily'', lit ''Storage''), (''volumeApiName'', volume_type)]) (\<lambda>docs.
     s_bind (s_lift (single_price (pe_json E) (lit ''GB-Mo'') None None docs)) (\<lambda>storage.
       if volume_type \<in> {lit ''gp3'', lit ''io1'', lit ''io2''}
       then
         s_bind (documents E ''AmazonEC2'' region
                   [(''productFamily'', lit ''System Operation''), (''volumeApiName'', volume_type)])
           (\<lambda>ops. s_lift
             (r_bind (operation_prices (pe_json E) volume_type ops) (\<lambda>(iops, throughput, tiers).
                Inr \<lparr>vp_storage_gib_month = storage, vp_iops_month = iops,
                     vp_throughput_mibps_month = throughput, vp_iops_tiers = tiers\<rparr>)))
       else s_lift (Inr \<lparr>vp_storage_gib_month = storage, vp_iops_month = None,
                         vp_throughput_mibps_month = None, vp_iops_tiers = []\<rparr>)))"

definition public_ipv4_price ::
  "('w, 'c) price_env \<Rightarrow> pystr \<Rightarrow> 'w \<Rightarrow> 'w \<times> (py_exc + decimal)" where
  "public_ipv4_price E region =
     s_bind (documents E ''AmazonVPC'' region [(''productFamily'', lit ''IP Address'')]) (\<lambda>docs.
       s_lift (single_price (pe_json E) (lit ''Hrs'') (Some (lit ''PublicIPv4:IdleAddress'')) None
                 docs))"

definition no_prices :: api_prices where
  "no_prices =
     \<lparr>ap_volumes = [], ap_snapshot_standard = None, ap_snapshot_archive = None,
      ap_public_ipv4 = None\<rparr>"

text \<open>\<open>_load\<close>.\<close>

fun load_prices ::
  "('w, 'c) price_env \<Rightarrow> pricing_request \<Rightarrow> 'w \<Rightarrow> 'w \<times> (py_exc + api_prices)" where
  "load_prices E (EbsVolumePricingRequest r) =
     s_bind (volume_prices E (er_region r) (er_volume_type r)) (\<lambda>vp.
       s_lift (Inr (no_prices\<lparr>ap_volumes := [(er_volume_type r, vp)]\<rparr>)))"
| "load_prices E (StoppedInstancePricingRequest region volumes count) =
     s_bind (s_map (\<lambda>t. s_bind (volume_prices E region t) (\<lambda>vp. s_lift (Inr (t, vp))))
               (pe_set_order E (map er_volume_type volumes))) (\<lambda>vps.
     s_bind (if count \<noteq> 0
             then s_bind (public_ipv4_price E region) (\<lambda>p. s_lift (Inr (Some p)))
             else s_lift (Inr None)) (\<lambda>ip.
       s_lift (Inr (no_prices\<lparr>ap_volumes := vps, ap_public_ipv4 := ip\<rparr>))))"
| "load_prices E (SnapshotPricingRequest region size_gib tier) =
     s_bind (documents E ''AmazonEC2'' region [(''productFamily'', lit ''Storage Snapshot'')]) (\<lambda>docs.
       s_lift
         (if tier = lit ''archive''
          then r_bind (single_price (pe_json E) (lit ''GB-Mo'')
                         (Some (lit ''EBS:SnapshotArchiveStorage'')) None docs)
                 (\<lambda>p. Inr (no_prices\<lparr>ap_snapshot_archive := Some p\<rparr>))
          else r_bind (single_price (pe_json E) (lit ''GB-Mo'')
                         (Some (lit ''EBS:SnapshotUsage'')) None docs)
                 (\<lambda>p. Inr (no_prices\<lparr>ap_snapshot_standard := Some p\<rparr>))))"
| "load_prices E (ElasticIpPricingRequest region) =
     s_bind (public_ipv4_price E region) (\<lambda>p.
       s_lift (Inr (no_prices\<lparr>ap_public_ipv4 := Some p\<rparr>)))"

section \<open>The cached payload\<close>

definition j_opt_dec :: "decimal option \<Rightarrow> json" where
  "j_opt_dec d = (case d of None \<Rightarrow> JNull | Some x \<Rightarrow> JStr (dec_str x))"

definition tier_payload :: "iops_tier \<Rightarrow> json" where
  "tier_payload t =
     JDict [(lit ''begin'', JInt (it_begin t)), (lit ''end'', j_opt_int (it_end t)),
            (lit ''unit_price'', JStr (dec_str (it_unit_price t)))]"

definition volume_payload :: "volume_unit_prices \<Rightarrow> json" where
  "volume_payload p =
     JDict [(lit ''storage_gib_month'', JStr (dec_str (vp_storage_gib_month p))),
            (lit ''iops_month'', j_opt_dec (vp_iops_month p)),
            (lit ''throughput_mibps_month'', j_opt_dec (vp_throughput_mibps_month p)),
            (lit ''iops_tiers'', JList (map tier_payload (vp_iops_tiers p)))]"

definition payload :: "api_prices \<Rightarrow> instant \<Rightarrow> json" where
  "payload p fetched_at =
     JDict [(lit ''volumes'', JDict (map (\<lambda>(t, v). (t, volume_payload v)) (ap_volumes p))),
            (lit ''snapshot_standard_gib_month'', j_opt_dec (ap_snapshot_standard p)),
            (lit ''snapshot_archive_gib_month'', j_opt_dec (ap_snapshot_archive p)),
            (lit ''public_ipv4_hourly'', j_opt_dec (ap_public_ipv4 p)),
            (lit ''fetched_at'', JStr (datetime_iso_utc fetched_at))]"

text \<open>
  Reading it back. The program writes finite decimals and integer bounds only; \<open>Unwritten\<close>
  stands for the values a payload may hold otherwise and the record types here do not.
\<close>

definition Unwritten :: py_exc where
  "Unwritten = PyExc (lit ''Unwritten'') (lit ''not a payload of this program'')"

definition finite_decimal :: "json_lib \<Rightarrow> json \<Rightarrow> py_exc + decimal" where
  "finite_decimal L v =
     r_bind (j_decimal L v) (\<lambda>d. case d of Finite x \<Rightarrow> Inr x | _ \<Rightarrow> Inl Unwritten)"

text \<open>\<open>Decimal(d[key]) if d.get(key) else None\<close>.\<close>

definition opt_decimal :: "json_lib \<Rightarrow> json \<Rightarrow> string \<Rightarrow> py_exc + decimal option" where
  "opt_decimal L d key =
     r_bind (j_get_or d key JNull) (\<lambda>v.
       if j_truthy v then r_bind (finite_decimal L v) (\<lambda>x. Inr (Some x)) else Inr None)"

fun integer_value :: "json \<Rightarrow> py_exc + int" where
  "integer_value (JInt i) = Inr i"
| "integer_value v = Inl Unwritten"

fun end_value :: "json \<Rightarrow> py_exc + int option" where
  "end_value JNull = Inr None"
| "end_value (JInt i) = Inr (Some i)"
| "end_value v = Inl Unwritten"

definition tier_from :: "json_lib \<Rightarrow> json \<Rightarrow> py_exc + iops_tier" where
  "tier_from L item =
     r_bind (r_bind (j_index item ''begin'') integer_value) (\<lambda>b.
     r_bind (r_bind (j_get_or item ''end'' JNull) end_value) (\<lambda>e.
     r_bind (r_bind (j_index item ''unit_price'') (finite_decimal L)) (\<lambda>p.
       Inr \<lparr>it_begin = b, it_end = e, it_unit_price = p\<rparr>)))"

definition volume_from :: "json_lib \<Rightarrow> json \<Rightarrow> py_exc + volume_unit_prices" where
  "volume_from L d =
     r_bind (r_bind (j_index d ''storage_gib_month'') (finite_decimal L)) (\<lambda>storage.
     r_bind (opt_decimal L d ''iops_month'') (\<lambda>iops.
     r_bind (opt_decimal L d ''throughput_mibps_month'') (\<lambda>throughput.
     r_bind (r_bind (r_bind (j_get_or d ''iops_tiers'' (JList [])) j_iter) (r_map (tier_from L)))
       (\<lambda>tiers.
          Inr \<lparr>vp_storage_gib_month = storage, vp_iops_month = iops,
               vp_throughput_mibps_month = throughput, vp_iops_tiers = tiers\<rparr>))))"

definition from_payload :: "json_lib \<Rightarrow> json \<Rightarrow> py_exc + api_prices \<times> instant" where
  "from_payload L p =
     r_bind (r_bind (j_get_or p ''volumes'' (JDict [])) j_items) (\<lambda>items.
     r_bind (r_map (\<lambda>(t, d). r_bind (volume_from L d) (\<lambda>v. Inr (t, v))) items) (\<lambda>volumes.
     r_bind (r_bind (j_index p ''fetched_at'') (j_fromiso L)) (\<lambda>fetched_at.
       if \<not> aware fetched_at
       then Inl (PricingLookupError (lit ''cached pricing timestamp is not timezone-aware''))
       else
         r_bind (opt_decimal L p ''snapshot_standard_gib_month'') (\<lambda>standard.
         r_bind (opt_decimal L p ''snapshot_archive_gib_month'') (\<lambda>archive.
         r_bind (opt_decimal L p ''public_ipv4_hourly'') (\<lambda>ip.
           Inr (\<lparr>ap_volumes = volumes, ap_snapshot_standard = standard,
                 ap_snapshot_archive = archive, ap_public_ipv4 = ip\<rparr>,
                instant_of fetched_at)))))))"

lemma finite_decimal_str [simp]: "finite_decimal L (JStr (dec_str d)) = Inr d"
  by (simp add: finite_decimal_def)

lemma opt_decimal_written:
  assumes "map_of kvs (lit key) = Some (j_opt_dec d)"
  shows "opt_decimal L (JDict kvs) key = Inr d"
  using assms by (cases d) (simp_all add: opt_decimal_def j_opt_dec_def)

lemma tier_round_trip [simp]: "tier_from L (tier_payload t) = Inr t"
  by (cases "it_end t") (simp_all add: tier_from_def tier_payload_def)

lemma tiers_round_trip [simp]: "r_map (tier_from L) (map tier_payload ts) = Inr ts"
  by (induction ts) simp_all

lemma volume_round_trip [simp]: "volume_from L (volume_payload p) = Inr p"
  by (simp add: volume_from_def volume_payload_def opt_decimal_written)

lemma volumes_round_trip:
  "r_map (\<lambda>(t, d). r_bind (volume_from L d) (\<lambda>v. Inr (t, v)))
     (map (\<lambda>(t, v). (t, volume_payload v)) vs) = Inr vs"
  by (induction vs) auto

lemma from_payload_payload:
  assumes "in_calendar t"
  shows "from_payload L (payload p t) = Inr (p, t)"
  using j_fromiso_utc [OF assms, of L]
  by (simp add: from_payload_def payload_def opt_decimal_written volumes_round_trip)

section \<open>The cache key\<close>

text \<open>\<open>json.dumps\<close> of a string escapes everything outside printable ASCII.\<close>

definition unicode_escape :: "nat \<Rightarrow> pystr" where
  "unicode_escape n = lit [CHR 0x5C] @ lit ''u'' @ hex_pad 4 n"

definition json_char :: "nat \<Rightarrow> pystr" where
  "json_char c =
     (if c = 34 then [92, 34] else if c = 92 then [92, 92] else if c = 10 then lit [CHR 0x5C] @ lit ''n''
      else if c = 13 then lit [CHR 0x5C] @ lit ''r'' else if c = 9 then lit [CHR 0x5C] @ lit ''t''
      else if c = 12 then lit [CHR 0x5C] @ lit ''f'' else if c = 8 then lit [CHR 0x5C] @ lit ''b''
      else if 32 \<le> c \<and> c \<le> 126 then [c]
      else if c < 65536 then unicode_escape c
      else unicode_escape (55296 + (c - 65536) div 1024) @ unicode_escape (56320 + (c - 65536) mod 1024))"

definition json_string :: "pystr \<Rightarrow> pystr" where
  "json_string s = [34] @ concat (map json_char s) @ [34]"

definition json_list :: "pystr list \<Rightarrow> pystr" where
  "json_list items = lit ''['' @ join (lit '', '') items @ lit '']''"

text \<open>What a request is cached under, and its text.\<close>

datatype price_identity =
    Ebs_identity pystr pystr
  | Snapshot_identity pystr pystr
  | Elastic_ip_identity pystr
  | Stopped_identity pystr "pystr list" bool

fun identity_of :: "pricing_request \<Rightarrow> price_identity" where
  "identity_of (EbsVolumePricingRequest r) = Ebs_identity (er_region r) (er_volume_type r)"
| "identity_of (SnapshotPricingRequest region size_gib tier) = Snapshot_identity region tier"
| "identity_of (ElasticIpPricingRequest region) = Elastic_ip_identity region"
| "identity_of (StoppedInstancePricingRequest region volumes count) =
     Stopped_identity region (sort (remdups (map er_volume_type volumes))) (count \<noteq> 0)"

fun identity_json :: "price_identity \<Rightarrow> pystr" where
  "identity_json (Ebs_identity region t) =
     json_list [json_string (lit ''ebs''), json_string region, json_string t]"
| "identity_json (Snapshot_identity region tier) =
     json_list [json_string (lit ''snapshot''), json_string region, json_string tier]"
| "identity_json (Elastic_ip_identity region) =
     json_list [json_string (lit ''elastic_ip''), json_string region]"
| "identity_json (Stopped_identity region types ip) =
     json_list [json_string (lit ''stopped_instance''), json_string region,
                json_list (map json_string types), if ip then lit ''true'' else lit ''false'']"

definition cache_key :: "(pystr \<Rightarrow> pystr) \<Rightarrow> pricing_request \<Rightarrow> pystr" where
  "cache_key sha256 req = lit ''aws-pricing:'' @ sha256 (identity_json (identity_of req))"

section \<open>The estimate\<close>

definition api_result ::
  "pricing_request \<Rightarrow> api_prices \<Rightarrow> instant \<Rightarrow> py_exc + pricing_result" where
  "api_result req prices fetched_at =
     r_bind (calculate req (unit_prices_of prices)) (\<lambda>(amount, lines, notes).
       (let snapshot = is_snapshot_request req;
            explanation = map li_label lines @ notes @
              [lit ''AWS Pricing API, retrieved '' @ datetime_iso_utc fetched_at]
        in Inr \<lparr>pr_estimated_monthly_cost = Some amount,
                pr_cost_confidence = (if snapshot then COST_LOW else COST_HIGH),
                pr_explanation = join (lit '' '') explanation,
                pr_source = AWS_PRICING_API,
                pr_pricing_timestamp = Some fetched_at,
                pr_line_items = lines, pr_upper_bound = snapshot, pr_warnings = []\<rparr>))"

text \<open>
  \<open>AwsPricingApiBackend.estimate\<close>. The clock is read by the cache and, after a load, for the
  time of the prices and by the cache again.
\<close>

definition api_estimate :: "('w, 'c) price_env \<Rightarrow> ('w \<times> 'c) backend" where
  "api_estimate E wc req =
     (let key = cache_key (pe_sha256 E) req;
          (w, c) = wc;
          (w, now) = pe_now E w
      in case pe_cache_get E c now key of
           Some cached \<Rightarrow>
             ((w, c), r_bind (from_payload (pe_json E) cached) (\<lambda>(prices, fetched_at).
                        api_result req prices fetched_at))
         | None \<Rightarrow>
             (case load_prices E req w of
                (w, Inl e) \<Rightarrow> ((w, c), Inl e)
              | (w, Inr prices) \<Rightarrow>
                  (let (w, fetched_at) = pe_now E w;
                       (w, stored_at) = pe_now E w
                   in ((w, pe_cache_set E c stored_at key (payload prices fetched_at)),
                       api_result req prices fetched_at))))"

end
