(* ===== verification/CacheKey.thy ===== *)
theory CacheKey
  imports PriceApi Validators
begin

text \<open>
  The key under which the price interface caches (\<open>app/pricing/aws_api.py\<close>): the text of the
  identity determines it, so two requests share an entry only if they ask for the same prices,
  or if SHA-256 gives two texts one digest. Texts with lone surrogates are left out: JSON writes
  a pair of them and the character they encode alike.
\<close>

definition scalar_text :: "pystr \<Rightarrow> bool" where
  "scalar_text s \<longleftrightarrow> (\<forall>c \<in> set s. c < 1114112 \<and> \<not> (55296 \<le> c \<and> c < 57344))"

section \<open>Texts\<close>

lemma hex_pad_eq: "hex_pad 4 a = hex_pad 4 b \<Longrightarrow> a mod 65536 = b mod 65536"
  using read_hex_pad [of 0 4 a] read_hex_pad [of 0 4 b] by simp

text \<open>The text of a character: which of the four forms, and what it tells about the character.\<close>

lemma json_char_cases:
  obtains (plain) "json_char c = [c]" "c \<noteq> 92" "c \<noteq> 34"
  | (short) k where "json_char c = [92, k]" "k \<noteq> 117"
      "(c, k) \<in> {(34, 34), (92, 92), (10, 110), (13, 114), (9, 116), (12, 102), (8, 98)}"
  | (bmp) "json_char c = 92 # 117 # hex_pad 4 c" "c < 65536"
  | (pair) "json_char c = (92 # 117 # hex_pad 4 (55296 + (c - 65536) div 1024)) @
        92 # 117 # hex_pad 4 (56320 + (c - 65536) mod 1024)" "65536 \<le> c"
proof -
  have u: "unicode_escape n = 92 # 117 # hex_pad 4 n" for n
    by (simp add: unicode_escape_def lit_def)
  show thesis
  proof (cases "c \<in> {34, 92, 10, 13, 9, 12, 8}")
    case True
    then show thesis by (intro short [of "the (map_of [(34, 34), (92, 92), (10, 110), (13, 114),
        (9, 116), (12, 102), (8, 98)] c)"]) (auto simp: json_char_def lit_def)
  next
    case False
    then consider "32 \<le> c \<and> c \<le> 126" | "\<not> (32 \<le> c \<and> c \<le> 126)" "c < 65536"
      | "65536 \<le> c" by linarith
    then show thesis
    proof cases
      case 1
      with False show thesis by (intro plain) (auto simp: json_char_def)
    next
      case 2
      with False show thesis by (intro bmp) (auto simp: json_char_def u)
    next
      case 3
      with False show thesis by (intro pair) (auto simp: json_char_def u)
    qed
  qed
qed

lemma astral_units:
  fixes c d :: nat
  assumes "(c - 65536) div 1024 = (d - 65536) div 1024" "(c - 65536) mod 1024 = (d - 65536) mod 1024"
    and "65536 \<le> c" "65536 \<le> d"
  shows "c = d"
proof -
  have "c - 65536 = d - 65536"
    using assms(1,2) div_mult_mod_eq [of "c - 65536" 1024] div_mult_mod_eq [of "d - 65536" 1024]
    by metis
  with assms(3,4) show ?thesis by simp
qed

lemma json_char_append:
  assumes "json_char c @ r = json_char d @ r'" and "scalar_text [c, d]"
  shows "c = d \<and> r = r'"
proof -
  have units: "(x - 65536) div 1024 < 1024" if "x < 1114112" for x :: nat
    using that by linarith
  have c: "c < 1114112" "\<not> (55296 \<le> c \<and> c < 57344)" and d: "d < 1114112" "\<not> (55296 \<le> d \<and> d < 57344)"
    using assms(2) by (auto simp: scalar_text_def)
  show ?thesis
    using assms(1) c d units [of c] units [of d] astral_units [of c d]
    by (cases c rule: json_char_cases; cases d rule: json_char_cases)
       (auto dest!: hex_pad_eq)
qed

lemma json_char_head: "json_char c @ r \<noteq> 34 # r'"
  by (cases c rule: json_char_cases) auto

lemma json_chars_append:
  assumes "concat (map json_char s) @ 34 # r = concat (map json_char t) @ 34 # r'"
    and "scalar_text s" and "scalar_text t"
  shows "s = t \<and> r = r'"
  using assms
proof (induction s arbitrary: t)
  case Nil
  then show ?case using json_char_head [of _ "concat (map json_char (tl t)) @ 34 # r'" r]
    by (cases t) (simp_all, metis)
next
  case (Cons c s)
  show ?case
  proof (cases t)
    case Nil
    with Cons.prems(1) json_char_head [of c] show ?thesis by simp
  next
    case (Cons d u)
    with Cons.prems json_char_append [of c "concat (map json_char s) @ 34 # r" d]
    have "c = d" "concat (map json_char s) @ 34 # r = concat (map json_char u) @ 34 # r'"
      by (auto simp: scalar_text_def)
    with Cons Cons.IH [of u] Cons.prems(2,3) show ?thesis by (auto simp: scalar_text_def)
  qed
qed

lemma json_string_append:
  assumes "json_string s @ r = json_string t @ r'" and "scalar_text s" and "scalar_text t"
  shows "s = t \<and> r = r'"
  using assms json_chars_append [of s r t r'] by (simp add: json_string_def)

section \<open>Identities\<close>

text \<open>A list of strings, and what follows it.\<close>

lemma strings_append:
  assumes "join (lit '', '') (map json_string ss) @ lit '']'' @ r =
      join (lit '', '') (map json_string ts) @ lit '']'' @ r'"
    and "\<forall>s \<in> set ss. scalar_text s" and "\<forall>t \<in> set ts. scalar_text t"
  shows "ss = ts \<and> r = r'"
  using assms
proof (induction ss arbitrary: ts)
  case Nil
  then show ?case by (cases ts; cases "tl ts") (auto simp: lit_def json_string_def)
next
  case (Cons s ss)
  show ?case
  proof (cases ts)
    case Nil
    with Cons.prems(1) show ?thesis by (cases ss) (auto simp: lit_def json_string_def)
  next
    case (Cons t us)
    let ?rest = "\<lambda>xs r. (if xs = [] then [] else lit '', '' @ join (lit '', '') (map json_string xs))
        @ lit '']'' @ r"
    have split: "join (lit '', '') (map json_string (x # xs)) @ lit '']'' @ q =
        json_string x @ ?rest xs q" for x xs q
      by (cases xs) simp_all
    have "s = t \<and> ?rest ss r = ?rest us r'"
      using Cons.prems Cons by (intro json_string_append) (simp_all only: split, auto)
    then have s: "s = t" and rest: "?rest ss r = ?rest us r'" by blast+
    have "ss = us \<and> r = r'"
    proof (cases "ss = [] \<or> us = []")
      case True
      with rest show ?thesis by (cases ss; cases us) (simp_all add: lit_def)
    next
      case False
      with rest Cons.IH [of us] Cons.prems(2,3) Cons show ?thesis by (simp add: lit_def)
    qed
    with s Cons show ?thesis by simp
  qed
qed

fun identity_texts :: "price_identity \<Rightarrow> pystr list" where
  "identity_texts (Ebs_identity region t) = [region, t]"
| "identity_texts (Snapshot_identity region tier) = [region, tier]"
| "identity_texts (Elastic_ip_identity region) = [region]"
| "identity_texts (Stopped_identity region types ip) = region # types"

definition identity_tag :: "price_identity \<Rightarrow> pystr" where
  "identity_tag i =
     (case i of
        Ebs_identity region t \<Rightarrow> lit ''ebs''
      | Snapshot_identity region tier \<Rightarrow> lit ''snapshot''
      | Elastic_ip_identity region \<Rightarrow> lit ''elastic_ip''
      | Stopped_identity region types ip \<Rightarrow> lit ''stopped_instance'')"

definition identity_rest :: "price_identity \<Rightarrow> pystr" where
  "identity_rest i =
     (case i of
        Ebs_identity region t \<Rightarrow> json_string region @ lit '', '' @ json_string t @ lit '']''
      | Snapshot_identity region tier \<Rightarrow> json_string region @ lit '', '' @ json_string tier @ lit '']''
      | Elastic_ip_identity region \<Rightarrow> json_string region @ lit '']''
      | Stopped_identity region types ip \<Rightarrow>
          json_string region @ lit '', ['' @ join (lit '', '') (map json_string types) @ lit '']'' @
          lit '', '' @ (if ip then lit ''true'' else lit ''false'') @ lit '']'')"

lemma identity_json_parts:
  "identity_json i = lit ''['' @ json_string (identity_tag i) @ lit '', '' @ identity_rest i"
  by (cases i) (simp_all add: json_list_def identity_tag_def identity_rest_def lit_append [symmetric])

lemma scalar_lit [simp]: "scalar_text (lit s)"
proof -
  have "of_char c < (1114112 :: nat) \<and> \<not> 55296 \<le> (of_char c :: nat)" for c
    using nat_of_char_less_256 [of c] by linarith
  then show ?thesis by (auto simp: scalar_text_def lit_def)
qed

lemma join_brackets:
  assumes "lit ''['' @ x = lit ''['' @ y"
  shows "x = y"
  using assms by simp

lemma identity_json_inj:
  assumes "identity_json i = identity_json j"
    and "\<forall>s \<in> set (identity_texts i). scalar_text s" and "\<forall>s \<in> set (identity_texts j). scalar_text s"
  shows "i = j"
proof -
  have "json_string (identity_tag i) @ lit '', '' @ identity_rest i =
      json_string (identity_tag j) @ lit '', '' @ identity_rest j"
    using assms(1) by (simp add: identity_json_parts)
  moreover have "scalar_text (identity_tag i)" "scalar_text (identity_tag j)"
    by (simp_all add: identity_tag_def split: price_identity.split)
  ultimately have "identity_tag i = identity_tag j \<and>
      lit '', '' @ identity_rest i = lit '', '' @ identity_rest j" by (rule json_string_append)
  then have tag: "identity_tag i = identity_tag j" and rest: "identity_rest i = identity_rest j"
    by simp_all
  show ?thesis
  proof (cases i)
    case (Ebs_identity r t)
    with tag obtain r' t' where j: "j = Ebs_identity r' t'"
      by (cases j) (simp_all add: identity_tag_def)
    have "[r, t] = [r', t']"
      using rest assms(2,3) strings_append [of "[r, t]" "[]" "[r', t']" "[]"]
      by (simp add: Ebs_identity j identity_rest_def)
    with Ebs_identity j show ?thesis by simp
  next
    case (Snapshot_identity r t)
    with tag obtain r' t' where j: "j = Snapshot_identity r' t'"
      by (cases j) (simp_all add: identity_tag_def)
    have "[r, t] = [r', t']"
      using rest assms(2,3) strings_append [of "[r, t]" "[]" "[r', t']" "[]"]
      by (simp add: Snapshot_identity j identity_rest_def)
    with Snapshot_identity j show ?thesis by simp
  next
    case (Elastic_ip_identity r)
    with tag obtain r' where j: "j = Elastic_ip_identity r'"
      by (cases j) (simp_all add: identity_tag_def)
    have "[r] = [r']"
      using rest assms(2,3) strings_append [of "[r]" "[]" "[r']" "[]"]
      by (simp add: Elastic_ip_identity j identity_rest_def)
    with Elastic_ip_identity j show ?thesis by simp
  next
    case (Stopped_identity r ts b)
    with tag obtain r' ts' b' where j: "j = Stopped_identity r' ts' b'"
      by (cases j) (simp_all add: identity_tag_def)
    let ?flag = "\<lambda>b. lit '', '' @ (if b then lit ''true'' else lit ''false'') @ lit '']''"
    have "r = r' \<and> lit '', ['' @ join (lit '', '') (map json_string ts) @ lit '']'' @ ?flag b =
        lit '', ['' @ join (lit '', '') (map json_string ts') @ lit '']'' @ ?flag b'"
      using rest assms(2,3) by (intro json_string_append) (simp_all add: Stopped_identity j identity_rest_def)
    moreover from this have "ts = ts' \<and> ?flag b = ?flag b'"
      using assms(2,3) by (intro strings_append) (simp_all add: Stopped_identity j)
    moreover from this have "b = b'" by (cases b; cases b') (simp_all add: lit_def)
    ultimately show ?thesis by (simp add: Stopped_identity j)
  qed
qed

text \<open>The texts of a request that its identity holds.\<close>

fun request_texts :: "pricing_request \<Rightarrow> pystr list" where
  "request_texts (EbsVolumePricingRequest r) = [er_region r, er_volume_type r]"
| "request_texts (SnapshotPricingRequest region size_gib tier) = [region, tier]"
| "request_texts (ElasticIpPricingRequest region) = [region]"
| "request_texts (StoppedInstancePricingRequest region volumes count) =
     region # map er_volume_type volumes"

lemma identity_texts_of: "set (identity_texts (identity_of req)) = set (request_texts req)"
  by (cases req) auto

lemma cache_key_eq:
  assumes "inj_on sha256 {identity_json (identity_of r), identity_json (identity_of s)}"
    and "\<forall>t \<in> set (request_texts r) \<union> set (request_texts s). scalar_text t"
  shows "cache_key sha256 r = cache_key sha256 s \<longleftrightarrow> identity_of r = identity_of s"
proof
  assume "cache_key sha256 r = cache_key sha256 s"
  then have "sha256 (identity_json (identity_of r)) = sha256 (identity_json (identity_of s))"
    unfolding cache_key_def by (simp only: same_append_eq)
  with assms(1) have "identity_json (identity_of r) = identity_json (identity_of s)"
    by (rule inj_onD) blast+
  then show "identity_of r = identity_of s"
    using assms(2) by (intro identity_json_inj) (auto simp: identity_texts_of)
qed (simp add: cache_key_def)

text \<open>What the identity of a request keeps: everything that decides which prices are loaded.\<close>

fun loads_same :: "pricing_request \<Rightarrow> pricing_request \<Rightarrow> bool" where
  "loads_same (EbsVolumePricingRequest r) (EbsVolumePricingRequest s) \<longleftrightarrow>
     er_region r = er_region s \<and> er_volume_type r = er_volume_type s"
| "loads_same (SnapshotPricingRequest region n tier) (SnapshotPricingRequest region' n' tier') \<longleftrightarrow>
     region = region' \<and> tier = tier'"
| "loads_same (ElasticIpPricingRequest region) (ElasticIpPricingRequest region') \<longleftrightarrow> region = region'"
| "loads_same (StoppedInstancePricingRequest region vs n) (StoppedInstancePricingRequest region' vs' n')
     \<longleftrightarrow> region = region' \<and> er_volume_type ` set vs = er_volume_type ` set vs' \<and> (n = 0 \<longleftrightarrow> n' = 0)"
| "loads_same r s \<longleftrightarrow> False"

lemma sort_remdups_eq: "sort (remdups xs) = sort (remdups ys) \<longleftrightarrow> set xs = set (ys :: pystr list)"
proof
  assume "sort (remdups xs) = sort (remdups ys)"
  then have "set (sort (remdups xs)) = set (sort (remdups ys))" by (rule arg_cong)
  then show "set xs = set ys" by simp
next
  assume "set xs = set ys"
  then show "sort (remdups xs) = sort (remdups ys)"
    unfolding sorted_list_of_set_sort_remdups [symmetric] by (rule arg_cong)
qed

lemma identity_loads_same: "identity_of r = identity_of s \<longleftrightarrow> loads_same r s"
  by (cases r; cases s) (auto simp: sort_remdups_eq)

end
