(* ===== verification/PriceList.thy ===== *)
theory PriceList
  imports PriceApi
begin

text \<open>
  What the price interface reads from price lists of the documented form: each product has a
  usage type and, in its on-demand term, price dimensions with a unit, a range and a price in
  dollars. The theorems compare the reader with a specification on the products themselves: the
  first dimension of the wanted unit among the products of the wanted usage, and for system
  operations the IOPS and throughput dimensions in their order.
\<close>

section \<open>Price lists\<close>

record dimension =
  dm_code :: pystr
  dm_unit :: pystr
  dm_begin :: int
  dm_end :: "int option"
  dm_price :: decimal

record offer =
  of_usage :: pystr
  of_dims :: "dimension list"

definition range_json :: "int option \<Rightarrow> json" where
  "range_json e = JStr (case e of None \<Rightarrow> lit ''Inf'' | Some n \<Rightarrow> show_int n)"

definition dimension_json :: "dimension \<Rightarrow> json" where
  "dimension_json d =
     JDict [(lit ''unit'', JStr (dm_unit d)), (lit ''beginRange'', range_json (Some (dm_begin d))),
            (lit ''endRange'', range_json (dm_end d)),
            (lit ''pricePerUnit'', JDict [(lit ''USD'', JStr (dec_str (dm_price d)))])]"

definition offer_document :: "offer \<Rightarrow> json" where
  "offer_document p =
     JDict
       [(lit ''product'', JDict [(lit ''attributes'', JDict [(lit ''usagetype'', JStr (of_usage p))])]),
        (lit ''terms'', JDict [(lit ''OnDemand'', JDict [(lit ''term'',
           JDict [(lit ''priceDimensions'',
                   JDict (map (\<lambda>d. (dm_code d, dimension_json d)) (of_dims p)))])])])]"

section \<open>Single values\<close>

lemma usage_type_document [simp]: "usage_type L (offer_document p) = Inr (of_usage p)"
  by (simp add: usage_type_def offer_document_def)

lemma dimensions_document [simp]:
  "dimensions (offer_document p) = Inr (map dimension_json (of_dims p))"
  by (simp add: dimensions_def offer_document_def comp_def)

lemma unit_dimension [simp]: "j_get (dimension_json d) ''unit'' = Inr (Some (JStr (dm_unit d)))"
  by (simp add: dimension_json_def)

lemma price_of_dimension [simp]: "price_of L (dimension_json d) = Inr (dm_price d)"
  by (simp add: price_of_def dimension_json_def)

lemma dec_str_int: "dec_str (Dec n 0) = show_int n"
proof -
  have "0 < length (show_nat (nat \<bar>n\<bar>))" by simp
  then show ?thesis
    by (simp add: dec_str_def Let_def show_int_def lit_def del: length_greater_0_conv)
qed

lemma show_int_not_inf: "show_int n \<noteq> lit ''Inf''"
proof -
  have "hd (show_nat k) \<noteq> 73" for k
    using show_nat_digits [of "hd (show_nat k)" k] by auto
  then show ?thesis
    by (cases "n < 0") (auto simp: show_int_def lit_def dest!: arg_cong [of _ _ hd])
qed

lemma range_of_json [simp]: "range_of L (Some (range_json e)) = Inr e"
proof (cases e)
  case (Some n)
  have "dec_read (show_int n) = Some (Finite (Dec n 0))"
    using dec_read_str [of "Dec n 0"] by (simp only: dec_str_int)
  with Some show ?thesis
    by (simp add: range_of_def range_json_def show_int_not_inf dec_to_int_def)
qed (simp add: range_of_def range_json_def)

lemma tier_of_dimension [simp]:
  "tier_of L (dimension_json d) =
     Inr \<lparr>it_begin = dm_begin d, it_end = dm_end d, it_unit_price = dm_price d\<rparr>"
proof -
  have "j_get (dimension_json d) ''beginRange'' = Inr (Some (range_json (Some (dm_begin d))))"
    and "j_get (dimension_json d) ''endRange'' = Inr (Some (range_json (dm_end d)))"
    by (simp_all add: dimension_json_def)
  then show ?thesis by (simp add: tier_of_def)
qed

section \<open>One price\<close>

text \<open>The dimensions of the products whose usage type has the suffix, in the order of the list.\<close>

definition offered :: "pystr option \<Rightarrow> offer list \<Rightarrow> dimension list" where
  "offered suffix offers =
     concat (map of_dims
       (filter (\<lambda>p. truthy suffix \<longrightarrow> ends_with (of_usage p) (the suffix)) offers))"

lemma find_unit_dimensions:
  "find_unit unit (map dimension_json ds) =
     Inr (map_option dimension_json (find (\<lambda>d. dm_unit d = unit) ds))"
  by (induction ds) auto

lemma single_price_list:
  "single_price L unit suffix None (map offer_document offers) =
     (case find (\<lambda>d. dm_unit d = unit) (offered suffix offers) of
        Some d \<Rightarrow> Inr (dm_price d)
      | None \<Rightarrow> single_price L unit suffix None [])"
proof (induction offers)
  case Nil
  then show ?case by (simp add: offered_def)
next
  case (Cons p offers)
  then show ?case
    by (simp add: offered_def find_unit_dimensions find_append split: option.split)
qed

section \<open>System operations\<close>

definition is_iops :: "offer \<Rightarrow> dimension \<Rightarrow> bool" where
  "is_iops p d \<longleftrightarrow>
     dm_unit d = lit ''IOPS-Mo'' \<or>
     contains_str (of_usage p) (lit ''VolumeP-IOPS'') \<and> dm_unit d \<noteq> lit ''MiBps-Mo''"

definition is_throughput :: "offer \<Rightarrow> dimension \<Rightarrow> bool" where
  "is_throughput p d \<longleftrightarrow>
     dm_unit d = lit ''MiBps-Mo'' \<or> contains_str (of_usage p) (lit ''VolumeP-Throughput'')"

definition pick :: "(offer \<Rightarrow> dimension \<Rightarrow> bool) \<Rightarrow> offer list \<Rightarrow> dimension list" where
  "pick want offers = concat (map (\<lambda>p. filter (want p) (of_dims p)) offers)"

lemma sort_dimensions:
  "r_fold (sort_dimension (of_usage p)) (a, b) (map dimension_json ds) =
     Inr (a @ map dimension_json (filter (is_iops p) ds),
          b @ map dimension_json (filter (is_throughput p) ds))"
  by (induction ds arbitrary: a b) (simp_all add: is_iops_def is_throughput_def)

lemma sort_documents:
  "r_fold (sort_document L) (a, b) (map offer_document offers) =
     Inr (a @ map dimension_json (pick is_iops offers),
          b @ map dimension_json (pick is_throughput offers))"
  by (induction offers arbitrary: a b) (simp_all add: sort_document_def sort_dimensions pick_def)

definition tier :: "dimension \<Rightarrow> iops_tier" where
  "tier d = \<lparr>it_begin = dm_begin d, it_end = dm_end d, it_unit_price = dm_price d\<rparr>"

lemma tiers_of_dimensions: "r_map (tier_of L) (map dimension_json ds) = Inr (map tier ds)"
  by (induction ds) (simp_all add: tier_def)

text \<open>
  What a volume type costs by a price list: the storage products, and the products of system
  operations, which only three types have.
\<close>

definition has_operations :: "pystr \<Rightarrow> bool" where
  "has_operations t \<longleftrightarrow> t \<in> {lit ''gp3'', lit ''io1'', lit ''io2''}"

definition listed_prices :: "pystr \<Rightarrow> decimal \<Rightarrow> offer list \<Rightarrow> volume_unit_prices" where
  "listed_prices t storage ops =
     \<lparr>vp_storage_gib_month = storage,
      vp_iops_month =
        (if t \<in> {lit ''gp3'', lit ''io1''} then Some (dm_price (hd (pick is_iops ops))) else None),
      vp_throughput_mibps_month =
        (if t = lit ''gp3'' then Some (dm_price (hd (pick is_throughput ops))) else None),
      vp_iops_tiers =
        (if t = lit ''io2'' then sort_key it_begin (map tier (pick is_iops ops)) else [])\<rparr>"

lemma operation_prices_list:
  assumes "has_operations t" and "pick is_iops ops \<noteq> []"
    and "t = lit ''gp3'' \<Longrightarrow> pick is_throughput ops \<noteq> []"
  shows "operation_prices L t (map offer_document ops) =
    Inr (vp_iops_month (listed_prices t s ops), vp_throughput_mibps_month (listed_prices t s ops),
         vp_iops_tiers (listed_prices t s ops))"
  using assms
  by (auto simp: operation_prices_def sort_documents tiers_of_dimensions listed_prices_def
      has_operations_def hd_map)

text \<open>The two queries for a volume type and what they are answered.\<close>

definition lists ::
  "('w, 'c) price_env \<Rightarrow> pystr \<Rightarrow> pystr \<Rightarrow> offer list \<Rightarrow> offer list \<Rightarrow> 'w \<Rightarrow> 'w \<Rightarrow> 'w \<Rightarrow> bool" where
  "lists E region t storage ops w w1 w2 \<longleftrightarrow>
     documents E ''AmazonEC2'' region
       [(''productFamily'', lit ''Storage''), (''volumeApiName'', t)] w =
       (w1, Inr (map offer_document storage)) \<and>
     (if has_operations t
      then documents E ''AmazonEC2'' region
             [(''productFamily'', lit ''System Operation''), (''volumeApiName'', t)] w1 =
             (w2, Inr (map offer_document ops))
      else w2 = w1)"

definition complete_list :: "pystr \<Rightarrow> offer list \<Rightarrow> offer list \<Rightarrow> bool" where
  "complete_list t storage ops \<longleftrightarrow>
     find (\<lambda>d. dm_unit d = lit ''GB-Mo'') (offered None storage) \<noteq> None \<and>
     (has_operations t \<longrightarrow> pick is_iops ops \<noteq> []) \<and>
     (t = lit ''gp3'' \<longrightarrow> pick is_throughput ops \<noteq> [])"

definition storage_price :: "offer list \<Rightarrow> decimal" where
  "storage_price storage =
     dm_price (the (find (\<lambda>d. dm_unit d = lit ''GB-Mo'') (offered None storage)))"

lemma volume_prices_listed:
  assumes "lists E region t storage ops w w1 w2" and "complete_list t storage ops"
  shows "volume_prices E region t w = (w2, Inr (listed_prices t (storage_price storage) ops))"
proof -
  have s: "single_price (pe_json E) (lit ''GB-Mo'') None None (map offer_document storage) =
      Inr (storage_price storage)"
    using assms(2) by (auto simp: complete_list_def single_price_list storage_price_def)
  show ?thesis
  proof (cases "has_operations t")
    case True
    have "operation_prices (pe_json E) t (map offer_document ops) =
        Inr (vp_iops_month (listed_prices t (storage_price storage) ops),
             vp_throughput_mibps_month (listed_prices t (storage_price storage) ops),
             vp_iops_tiers (listed_prices t (storage_price storage) ops))"
      using assms(2) True by (intro operation_prices_list) (auto simp: complete_list_def)
    moreover have "t \<in> {lit ''gp3'', lit ''io1'', lit ''io2''}"
      using True by (simp only: has_operations_def)
    moreover have "listed_prices t (storage_price storage) ops =
        \<lparr>vp_storage_gib_month = storage_price storage,
         vp_iops_month = vp_iops_month (listed_prices t (storage_price storage) ops),
         vp_throughput_mibps_month =
           vp_throughput_mibps_month (listed_prices t (storage_price storage) ops),
         vp_iops_tiers = vp_iops_tiers (listed_prices t (storage_price storage) ops)\<rparr>"
      by (simp add: listed_prices_def)
    ultimately show ?thesis
      using assms(1) s True unfolding lists_def volume_prices_def by (simp only: s_bind_def) auto
  next
    case False
    with assms s show ?thesis
      by (simp add: lists_def volume_prices_def s_bind_def listed_prices_def has_operations_def)
  qed
qed

text \<open>Incomplete lists are refused: without a storage price, IOPS or throughput.\<close>

lemma volume_prices_incomplete:
  assumes "lists E region t storage ops w w1 w2" and "\<not> complete_list t storage ops"
  shows "\<exists>w' m. volume_prices E region t w = (w', Inl (PricingLookupError m))"
proof (cases "find (\<lambda>d. dm_unit d = lit ''GB-Mo'') (offered None storage)")
  case None
  with assms show ?thesis
    by (auto simp: lists_def volume_prices_def s_bind_def single_price_list)
next
  case (Some d)
  with assms(2) have ops: "has_operations t"
    and bad: "pick is_iops ops = [] \<or> t = lit ''gp3'' \<and> pick is_throughput ops = []"
    by (auto simp: complete_list_def has_operations_def)
  have "\<exists>m. operation_prices (pe_json E) t (map offer_document ops) = Inl (PricingLookupError m)"
    using bad by (auto simp: operation_prices_def sort_documents hd_map)
  with assms(1) ops Some show ?thesis
    by (auto simp: lists_def volume_prices_def s_bind_def single_price_list has_operations_def)
qed

section \<open>Loaded prices suffice\<close>

text \<open>
  Whatever the documents hold: when the prices of a volume type could be loaded, they hold what
  the calculator needs for it.
\<close>

lemma operation_prices_suffice:
  assumes "operation_prices L t ops = Inr (iops, throughput, tiers)"
  shows "t = lit ''gp3'' \<Longrightarrow> iops \<noteq> None \<and> throughput \<noteq> None"
    and "t = lit ''io1'' \<Longrightarrow> iops \<noteq> None" and "t = lit ''io2'' \<Longrightarrow> tiers \<noteq> []"
  using assms
  by (auto simp: operation_prices_def split: if_splits dest!: r_map_Inr_length)
     (auto dest: arg_cong [of "sort_key it_begin _" "[]" length])

lemma volume_prices_suffice:
  assumes "volume_prices E region (er_volume_type r) w = (w', Inr vp)"
  shows "prices_suffice r vp"
proof (cases "has_operations (er_volume_type r)")
  case True
  then obtain ops iops throughput tiers where
    "operation_prices (pe_json E) (er_volume_type r) ops = Inr (iops, throughput, tiers)"
    "vp_iops_month vp = iops" "vp_throughput_mibps_month vp = throughput"
    "vp_iops_tiers vp = tiers"
    using assms by (auto simp: volume_prices_def s_bind_Inr has_operations_def)
  with operation_prices_suffice [OF this(1)] show ?thesis by (auto simp: prices_suffice_def)
qed (auto simp: prices_suffice_def has_operations_def)

lemma s_map_Inr:
  assumes "s_map f xs s = (s', Inr ys)"
  shows "list_all2 (\<lambda>x y. \<exists>a b. f x a = (b, Inr y)) xs ys"
  using assms
proof (induction xs arbitrary: s ys)
  case (Cons x xs)
  then show ?case by (fastforce simp: s_bind_Inr)
qed simp

lemma map_of_entries:
  assumes "list_all2 (\<lambda>t e. fst e = t \<and> P t (snd e)) ts es" and "t \<in> set ts"
  shows "\<exists>v. map_of es t = Some v \<and> P t v"
  using assms by (induction rule: list_all2_induct) auto

end
