(* ===== verification/CachedPrices.thy ===== *)
theory CachedPrices
  imports CacheKey PriceList
begin

text \<open>
  The estimate of the price interface over a cache (\<open>app/pricing/aws_api.py\<close> over
  \<open>app/pricing/cache.py\<close>). The locale \<open>payload_cache\<close> is the cache protocol for payloads; its
  lemmas say what a request that was answered does to later requests for the same prices, and it
  is interpreted on both caches. At the end the service of \<open>app/pricing/service.py\<close> as it is made.
\<close>

section \<open>A miss\<close>

text \<open>A request that finds nothing in the cache and is answered.\<close>

definition missed ::
  "('w, 'c) price_env \<Rightarrow> 'w \<Rightarrow> 'c \<Rightarrow> pricing_request \<Rightarrow> bool" where
  "missed E w c req \<longleftrightarrow>
     pe_cache_get E c (snd (pe_now E w)) (cache_key (pe_sha256 E) req) = None"

text \<open>What it loads, and the two readings of the clock after the load.\<close>

definition loaded :: "('w, 'c) price_env \<Rightarrow> 'w \<Rightarrow> pricing_request \<Rightarrow> py_exc + api_prices" where
  "loaded E w req = snd (load_prices E req (fst (pe_now E w)))"

definition after_load :: "('w, 'c) price_env \<Rightarrow> 'w \<Rightarrow> pricing_request \<Rightarrow> 'w" where
  "after_load E w req = fst (load_prices E req (fst (pe_now E w)))"

definition fetched_time :: "('w, 'c) price_env \<Rightarrow> 'w \<Rightarrow> pricing_request \<Rightarrow> instant" where
  "fetched_time E w req = snd (pe_now E (after_load E w req))"

definition stored_time :: "('w, 'c) price_env \<Rightarrow> 'w \<Rightarrow> pricing_request \<Rightarrow> instant" where
  "stored_time E w req = snd (pe_now E (fst (pe_now E (after_load E w req))))"

lemma api_estimate_miss:
  assumes "missed E w c req"
  shows "snd (api_estimate E (w, c) req) =
      r_bind (loaded E w req) (\<lambda>p. api_result req p (fetched_time E w req))"
    and "snd (fst (api_estimate E (w, c) req)) =
      (case loaded E w req of
         Inl e \<Rightarrow> c
       | Inr p \<Rightarrow> pe_cache_set E c (stored_time E w req) (cache_key (pe_sha256 E) req)
                   (payload p (fetched_time E w req)))"
  using assms
  by (simp_all add: missed_def loaded_def after_load_def fetched_time_def stored_time_def
      api_estimate_def Let_def split_beta split: sum.split)

lemma api_estimate_hit:
  assumes "pe_cache_get E c (snd (pe_now E w)) (cache_key (pe_sha256 E) req) = Some (payload p t)"
    and "in_calendar t"
  shows "api_estimate E (w, c) req = ((fst (pe_now E w), c), api_result req p t)"
  using assms by (simp add: api_estimate_def Let_def from_payload_payload split_beta)

section \<open>Loaded prices suffice\<close>

text \<open>
  The prices loaded for a request answer it, and every other request for the same prices.
\<close>

lemma load_prices_suffice:
  assumes "load_prices E req w = (w', Inr p)" and "loads_same req req'"
    and "\<And>xs. set (pe_set_order E xs) = set xs"
  shows "r_ok (calculate req' (unit_prices_of p))"
proof (cases req)
  case (EbsVolumePricingRequest r)
  with assms(2) obtain r' where r': "req' = EbsVolumePricingRequest r'"
    "er_region r' = er_region r" "er_volume_type r' = er_volume_type r" by (cases req') auto
  from assms(1) EbsVolumePricingRequest obtain vp w1 w2 where
    vp: "volume_prices E (er_region r) (er_volume_type r') w1 = (w2, Inr vp)"
    and v: "ap_volumes p = [(er_volume_type r', vp)]" by (auto simp: s_bind_Inr r'(3))
  show ?thesis
    using volume_prices_suffice [OF vp] by (simp add: r'(1) calculate_ebs_ok unit_prices_of_def v)
next
  case (StoppedInstancePricingRequest region volumes count)
  with assms(2) obtain volumes' count' where
    r': "req' = StoppedInstancePricingRequest region volumes' count'"
    "er_volume_type ` set volumes' = er_volume_type ` set volumes" "count' = 0 \<longleftrightarrow> count = 0"
    by (cases req') auto
  define types where "types = pe_set_order E (map er_volume_type volumes)"
  from assms(1) StoppedInstancePricingRequest obtain vps w1 w2 where
    m: "s_map (\<lambda>t. s_bind (volume_prices E region t) (\<lambda>vp. s_lift (Inr (t, vp)))) types w1 = (w2, Inr vps)"
    and v: "ap_volumes p = vps" and ip: "count \<noteq> 0 \<Longrightarrow> ap_public_ipv4 p \<noteq> None"
    by (auto simp: s_bind_Inr types_def split: if_splits)
  have "list_all2 (\<lambda>t e. fst e = t \<and> (\<exists>a b. volume_prices E region t a = (b, Inr (snd e)))) types vps"
    by (rule list.rel_mono_strong [OF s_map_Inr [OF m]]) (auto simp: s_bind_Inr, blast)
  note entry = map_of_entries [OF this]
  have "r_ok (calculate_ebs r (unit_prices_of p))" if "r \<in> set volumes'" for r
  proof -
    from that have "er_volume_type r \<in> er_volume_type ` set volumes'" by (rule imageI)
    then have "er_volume_type r \<in> set types" by (simp add: types_def assms(3) r'(2))
    from entry [OF this] obtain vp a b where "map_of vps (er_volume_type r) = Some vp"
      "volume_prices E region (er_volume_type r) a = (b, Inr vp)" by blast
    with volume_prices_suffice [of E region r] show ?thesis
      by (simp add: calculate_ebs_ok unit_prices_of_def v)
  qed
  with stopped_volumes_ok [of volumes' "unit_prices_of p" "(dec_zero, [], [])"] ip
  show ?thesis
    by (auto simp: r' r_ok_iff split_paired_all unit_prices_of_def)
next
  case (SnapshotPricingRequest region n t)
  with assms(2) obtain n' where "req' = SnapshotPricingRequest region n' t" by (cases req') auto
  with assms(1) SnapshotPricingRequest show ?thesis
    by (auto simp: s_bind_Inr unit_prices_of_def no_prices_def Let_def split: if_splits)
next
  case (ElasticIpPricingRequest region)
  with assms(2) have "req' = ElasticIpPricingRequest region" by (cases req') auto
  with assms(1) ElasticIpPricingRequest show ?thesis
    by (auto simp: s_bind_Inr unit_prices_of_def no_prices_def)
qed

section \<open>Over a cache that keeps its protocol\<close>

locale payload_cache = pricing_cache cget cset fresh_for
  for cget :: "'c \<Rightarrow> instant \<Rightarrow> pystr \<Rightarrow> json option"
    and cset :: "'c \<Rightarrow> instant \<Rightarrow> pystr \<Rightarrow> json \<Rightarrow> 'c"
    and fresh_for :: int
begin

lemma repeated:
  assumes cache: "pe_cache_get E = cget" "pe_cache_set E = cset"
    and miss: "missed E w c req" and p: "loaded E w req = Inr p"
    and same: "cache_key (pe_sha256 E) req' = cache_key (pe_sha256 E) req"
    and fresh: "snd (pe_now E u) - stored_time E w req \<le> fresh_for"
    and calendar: "in_calendar (fetched_time E w req)"
  shows "api_estimate E (u, snd (fst (api_estimate E (w, c) req))) req' =
    ((fst (pe_now E u), snd (fst (api_estimate E (w, c) req))),
     api_result req' p (fetched_time E w req))"
  using fresh p
  by (intro api_estimate_hit calendar) (simp add: api_estimate_miss(2) [OF miss] cache same get_set_same)

lemma expired:
  assumes cache: "pe_cache_get E = cget" "pe_cache_set E = cset"
    and miss: "missed E w c req" and p: "loaded E w req = Inr p"
    and same: "cache_key (pe_sha256 E) req' = cache_key (pe_sha256 E) req"
    and old: "fresh_for < snd (pe_now E u) - stored_time E w req"
  shows "missed E u (snd (fst (api_estimate E (w, c) req))) req'"
  using old p by (simp add: missed_def api_estimate_miss(2) [OF miss] cache same get_set_same)

lemma others:
  assumes cache: "pe_cache_get E = cget" "pe_cache_set E = cset"
    and miss: "missed E w c req"
    and other: "cache_key (pe_sha256 E) req' \<noteq> cache_key (pe_sha256 E) req"
  shows "pe_cache_get E (snd (fst (api_estimate E (w, c) req))) now (cache_key (pe_sha256 E) req') =
    pe_cache_get E c now (cache_key (pe_sha256 E) req')"
  using other
  by (simp add: api_estimate_miss(2) [OF miss] cache get_set_other split: sum.split)

end

interpretation db_payloads: payload_cache "db_get ttl" db_set "ttl_us ttl" for ttl
  by (rule payload_cache.intro) unfold_locales

interpretation memory_payloads: payload_cache "memory_get ttl" memory_set "ttl_us ttl" for ttl
  by (rule payload_cache.intro) unfold_locales

section \<open>In the pricing service\<close>

lemma api_result_priced:
  assumes "api_result req p t = Inr r"
  shows "coherent r" and "pr_estimated_monthly_cost r \<noteq> None" and "pr_source r = AWS_PRICING_API"
  using assms by (auto simp: api_result_def coherent_def Let_def split: if_splits)

lemma api_estimate_priced:
  assumes "api_estimate E s req = (s', Inr r)"
  shows "coherent r" and "pr_estimated_monthly_cost r \<noteq> None" and "pr_source r = AWS_PRICING_API"
proof -
  have "\<exists>p t. api_result req p t = Inr r"
    using assms
    by (auto simp: api_estimate_def Let_def split_beta split: option.splits sum.splits)
  then show "coherent r" and "pr_estimated_monthly_cost r \<noteq> None" and "pr_source r = AWS_PRICING_API"
    using api_result_priced by blast+
qed

text \<open>With the price interface in front, the table answers when the interface raises.\<close>

lemma estimate_in_front:
  assumes "st_pricing_mode st = PM_AUTO" and "fallback_estimate table req = Inr f"
  shows "snd (estimate st (Some (api_estimate E)) (fallback_backend table) s req) =
    (case snd (api_estimate E s req) of
       Inr r \<Rightarrow> r
     | Inl e \<Rightarrow> f\<lparr>pr_warnings := exc_text e # pr_warnings f\<rparr>)"
  using assms
  by (cases "api_estimate E s req") (auto simp: estimate_def fallback_backend_def split: sum.split)

section \<open>The service of a scan\<close>

text \<open>
  \<open>PricingService.__init__\<close>: a service over the cache it is given, or over one of its own in
  memory; without a provider only the table is asked. Both callers that give a cache give the
  one of the database with the time to live of the settings.
\<close>

datatype price_cache =
    Memory_cache "json memory_cache"
  | Db_cache "json price_row list"

definition cache_get :: "int \<Rightarrow> price_cache \<Rightarrow> instant \<Rightarrow> pystr \<Rightarrow> json option" where
  "cache_get ttl c now key =
     (case c of
        Memory_cache items \<Rightarrow> memory_get ttl items now key
      | Db_cache rows \<Rightarrow> db_get ttl rows now key)"

definition cache_set :: "price_cache \<Rightarrow> instant \<Rightarrow> pystr \<Rightarrow> json \<Rightarrow> price_cache" where
  "cache_set c now key p =
     (case c of
        Memory_cache items \<Rightarrow> Memory_cache (memory_set items now key p)
      | Db_cache rows \<Rightarrow> Db_cache (db_set rows now key p))"

interpretation chosen: pricing_cache "cache_get ttl" cache_set "ttl_us ttl" for ttl
proof unfold_locales
  fix c :: price_cache and t now k k' p
  show "cache_get ttl (cache_set c t k p) now k = (if now - t \<le> ttl_us ttl then Some p else None)"
    by (cases c) (simp_all add: cache_get_def cache_set_def memory.get_set_same db.get_set_same)
  show "cache_get ttl (cache_set c t k p) now k' = cache_get ttl c now k'" if "k' \<noteq> k"
    using that by (cases c) (simp_all add: cache_get_def cache_set_def memory.get_set_other db.get_set_other)
qed

definition selected_cache :: "price_cache option \<Rightarrow> price_cache" where
  "selected_cache given = (case given of Some c \<Rightarrow> c | None \<Rightarrow> Memory_cache Map.empty)"

definition pricing_service ::
  "('w, price_cache) price_env option \<Rightarrow> app_settings \<Rightarrow> 'w \<times> price_cache \<Rightarrow> pricing_request \<Rightarrow>
   ('w \<times> price_cache) \<times> pricing_result" where
  "pricing_service provider st =
     estimate st
       (map_option (\<lambda>E. api_estimate
          (E\<lparr>pe_cache_get := cache_get (st_pricing_cache_ttl_seconds st), pe_cache_set := cache_set\<rparr>)) provider)
       (fallback_backend fallback_prices)"

text \<open>In a demo the service never asks its provider and leaves its cache alone.\<close>

lemma fallback_only_service:
  assumes "st_pricing_mode st = PM_FALLBACK_ONLY"
  shows "fst (pricing_service provider st s req) = s"
  using assms
  by (auto simp: pricing_service_def estimate_def fallback_backend_def split: option.split sum.split)

end
