(* ===== verification/ExamplePrices.thy ===== *)
theory ExamplePrices
  imports Example CachedPrices
begin

text \<open>
  A small price list for the properties of the price interface: one region, gp3 volumes and
  public addresses, served by a provider whose clock advances a second with every reading.
\<close>

section \<open>The provider and its clock\<close>

definition ex_time :: instant where
  "ex_time = 738733 * us_per_day"

lemma ex_time_calendar [simp]: "in_calendar ex_time" "in_calendar (ex_time + us_per_second)"
  "in_calendar (ex_time + us_per_second + us_per_second)"
  by (simp_all add: in_calendar_def ex_time_def max_day_def us_per_day_def us_per_second_def)

definition dim :: "string \<Rightarrow> int \<Rightarrow> int option \<Rightarrow> decimal \<Rightarrow> dimension" where
  "dim unit b e price =
     \<lparr>dm_code = lit ''rate'', dm_unit = lit unit, dm_begin = b, dm_end = e, dm_price = price\<rparr>"

definition ex_storage :: "offer list" where
  "ex_storage =
     [\<lparr>of_usage = lit ''EBS:VolumeUsage.gp3'', of_dims = [dim ''GB-Mo'' 0 None (Dec 8 (-2))]\<rparr>]"

definition ex_operations :: "offer list" where
  "ex_operations =
     [\<lparr>of_usage = lit ''EBS:VolumeP-IOPS.gp3'', of_dims = [dim ''IOPS-Mo'' 0 None (Dec 5 (-3))]\<rparr>,
      \<lparr>of_usage = lit ''EBS:VolumeP-Throughput.gp3'',
       of_dims = [dim ''MiBps-Mo'' 0 None (Dec 4 (-2))]\<rparr>]"

definition ex_addresses :: "offer list" where
  "ex_addresses =
     [\<lparr>of_usage = lit ''PublicIPv4:InUseAddress'', of_dims = [dim ''Hrs'' 0 None (Dec 9 (-3))]\<rparr>,
      \<lparr>of_usage = lit ''PublicIPv4:IdleAddress'', of_dims = [dim ''Hrs'' 0 None (Dec 5 (-3))]\<rparr>]"

definition ex_answer :: "pystr \<Rightarrow> (pystr \<times> pystr) list \<Rightarrow> offer list" where
  "ex_answer service filters =
     (if service = lit ''AmazonVPC'' then ex_addresses
      else if map_of filters (lit ''productFamily'') = Some (lit ''Storage'') then ex_storage
      else ex_operations)"

definition ex_json :: json_lib where
  "ex_json =
     \<lparr>jl_str = (\<lambda>v. []), jl_repr = (\<lambda>v. []), jl_decimal = (\<lambda>v. Inl InvalidOperation),
      jl_int = (\<lambda>v. Inl InvalidOperation), jl_fromiso = (\<lambda>s. Inl InvalidOperation)\<rparr>"

definition ex_env :: "(instant, json price_row list) price_env" where
  "ex_env =
     \<lparr>pe_get_prices = (\<lambda>service filters w. (w, Inr (map offer_document (ex_answer service filters)))),
      pe_now = (\<lambda>w. (w + us_per_second, w)),
      pe_cache_get = db_get 60, pe_cache_set = db_set,
      pe_sha256 = (\<lambda>s. s), pe_set_order = remdups, pe_json = ex_json\<rparr>"

section \<open>What it answers\<close>

lemma ex_address_price:
  "load_prices ex_env (ElasticIpPricingRequest ex_region) w =
     (w, Inr (no_prices\<lparr>ap_public_ipv4 := Some (Dec 5 (-3))\<rparr>))"
proof -
  have "offered (Some (lit ''PublicIPv4:IdleAddress'')) ex_addresses = [dim ''Hrs'' 0 None (Dec 5 (-3))]"
    by (simp add: offered_def ex_addresses_def ends_with_def lit_def)
  then have "single_price ex_json (lit ''Hrs'') (Some (lit ''PublicIPv4:IdleAddress'')) None
      (map offer_document ex_addresses) = Inr (Dec 5 (-3))"
    unfolding single_price_list by (simp add: dim_def)
  then show ?thesis
    by (simp add: public_ipv4_price_def documents_def ex_env_def ex_answer_def s_bind_def)
qed

lemma ex_lists: "lists ex_env ex_region (lit ''gp3'') ex_storage ex_operations w w w"
  by (simp add: lists_def documents_def ex_env_def ex_answer_def)

lemma ex_complete: "complete_list (lit ''gp3'') ex_storage ex_operations"
  by (simp add: complete_list_def ex_storage_def ex_operations_def offered_def pick_def is_iops_def
      is_throughput_def dim_def)

lemma ex_missed: "missed ex_env w [] req"
  by (simp add: missed_def ex_env_def db_get_def get_row_def)

lemma ex_loaded:
  "loaded ex_env w (ElasticIpPricingRequest ex_region) =
     Inr (no_prices\<lparr>ap_public_ipv4 := Some (Dec 5 (-3))\<rparr>)"
  by (simp add: loaded_def ex_address_price del: load_prices.simps)

lemma ex_times:
  "fetched_time ex_env ex_time (ElasticIpPricingRequest ex_region) = ex_time + us_per_second"
  "stored_time ex_env ex_time (ElasticIpPricingRequest ex_region) = ex_time + us_per_second + us_per_second"
  by (simp_all add: fetched_time_def stored_time_def after_load_def ex_address_price
      del: load_prices.simps) (simp_all add: ex_env_def)

end
