(* ===== verification/Settings.thy ===== *)
theory Settings
  imports Runs Validators
begin

text \<open>
  Where a run gets its settings and its provider from: \<open>core/config.py\<close> (the environment),
  \<open>services/settings_service.py\<close> (the stored settings), \<open>services/provider_factory.py\<close> and
  \<open>services/demo_seeder.py\<close>.

  The table \<open>settings\<close> has one row, kept here as an option of the settings that its JSON holds;
  they are validated whenever they are read. What opens the demo provider is an argument of the
  seeder.
\<close>

section \<open>The environment\<close>

record environment =
  ev_mode :: mode
  ev_database_url :: pystr
  ev_aws_profile :: "pystr option"
  ev_aws_region_selection :: "pystr option"
  ev_pricing_cache_ttl :: int
  ev_cors_origins :: pystr
  ev_demo_seed :: bool
  ev_demo_fixture_path :: "pystr option"
  ev_log_level :: pystr

text \<open>The validator that runs before the two AWS settings are stored.\<close>

definition empty_aws_setting_is_none :: "pystr option \<Rightarrow> pystr option" where
  "empty_aws_setting_is_none value = (if value = Some [] then None else value)"

text \<open>\<open>s.split(",")\<close>.\<close>

fun split_comma :: "pystr \<Rightarrow> pystr list" where
  "split_comma [] = [[]]"
| "split_comma (c # s) =
     (if c = 44 then [] # split_comma s
      else (case split_comma s of [] \<Rightarrow> [[c]] | p # ps \<Rightarrow> (c # p) # ps))"

definition comma_items :: "pystr \<Rightarrow> pystr list" where
  "comma_items s = filter (\<lambda>item. item \<noteq> []) (map strip (split_comma s))"

definition region_selection :: "environment \<Rightarrow> pystr list option" where
  "region_selection env =
     (if \<not> truthy (ev_aws_region_selection env) then None
      else
        (let values = comma_items (the (ev_aws_region_selection env))
         in if values = [] then None else Some values))"

definition cors_origins :: "environment \<Rightarrow> pystr list" where
  "cors_origins env = comma_items (ev_cors_origins env)"

section \<open>The stored settings\<close>

definition save_settings :: "app_settings option \<Rightarrow> app_settings \<Rightarrow> app_settings option" where
  "save_settings row st = Some st"

text \<open>
  The validation of \<open>AppSettings\<close>, for a value of the right types; the text of pydantic's error
  is left out.
\<close>

definition ValidationError :: "pystr \<Rightarrow> py_exc" where
  "ValidationError model = PyExc (lit ''ValidationError'') model"

definition safe_tag :: "nat \<Rightarrow> pystr \<Rightarrow> bool" where
  "safe_tag n s \<longleftrightarrow> fullmatch (RRep (RClass tag_char) 1 n) s"

definition settings_valid :: "app_settings \<Rightarrow> bool" where
  "settings_valid st \<longleftrightarrow>
     1 \<le> st_min_consecutive_observations st \<and> safe_tag 128 (st_ignore_tag_key st) \<and>
     safe_tag 256 (st_ignore_tag_value st) \<and> safe_tag 128 (st_ignore_reason_tag_key st) \<and>
     0 \<le> st_pricing_cache_ttl_seconds st \<and> 1 \<le> st_max_region_concurrency st \<and>
     (case st_demo_anchor_at st of None \<Rightarrow> True | Some t \<Rightarrow> aware t)"

definition checked_settings :: "app_settings \<Rightarrow> py_exc + app_settings" where
  "checked_settings st =
     (if settings_valid st then Inr st else Inl (ValidationError (lit ''AppSettings'')))"

definition load_settings ::
  "environment \<Rightarrow> app_settings option \<Rightarrow> py_exc + app_settings option \<times> app_settings" where
  "load_settings env row =
     (case row of
        None \<Rightarrow>
          r_bind (checked_settings
            (default_settings
               \<lparr>st_regions := region_selection env,
                 st_pricing_cache_ttl_seconds := ev_pricing_cache_ttl env,
                 st_pricing_mode := (if ev_mode env = DEMO then PM_FALLBACK_ONLY else PM_AUTO)\<rparr>))
            (\<lambda>st. Inr (save_settings row st, st))
      | Some st \<Rightarrow> r_bind (checked_settings st) (\<lambda>st. Inr (row, st)))"

section \<open>The provider\<close>

text \<open>Which provider \<open>build_provider\<close> makes; it also changes the settings it was given.\<close>

datatype provider_choice =
    Demo_at nat datetime
  | Aws_profile "pystr option"

definition build_provider ::
  "environment \<Rightarrow> app_settings \<Rightarrow> datetime \<Rightarrow> app_settings \<times> provider_choice" where
  "build_provider env st now =
     (if ev_mode env = DEMO
      then (st\<lparr>st_pricing_mode := PM_FALLBACK_ONLY\<rparr>,
            Demo_at 5 (case st_demo_anchor_at st of Some anchor \<Rightarrow> anchor | None \<Rightarrow> now))
      else (st, Aws_profile (ev_aws_profile env)))"

section \<open>Seeding the demo\<close>

definition mark_seeded :: "db \<Rightarrow> scan \<Rightarrow> py_exc + db" where
  "mark_seeded d s =
     (case get_scan d (s_id s) of
        None \<Rightarrow> Inl (PyExc (lit ''RuntimeError'')
                  (lit ''Seeded scan '' @ uuid_text (s_id s) @ lit '' disappeared''))
      | Some stored \<Rightarrow> Inr (d\<lparr>db_scans := put_scan (db_scans d) (stored\<lparr>s_seeded := True\<rparr>)\<rparr>))"

definition seed_scan ::
  "(nat \<Rightarrow> datetime \<Rightarrow> py_exc + cloud_provider) \<Rightarrow> 's pricing \<Rightarrow> app_settings \<Rightarrow> instant \<Rightarrow> 's \<Rightarrow> db \<Rightarrow>
   nat \<times> int \<Rightarrow> py_exc + db \<times> scan" where
  "seed_scan demo pricing st anchor ps d step =
     (let time = anchor - snd step * us_per_day
      in r_bind (demo (fst step) (utc anchor)) (\<lambda>P.
           snd (run_scan P pricing st d ps None None time time)))"

definition seed_steps :: "(nat \<times> int) list" where
  "seed_steps = [(1, 21), (2, 14), (3, 7), (4, 2)]"

text \<open>
  Each scan and each mark is a transaction of its own: what was committed before an exception
  stays.
\<close>

fun seed_loop ::
  "(nat \<Rightarrow> datetime \<Rightarrow> py_exc + cloud_provider) \<Rightarrow> 's pricing \<Rightarrow> app_settings \<Rightarrow> instant \<Rightarrow> 's \<Rightarrow>
   (nat \<times> int) list \<Rightarrow> db \<Rightarrow> db \<times> (py_exc + unit)" where
  "seed_loop demo pricing st anchor ps [] d = (d, Inr ())"
| "seed_loop demo pricing st anchor ps (step # steps) d =
     (case seed_scan demo pricing st anchor ps d step of
        Inl e \<Rightarrow> (d, Inl e)
      | Inr (d', s) \<Rightarrow>
          (case mark_seeded d' s of
             Inl e \<Rightarrow> (d', Inl e)
           | Inr d'' \<Rightarrow> seed_loop demo pricing st anchor ps steps d''))"

definition seed_if_empty ::
  "(nat \<Rightarrow> datetime \<Rightarrow> py_exc + cloud_provider) \<Rightarrow> 's pricing \<Rightarrow> environment \<Rightarrow> instant \<Rightarrow> 's \<Rightarrow>
   app_settings option \<Rightarrow> db \<Rightarrow> app_settings option \<times> db \<times> (py_exc + bool)" where
  "seed_if_empty demo pricing env now ps row d =
     (if db_scans d \<noteq> [] then (row, d, Inr False)
      else
        (case load_settings env row of
           Inl e \<Rightarrow> (row, d, Inl e)
         | Inr (row', st) \<Rightarrow>
             (let st' = st\<lparr>st_demo_anchor_at := Some (utc now), st_pricing_mode := PM_FALLBACK_ONLY\<rparr>
              in case seed_loop demo pricing st' now ps seed_steps d of
                   (d', r) \<Rightarrow> (save_settings row' st', d', r_bind r (\<lambda>u. Inr True)))))"

section \<open>What holds of them\<close>

lemma split_comma_join: "split_comma s \<noteq> [] \<and> join [44] (split_comma s) = s"
proof (induction s)
  case (Cons c s)
  then obtain p ps where "split_comma s = p # ps" by (cases "split_comma s") auto
  with Cons show ?case by (cases ps) auto
qed simp

lemma comma_items_nonempty: "item \<in> set (comma_items s) \<Longrightarrow> item \<noteq> []"
  by (auto simp: comma_items_def)

lemma strip_ends:
  assumes "strip s \<noteq> []"
  shows "\<not> py_space (hd (strip s))" and "\<not> py_space (last (strip s))"
proof -
  let ?t = "dropWhile py_space s" and ?u = "dropWhile py_space (rev (dropWhile py_space s))"
  have ne: "?u \<noteq> []" using assms by (simp add: strip_def)
  then show "\<not> py_space (last (strip s))"
    using hd_dropWhile [of py_space "rev ?t"] by (simp add: strip_def last_rev)
  have t: "?t \<noteq> []"
  proof
    assume "?t = []"
    with ne show False by simp
  qed
  then have hd_t: "\<not> py_space (hd ?t)" by (rule hd_dropWhile)
  obtain a where a: "rev ?t = a @ ?u" using takeWhile_dropWhile_id [of py_space "rev ?t"] by metis
  have "rev (a @ ?u) = ?t" using a by (metis rev_rev_ident)
  then have "rev ?u @ rev a = ?t" by simp
  then have "hd ?t = hd (rev ?u)" using ne by (metis hd_append2 rev_is_Nil_conv)
  then show "\<not> py_space (hd (strip s))" using hd_t by (simp add: strip_def)
qed

lemma region_selection_nonempty:
  "region_selection env = Some rs \<Longrightarrow> rs \<noteq> [] \<and> [] \<notin> set rs"
  using comma_items_nonempty by (auto simp: region_selection_def Let_def split: if_splits)

lemma checked_settings_Inr: "checked_settings st = Inr st' \<longleftrightarrow> st' = st \<and> settings_valid st"
  by (auto simp: checked_settings_def)

lemma load_settings_stored:
  "load_settings env row = Inr (row', st) \<Longrightarrow> row' = Some st \<and> settings_valid st"
  by (auto simp: load_settings_def save_settings_def checked_settings_Inr r_bind_Inr
      split: option.splits)

lemma load_settings_again:
  "load_settings env row = Inr (row', st) \<Longrightarrow> load_settings env' row' = Inr (row', st)"
  using load_settings_stored [of env row row' st]
  by (simp add: load_settings_def checked_settings_def)

lemma default_settings_valid: "settings_valid default_settings"
  by code_simp

lemma load_settings_ok:
  "load_settings env None =
     (if 0 \<le> ev_pricing_cache_ttl env
      then Inr (Some (default_settings
               \<lparr>st_regions := region_selection env,
                 st_pricing_cache_ttl_seconds := ev_pricing_cache_ttl env,
                 st_pricing_mode := (if ev_mode env = DEMO then PM_FALLBACK_ONLY else PM_AUTO)\<rparr>),
             default_settings
               \<lparr>st_regions := region_selection env,
                 st_pricing_cache_ttl_seconds := ev_pricing_cache_ttl env,
                 st_pricing_mode := (if ev_mode env = DEMO then PM_FALLBACK_ONLY else PM_AUTO)\<rparr>)
      else Inl (ValidationError (lit ''AppSettings'')))"
  using default_settings_valid
  by (simp add: load_settings_def checked_settings_def settings_valid_def save_settings_def)

text \<open>A demo never asks the price interface.\<close>

lemma build_provider_demo:
  "build_provider env st now = (st', Demo_at n anchor) \<Longrightarrow> st_pricing_mode st' = PM_FALLBACK_ONLY"
  by (auto simp: build_provider_def split: if_splits)

lemma seed_only_once:
  "db_scans d \<noteq> [] \<Longrightarrow> seed_if_empty demo pricing env now ps row d = (row, d, Inr False)"
  by (simp add: seed_if_empty_def)

lemma mark_seeded_findings:
  "mark_seeded d s = Inr d' \<Longrightarrow> db_findings d' = db_findings d \<and> db_observations d' = db_observations d \<and> db_next_id d' = db_next_id d"
  by (auto simp: mark_seeded_def split: option.splits)

lemma run_scan_started:
  assumes "run_scan P pricing st d ps requested None started finished = (ps', Inr (d', s'))"
  shows "s_started_at s' = started"
proof (cases "r_ok (get_identity P) \<and> r_ok (list_regions P)")
  case True
  then obtain ident infos where "get_identity P = Inr ident" "list_regions P = Inr infos"
    by (auto simp: r_ok_iff)
  from run_scan_row(3) [OF assms this] show ?thesis .
next
  case False
  then show ?thesis using assms
    by (auto simp: run_scan_def scan_row_def new_scan_def fail_scan_def r_ok_iff Let_def
        split: sum.splits py_exc.splits provider_error.splits)
qed

text \<open>
  Seeding keeps the invariant of the tables, wherever it stops: the days of the steps are in
  order, and a scan keeps the invariant.
\<close>

lemma seed_loop_inv:
  assumes "seed_loop demo pricing st anchor ps steps d = (d', r)" and "scan_inv t d"
    and "sorted_wrt (\<lambda>a b. snd b \<le> snd a) steps" and "\<forall>step \<in> set steps. m \<le> snd step"
    and "\<forall>step \<in> set steps. t \<le> anchor - snd step * us_per_day" and "t \<le> anchor - m * us_per_day"
  shows "scan_inv (anchor - m * us_per_day) d'"
  using assms
proof (induction steps arbitrary: d t)
  case Nil
  then show ?case using scan_inv_same [of d d t "anchor - m * us_per_day"] by simp
next
  case (Cons step steps)
  define time where "time = anchor - snd step * us_per_day"
  have day: "0 < us_per_day" by (simp add: us_per_day_def us_per_second_def)
  have late: "time \<le> anchor - m * us_per_day" using Cons.prems(4) day by (simp add: time_def)
  have later: "\<forall>s \<in> set steps. time \<le> anchor - snd s * us_per_day"
    using Cons.prems(3) day by (auto simp: time_def)
  have t: "t \<le> time" using Cons.prems(5) by (simp add: time_def)
  show ?case
  proof (cases "seed_scan demo pricing st anchor ps d step")
    case (Inl e)
    then show ?thesis
      using Cons.prems(1,2,6) scan_inv_same [of d d t "anchor - m * us_per_day"] by simp
  next
    case (Inr ds)
    obtain d1 s where ds: "ds = (d1, s)" by fastforce
    from Inr ds obtain P where "snd (run_scan P pricing st d ps None None time time) = Inr (d1, s)"
      by (auto simp: seed_scan_def time_def Let_def)
    then obtain ps' where run: "run_scan P pricing st d ps None None time time = (ps', Inr (d1, s))"
      by (metis prod.collapse)
    have inv: "scan_inv time d1"
      using run_scan_keeps_inv [OF run Cons.prems(2)] run_scan_started [OF run] t by simp
    show ?thesis
    proof (cases "mark_seeded d1 s")
      case (Inl e)
      then show ?thesis
        using Cons.prems(1) Inr ds inv late scan_inv_same [of d1 d1 time "anchor - m * us_per_day"]
        by (simp add: \<open>seed_scan demo pricing st anchor ps d step = Inr ds\<close>)
    next
      case (Inr d2)
      then have "scan_inv time d2"
        using inv mark_seeded_findings [OF Inr] scan_inv_same [of d2 d1 time time] by simp
      moreover have "seed_loop demo pricing st anchor ps steps d2 = (d', r)"
        using Cons.prems(1) ds Inr by (simp add: \<open>seed_scan demo pricing st anchor ps d step = Inr ds\<close>)
      ultimately show ?thesis
        using Cons.IH Cons.prems(3,4) later late by simp
    qed
  qed
qed

lemma seed_keeps_inv:
  assumes "seed_if_empty demo pricing env now ps row d = (row', d', r)" and "db_scans d = []"
    and "scan_inv t d" and "t \<le> now - 21 * us_per_day"
  shows "scan_inv (now - 2 * us_per_day) d'"
proof -
  have late: "t \<le> now - 2 * us_per_day"
    using assms(4) by (simp add: us_per_day_def us_per_second_def)
  from assms(1,2) consider (same) "d' = d"
    | (loop) st r' where "seed_loop demo pricing st now ps seed_steps d = (d', r')"
    by (auto simp: seed_if_empty_def Let_def split: prod.splits sum.splits)
  then show ?thesis
  proof cases
    case same
    then show ?thesis using scan_inv_same [of d d t "now - 2 * us_per_day"] assms(3) late by simp
  next
    case (loop st r')
    have "\<forall>step \<in> set seed_steps. t \<le> now - snd step * us_per_day"
      using assms(4) by (simp add: seed_steps_def us_per_day_def us_per_second_def)
    with late show ?thesis
      using seed_loop_inv [OF loop assms(3), of 2] by (simp add: seed_steps_def)
  qed
qed

end
