(* ===== verification/Dashboard.thy ===== *)
theory Dashboard
  imports Scan
begin

text \<open>
  \<open>services/overview_service.py\<close> and \<open>services/history_service.py\<close>: what the dashboard shows of
  the tables. A \<open>Counter\<close> and a \<open>defaultdict\<close> are maps that hold the keys that occur; \<open>float\<close>
  of a decimal is the parameter \<open>fl\<close>. Of two scans that started at the same time, which the
  query leaves open, the one stored first counts as the later one.
\<close>

section \<open>Counting\<close>

definition counter :: "('a \<Rightarrow> 'k) \<Rightarrow> 'a list \<Rightarrow> ('k \<rightharpoonup> int)" where
  "counter key xs k =
     (let n = length (filter (\<lambda>x. key x = k) xs) in if n = 0 then None else Some (int n))"

text \<open>The loop \<open>exposure[key] += cost\<close> over a \<open>defaultdict\<close> of decimal zeros.\<close>

fun add_costs :: "('k \<rightharpoonup> decimal) \<Rightarrow> ('k \<times> decimal) list \<Rightarrow> ('k \<rightharpoonup> decimal)" where
  "add_costs m [] = m"
| "add_costs m ((k, cost) # rest) =
     add_costs (m(k \<mapsto> dec_add (case m k of None \<Rightarrow> dec_zero | Some t \<Rightarrow> t) cost)) rest"

definition count_where :: "('a \<Rightarrow> bool) \<Rightarrow> 'a list \<Rightarrow> int" where
  "count_where p xs = int (length (filter p xs))"

section \<open>The overview\<close>

text \<open>\<open>order_by(Scan.started_at.desc())\<close>.\<close>

definition by_start_desc :: "scan list \<Rightarrow> scan list" where
  "by_start_desc ss = sort_key (\<lambda>s. - s_started_at s) ss"

definition latest_scan :: "db \<Rightarrow> scan option" where
  "latest_scan d = (case by_start_desc (db_scans d) of [] \<Rightarrow> None | s # ss \<Rightarrow> Some s)"

text \<open>\<open>latest.coverage.values()\<close>; a scan covers requested regions only.\<close>

definition coverage_entries :: "scan \<Rightarrow> region_coverage list" where
  "coverage_entries s = List.map_filter (s_coverage s) (remdups (s_requested_regions s))"

record 'f overview =
  ov_mode :: pystr
  ov_account_id :: "pystr option"
  ov_latest_scan :: "scan option"
  ov_scan_running :: bool
  ov_estimated_monthly_cleanup_opportunity :: 'f
  ov_potential_low_confidence_exposure :: 'f
  ov_open_findings :: int
  ov_persistent_low_risk_candidates :: int
  ov_review_required :: int
  ov_high_risk :: int
  ov_newly_observed :: int
  ov_ignored :: int
  ov_dismissed :: int
  ov_resolved_in_latest_scan :: int
  ov_regions_scanned :: "pystr list"
  ov_coverage_summary :: "region_coverage_status \<Rightarrow> int"
  ov_findings_by_resource_type :: "resource_type \<rightharpoonup> int"
  ov_exposure_by_resource_type :: "resource_type \<rightharpoonup> 'f"

definition type_costs :: "finding list \<Rightarrow> (resource_type \<times> decimal) list" where
  "type_costs fs =
     List.map_filter (\<lambda>f. map_option (Pair (f_resource_type f)) (f_estimated_monthly_cost f)) fs"

definition build_overview ::
  "(decimal \<Rightarrow> 'f) \<Rightarrow> db \<Rightarrow> pystr \<Rightarrow> pystr option \<Rightarrow> bool \<Rightarrow> 'f overview" where
  "build_overview fl d mode_text account_id scan_running =
     (let latest = latest_scan d;
          findings = db_findings d;
          open_findings = filter (\<lambda>f. f_status f = OPEN) findings;
          entries = (case latest of None \<Rightarrow> [] | Some s \<Rightarrow> coverage_entries s)
      in \<lparr>ov_mode = mode_text, ov_account_id = account_id, ov_latest_scan = latest,
          ov_scan_running = scan_running,
          ov_estimated_monthly_cleanup_opportunity =
            fl (case latest of None \<Rightarrow> dec_zero | Some s \<Rightarrow> s_estimated_exposure s),
          ov_potential_low_confidence_exposure =
            fl (case latest of None \<Rightarrow> dec_zero | Some s \<Rightarrow> s_potential_exposure_low_confidence s),
          ov_open_findings = int (length open_findings),
          ov_persistent_low_risk_candidates =
            count_where (\<lambda>f. f_persistence_state f = PERSISTENT \<and> f_remediation_risk f = RISK_LOW)
              open_findings,
          ov_review_required = count_where (\<lambda>f. f_remediation_risk f = RISK_REVIEW) open_findings,
          ov_high_risk = count_where (\<lambda>f. f_remediation_risk f = RISK_HIGH) open_findings,
          ov_newly_observed =
            count_where (\<lambda>f. f_persistence_state f = NEWLY_OBSERVED) open_findings,
          ov_ignored = count_where (\<lambda>f. f_status f = IGNORED) findings,
          ov_dismissed = count_where (\<lambda>f. f_status f = DISMISSED) findings,
          ov_resolved_in_latest_scan =
            (case latest of None \<Rightarrow> 0 | Some s \<Rightarrow> s_resolved_findings s),
          ov_regions_scanned = (case latest of None \<Rightarrow> [] | Some s \<Rightarrow> s_requested_regions s),
          ov_coverage_summary = (\<lambda>status. count_where (\<lambda>c. rc_status c = status) entries),
          ov_findings_by_resource_type = counter f_resource_type open_findings,
          ov_exposure_by_resource_type =
            map_option fl \<circ> add_costs Map.empty (type_costs open_findings)\<rparr>)"

section \<open>The history\<close>

record 'f point =
  pt_scan_id :: uuid
  pt_started_at :: instant
  pt_finished_at :: "instant option"
  pt_status :: scan_status
  pt_seeded :: bool
  pt_new_findings :: int
  pt_resolved_findings :: int
  pt_observed_findings :: int
  pt_estimated_exposure :: 'f
  pt_potential_exposure_low_confidence :: 'f
  pt_observed_by_resource_type :: "resource_type \<rightharpoonup> int"
  pt_exposure_by_resource_type :: "resource_type \<rightharpoonup> 'f"

text \<open>The join of the observations of a scan with their findings.\<close>

definition observed_rows :: "db \<Rightarrow> scan \<Rightarrow> (observation \<times> finding) list" where
  "observed_rows d s =
     List.map_filter (\<lambda>ob. map_option (Pair ob) (get_finding d (ob_finding_id ob)))
       (filter (\<lambda>ob. ob_scan_id ob = s_id s) (db_observations d))"

definition row_costs :: "(observation \<times> finding) list \<Rightarrow> (resource_type \<times> decimal) list" where
  "row_costs rows =
     List.map_filter
       (\<lambda>(ob, f).
          if ob_status ob = OPEN \<and> ob_cost_confidence ob \<in> {COST_HIGH, COST_MEDIUM}
          then map_option (Pair (f_resource_type f)) (ob_estimated_monthly_cost ob) else None)
       rows"

definition point_of :: "(decimal \<Rightarrow> 'f) \<Rightarrow> db \<Rightarrow> scan \<Rightarrow> 'f point" where
  "point_of fl d s =
     (let rows = observed_rows d s
      in \<lparr>pt_scan_id = s_id s, pt_started_at = s_started_at s, pt_finished_at = s_finished_at s,
          pt_status = s_status s, pt_seeded = s_seeded s, pt_new_findings = s_new_findings s,
          pt_resolved_findings = s_resolved_findings s,
          pt_observed_findings = int (length rows),
          pt_estimated_exposure = fl (s_estimated_exposure s),
          pt_potential_exposure_low_confidence = fl (s_potential_exposure_low_confidence s),
          pt_observed_by_resource_type = counter (\<lambda>(ob, f). f_resource_type f) rows,
          pt_exposure_by_resource_type =
            map_option fl \<circ> add_costs Map.empty (row_costs rows)\<rparr>)"

definition history_points :: "(decimal \<Rightarrow> 'f) \<Rightarrow> db \<Rightarrow> nat \<Rightarrow> 'f point list" where
  "history_points fl d limit =
     map (point_of fl d) (rev (take limit (by_start_desc (db_scans d))))"

section \<open>The numbers add up\<close>

lemma count_where_sum:
  assumes "\<And>x. x \<in> set xs \<Longrightarrow> p x \<longleftrightarrow> q x \<or> r x" and "\<And>x. x \<in> set xs \<Longrightarrow> \<not> (q x \<and> r x)"
  shows "count_where p xs = count_where q xs + count_where r xs"
  using assms by (induction xs) (auto simp: count_where_def)

lemma count_where_all: "(\<And>x. x \<in> set xs \<Longrightarrow> p x) \<Longrightarrow> count_where p xs = int (length xs)"
  by (simp add: count_where_def)

text \<open>A stored finding of low risk is persistent, so the three classes are a partition.\<close>

lemma judged_low_persistent:
  assumes "judged f" and "f_remediation_risk f = RISK_LOW"
  shows "f_persistence_state f = PERSISTENT"
  using assms
  by (auto simp: judged_def classify_remediation_risk_def max_risk_def Let_def split: if_splits)

lemma risk_partition:
  assumes "\<forall>f \<in> set fs. judged f"
  shows "int (length fs) =
     count_where (\<lambda>f. f_persistence_state f = PERSISTENT \<and> f_remediation_risk f = RISK_LOW) fs +
     count_where (\<lambda>f. f_remediation_risk f = RISK_REVIEW) fs +
     count_where (\<lambda>f. f_remediation_risk f = RISK_HIGH) fs"
proof -
  have low: "f_persistence_state f = PERSISTENT \<and> f_remediation_risk f = RISK_LOW \<longleftrightarrow>
      f_remediation_risk f = RISK_LOW" if "f \<in> set fs" for f
    using judged_low_persistent assms that by blast
  have "int (length fs) = count_where (\<lambda>f. True) fs" by (simp add: count_where_def)
  also have "\<dots> = count_where (\<lambda>f. f_remediation_risk f \<in> {RISK_LOW, RISK_REVIEW}) fs +
      count_where (\<lambda>f. f_remediation_risk f = RISK_HIGH) fs"
  proof (rule count_where_sum)
    fix f
    show "True \<longleftrightarrow> f_remediation_risk f \<in> {RISK_LOW, RISK_REVIEW} \<or> f_remediation_risk f = RISK_HIGH"
      by (cases "f_remediation_risk f") auto
  qed auto
  also have "count_where (\<lambda>f. f_remediation_risk f \<in> {RISK_LOW, RISK_REVIEW}) fs =
      count_where (\<lambda>f. f_persistence_state f = PERSISTENT \<and> f_remediation_risk f = RISK_LOW) fs +
      count_where (\<lambda>f. f_remediation_risk f = RISK_REVIEW) fs"
    using low by (intro count_where_sum) auto
  finally show ?thesis .
qed

lemma resource_types_all: "rt \<in> set resource_types"
  by (cases rt) (simp_all add: resource_types_def)

lemma counter_total:
  "(\<Sum>rt \<leftarrow> resource_types. case counter key xs rt of None \<Rightarrow> 0 | Some n \<Rightarrow> n) = int (length xs)"
proof -
  have one: "(case counter key xs rt of None \<Rightarrow> 0 | Some n \<Rightarrow> n) =
      int (length (filter (\<lambda>x. key x = rt) xs))" for rt
    by (simp add: counter_def Let_def)
  have "(\<Sum>rt \<leftarrow> resource_types. int (length (filter (\<lambda>x. key x = rt) xs))) = int (length xs)"
  proof (induction xs)
    case (Cons x xs)
    then show ?case by (cases "key x") (simp_all add: resource_types_def)
  qed (simp add: resource_types_def)
  then show ?thesis by (simp add: one)
qed

lemma history_length: "length (history_points fl d limit) = min limit (length (db_scans d))"
  by (simp add: history_points_def by_start_desc_def min.commute)

lemma history_sorted: "sorted (map pt_started_at (history_points fl d limit))"
proof -
  let ?ss = "by_start_desc (db_scans d)"
  have "sorted (map (\<lambda>s. - s_started_at s) ?ss)" by (simp add: by_start_desc_def)
  then have "sorted_wrt (\<lambda>s t. s_started_at t \<le> s_started_at s) ?ss" by (simp add: sorted_map)
  then have "sorted_wrt (\<lambda>s t. s_started_at t \<le> s_started_at s) (take limit ?ss)"
    by (rule sorted_wrt_take)
  then have "sorted (map s_started_at (rev (take limit ?ss)))"
    by (simp add: sorted_map sorted_wrt_rev)
  then show ?thesis by (simp add: history_points_def comp_def point_of_def Let_def)
qed

end
