(* ===== verification/ApiModels.thy ===== *)
theory ApiModels
  imports Settings ScanRunner ScriptService Dashboard
begin

text \<open>
  \<open>app/api/schemas.py\<close>: what the HTTP interface takes and returns. A response model that copies a
  row of the tables holds the row, and beside it the fields that are computed or converted;
  \<open>'f\<close> is the type of floats. The inputs are values of the annotated types: \<open>pydantic\<close> has parsed
  them, and what is checked here are the constraints and validators. \<open>FastAPI\<close> answers a request
  that fails them with 422.
\<close>

section \<open>Responses\<close>

record health_out =
  ho_status :: pystr
  ho_mode :: pystr
  ho_database :: pystr
  ho_version :: pystr

record identity_out =
  io_mode :: pystr
  io_account_id :: "pystr option"
  io_principal_arn :: "pystr option"
  io_identity_type :: "identity_type option"
  io_verified_at :: "instant option"
  io_error :: "pystr option"

record 'f scan_out =
  so_scan :: scan
  so_estimated_exposure :: 'f
  so_potential_exposure_low_confidence :: 'f

record 'f scan_list_out =
  sl_items :: "'f scan_out list"
  sl_total :: int

record 'f finding_out =
  fo_finding :: finding
  fo_estimated_monthly_cost :: "'f option"
  fo_resource_age_days :: "int option"
  fo_first_observed_days_ago :: int
  fo_last_observed_days_ago :: int
  fo_observation_age_days :: int
  fo_days_until_persistent :: "int option"
  fo_threshold_days :: int
  fo_script_kind :: script_kind
  fo_script_available :: bool
  fo_script_unavailable_reason :: "unavailable_reason option"

record 'f observation_out =
  oo_scan_id :: uuid
  oo_observed_at :: instant
  oo_status :: finding_status
  oo_persistence_state :: persistence_state
  oo_remediation_risk :: remediation_risk
  oo_estimated_monthly_cost :: "'f option"

record related_finding_out =
  ro_id :: uuid
  ro_resource_id :: pystr
  ro_resource_type :: resource_type
  ro_status :: finding_status

record 'f finding_detail_out =
  fd_base :: "'f finding_out"
  fd_observations :: "'f observation_out list"
  fd_related_findings :: "related_finding_out list"

record 'f finding_list_out =
  fl_items :: "'f finding_out list"
  fl_total :: int
  fl_page :: int
  fl_page_size :: int

record script_out =
  xo_kind :: script_kind
  xo_filename :: pystr
  xo_content :: pystr
  xo_checks :: "pystr list"
  xo_warnings :: "pystr list"
  xo_unavailable_reason :: "unavailable_reason option"
  xo_unavailable_text :: "pystr option"

record bulk_script_out =
  bo_script :: "script_out option"
  bo_included :: "uuid list"
  bo_skipped :: "(pystr \<times> pystr) list"

record coverage_out =
  co_scan_id :: uuid
  co_started_at :: instant
  co_status :: scan_status
  co_regions :: "pystr \<rightharpoonup> region_coverage"
  co_completed_regions :: "pystr list"
  co_partial_regions :: "pystr list"
  co_failed_regions :: "pystr list"
  co_skipped_regions :: "pystr list"
  co_errors :: "error_entry list"

definition thresholds_help :: "detector_type \<Rightarrow> pystr" where
  "thresholds_help dt =
     (case dt of
        UNATTACHED_EBS_VOLUME \<Rightarrow>
          lit ''Days observed before an unattached EBS volume becomes persistent.''
      | UNASSOCIATED_ELASTIC_IP \<Rightarrow>
          lit ''Days observed before an unassociated Elastic IP becomes persistent.''
      | STOPPED_EC2_INSTANCE \<Rightarrow> lit ''Observation threshold for stopped EC2 instances.''
      | SNAPSHOT_MISSING_SOURCE_VOLUME \<Rightarrow>
          lit ''Observation threshold for snapshots with deleted source volumes.'')"

record settings_out =
  to_settings :: app_settings
  to_mode :: pystr
  to_detector_thresholds_help :: "detector_type \<Rightarrow> pystr"

section \<open>Requests\<close>

definition RequestValidationError :: "pystr \<Rightarrow> py_exc" where
  "RequestValidationError place = PyExc (lit ''RequestValidationError'') place"

definition require :: "bool \<Rightarrow> pystr \<Rightarrow> py_exc + unit" where
  "require ok place = (if ok then Inr () else Inl (RequestValidationError place))"

text \<open>\<open>InvalidIdentifierError\<close> is a \<open>ValueError\<close>, which makes the request invalid.\<close>

definition regions_are_valid :: "pystr list option \<Rightarrow> bool" where
  "regions_are_valid value =
     (case value of
        None \<Rightarrow> True
      | Some regions \<Rightarrow> list_all (\<lambda>r. r_ok (validate_region r None)) regions)"

definition thresholds_are_non_negative :: "(pystr \<times> int) list option \<Rightarrow> bool" where
  "thresholds_are_non_negative value =
     (case value of
        None \<Rightarrow> True
      | Some ts \<Rightarrow>
          \<not> list_ex (\<lambda>(k, days). days < 0) ts \<and>
          list_all (\<lambda>(k, days). k \<in> detector_type_value ` set detector_types) ts)"

record settings_patch_in =
  sp_regions :: "pystr list option"
  sp_thresholds_days :: "(pystr \<times> int) list option"
  sp_min_consecutive_observations :: "int option"
  sp_ignore_tag_key :: "pystr option"
  sp_ignore_tag_value :: "pystr option"
  sp_ignore_reason_tag_key :: "pystr option"
  sp_pricing_mode :: "pricing_mode option"
  sp_pricing_cache_ttl_seconds :: "int option"
  sp_max_region_concurrency :: "int option"

definition if_set :: "'a option \<Rightarrow> ('a \<Rightarrow> bool) \<Rightarrow> bool" where
  "if_set v p = (case v of None \<Rightarrow> True | Some x \<Rightarrow> p x)"

definition settings_patch_valid :: "settings_patch_in \<Rightarrow> bool" where
  "settings_patch_valid p \<longleftrightarrow>
     regions_are_valid (sp_regions p) \<and> thresholds_are_non_negative (sp_thresholds_days p) \<and>
     if_set (sp_min_consecutive_observations p) (\<lambda>n. 1 \<le> n) \<and>
     if_set (sp_ignore_tag_key p) (safe_tag 128) \<and>
     if_set (sp_ignore_tag_value p) (safe_tag 256) \<and>
     if_set (sp_ignore_reason_tag_key p) (safe_tag 128) \<and>
     if_set (sp_pricing_cache_ttl_seconds p) (\<lambda>n. 0 \<le> n) \<and>
     if_set (sp_max_region_concurrency p) (\<lambda>n. 1 \<le> n \<and> n \<le> 8)"

record scan_create_in =
  ci_regions :: "pystr list option"
  ci_wait :: bool

definition scan_create_valid :: "scan_create_in \<Rightarrow> bool" where
  "scan_create_valid b = regions_are_valid (ci_regions b)"

record finding_patch_in =
  pi_status :: pystr
  pi_reason :: "pystr option"

definition finding_patch_valid :: "finding_patch_in \<Rightarrow> bool" where
  "finding_patch_valid b \<longleftrightarrow>
     pi_status b \<in> {lit ''dismissed'', lit ''open''} \<and> if_set (pi_reason b) (\<lambda>r. length r \<le> 500)"

definition bulk_script_valid :: "uuid list \<Rightarrow> bool" where
  "bulk_script_valid ids \<longleftrightarrow> 1 \<le> length ids \<and> length ids \<le> 200"

text \<open>The bounds of a list query are datetimes, which may have no zone.\<close>

record list_request =
  lr_query :: list_query
  lr_first_observed_before :: "datetime option"
  lr_first_observed_after :: "datetime option"

definition list_request_valid :: "list_request \<Rightarrow> bool" where
  "list_request_valid r \<longleftrightarrow>
     if_set (q_min_observation_count (lr_query r)) (\<lambda>n. 1 \<le> n) \<and> 1 \<le> q_page (lr_query r) \<and>
     1 \<le> q_page_size (lr_query r) \<and> q_page_size (lr_query r) \<le> 200"

definition limit_valid :: "int \<Rightarrow> bool" where
  "limit_valid n \<longleftrightarrow> 1 \<le> n \<and> n \<le> 200"

end
