(* ===== verification/Api.thy ===== *)
theory Api
  imports ApiModels
begin

text \<open>
  The routes of \<open>app/api/router.py\<close>, one definition each, with the session and context of
  \<open>app/api/deps.py\<close>, and the exception handlers of \<open>app/main.py\<close>.

  A route maps the state of the application (the tables, the runner and the settings row) to
  the state after it and an exception or a body. A session that is closed without a commit
  changes nothing, so the row that loading the settings makes is lost in every route that does
  not commit. One reading of the clock serves a whole request. \<open>fl\<close> is \<open>float\<close>.
\<close>

section \<open>Context and state\<close>

text \<open>
  \<open>cx_build\<close> is what a scan thread makes of the settings: the provider, the price service and
  its cache.
\<close>

record 's api_context =
  cx_env :: environment
  cx_version :: pystr
  cx_provider :: cloud_provider
  cx_build :: "app_settings \<Rightarrow> py_exc + 's ingredients"

record api_state =
  ap_runner :: runner
  ap_settings :: "app_settings option"

abbreviation ap_db :: "api_state \<Rightarrow> db" where
  "ap_db st \<equiv> rn_db (ap_runner st)"

definition current_settings :: "'s api_context \<Rightarrow> api_state \<Rightarrow> py_exc + app_settings" where
  "current_settings cx st = r_bind (load_settings (cx_env cx) (ap_settings st)) (\<lambda>(row, settings). Inr settings)"

section \<open>Conversions\<close>

definition as_scan_out :: "(decimal \<Rightarrow> 'f) \<Rightarrow> scan \<Rightarrow> 'f scan_out" where
  "as_scan_out fl s =
     \<lparr>so_scan = s, so_estimated_exposure = fl (s_estimated_exposure s),
      so_potential_exposure_low_confidence = fl (s_potential_exposure_low_confidence s)\<rparr>"

definition as_finding_out ::
  "(decimal \<Rightarrow> 'f) \<Rightarrow> finding \<Rightarrow> app_settings \<Rightarrow> instant \<Rightarrow> py_exc + 'f finding_out" where
  "as_finding_out fl f settings now =
     r_bind (threshold_for settings (f_detector_type f)) (\<lambda>threshold.
       let observation_age = td_days (f_last_observed_at f - f_streak_started_at f);
           persistent = (f_persistence_state f = PERSISTENT);
           (kind, reason) = script_kind_for f
       in Inr \<lparr>fo_finding = f,
               fo_estimated_monthly_cost = map_option fl (f_estimated_monthly_cost f),
               fo_resource_age_days =
                 map_option (\<lambda>t. days_between t now) (f_resource_created_at f),
               fo_first_observed_days_ago = days_between (f_first_observed_at f) now,
               fo_last_observed_days_ago = days_between (f_last_observed_at f) now,
               fo_observation_age_days = observation_age,
               fo_days_until_persistent =
                 (if persistent then None else Some (max (threshold - observation_age) 0)),
               fo_threshold_days = threshold, fo_script_kind = kind,
               fo_script_available = (reason = None), fo_script_unavailable_reason = reason\<rparr>)"

text \<open>A generated script as a response, with the reason of its kind.\<close>

definition script_response :: "generated_script \<Rightarrow> unavailable_reason option \<Rightarrow> script_out" where
  "script_response g reason =
     \<lparr>xo_kind = gs_kind g, xo_filename = gs_filename g, xo_content = gs_content g,
      xo_checks = gs_checks g, xo_warnings = gs_warnings g, xo_unavailable_reason = reason,
      xo_unavailable_text = map_option script_unavailable_text reason\<rparr>"

definition script_out_of :: "finding \<Rightarrow> instant \<Rightarrow> app_settings \<Rightarrow> py_exc + script_out" where
  "script_out_of f now settings =
     (case script_kind_for f of
        (kind, reason) \<Rightarrow>
          r_bind (script_for_finding settings (utc now) f) (\<lambda>generated.
            Inr (script_response generated reason)))"

definition as_settings_out :: "environment \<Rightarrow> app_settings \<Rightarrow> settings_out" where
  "as_settings_out env settings =
     \<lparr>to_settings = settings, to_mode = mode_value (ev_mode env),
      to_detector_thresholds_help = thresholds_help\<rparr>"

section \<open>Health, identity and scans\<close>

definition health :: "'s api_context \<Rightarrow> health_out" where
  "health cx =
     \<lparr>ho_status = lit ''ok'', ho_mode = mode_value (ev_mode (cx_env cx)),
      ho_database =
        (if starts_with (ev_database_url (cx_env cx)) (lit ''sqlite'') then lit ''sqlite''
         else lit ''postgresql''),
      ho_version = cx_version cx\<rparr>"

definition identity_out_of :: "'s api_context \<Rightarrow> identity_status \<Rightarrow> identity_out" where
  "identity_out_of cx status =
     \<lparr>io_mode = mode_value (ev_mode (cx_env cx)), io_account_id = is_account_id status,
      io_principal_arn = is_principal_arn status, io_identity_type = is_identity_type status,
      io_verified_at = is_verified_at status, io_error = is_error status\<rparr>"

definition identity_route ::
  "'s api_context \<Rightarrow> instant \<Rightarrow> bool \<Rightarrow> api_state \<Rightarrow> api_state \<times> (py_exc + identity_out)" where
  "identity_route cx now refresh st =
     (let status = rn_identity (ap_runner st)
      in if \<not> refresh then (st, Inr (identity_out_of cx status))
         else case refresh_identity status (get_identity (cx_provider cx)) now of
                Inl e \<Rightarrow> (st, Inl e)
              | Inr status' \<Rightarrow>
                  (st\<lparr>ap_runner := (ap_runner st)\<lparr>rn_identity := status'\<rparr>\<rparr>,
                   Inr (identity_out_of cx status')))"

text \<open>What the thread of a scan does: it loads and commits the settings, then executes.\<close>

definition scan_thread ::
  "'s api_context \<Rightarrow> instant \<Rightarrow> uuid \<Rightarrow> pystr list option \<Rightarrow> api_state \<Rightarrow> api_state" where
  "scan_thread cx now i regions st =
     (let built = r_bind (current_settings cx st) (cx_build cx);
          outcome = r_bind built (\<lambda>g. get_identity (in_provider g));
          row = (case load_settings (cx_env cx) (ap_settings st) of
                   Inl e \<Rightarrow> ap_settings st
                 | Inr (row, settings) \<Rightarrow> row)
      in \<lparr>ap_runner = execute (ev_mode (cx_env cx)) built outcome now (ap_runner st) i regions,
          ap_settings = row\<rparr>)"

definition create_scan ::
  "(decimal \<Rightarrow> 'f) \<Rightarrow> 's api_context \<Rightarrow> instant \<Rightarrow> scan_create_in \<Rightarrow> api_state \<Rightarrow>
   api_state \<times> (py_exc + 'f scan_out)" where
  "create_scan fl cx now body st =
     (if \<not> scan_create_valid body then (st, Inl (RequestValidationError (lit ''body'')))
      else case start_scan (ev_mode (cx_env cx)) (ap_runner st) (ci_regions body) now of
             Inl e \<Rightarrow> (st, Inl e)
           | Inr (i, r) \<Rightarrow>
               (let st1 = st\<lparr>ap_runner := r\<rparr>;
                    st2 = (if ci_wait body then scan_thread cx now i (ci_regions body) st1 else st1)
                in case get_scan (ap_db st2) i of
                     None \<Rightarrow> (st2, Inl (PyExc (lit ''RuntimeError'')
                               (lit ''Scan '' @ uuid_text i @ lit '' disappeared after creation'')))
                   | Some s \<Rightarrow> (st2, Inr (as_scan_out fl s))))"

definition list_scans :: "(decimal \<Rightarrow> 'f) \<Rightarrow> db \<Rightarrow> int \<Rightarrow> py_exc + 'f scan_list_out" where
  "list_scans fl d limit =
     r_bind (require (limit_valid limit) (lit ''limit'')) (\<lambda>u.
       Inr \<lparr>sl_items = map (as_scan_out fl) (take (nat limit) (by_start_desc (db_scans d))),
            sl_total = int (length (db_scans d))\<rparr>)"

definition get_scan_route :: "(decimal \<Rightarrow> 'f) \<Rightarrow> db \<Rightarrow> uuid \<Rightarrow> py_exc + 'f scan_out" where
  "get_scan_route fl d i =
     (case get_scan d i of
        None \<Rightarrow> Inl (NotFoundError (lit ''Scan '' @ uuid_text i @ lit '' was not found.''))
      | Some s \<Rightarrow> Inr (as_scan_out fl s))"

section \<open>Findings\<close>

text \<open>A bound without a zone is refused when the query binds it (\<open>UtcDateTime\<close>).\<close>

definition bind_bound :: "datetime option \<Rightarrow> py_exc + instant option" where
  "bind_bound v =
     (case process_bind_param v of
        Inl m \<Rightarrow> Inl (PyExc (lit ''StatementError'') (lit ''(builtins.ValueError) '' @ m))
      | Inr w \<Rightarrow> Inr (map_option instant_of w))"

definition list_findings_route ::
  "(decimal \<Rightarrow> 'f) \<Rightarrow> 's api_context \<Rightarrow> instant \<Rightarrow> list_request \<Rightarrow> api_state \<Rightarrow>
   py_exc + 'f finding_list_out" where
  "list_findings_route fl cx now req st =
     r_bind (require (list_request_valid req) (lit ''query'')) (\<lambda>u.
     r_bind (current_settings cx st) (\<lambda>settings.
     r_bind (bind_bound (lr_first_observed_before req)) (\<lambda>before.
     r_bind (bind_bound (lr_first_observed_after req)) (\<lambda>after.
     (let query = (lr_query req)\<lparr>q_first_observed_before := before,
                                 q_first_observed_after := after\<rparr>;
          result = list_findings (ap_db st) query
      in r_bind (r_map (\<lambda>f. as_finding_out fl f settings now) (page_items result)) (\<lambda>items.
           Inr \<lparr>fl_items = items, fl_total = page_total result, fl_page = q_page query,
                fl_page_size = q_page_size query\<rparr>))))))"

definition as_observation_out :: "(decimal \<Rightarrow> 'f) \<Rightarrow> observation \<Rightarrow> 'f observation_out" where
  "as_observation_out fl ob =
     \<lparr>oo_scan_id = ob_scan_id ob, oo_observed_at = ob_observed_at ob, oo_status = ob_status ob,
      oo_persistence_state = ob_persistence_state ob,
      oo_remediation_risk = ob_remediation_risk ob,
      oo_estimated_monthly_cost = map_option fl (ob_estimated_monthly_cost ob)\<rparr>"

definition related_out :: "finding \<Rightarrow> related_finding_out" where
  "related_out f =
     \<lparr>ro_id = f_id f, ro_resource_id = f_resource_id f, ro_resource_type = f_resource_type f,
      ro_status = f_status f\<rparr>"

definition get_finding_route ::
  "(decimal \<Rightarrow> 'f) \<Rightarrow> 's api_context \<Rightarrow> instant \<Rightarrow> uuid \<Rightarrow> api_state \<Rightarrow>
   py_exc + 'f finding_detail_out" where
  "get_finding_route fl cx now i st =
     r_bind (service_get (ap_db st) i) (\<lambda>f.
     r_bind (current_settings cx st) (\<lambda>settings.
     r_bind (as_finding_out fl f settings now) (\<lambda>base.
       Inr \<lparr>fd_base = base,
            fd_observations = map (as_observation_out fl) (service_observations (ap_db st) (f_id f)),
            fd_related_findings = map related_out (service_related (ap_db st) f)\<rparr>)))"

text \<open>The transition is committed before the response is made.\<close>

definition patch_finding_route ::
  "(decimal \<Rightarrow> 'f) \<Rightarrow> 's api_context \<Rightarrow> instant \<Rightarrow> uuid \<Rightarrow> finding_patch_in \<Rightarrow> api_state \<Rightarrow>
   api_state \<times> (py_exc + 'f finding_out)" where
  "patch_finding_route fl cx now i body st =
     (if \<not> finding_patch_valid body then (st, Inl (RequestValidationError (lit ''body'')))
      else case service_patch (ap_db st) i (pi_status body) (pi_reason body) now of
             Inl e \<Rightarrow> (st, Inl e)
           | Inr (d, f) \<Rightarrow>
               (st\<lparr>ap_runner := (ap_runner st)\<lparr>rn_db := d\<rparr>\<rparr>,
                r_bind (current_settings cx st) (\<lambda>settings. as_finding_out fl f settings now)))"

definition get_plan_route ::
  "'s api_context \<Rightarrow> instant \<Rightarrow> uuid \<Rightarrow> api_state \<Rightarrow> py_exc + cleanup_plan" where
  "get_plan_route cx now i st =
     r_bind (service_get (ap_db st) i) (\<lambda>f.
     r_bind (current_settings cx st) (\<lambda>settings. build_cleanup_plan f settings now))"

section \<open>Scripts\<close>

text \<open>The raw format answers the content as a shell script with a file name.\<close>

datatype script_answer =
    ScriptJson script_out
  | ScriptRaw (raw_content: pystr) (raw_disposition: pystr)

definition get_script_route ::
  "'s api_context \<Rightarrow> instant \<Rightarrow> uuid \<Rightarrow> bool \<Rightarrow> api_state \<Rightarrow> py_exc + script_answer" where
  "get_script_route cx now i raw st =
     r_bind (service_get (ap_db st) i) (\<lambda>f.
     r_bind (current_settings cx st) (\<lambda>settings.
     r_bind (script_out_of f now settings) (\<lambda>output.
       Inr (if raw
            then ScriptRaw (xo_content output)
                   (lit ''attachment; filename='' @ [34] @ xo_filename output @ [34])
            else ScriptJson output))))"

definition bulk_script_route ::
  "'s api_context \<Rightarrow> instant \<Rightarrow> uuid list \<Rightarrow> api_state \<Rightarrow> py_exc + bulk_script_out" where
  "bulk_script_route cx now ids st =
     r_bind (require (bulk_script_valid ids) (lit ''body'')) (\<lambda>u.
     r_bind (r_map (service_get (ap_db st)) ids) (\<lambda>findings.
     r_bind (current_settings cx st) (\<lambda>settings.
     r_bind (bulk_script settings (utc now) findings) (\<lambda>result.
       Inr \<lparr>bo_script = map_option (\<lambda>g. script_response g None) (br_script result),
            bo_included = br_included result, bo_skipped = br_skipped result\<rparr>))))"

section \<open>History, coverage and overview\<close>

definition history_route :: "(decimal \<Rightarrow> 'f) \<Rightarrow> db \<Rightarrow> int \<Rightarrow> py_exc + 'f point list" where
  "history_route fl d limit =
     r_bind (require (limit_valid limit) (lit ''limit'')) (\<lambda>u. Inr (history_points fl d (nat limit)))"

definition coverage_route :: "db \<Rightarrow> py_exc + coverage_out" where
  "coverage_route d =
     (case by_start_desc (filter (\<lambda>s. s_status s \<noteq> SCAN_RUNNING) (db_scans d)) of
        [] \<Rightarrow> Inl (NotFoundError (lit ''No completed scan coverage is available.''))
      | s # ss \<Rightarrow>
          Inr \<lparr>co_scan_id = s_id s, co_started_at = s_started_at s, co_status = s_status s,
               co_regions = s_coverage s, co_completed_regions = s_completed_regions s,
               co_partial_regions = s_partial_regions s, co_failed_regions = s_failed_regions s,
               co_skipped_regions = s_skipped_regions s, co_errors = s_errors s\<rparr>)"

definition overview_route :: "(decimal \<Rightarrow> 'f) \<Rightarrow> 's api_context \<Rightarrow> api_state \<Rightarrow> 'f overview" where
  "overview_route fl cx st =
     build_overview fl (ap_db st) (mode_value (ev_mode (cx_env cx)))
       (is_account_id (rn_identity (ap_runner st))) (rn_current (ap_runner st) \<noteq> None)"

section \<open>Settings\<close>

definition get_settings_route :: "'s api_context \<Rightarrow> api_state \<Rightarrow> py_exc + settings_out" where
  "get_settings_route cx st =
     r_bind (current_settings cx st) (\<lambda>settings. Inr (as_settings_out (cx_env cx) settings))"

definition merged_thresholds ::
  "(detector_type \<rightharpoonup> int) \<Rightarrow> (pystr \<times> int) list \<Rightarrow> (detector_type \<rightharpoonup> int)" where
  "merged_thresholds current changes dt =
     (case map_of changes (detector_type_value dt) of
        Some days \<Rightarrow> Some days
      | None \<Rightarrow> current dt)"

definition or_current :: "'a option \<Rightarrow> 'a \<Rightarrow> 'a" where
  "or_current v current = (case v of None \<Rightarrow> current | Some x \<Rightarrow> x)"

text \<open>A field that is absent or null leaves the setting as it is.\<close>

definition apply_changes :: "app_settings \<Rightarrow> settings_patch_in \<Rightarrow> app_settings" where
  "apply_changes current p =
     current
       \<lparr>st_regions := (case sp_regions p of None \<Rightarrow> st_regions current | Some rs \<Rightarrow> Some rs),
        st_thresholds_days :=
          (case sp_thresholds_days p of
             None \<Rightarrow> st_thresholds_days current
           | Some changes \<Rightarrow> merged_thresholds (st_thresholds_days current) changes),
        st_min_consecutive_observations :=
          or_current (sp_min_consecutive_observations p) (st_min_consecutive_observations current),
        st_ignore_tag_key := or_current (sp_ignore_tag_key p) (st_ignore_tag_key current),
        st_ignore_tag_value := or_current (sp_ignore_tag_value p) (st_ignore_tag_value current),
        st_ignore_reason_tag_key :=
          or_current (sp_ignore_reason_tag_key p) (st_ignore_reason_tag_key current),
        st_pricing_mode := or_current (sp_pricing_mode p) (st_pricing_mode current),
        st_pricing_cache_ttl_seconds :=
          or_current (sp_pricing_cache_ttl_seconds p) (st_pricing_cache_ttl_seconds current),
        st_max_region_concurrency :=
          or_current (sp_max_region_concurrency p) (st_max_region_concurrency current)\<rparr>"

definition patch_settings ::
  "environment \<Rightarrow> app_settings option \<Rightarrow> settings_patch_in \<Rightarrow>
   app_settings option \<times> (py_exc + app_settings)" where
  "patch_settings env row body =
     (case r_bind (require (settings_patch_valid body) (lit ''body'')) (\<lambda>u.
           r_bind (load_settings env row) (\<lambda>(row', current).
           r_bind (checked_settings (apply_changes current body)) (\<lambda>updated.
             Inr (if ev_mode env = DEMO then updated\<lparr>st_pricing_mode := PM_FALLBACK_ONLY\<rparr>
                  else updated)))) of
        Inl e \<Rightarrow> (row, Inl e)
      | Inr updated \<Rightarrow> (save_settings row updated, Inr updated))"

definition patch_settings_route ::
  "'s api_context \<Rightarrow> settings_patch_in \<Rightarrow> api_state \<Rightarrow> api_state \<times> (py_exc + settings_out)" where
  "patch_settings_route cx body st =
     (case patch_settings (cx_env cx) (ap_settings st) body of
        (row, r) \<Rightarrow>
          (st\<lparr>ap_settings := row\<rparr>,
           r_bind r (\<lambda>updated. Inr (as_settings_out (cx_env cx) updated))))"

end
