(* ===== verification/Http.thy ===== *)
theory Http
  imports Api
begin

text \<open>
  The application that \<open>app/main.py\<close> assembles: the routes behind one function \<open>handle\<close>, the
  exception handlers with their status codes, and the start of the process. The middleware, the
  log level and the creation of missing tables have no counterpart.
\<close>

section \<open>Requests\<close>

datatype request =
    Health
  | IdentityRequest bool
  | CreateScan scan_create_in
  | ListScans int
  | GetScan uuid
  | ListFindings list_request
  | GetFinding uuid
  | PatchFinding uuid finding_patch_in
  | GetPlan uuid
  | GetScript uuid bool
  | BulkScript "uuid list"
  | HistoryRequest int
  | CoverageRequest
  | OverviewRequest
  | GetSettings
  | PatchSettings settings_patch_in

datatype 'f body =
    HealthBody health_out
  | IdentityBody identity_out
  | ScanBody "'f scan_out"
  | ScansBody "'f scan_list_out"
  | FindingsBody "'f finding_list_out"
  | DetailBody "'f finding_detail_out"
  | FindingBody "'f finding_out"
  | PlanBody cleanup_plan
  | ScriptBody script_answer
  | BulkBody bulk_script_out
  | HistoryBody "'f point list"
  | CoverageBody coverage_out
  | OverviewBody "'f overview"
  | SettingsBody settings_out

definition wrapped :: "('a \<Rightarrow> 'b) \<Rightarrow> 'st \<times> ('e + 'a) \<Rightarrow> 'st \<times> ('e + 'b)" where
  "wrapped wrap r = (fst r, r_bind (snd r) (\<lambda>x. Inr (wrap x)))"

fun handle ::
  "(decimal \<Rightarrow> 'f) \<Rightarrow> 's api_context \<Rightarrow> instant \<Rightarrow> request \<Rightarrow> api_state \<Rightarrow>
   api_state \<times> (py_exc + 'f body)" where
  "handle fl cx now Health st = (st, Inr (HealthBody (health cx)))"
| "handle fl cx now (IdentityRequest refresh) st = wrapped IdentityBody (identity_route cx now refresh st)"
| "handle fl cx now (CreateScan body) st = wrapped ScanBody (create_scan fl cx now body st)"
| "handle fl cx now (ListScans limit) st = wrapped ScansBody (st, list_scans fl (ap_db st) limit)"
| "handle fl cx now (GetScan i) st = wrapped ScanBody (st, get_scan_route fl (ap_db st) i)"
| "handle fl cx now (ListFindings req) st = wrapped FindingsBody (st, list_findings_route fl cx now req st)"
| "handle fl cx now (GetFinding i) st = wrapped DetailBody (st, get_finding_route fl cx now i st)"
| "handle fl cx now (PatchFinding i body) st = wrapped FindingBody (patch_finding_route fl cx now i body st)"
| "handle fl cx now (GetPlan i) st = wrapped PlanBody (st, get_plan_route cx now i st)"
| "handle fl cx now (GetScript i raw) st = wrapped ScriptBody (st, get_script_route cx now i raw st)"
| "handle fl cx now (BulkScript ids) st = wrapped BulkBody (st, bulk_script_route cx now ids st)"
| "handle fl cx now (HistoryRequest limit) st = wrapped HistoryBody (st, history_route fl (ap_db st) limit)"
| "handle fl cx now CoverageRequest st = wrapped CoverageBody (st, coverage_route (ap_db st))"
| "handle fl cx now OverviewRequest st = (st, Inr (OverviewBody (overview_route fl cx st)))"
| "handle fl cx now GetSettings st = wrapped SettingsBody (st, get_settings_route cx st)"
| "handle fl cx now (PatchSettings body) st = wrapped SettingsBody (patch_settings_route cx body st)"

section \<open>Answers to exceptions\<close>

record error_detail =
  ed_code :: pystr
  ed_message :: pystr
  ed_hint :: "pystr option"

text \<open>
  The handlers of \<open>create_app\<close>; \<open>FastAPI\<close> answers an invalid request with 422, and any other
  exception with 500, each with a body of its own.
\<close>

definition credentials_hint :: pystr where
  "credentials_hint =
     lit ''Configure an AWS profile or credential environment variables; demo mode needs none.''"

fun error_response :: "py_exc \<Rightarrow> nat \<times> error_detail option" where
  "error_response (Prov (ProviderCredentialsError m)) =
     (503, Some \<lparr>ed_code = lit ''aws_credentials'', ed_message = m, ed_hint = Some credentials_hint\<rparr>)"
| "error_response (Prov e) =
     (502, Some \<lparr>ed_code = lit ''aws_error'', ed_message = provider_error_str e, ed_hint = None\<rparr>)"
| "error_response (PyExc t m) =
     (if t = lit ''InvalidIdentifierError''
      then (422, Some \<lparr>ed_code = lit ''invalid_identifier'', ed_message = m, ed_hint = None\<rparr>)
      else if t = lit ''ScanConflictError''
      then (409, Some \<lparr>ed_code = lit ''scan_running'', ed_message = m, ed_hint = None\<rparr>)
      else if t = lit ''InvalidTransitionError''
      then (409, Some \<lparr>ed_code = lit ''invalid_transition'', ed_message = m, ed_hint = None\<rparr>)
      else if t = lit ''NotFoundError''
      then (404, Some \<lparr>ed_code = lit ''not_found'', ed_message = m, ed_hint = None\<rparr>)
      else if t = lit ''RequestValidationError'' then (422, None)
      else (500, None))"

definition ok_status :: "request \<Rightarrow> nat" where
  "ok_status req = (case req of CreateScan body \<Rightarrow> 202 | _ \<Rightarrow> 200)"

definition status_of :: "request \<Rightarrow> py_exc + 'f body \<Rightarrow> nat" where
  "status_of req r = (case r of Inl e \<Rightarrow> fst (error_response e) | Inr b \<Rightarrow> ok_status req)"

section \<open>The start of the process\<close>

text \<open>
  \<open>lifespan\<close>: the settings are loaded and committed, the provider is opened, the demo is seeded
  if asked for, and the identity is read. What was committed before an exception stays.
\<close>

definition startup ::
  "environment \<Rightarrow> (provider_choice \<Rightarrow> py_exc + cloud_provider) \<Rightarrow>
   (nat \<Rightarrow> datetime \<Rightarrow> py_exc + cloud_provider) \<Rightarrow> 's pricing \<Rightarrow> 's \<Rightarrow> instant \<Rightarrow>
   app_settings option \<Rightarrow> db \<Rightarrow> app_settings option \<times> db \<times> (py_exc + cloud_provider \<times> identity_status)" where
  "startup env opened demo pricing ps now row d =
     (case load_settings env row of
        Inl e \<Rightarrow> (row, d, Inl e)
      | Inr (row1, settings) \<Rightarrow>
          (case opened (snd (build_provider env settings (utc now))) of
             Inl e \<Rightarrow> (row1, d, Inl e)
           | Inr P \<Rightarrow>
               (case (if ev_mode env = DEMO \<and> ev_demo_seed env
                      then seed_if_empty demo pricing env now ps row1 d
                      else (row1, d, Inr False)) of
                  (row2, d2, seeded) \<Rightarrow>
                    (row2, d2,
                     r_bind seeded (\<lambda>b.
                     r_bind (refresh_identity new_identity_status (get_identity P) now) (\<lambda>status.
                       Inr (P, status)))))))"

definition started_state :: "app_settings option \<Rightarrow> db \<Rightarrow> identity_status \<Rightarrow> api_state" where
  "started_state row d status =
     \<lparr>ap_runner = \<lparr>rn_db = d, rn_current = None, rn_identity = status\<rparr>, ap_settings = row\<rparr>"

section \<open>Reading changes nothing\<close>

definition writes :: "request \<Rightarrow> bool" where
  "writes req =
     (case req of
        CreateScan body \<Rightarrow> True | PatchFinding i body \<Rightarrow> True | PatchSettings body \<Rightarrow> True | _ \<Rightarrow> False)"

definition same_tables :: "api_state \<Rightarrow> api_state \<Rightarrow> bool" where
  "same_tables st st' \<longleftrightarrow>
     ap_db st' = ap_db st \<and> ap_settings st' = ap_settings st \<and>
     rn_current (ap_runner st') = rn_current (ap_runner st)"

lemma same_tables_refl [simp]: "same_tables st st"
  by (simp add: same_tables_def)

lemma wrapped_fst [simp]: "fst (wrapped wrap r) = fst r"
  by (simp add: wrapped_def)

lemma wrapped_snd: "snd (wrapped wrap r) = r_bind (snd r) (\<lambda>x. Inr (wrap x))"
  by (simp add: wrapped_def)

lemma identity_same: "same_tables st (fst (identity_route cx now refresh st))"
  by (auto simp: identity_route_def Let_def same_tables_def split: sum.splits)

lemma reading_same: "\<not> writes req \<Longrightarrow> same_tables st (fst (handle fl cx now req st))"
  by (cases req) (simp_all add: writes_def identity_same)

text \<open>An answer with a status of 4xx left the state as it was.\<close>

definition refused :: "nat \<Rightarrow> bool" where
  "refused n \<longleftrightarrow> 400 \<le> n \<and> n < 500"

lemma refused_answer:
  assumes "refused (status_of req (snd (wrapped wrap r)))"
  obtains e where "snd r = Inl e" and "refused (fst (error_response e))"
  using assms
  by (cases "snd r") (auto simp: status_of_def wrapped_snd ok_status_def refused_def split: request.splits)

lemma loaded_error: "current_settings cx st = Inl e \<Longrightarrow> fst (error_response e) = 500"
  by (auto simp: current_settings_def load_settings_def checked_settings_def ValidationError_def r_bind_Inl
      split: option.splits if_splits)

lemma finding_out_error: "as_finding_out fl f settings now = Inl e \<Longrightarrow> fst (error_response e) = 500"
  by (auto simp: as_finding_out_def threshold_for_def r_bind_Inl Let_def split: option.splits prod.splits)

lemma create_refused:
  assumes "snd (create_scan fl cx now body st) = Inl e" and "refused (fst (error_response e))"
  shows "fst (create_scan fl cx now body st) = st"
  using assms by (auto simp: create_scan_def Let_def refused_def split: if_splits sum.splits option.splits)

lemma patch_refused:
  assumes "snd (patch_finding_route fl cx now i body st) = Inl e" and "refused (fst (error_response e))"
  shows "fst (patch_finding_route fl cx now i body st) = st"
  using assms
  by (auto simp: patch_finding_route_def refused_def r_bind_Inl split: if_splits sum.splits
      dest!: loaded_error finding_out_error)

lemma patch_settings_failed:
  "patch_settings env row body = (row', Inl e) \<Longrightarrow> row' = row"
  by (auto simp: patch_settings_def split: sum.splits)

lemma settings_refused:
  assumes "snd (patch_settings_route cx body st) = Inl e"
  shows "fst (patch_settings_route cx body st) = st"
proof -
  obtain row' r where p: "patch_settings (cx_env cx) (ap_settings st) body = (row', r)" by fastforce
  with assms have "r = Inl e" by (auto simp: patch_settings_route_def r_bind_Inl)
  with p patch_settings_failed have "row' = ap_settings st" by blast
  with p show ?thesis by (simp add: patch_settings_route_def)
qed

lemma identity_refused:
  assumes "snd (identity_route cx now refresh st) = Inl e"
  shows "fst (identity_route cx now refresh st) = st"
  using assms by (auto simp: identity_route_def Let_def split: if_splits sum.splits)

lemma handle_refused:
  assumes "refused (status_of req (snd (handle fl cx now req st)))"
  shows "fst (handle fl cx now req st) = st"
proof (cases req)
  case (IdentityRequest refresh)
  then show ?thesis using assms identity_refused by (auto elim!: refused_answer)
next
  case (CreateScan body)
  then show ?thesis using assms create_refused by (auto elim!: refused_answer)
next
  case (PatchFinding i body)
  then show ?thesis using assms patch_refused by (auto elim!: refused_answer)
next
  case (PatchSettings body)
  then show ?thesis using assms settings_refused by (auto elim!: refused_answer)
qed simp_all

text \<open>The codes of the answers.\<close>

lemma error_codes: "fst (error_response e) \<in> {404, 409, 422, 500, 502, 503}"
  by (cases e rule: error_response.cases) simp_all

end
