(* ===== verification/DemoProvider.thy ===== *)
theory DemoProvider
  imports PyJson ProviderBase
begin

text \<open>
  \<open>app/providers/demo.py\<close>: the provider of the demo mode, which reads a JSON dataset. The items
  of a resource name the steps of the demo at which they exist and, most of them, their region;
  faults make a method fail in a region.

  The records of the provider interface are typed; the Python dataclasses are not. \<open>Untyped\<close>
  stands for a value of the dataset of another type than its field, which the shipped dataset
  does not hold. Opening and parsing the file are left out: the dataset is an argument.
\<close>

section \<open>Fields of an item\<close>

definition Untyped :: py_exc where
  "Untyped = PyExc (lit ''Untyped'') (lit ''a value of another type than its field'')"

fun as_str :: "json \<Rightarrow> py_exc + pystr" where
  "as_str (JStr s) = Inr s"
| "as_str v = Inl Untyped"

fun as_opt_str :: "json \<Rightarrow> py_exc + pystr option" where
  "as_opt_str JNull = Inr None"
| "as_opt_str (JStr s) = Inr (Some s)"
| "as_opt_str v = Inl Untyped"

fun as_int :: "json \<Rightarrow> py_exc + int" where
  "as_int (JInt i) = Inr i"
| "as_int v = Inl Untyped"

fun as_opt_int :: "json \<Rightarrow> py_exc + int option" where
  "as_opt_int JNull = Inr None"
| "as_opt_int (JInt i) = Inr (Some i)"
| "as_opt_int v = Inl Untyped"

fun as_bool :: "json \<Rightarrow> py_exc + bool" where
  "as_bool (JBool b) = Inr b"
| "as_bool v = Inl Untyped"

fun as_tags :: "json \<Rightarrow> py_exc + tags" where
  "as_tags (JDict kvs) = r_map (\<lambda>(k, v). r_bind (as_str v) (\<lambda>s. Inr (k, s))) kvs"
| "as_tags v = Inl Untyped"

text \<open>\<open>item[key]\<close> and \<open>item.get(key)\<close>, read as the type of the field.\<close>

definition item_at :: "(json \<Rightarrow> py_exc + 'a) \<Rightarrow> json \<Rightarrow> string \<Rightarrow> py_exc + 'a" where
  "item_at read item key = r_bind (j_index item key) read"

definition item_get :: "(json \<Rightarrow> py_exc + 'a) \<Rightarrow> json \<Rightarrow> string \<Rightarrow> py_exc + 'a" where
  "item_get read item key = r_bind (j_get_or item key JNull) read"

text \<open>\<open>tuple(item[key])\<close> and the elements of a list read as records.\<close>

definition items_at :: "(json \<Rightarrow> py_exc + 'a) \<Rightarrow> json \<Rightarrow> string \<Rightarrow> py_exc + 'a list" where
  "items_at read item key = r_bind (r_bind (j_index item key) j_iter) (r_map read)"

text \<open>A constructor called with \<open>**item\<close>: the keys must be exactly its fields.\<close>

fun names_text :: "string list \<Rightarrow> pystr" where
  "names_text [] = []"
| "names_text [a] = quoted a"
| "names_text [a, b] = quoted a @ lit '' and '' @ quoted b"
| "names_text (a # b # cs) = join (lit '', '') (map quoted (butlast (a # b # cs))) @
     lit '', and '' @ quoted (last (a # b # cs))"

definition with_fields ::
  "string \<Rightarrow> string list \<Rightarrow> (json \<Rightarrow> py_exc + 'a) \<Rightarrow> json \<Rightarrow> py_exc + 'a" where
  "with_fields cls names build item =
     r_bind (j_items item) (\<lambda>kvs.
       case filter (\<lambda>k. k \<notin> lit ` set names) (map fst kvs) of
         k # ks \<Rightarrow> Inl (TypeError (lit cls @ lit ''.__init__() got an unexpected keyword argument '' @
                     [39] @ k @ [39]))
       | [] \<Rightarrow>
           (case filter (\<lambda>f. lit f \<notin> fst ` set kvs) names of
              [] \<Rightarrow> build item
            | f # fs \<Rightarrow> Inl (TypeError (lit cls @ lit ''.__init__() missing '' @
                show_nat (length (f # fs)) @ lit '' required positional argument'' @
                (if fs = [] then [] else lit ''s'') @ lit '': '' @ names_text (f # fs)))))"

section \<open>The provider\<close>

record demo_state =
  de_data :: json
  de_step :: int
  de_anchor :: instant

text \<open>\<open>__init__\<close>.\<close>

definition demo_init :: "json \<Rightarrow> int \<Rightarrow> datetime \<Rightarrow> py_exc + demo_state" where
  "demo_init data step anchor =
     (if \<not> aware anchor
      then Inl (PyExc (lit ''ValueError'') (lit ''demo anchor must be timezone-aware''))
      else Inr \<lparr>de_data = data, de_step = step, de_anchor = instant_of anchor\<rparr>)"

text \<open>\<open>_items\<close>; the steps of an item are integers.\<close>

definition in_step :: "int \<Rightarrow> json \<Rightarrow> py_exc + bool" where
  "in_step step item =
     r_bind (r_bind (j_get_or item ''steps'' (JList [])) j_iter) (\<lambda>steps. Inr (JInt step \<in> set steps))"

definition wanted :: "demo_state \<Rightarrow> pystr option \<Rightarrow> json \<Rightarrow> py_exc + bool" where
  "wanted d region item =
     r_bind (in_step (de_step d) item) (\<lambda>here.
       if \<not> here then Inr False
       else case region of
              None \<Rightarrow> Inr True
            | Some r \<Rightarrow> r_bind (j_get item ''region'') (\<lambda>v. Inr (v = Some (JStr r))))"

fun r_filter :: "('a \<Rightarrow> 'e + bool) \<Rightarrow> 'a list \<Rightarrow> 'e + 'a list" where
  "r_filter P [] = Inr []"
| "r_filter P (x # xs) =
     r_bind (P x) (\<lambda>b. r_bind (r_filter P xs) (\<lambda>ys. Inr (if b then x # ys else ys)))"

definition demo_items :: "demo_state \<Rightarrow> string \<Rightarrow> pystr option \<Rightarrow> py_exc + json list" where
  "demo_items d key region =
     r_bind (r_bind (j_get_or (de_data d) key (JList [])) j_iter) (r_filter (wanted d region))"

text \<open>
  \<open>timedelta(days=n)\<close> takes at most 999999999 days, and \<open>datetime - timedelta\<close> stays within the
  calendar.
\<close>

definition OverflowError :: "pystr \<Rightarrow> py_exc" where
  "OverflowError msg = PyExc (lit ''OverflowError'') msg"

definition days_before :: "instant \<Rightarrow> int \<Rightarrow> py_exc + instant" where
  "days_before t n =
     (if n < - 2147483648 \<or> 2147483647 < n
      then Inl (OverflowError (lit ''Python int too large to convert to C int''))
      else if \<bar>n\<bar> > 999999999
      then Inl (OverflowError (lit ''days='' @ show_int n @ lit ''; must have magnitude <= 999999999''))
      else if \<not> in_calendar (t - n * us_per_day)
      then Inl (OverflowError (lit ''date value out of range''))
      else Inr (t - n * us_per_day))"

definition demo_created_at :: "json_lib \<Rightarrow> demo_state \<Rightarrow> json \<Rightarrow> py_exc + instant" where
  "demo_created_at L d item =
     r_bind (r_bind (j_index item ''created_days_ago'') (j_int L)) (days_before (de_anchor d))"

text \<open>\<open>_fault\<close>: the first fault of a known kind about the method in the region is raised.\<close>

definition fault_operations :: "(string \<times> string) list" where
  "fault_operations =
     [(''list_volumes'', ''ec2:DescribeVolumes''), (''list_addresses'', ''ec2:DescribeAddresses''),
      (''list_instances'', ''ec2:DescribeInstances''), (''list_snapshots'', ''ec2:DescribeSnapshots''),
      (''list_images'', ''ec2:DescribeImages''),
      (''get_snapshot_attributes'', ''ec2:DescribeSnapshotAttribute''),
      (''get_snapshot_locks'', ''ec2:DescribeLockedSnapshots''),
      (''list_stack_resources'', ''cloudformation:ListStackResources'')]"

definition fault_operation :: "string \<Rightarrow> pystr" where
  "fault_operation meth = lit (the (map_of fault_operations meth))"

definition fault_error :: "json \<Rightarrow> pystr \<Rightarrow> pystr \<Rightarrow> provider_error option" where
  "fault_error kind operation region =
     (if kind = JStr (lit ''access_denied'') then Some (ProviderPermissionError operation (Some region))
      else if kind = JStr (lit ''throttled'')
      then Some (ProviderThrottledError (lit ''throttled while calling '' @ operation))
      else if kind = JStr (lit ''transient'')
      then Some (ProviderTransientError (lit ''transient failure calling '' @ operation))
      else None)"

fun raise_fault :: "string \<Rightarrow> pystr \<Rightarrow> json list \<Rightarrow> py_exc + unit" where
  "raise_fault meth region [] = Inr ()"
| "raise_fault meth region (fault # faults) =
     r_bind (j_index fault ''method'') (\<lambda>m.
       if m \<noteq> JStr (lit meth) then raise_fault meth region faults
       else r_bind (j_index fault ''region'') (\<lambda>r.
         if r \<noteq> JStr region then raise_fault meth region faults
         else r_bind (j_index fault ''kind'') (\<lambda>kind.
           case fault_error kind (fault_operation meth) region of
             Some e \<Rightarrow> Inl (Prov e)
           | None \<Rightarrow> raise_fault meth region faults)))"

definition demo_fault :: "demo_state \<Rightarrow> string \<Rightarrow> pystr \<Rightarrow> py_exc + unit" where
  "demo_fault d meth region =
     r_bind (r_bind (j_get_or (de_data d) ''faults'' (JList [])) j_iter) (raise_fault meth region)"

section \<open>The operations\<close>

definition demo_attachment :: "json \<Rightarrow> py_exc + attachment" where
  "demo_attachment = with_fields ''Attachment'' [''instance_id'', ''device'', ''state''] (\<lambda>item.
     r_bind (item_at as_str item ''instance_id'') (\<lambda>i.
     r_bind (item_at as_str item ''device'') (\<lambda>dev.
     r_bind (item_at as_str item ''state'') (\<lambda>s.
       Inr \<lparr>at_instance_id = i, at_device = dev, at_state = s\<rparr>))))"

definition demo_device :: "json \<Rightarrow> py_exc + block_device" where
  "demo_device = with_fields ''BlockDevice'' [''device_name'', ''volume_id'', ''status''] (\<lambda>item.
     r_bind (item_at as_str item ''device_name'') (\<lambda>n.
     r_bind (item_at as_str item ''volume_id'') (\<lambda>v.
     r_bind (item_at as_str item ''status'') (\<lambda>s.
       Inr \<lparr>bd_device_name = n, bd_volume_id = v, bd_status = s\<rparr>))))"

definition demo_identity :: "demo_state \<Rightarrow> py_exc + identity" where
  "demo_identity d =
     r_bind (item_at as_str (de_data d) ''account_id'') (\<lambda>account.
     r_bind (item_at as_str (de_data d) ''principal_arn'') (\<lambda>arn.
     r_bind (item_at as_str (de_data d) ''user_id'') (\<lambda>user.
       Inr \<lparr>id_account_id = account, id_principal_arn = arn, id_identity_type = ID_ASSUMED_ROLE,
            id_user_id = user\<rparr>)))"

fun as_opt_in :: "json \<Rightarrow> py_exc + opt_in_status" where
  "as_opt_in (JStr s) =
     (if s = lit ''opt-in-not-required'' then Inr OPT_IN_NOT_REQUIRED
      else if s = lit ''opted-in'' then Inr OPTED_IN
      else if s = lit ''not-opted-in'' then Inr NOT_OPTED_IN
      else Inl Untyped)"
| "as_opt_in v = Inl Untyped"

definition demo_region :: "json \<Rightarrow> py_exc + region_info" where
  "demo_region = with_fields ''RegionInfo'' [''name'', ''opt_in_status''] (\<lambda>item.
     r_bind (item_at as_str item ''name'') (\<lambda>n.
     r_bind (item_at as_opt_in item ''opt_in_status'') (\<lambda>s.
       Inr \<lparr>ri_name = n, ri_opt_in_status = s\<rparr>)))"

definition demo_volume :: "json_lib \<Rightarrow> demo_state \<Rightarrow> json \<Rightarrow> py_exc + volume" where
  "demo_volume L d item =
     r_bind (item_at as_str item ''volume_id'') (\<lambda>volume_id.
     r_bind (item_at as_str item ''state'') (\<lambda>state.
     r_bind (item_at as_str item ''volume_type'') (\<lambda>volume_type.
     r_bind (item_at as_int item ''size_gib'') (\<lambda>size_gib.
     r_bind (item_get as_opt_int item ''iops'') (\<lambda>iops.
     r_bind (item_get as_opt_int item ''throughput_mibps'') (\<lambda>throughput.
     r_bind (item_at as_bool item ''encrypted'') (\<lambda>encrypted.
     r_bind (demo_created_at L d item) (\<lambda>created_at.
     r_bind (item_get as_opt_str item ''snapshot_id'') (\<lambda>snapshot_id.
     r_bind (items_at demo_attachment item ''attachments'') (\<lambda>attachments.
     r_bind (item_at as_tags item ''tags'') (\<lambda>tags.
     r_bind (item_at as_str item ''availability_zone'') (\<lambda>zone.
       Inr \<lparr>v_volume_id = volume_id, v_state = state, v_volume_type = volume_type,
            v_size_gib = size_gib, v_iops = iops, v_throughput_mibps = throughput,
            v_encrypted = encrypted, v_created_at = created_at, v_snapshot_id = snapshot_id,
            v_attachments = attachments, v_tags = tags, v_availability_zone = zone\<rparr>))))))))))))"

text \<open>An address takes every key of its item but the region and the steps.\<close>

fun without :: "string list \<Rightarrow> json \<Rightarrow> py_exc + json" where
  "without keys (JDict kvs) = Inr (JDict (filter (\<lambda>(k, v). k \<notin> lit ` set keys) kvs))"
| "without keys v = Inl (no_attribute v ''items'')"

definition demo_address :: "json \<Rightarrow> py_exc + address" where
  "demo_address item =
     r_bind (without [''region'', ''steps''] item)
       (with_fields ''Address'' [''allocation_id'', ''public_ip'', ''association_id'', ''instance_id'',
          ''network_interface_id'', ''domain'', ''tags''] (\<lambda>item.
        r_bind (item_at as_opt_str item ''allocation_id'') (\<lambda>allocation.
        r_bind (item_at as_str item ''public_ip'') (\<lambda>ip.
        r_bind (item_at as_opt_str item ''association_id'') (\<lambda>association.
        r_bind (item_at as_opt_str item ''instance_id'') (\<lambda>instance_id.
        r_bind (item_at as_opt_str item ''network_interface_id'') (\<lambda>eni.
        r_bind (item_at as_str item ''domain'') (\<lambda>dom.
        r_bind (item_at as_tags item ''tags'') (\<lambda>tags.
          Inr \<lparr>ad_allocation_id = allocation, ad_public_ip = ip, ad_association_id = association,
               ad_instance_id = instance_id, ad_network_interface_id = eni, ad_domain = dom,
               ad_tags = tags\<rparr>)))))))))"

definition demo_instance :: "json_lib \<Rightarrow> demo_state \<Rightarrow> json \<Rightarrow> py_exc + ec2_instance" where
  "demo_instance L d item =
     r_bind (item_at as_str item ''instance_id'') (\<lambda>instance_id.
     r_bind (item_at as_str item ''state'') (\<lambda>state.
     r_bind (item_at as_str item ''instance_type'') (\<lambda>instance_type.
     r_bind (demo_created_at L d item) (\<lambda>launched_at.
     r_bind (items_at demo_device item ''block_devices'') (\<lambda>devices.
     r_bind (item_at as_tags item ''tags'') (\<lambda>tags.
     r_bind (item_get as_opt_str item ''platform'') (\<lambda>platform.
       Inr \<lparr>in_instance_id = instance_id, in_state = state, in_instance_type = instance_type,
            in_launched_at = launched_at, in_block_devices = devices, in_tags = tags,
            in_platform = platform\<rparr>)))))))"

definition demo_snapshot :: "json_lib \<Rightarrow> demo_state \<Rightarrow> json \<Rightarrow> py_exc + snapshot" where
  "demo_snapshot L d item =
     r_bind (item_at as_str item ''snapshot_id'') (\<lambda>snapshot_id.
     r_bind (item_at as_opt_str item ''volume_id'') (\<lambda>volume_id.
     r_bind (item_at as_str item ''owner_id'') (\<lambda>owner_id.
     r_bind (item_at as_str item ''state'') (\<lambda>state.
     r_bind (demo_created_at L d item) (\<lambda>started_at.
     r_bind (item_at as_int item ''volume_size_gib'') (\<lambda>size_gib.
     r_bind (item_at as_str item ''storage_tier'') (\<lambda>tier.
     r_bind (item_at as_bool item ''encrypted'') (\<lambda>encrypted.
     r_bind (item_at as_str item ''description'') (\<lambda>description.
     r_bind (item_at as_tags item ''tags'') (\<lambda>tags.
       Inr \<lparr>sn_snapshot_id = snapshot_id, sn_volume_id = volume_id, sn_owner_id = owner_id,
            sn_state = state, sn_started_at = started_at, sn_volume_size_gib = size_gib,
            sn_storage_tier = tier, sn_encrypted = encrypted, sn_description = description,
            sn_tags = tags\<rparr>))))))))))"

definition demo_image :: "json \<Rightarrow> py_exc + image" where
  "demo_image item =
     r_bind (item_at as_str item ''image_id'') (\<lambda>image_id.
     r_bind (item_at as_str item ''name'') (\<lambda>name.
     r_bind (item_at as_str item ''state'') (\<lambda>state.
     r_bind (items_at as_str item ''snapshot_ids'') (\<lambda>snapshot_ids.
     r_bind (item_at as_tags item ''tags'') (\<lambda>tags.
       Inr \<lparr>im_image_id = image_id, im_name = name, im_state = state,
            im_snapshot_ids = snapshot_ids, im_tags = tags\<rparr>)))))"

definition demo_stack_resource :: "json \<Rightarrow> py_exc + stack_resource" where
  "demo_stack_resource item =
     r_bind (item_at as_str item ''region'') (\<lambda>region.
     r_bind (item_at as_str item ''stack_name'') (\<lambda>stack_name.
     r_bind (item_at as_str item ''stack_id'') (\<lambda>stack_id.
     r_bind (item_at as_str item ''logical_id'') (\<lambda>logical_id.
     r_bind (item_get as_opt_str item ''physical_id'') (\<lambda>physical_id.
     r_bind (item_at as_str item ''resource_type'') (\<lambda>resource_type.
     r_bind (item_at as_str item ''resource_status'') (\<lambda>resource_status.
       Inr \<lparr>sr_region = region, sr_stack_name = stack_name, sr_stack_id = stack_id,
            sr_logical_id = logical_id, sr_physical_id = physical_id,
            sr_resource_type = resource_type, sr_resource_status = resource_status\<rparr>)))))))"

text \<open>A listing: the fault of the method, then the items of the region, each as a record.\<close>

definition demo_list ::
  "demo_state \<Rightarrow> string \<Rightarrow> string \<Rightarrow> (json \<Rightarrow> py_exc + 'a) \<Rightarrow> pystr \<Rightarrow> py_exc + 'a list" where
  "demo_list d meth key read region =
     r_bind (demo_fault d meth region) (\<lambda>u. r_bind (demo_items d key (Some region)) (r_map read))"

definition demo_attributes :: "demo_state \<Rightarrow> pystr \<Rightarrow> pystr \<Rightarrow> py_exc + snapshot_attributes" where
  "demo_attributes d region snapshot_id =
     r_bind (demo_fault d ''get_snapshot_attributes'' region) (\<lambda>u.
     r_bind (j_get_or (de_data d) ''snapshot_attributes'' (JDict [])) (\<lambda>all.
     r_bind (j_lookup all snapshot_id) (\<lambda>found.
     let attributes = (case found of None \<Rightarrow> JDict [] | Some v \<Rightarrow> v) in
     r_bind (r_bind (r_bind (j_get_or attributes ''shared_user_ids'' (JList [])) j_iter) (r_map as_str))
       (\<lambda>users.
     r_bind (r_bind (r_bind (j_get_or attributes ''shared_groups'' (JList [])) j_iter) (r_map as_str))
       (\<lambda>groups.
       Inr \<lparr>sa_snapshot_id = snapshot_id, sa_shared_user_ids = users, sa_shared_groups = groups\<rparr>)))))"

fun as_lock_state :: "json \<Rightarrow> py_exc + lock_state option" where
  "as_lock_state JNull = Inr None"
| "as_lock_state (JStr s) =
     (case find (\<lambda>l. lock_state_value l = s)
            [LOCK_COMPLIANCE, LOCK_GOVERNANCE, LOCK_COMPLIANCE_COOLOFF, LOCK_EXPIRED] of
        Some l \<Rightarrow> Inr (Some l)
      | None \<Rightarrow> Inl Untyped)"
| "as_lock_state v = Inl Untyped"

definition demo_locks :: "demo_state \<Rightarrow> pystr \<Rightarrow> pystr list \<Rightarrow> py_exc + snapshot_lock list" where
  "demo_locks d region snapshot_ids =
     r_bind (demo_fault d ''get_snapshot_locks'' region) (\<lambda>u.
     r_bind (r_bind (j_get_or (de_data d) ''snapshot_locks'' (JList [])) j_iter) (\<lambda>locks.
     r_bind (r_map (\<lambda>item.
       r_bind (j_index item ''snapshot_id'') (\<lambda>i.
         if unhashable i
         then Inl (TypeError (lit ''unhashable type: '' @ quoted (j_type i)))
         else if i \<notin> JStr ` set snapshot_ids then Inr None
         else r_bind (as_str i) (\<lambda>s.
              r_bind (item_get as_lock_state item ''lock_state'') (\<lambda>l.
                Inr (Some \<lparr>sl_snapshot_id = s, sl_lock_state = l\<rparr>))))) locks)
       (\<lambda>found. Inr (List.map_filter id found))))"

definition demo_prices_error :: py_exc where
  "demo_prices_error = Prov (ProviderTransientError (lit ''pricing API not available in demo mode''))"

text \<open>The provider as the record of its methods.\<close>

definition demo_provider :: "json_lib \<Rightarrow> demo_state \<Rightarrow> cloud_provider" where
  "demo_provider L d =
     \<lparr>cp_mode = DEMO,
      get_identity = demo_identity d,
      list_regions = r_bind (r_bind (j_index (de_data d) ''regions'') j_iter) (r_map demo_region),
      list_volumes = demo_list d ''list_volumes'' ''volumes'' (demo_volume L d),
      list_addresses = demo_list d ''list_addresses'' ''addresses'' demo_address,
      list_instances = demo_list d ''list_instances'' ''instances'' (demo_instance L d),
      list_snapshots = demo_list d ''list_snapshots'' ''snapshots'' (demo_snapshot L d),
      list_images = demo_list d ''list_images'' ''images'' demo_image,
      get_snapshot_attributes = demo_attributes d,
      get_snapshot_locks = demo_locks d,
      list_stack_resources =
        demo_list d ''list_stack_resources'' ''stack_resources'' demo_stack_resource,
      get_prices = (\<lambda>service filters. Inl demo_prices_error)\<rparr>"

end
