(* ===== verification/Seeding.thy ===== *)
theory Seeding
  imports DemoProvider Settings ScanRunner
begin

text \<open>
  Seeding the demo (\<open>services/demo_seeder.py\<close>) with the demo provider: what a dataset must hold
  for the four scans of the seeder to be made, and that they are made then. The shipped dataset
  (\<open>fixtures/demo/dataset.json\<close>) is in \<open>DemoFixture\<close>.
\<close>

definition open_demo :: "json_lib \<Rightarrow> json \<Rightarrow> nat \<Rightarrow> datetime \<Rightarrow> py_exc + cloud_provider" where
  "open_demo L data step anchor =
     r_bind (demo_init data (int step) anchor) (\<lambda>d. Inr (demo_provider L d))"

section \<open>Listings that name a resource once\<close>

definition names_once :: "cloud_provider \<Rightarrow> pystr \<Rightarrow> bool" where
  "names_once P region \<longleftrightarrow>
     (\<forall>vs. list_volumes P region = Inr vs \<longrightarrow> distinct (map v_volume_id vs)) \<and>
     (\<forall>ads. list_addresses P region = Inr ads \<longrightarrow> distinct (List.map_filter ad_allocation_id ads)) \<and>
     (\<forall>insts. list_instances P region = Inr insts \<longrightarrow> distinct (map in_instance_id insts)) \<and>
     (\<forall>ss. list_snapshots P region = Inr ss \<longrightarrow> distinct (map sn_snapshot_id ss))"

lemma r_map_ids:
  assumes "r_map g xs = Inr ys" and "\<And>x y. g x = Inr y \<Longrightarrow> h y = k x"
  shows "map h ys = map k xs"
proof -
  have "list_all2 (\<lambda>x y. h y = k x) xs ys"
    using assms(1) unfolding r_map_Inr_all2 by (rule list_all2_mono) (rule assms(2))
  then show ?thesis by (induction rule: list_all2_induct) simp_all
qed

lemma ebs_names_once:
  assumes "names_once P region" and "ebs_scan P region ctx = Inr cs"
  shows "distinct (map fc_resource_id cs)"
  using assms by (auto simp: names_once_def ebs_scan_Inr ebs_candidate_def comp_def intro!: distinct_map_filter)

lemma eip_names_once:
  assumes "names_once P region" and "eip_scan P region ctx = Inr cs"
  shows "distinct (map fc_resource_id cs)"
proof -
  from assms obtain ads where ads: "distinct (List.map_filter ad_allocation_id ads)"
    and cs: "cs = map (eip_candidate ctx region) (filter eip_condition ads)"
    by (auto simp: names_once_def eip_scan_Inr)
  have "map fc_resource_id cs = map (the \<circ> ad_allocation_id) (filter eip_condition ads)"
    by (simp add: cs eip_candidate_def Let_def)
  moreover have "filter eip_condition ads =
      filter eip_condition (filter (\<lambda>a. ad_allocation_id a \<noteq> None) ads)"
    by (induction ads) (auto simp: eip_condition_def)
  ultimately show ?thesis
    using ads by (simp only: List.map_filter_def distinct_map_filter)
qed

lemma ec2_names_once:
  assumes "names_once P region" and "ec2_scan P region ctx = Inr cs"
  shows "distinct (map fc_resource_id cs)"
proof -
  from assms(2) obtain insts idx ads w where "list_instances P region = Inr insts"
    and cs: "cs = map (ec2_candidate ctx region idx ads w) (filter ec2_condition insts)"
    by (rule ec2_scan_Inr)
  with assms(1) have "distinct (map in_instance_id insts)" by (simp add: names_once_def)
  then show ?thesis by (simp add: cs ec2_candidate_def Let_def comp_def distinct_map_filter)
qed

lemma snapshot_names_once:
  assumes "names_once P region" and "snapshot_scan P region ctx = Inr cs"
  shows "distinct (map fc_resource_id cs)"
proof -
  from assms(2) obtain ss and vs :: "volume list" and images locks where
    ss: "list_snapshots P region = Inr ss" and
    cs: "r_map (snapshot_candidate P region ctx images locks)
       (filter (snapshot_condition ctx (v_volume_id ` set vs)) ss) = Inr cs"
    by (elim snapshot_scan_Inr)
  have "map fc_resource_id cs =
      map sn_snapshot_id (filter (snapshot_condition ctx (v_volume_id ` set vs)) ss)"
    by (rule r_map_ids [OF cs]) (erule snapshot_candidate_Inr, simp)
  with ss assms(1) show ?thesis by (simp add: names_once_def distinct_map_filter)
qed

lemma names_once_lists_once: "names_once P region \<Longrightarrow> lists_once P region ctx"
  using ebs_names_once eip_names_once ec2_names_once snapshot_names_once
  by (auto simp: lists_once_def detectors_def)

section \<open>The rows a scan adds\<close>

text \<open>The ids of the scans that made the observations have been given out.\<close>

definition scan_ids_used :: "db \<Rightarrow> bool" where
  "scan_ids_used d \<longleftrightarrow> (\<forall>ob \<in> set (db_observations d). ob_scan_id ob < db_next_id d)"

definition adds_rows :: "uuid \<Rightarrow> db \<Rightarrow> db \<Rightarrow> bool" where
  "adds_rows i d d' \<longleftrightarrow>
     (\<forall>ob \<in> set (db_observations d'). ob \<in> set (db_observations d) \<or> ob_scan_id ob = i)"

lemma adds_rows_refl [simp]: "adds_rows i d d"
  by (simp add: adds_rows_def)

lemma adds_rows_trans: "adds_rows i d d' \<Longrightarrow> adds_rows i d' d'' \<Longrightarrow> adds_rows i d d''"
  by (auto simp: adds_rows_def)

lemma candidate_adds_rows:
  "reconcile_candidate st dt s t rs c = Inr rs' \<Longrightarrow> adds_rows (s_id s) (rs_db rs) (rs_db rs')"
  by (auto simp: reconcile_candidate_def Let_def r_bind_Inr adds_rows_def add_observation_def
      split: if_splits)

lemma reconcile_adds_rows:
  assumes "reconcile d s region dt cs cov st t = Inr (d', r)"
  shows "adds_rows (s_id s) d d'"
proof -
  have loop: "adds_rows (s_id s) d (rs_db rs)"
    if "r_fold (reconcile_candidate st dt s t) (start_state d) cs = Inr rs" for rs
    by (rule r_fold_invariant [OF that, where P = "\<lambda>rs. adds_rows (s_id s) d (rs_db rs)"])
      (auto simp: start_state_def intro: adds_rows_trans candidate_adds_rows)
  then show ?thesis
    using assms
    by (auto simp: reconcile_def Let_def r_bind_Inr resolve_missing_def adds_rows_def split: if_splits)
qed

lemma cells_adds_rows:
  assumes "r_fold (reconcile_cell s st t) acc cells = Inr acc'"
  shows "adds_rows (s_id s) (ac_db acc) (ac_db acc')"
proof (rule r_fold_invariant [OF assms, where P = "\<lambda>v. adds_rows (s_id s) (ac_db acc) (ac_db v)"])
  fix u x v
  assume "adds_rows (s_id s) (ac_db acc) (ac_db u)" and "reconcile_cell s st t u x = Inr v"
  moreover from this(2) obtain r where
    "reconcile (ac_db u) s (fst x) (dc_detector_type (snd x)) (dc_candidates (snd x))
       (dc_status (snd x)) st t = Inr (ac_db v, r)" using reconcile_cell_Inr by blast
  ultimately show "adds_rows (s_id s) (ac_db acc) (ac_db v)"
    using reconcile_adds_rows adds_rows_trans by blast
qed simp

lemma fail_scan_adds: "fail_scan d s now e = (d', s') \<Longrightarrow> adds_rows i d d'"
  by (auto simp: fail_scan_def Let_def adds_rows_def)

lemma scan_regions_adds:
  assumes "scan_regions P pricing st ident infos regions s d ps t now = (ps', Inr (d', s'))"
  shows "adds_rows (s_id s) d d'"
proof -
  let ?dets = "snd (run_detections P pricing st ident t ps infos regions)"
  let ?acc = "\<lparr>ac_db = d, ac_new = s_new_findings s, ac_persistent = s_persistent_findings s,
      ac_resolved = s_resolved_findings s, ac_ignored = s_ignored_findings s,
      ac_errors = [], ac_observed = []\<rparr>"
  from assms have "\<exists>acc. r_fold (reconcile_cell s st t) ?acc (all_cells ?dets) = Inr acc \<and>
      db_observations d' = db_observations (ac_db acc)"
    by (auto simp: scan_regions_def finish_scan_def Let_def split: if_splits prod.splits)
  then obtain acc where "r_fold (reconcile_cell s st t) ?acc (all_cells ?dets) = Inr acc"
    and "db_observations d' = db_observations (ac_db acc)" by blast
  with cells_adds_rows [of s st t ?acc "all_cells ?dets" acc] show ?thesis by (simp add: adds_rows_def)
qed

text \<open>A scan that was given no row makes one and works on it.\<close>

definition with_new_row :: "db \<Rightarrow> mode \<Rightarrow> pystr list option \<Rightarrow> instant \<Rightarrow> db" where
  "with_new_row d m requested started =
     d\<lparr>db_scans := put_scan (db_scans d) (new_scan (db_next_id d) m requested started),
       db_next_id := Suc (db_next_id d)\<rparr>"

lemma run_scan_new_row:
  assumes "run_scan P pricing st d ps requested None started finished = (ps', Inr (d', s'))"
  shows "finished_row (with_new_row d (cp_mode P) requested started) d' s'"
    and "s_id s' = db_next_id d"
    and "adds_rows (db_next_id d) (with_new_row d (cp_mode P) requested started) d'"
proof -
  let ?s = "new_scan (db_next_id d) (cp_mode P) requested started"
  let ?d = "with_new_row d (cp_mode P) requested started"
  have i: "s_id ?s = db_next_id d" by (simp add: new_scan_def)
  have row: "scan_row P d requested None started = Inr (?d, ?s)"
    by (simp add: scan_row_def with_new_row_def Let_def)
  from assms consider (fail) s e where "fail_scan ?d s finished e = (d', s')" "s_id s = s_id ?s"
    | (ran) ident infos regions s ps0 t where "s_id s = s_id ?s"
        "scan_regions P pricing st ident infos regions s ?d ps0 t finished = (ps', Inr (d', s'))"
    unfolding run_scan_def row Let_def
    by (simp split: sum.splits py_exc.splits provider_error.splits) fastforce+
  then have "finished_row ?d d' s' \<and> s_id s' = db_next_id d \<and> adds_rows (db_next_id d) ?d d'"
  proof cases
    case (fail s e)
    with fail_scan_row [OF fail(1)] fail_scan_adds [OF fail(1)] i show ?thesis by simp
  next
    case (ran ident infos regions s ps0 t)
    with scan_regions_row [OF ran(2)] scan_regions_adds [OF ran(2)] i show ?thesis by simp
  qed
  then show "finished_row ?d d' s'" and "s_id s' = db_next_id d" and "adds_rows (db_next_id d) ?d d'"
    by simp_all
qed

lemma put_new_scan: "s_id s \<notin> s_id ` set ss \<Longrightarrow> put_scan ss s = ss @ [s]"
  by (auto simp: put_scan_def)

lemma put_last_scan: "s_id s \<notin> s_id ` set ss \<Longrightarrow> s_id t = s_id s \<Longrightarrow> put_scan (ss @ [s]) t = ss @ [t]"
  by (simp add: put_scan_def, rule map_idI, metis imageI)

lemma run_scan_appends:
  assumes "run_scan P pricing st d ps requested None started finished = (ps', Inr (d', s'))"
    and "wf_scans d" and "scan_ids_used d"
  shows "db_scans d' = db_scans d @ [s']" and "wf_scans d'" and "scan_ids_used d'"
    and "s_status s' \<noteq> SCAN_RUNNING" and "s_finished_at s' \<noteq> None"
proof -
  note row = run_scan_new_row [OF assms(1)]
  let ?s = "new_scan (db_next_id d) (cp_mode P) requested started"
  have i: "s_id ?s = db_next_id d" by (simp add: new_scan_def)
  have new: "db_next_id d \<notin> s_id ` set (db_scans d)" using assms(2) by (auto simp: wf_scans_def)
  from row(1) have scans: "db_scans d' = put_scan (put_scan (db_scans d) ?s) s'"
    and later: "Suc (db_next_id d) \<le> db_next_id d'"
    by (simp_all add: finished_row_def with_new_row_def)
  from scans new i row(2) show app: "db_scans d' = db_scans d @ [s']"
    by (simp add: put_new_scan put_last_scan)
  show "wf_scans d'" using assms(2) new row(2) later by (auto simp: wf_scans_def app)
  show "scan_ids_used d'"
    using row(3) assms(3) later
    by (fastforce simp: scan_ids_used_def adds_rows_def with_new_row_def)
  from row(1) show "s_status s' \<noteq> SCAN_RUNNING" and "s_finished_at s' \<noteq> None"
    by (simp_all add: finished_row_def)
qed

section \<open>The seeder ends\<close>

text \<open>What a provider must do for a scan of it to end.\<close>

definition scannable :: "cloud_provider \<Rightarrow> bool" where
  "scannable P \<longleftrightarrow>
     r_ok (get_identity P) \<and> provider_only (list_regions P) \<and> (\<forall>region. names_once P region)"

definition scan_settings :: "app_settings \<Rightarrow> bool" where
  "scan_settings st \<longleftrightarrow>
     thresholds_total st \<and> 0 < st_max_region_concurrency st \<and>
     (\<forall>rs. st_regions st = Some rs \<longrightarrow> distinct rs)"

definition seeded_scan :: "scan \<Rightarrow> bool" where
  "seeded_scan s \<longleftrightarrow> s_seeded s \<and> s_status s \<noteq> SCAN_RUNNING \<and> s_finished_at s \<noteq> None"

text \<open>The tables between two scans of the seeder.\<close>

definition seed_inv :: "instant \<Rightarrow> db \<Rightarrow> bool" where
  "seed_inv t d \<longleftrightarrow> scan_inv t d \<and> wf_scans d \<and> scan_ids_used d"

lemma mark_last_scan:
  assumes "db_scans d = ss @ [s]" and "wf_scans d" and "s_status s \<noteq> SCAN_RUNNING"
    and "s_finished_at s \<noteq> None"
  shows "\<exists>d' s'. mark_seeded d s = Inr d' \<and> db_scans d' = ss @ [s'] \<and> seeded_scan s' \<and>
           s_started_at s' = s_started_at s \<and> wf_scans d'"
proof -
  let ?s = "s\<lparr>s_seeded := True\<rparr>"
  have new: "s_id s \<notin> s_id ` set ss" using assms(1,2) by (auto simp: wf_scans_def)
  then have "find (\<lambda>x. s_id x = s_id s) (ss @ [s]) = Some s"
    by (induction ss) auto
  then have "mark_seeded d s = Inr (d\<lparr>db_scans := ss @ [?s]\<rparr>)"
    using put_last_scan [OF new, of ?s] by (simp add: mark_seeded_def get_scan_def assms(1))
  moreover have "wf_scans (d\<lparr>db_scans := ss @ [?s]\<rparr>)"
    using assms(1,2) by (auto simp: wf_scans_def)
  ultimately show ?thesis using assms(3,4) by (auto simp: seeded_scan_def)
qed

lemma seed_step:
  assumes "demo (fst step) (utc anchor) = Inr P" and "scannable P" and "scan_settings st"
    and "seed_inv t d" and "t \<le> anchor - snd step * us_per_day"
  shows "\<exists>d1 s d2 s2. seed_scan demo pricing st anchor ps d step = Inr (d1, s) \<and>
     mark_seeded d1 s = Inr d2 \<and> db_scans d2 = db_scans d @ [s2] \<and> seeded_scan s2 \<and>
     s_started_at s2 = anchor - snd step * us_per_day \<and>
     seed_inv (anchor - snd step * us_per_day) d2"
proof -
  define time where "time = anchor - snd step * us_per_day"
  from assms(2) have P: "r_ok (get_identity P)" "provider_only (list_regions P)"
    and once: "\<And>region ctx. lists_once P region ctx"
    using names_once_lists_once by (auto simp: scannable_def)
  from assms(3) have st: "thresholds_total st" "0 < st_max_region_concurrency st"
    and dist: "\<forall>rs. st_regions st = Some rs \<longrightarrow> distinct rs"
    by (auto simp: scan_settings_def)
  from assms(4) have inv: "scan_inv t d" "wf_scans d" "scan_ids_used d" and wf: "wf_db d"
    by (auto simp: seed_inv_def scan_inv_def)
  from inv(3) have fresh: "\<forall>ob \<in> set (db_observations d). ob_scan_id ob \<noteq> db_next_id d"
    by (auto simp: scan_ids_used_def)
  obtain ps' d1 s where run: "run_scan P pricing st d ps None None time time = (ps', Inr (d1, s))"
    using run_scan_total [OF P st wf _ fresh once, of None pricing ps time time] dist by blast
  note app = run_scan_appends [OF run inv(2,3)]
  have time: "s_started_at s = time" by (rule run_scan_started [OF run])
  have inv1: "scan_inv time d1"
    using run_scan_keeps_inv [OF run inv(1)] assms(5) by (simp add: time time_def)
  from mark_last_scan [OF app(1,2,4,5)] obtain d2 s2 where
    mark: "mark_seeded d1 s = Inr d2" and d2: "db_scans d2 = db_scans d @ [s2]" "seeded_scan s2"
      "s_started_at s2 = time" "wf_scans d2"
    by (auto simp: time)
  note same = mark_seeded_findings [OF mark]
  have "seed_inv time d2"
    using same d2(4) inv1 app(3) scan_inv_same [of d2 d1 time time]
    by (simp add: seed_inv_def scan_ids_used_def)
  moreover have "seed_scan demo pricing st anchor ps d step = Inr (d1, s)"
    using run by (simp add: seed_scan_def assms(1) time_def Let_def)
  ultimately show ?thesis using mark d2 by (auto simp: time_def)
qed

lemma seed_loop_ok:
  assumes "\<forall>step \<in> set steps. \<exists>P. demo (fst step) (utc anchor) = Inr P \<and> scannable P"
    and "scan_settings st" and "seed_inv t d"
    and "sorted_wrt (\<lambda>a b. snd b \<le> snd a) steps"
    and "\<forall>step \<in> set steps. t \<le> anchor - snd step * us_per_day"
  shows "\<exists>d' ss. seed_loop demo pricing st anchor ps steps d = (d', Inr ()) \<and>
     db_scans d' = db_scans d @ ss \<and> (\<forall>s \<in> set ss. seeded_scan s) \<and>
     map s_started_at ss = map (\<lambda>step. anchor - snd step * us_per_day) steps"
  using assms
proof (induction steps arbitrary: d t)
  case Nil
  then show ?case by simp
next
  case (Cons step steps)
  obtain P where P: "demo (fst step) (utc anchor) = Inr P" "scannable P"
    using Cons.prems(1) by auto
  have now: "t \<le> anchor - snd step * us_per_day" using Cons.prems(5) by simp
  obtain d1 s d2 s2 where step: "seed_scan demo pricing st anchor ps d step = Inr (d1, s)"
    "mark_seeded d1 s = Inr d2" "db_scans d2 = db_scans d @ [s2]" "seeded_scan s2"
    "s_started_at s2 = anchor - snd step * us_per_day"
    "seed_inv (anchor - snd step * us_per_day) d2"
    using seed_step [of demo step anchor, OF P Cons.prems(2,3) now, of pricing ps] by blast
  have later: "\<forall>x \<in> set steps. anchor - snd step * us_per_day \<le> anchor - snd x * us_per_day"
    using Cons.prems(4) by auto
  from Cons.IH [OF _ Cons.prems(2) step(6) _ later] Cons.prems(1,4) obtain d' ss where
    "seed_loop demo pricing st anchor ps steps d2 = (d', Inr ())"
    "db_scans d' = db_scans d2 @ ss" "\<forall>s \<in> set ss. seeded_scan s"
    "map s_started_at ss = map (\<lambda>step. anchor - snd step * us_per_day) steps"
    by auto
  with step show ?case by auto
qed

section \<open>Datasets that can be scanned\<close>

text \<open>The identifiers that the items of a resource give, those that are not null each once.\<close>

definition names_distinct :: "json \<Rightarrow> string \<Rightarrow> string \<Rightarrow> bool" where
  "names_distinct data key idkey =
     (case r_bind (j_get_or data key (JList [])) j_iter of
        Inl e \<Rightarrow> True
      | Inr items \<Rightarrow>
          distinct (filter (\<lambda>v. v \<noteq> Inr JNull) (map (\<lambda>item. j_index item idkey) items)))"

definition scannable_data :: "json \<Rightarrow> bool" where
  "scannable_data data \<longleftrightarrow>
     list_all (\<lambda>key. case j_index data key of Inr (JStr s) \<Rightarrow> True | _ \<Rightarrow> False)
       [''account_id'', ''principal_arn'', ''user_id''] \<and>
     r_ok (r_bind (r_bind (j_index data ''regions'') j_iter) (r_map demo_region)) \<and>
     names_distinct data ''volumes'' ''volume_id'' \<and>
     names_distinct data ''addresses'' ''allocation_id'' \<and>
     names_distinct data ''instances'' ''instance_id'' \<and>
     names_distinct data ''snapshots'' ''snapshot_id''"

lemma r_filter_Inr: "r_filter K xs = Inr ys \<Longrightarrow> ys = filter (\<lambda>x. K x = Inr True) xs"
  by (induction xs arbitrary: ys) (auto split: if_splits)

lemma demo_list_items:
  assumes "demo_list d meth key read region = Inr ys"
  obtains items K where "r_bind (j_get_or (de_data d) key (JList [])) j_iter = Inr items"
    and "r_map read (filter K items) = Inr ys"
  using assms by (auto simp: demo_list_def demo_items_def dest!: r_filter_Inr)

lemma as_opt_str_Inr: "as_opt_str v = Inr s \<longleftrightarrow> v = j_opt_str s"
  by (cases v; cases s) auto

lemma as_str_Inr: "as_str v = Inr s \<longleftrightarrow> v = JStr s"
  by (cases v) auto

lemma item_at_Inr: "item_at read item key = Inr y \<longleftrightarrow> (\<exists>v. j_index item key = Inr v \<and> read v = Inr y)"
  by (auto simp: item_at_def r_bind_Inr)

lemma distinct_filter_map: "distinct (filter Q (map g xs)) \<Longrightarrow> distinct (filter Q (map g (filter K xs)))"
  by (induction xs) auto

lemma demo_list_names:
  assumes "demo_list d meth key read region = Inr ys"
    and "names_distinct (de_data d) key idkey"
    and "\<And>item y. read item = Inr y \<Longrightarrow> j_index item idkey = Inr (j_opt_str (ident y))"
  shows "distinct (List.map_filter ident ys)"
proof -
  obtain items K where items: "r_bind (j_get_or (de_data d) key (JList [])) j_iter = Inr items"
    and read: "r_map read (filter K items) = Inr ys" by (rule demo_list_items [OF assms(1)])
  have names: "map (Inr \<circ> j_opt_str \<circ> ident) ys = map (\<lambda>item. j_index item idkey) (filter K items)"
    by (rule r_map_ids [OF read]) (simp add: assms(3))
  have "distinct (filter (\<lambda>v. v \<noteq> Inr JNull) (map (\<lambda>item. j_index item idkey) items))"
    using assms(2) items by (simp add: names_distinct_def)
  then have "distinct (filter (\<lambda>v. v \<noteq> (Inr JNull :: py_exc + json)) (map (Inr \<circ> j_opt_str \<circ> ident) ys))"
    unfolding names by (rule distinct_filter_map)
  moreover have "filter (\<lambda>v. v \<noteq> (Inr JNull :: py_exc + json)) (map (Inr \<circ> j_opt_str \<circ> ident) ys) =
      map (Inr \<circ> JStr) (List.map_filter ident ys)"
  proof (induction ys)
    case (Cons y ys)
    then show ?case by (cases "ident y") (simp_all add: List.map_filter_def)
  qed (simp add: List.map_filter_def)
  ultimately show ?thesis by (simp add: distinct_map)
qed

lemma map_filter_Some: "List.map_filter (\<lambda>x. Some (f x)) xs = map f xs"
  by (simp add: List.map_filter_def comp_def)

lemma demo_volume_id: "demo_volume L d item = Inr v \<Longrightarrow> j_index item ''volume_id'' = Inr (JStr (v_volume_id v))"
  unfolding demo_volume_def by (elim r_bind_InrE) (auto simp: item_at_Inr as_str_Inr)

lemma demo_instance_id: "demo_instance L d item = Inr i \<Longrightarrow> j_index item ''instance_id'' = Inr (JStr (in_instance_id i))"
  unfolding demo_instance_def by (elim r_bind_InrE) (auto simp: item_at_Inr as_str_Inr)

lemma demo_snapshot_id: "demo_snapshot L d item = Inr s \<Longrightarrow> j_index item ''snapshot_id'' = Inr (JStr (sn_snapshot_id s))"
  unfolding demo_snapshot_def by (elim r_bind_InrE) (auto simp: item_at_Inr as_str_Inr)

lemma without_index:
  assumes "without keys item = Inr item'" and "lit key \<notin> lit ` set keys"
  shows "j_index item' key = j_index item key"
proof -
  from assms(1) obtain kvs where kvs: "item = JDict kvs"
    and item': "item' = JDict (filter (\<lambda>(k, v). k \<notin> lit ` set keys) kvs)"
    by (cases "(keys, item)" rule: without.cases) auto
  have "map_of (filter (\<lambda>(k, v). k \<notin> lit ` set keys) kvs) (lit key) = map_of kvs (lit key)"
    using assms(2) by (induction kvs) auto
  then show ?thesis by (simp add: kvs item')
qed

lemma with_fields_Inr: "with_fields cls names build item = Inr y \<Longrightarrow> build item = Inr y"
  by (auto simp: with_fields_def split: list.splits)

lemma demo_address_id:
  assumes "demo_address item = Inr a"
  shows "j_index item ''allocation_id'' = Inr (j_opt_str (ad_allocation_id a))"
proof -
  from assms obtain item' where w: "without [''region'', ''steps''] item = Inr item'"
    and "j_index item' ''allocation_id'' = Inr (j_opt_str (ad_allocation_id a))"
    unfolding demo_address_def
    by (elim r_bind_InrE, drule_tac with_fields_Inr, elim r_bind_InrE)
      (auto simp: item_at_Inr as_opt_str_Inr)
  with without_index [OF w, of "''allocation_id''"] show ?thesis by simp
qed

lemma demo_scannable:
  assumes "scannable_data (de_data d)"
  shows "scannable (demo_provider L d)"
proof -
  have "names_once (demo_provider L d) region" for region
    unfolding names_once_def
    using assms demo_list_names [of d "''list_volumes''" "''volumes''" "demo_volume L d" region _ "''volume_id''"
        "\<lambda>v. Some (v_volume_id v)"]
      demo_list_names [of d "''list_addresses''" "''addresses''" demo_address region _ "''allocation_id''"
        ad_allocation_id]
      demo_list_names [of d "''list_instances''" "''instances''" "demo_instance L d" region _ "''instance_id''"
        "\<lambda>i. Some (in_instance_id i)"]
      demo_list_names [of d "''list_snapshots''" "''snapshots''" "demo_snapshot L d" region _ "''snapshot_id''"
        "\<lambda>s. Some (sn_snapshot_id s)"]
    by (simp add: scannable_data_def demo_provider_def map_filter_Some demo_volume_id demo_address_id
        demo_instance_id demo_snapshot_id)
  moreover have "r_ok (get_identity (demo_provider L d))"
    using assms
    by (auto simp: scannable_data_def demo_provider_def demo_identity_def item_at_def r_ok_iff
        split: sum.splits json.splits)
  moreover have "provider_only (list_regions (demo_provider L d))"
    using assms by (auto simp: scannable_data_def demo_provider_def provider_only_def r_ok_iff)
  ultimately show ?thesis by (simp add: scannable_def)
qed

section \<open>Seeding an empty database\<close>

lemma empty_seed_inv:
  assumes "db_scans d = []" and "db_findings d = []" and "db_observations d = []"
  shows "seed_inv t d"
  using assms
  by (simp add: seed_inv_def scan_inv_def wf_db_def wf_findings_def counted_def wf_scans_def
      scan_ids_used_def)

lemma open_demo_scannable:
  assumes "scannable_data data"
  shows "\<exists>P. open_demo L data step (utc anchor) = Inr P \<and> scannable P"
  using assms demo_scannable by (auto simp: open_demo_def demo_init_def)

lemma seed_if_empty_ok:
  assumes "db_scans d = []" and "db_findings d = []" and "db_observations d = []"
    and "load_settings env row = Inr (row1, st)" and "scan_settings st" and "scannable_data data"
  shows "\<exists>d' st'. seed_if_empty (open_demo L data) pricing env now ps row d = (Some st', d', Inr True) \<and>
     st' = st\<lparr>st_demo_anchor_at := Some (utc now), st_pricing_mode := PM_FALLBACK_ONLY\<rparr> \<and>
     map s_started_at (db_scans d') = map (\<lambda>days. now - days * us_per_day) [21, 14, 7, 2] \<and>
     (\<forall>s \<in> set (db_scans d'). seeded_scan s) \<and> scan_inv (now - 2 * us_per_day) d'"
proof -
  let ?st = "st\<lparr>st_demo_anchor_at := Some (utc now), st_pricing_mode := PM_FALLBACK_ONLY\<rparr>"
  have inv: "seed_inv (now - 21 * us_per_day) d" by (rule empty_seed_inv [OF assms(1-3)])
  have st: "scan_settings ?st" using assms(5) by (simp add: scan_settings_def thresholds_total_def)
  have days: "\<forall>step \<in> set seed_steps. now - 21 * us_per_day \<le> now - snd step * us_per_day"
    by (simp add: seed_steps_def us_per_day_def)
  have opens: "\<forall>step \<in> set seed_steps. \<exists>P. open_demo L data (fst step) (utc now) = Inr P \<and> scannable P"
    using open_demo_scannable [OF assms(6)] by blast
  have "sorted_wrt (\<lambda>a b. snd b \<le> snd a) seed_steps" by (simp add: seed_steps_def)
  from seed_loop_ok [of seed_steps "open_demo L data" now, OF opens st inv this days, of pricing ps]
  obtain d' ss where loop: "seed_loop (open_demo L data) pricing ?st now ps seed_steps d = (d', Inr ())"
    and "db_scans d' = db_scans d @ ss" "\<forall>s \<in> set ss. seeded_scan s"
    and "map s_started_at ss = map (\<lambda>step. now - snd step * us_per_day) seed_steps" by blast
  moreover have run: "seed_if_empty (open_demo L data) pricing env now ps row d = (Some ?st, d', Inr True)"
    using loop assms(1,4) by (simp add: seed_if_empty_def save_settings_def Let_def)
  moreover have "scan_inv (now - 2 * us_per_day) d'"
    using seed_keeps_inv [OF run assms(1), of "now - 21 * us_per_day"] inv by (simp add: seed_inv_def)
  ultimately show ?thesis using assms(1) by (auto simp: seed_steps_def)
qed

end
