(* ===== verification/Application.thy ===== *)
theory Application
  imports Http Seeding
begin

text \<open>
  The application over time: requests, the threads of the scans, and starts of the process, in
  any order. The invariant says that the settings stay valid, that at most one scan is running
  and that the tables keep the invariant of the scans.
\<close>

section \<open>The settings\<close>

text \<open>
  What holds of stored settings. Region names given to the interface are checked; those of the
  environment are not.
\<close>

definition settings_ok :: "environment \<Rightarrow> app_settings \<Rightarrow> bool" where
  "settings_ok env st \<longleftrightarrow>
     settings_valid st \<and> thresholds_total st \<and>
     (\<forall>dt n. st_thresholds_days st dt = Some n \<longrightarrow> 0 \<le> n) \<and>
     st_max_region_concurrency st \<le> 8 \<and>
     (regions_are_valid (st_regions st) \<or> st_regions st = region_selection env) \<and>
     (ev_mode env = DEMO \<longrightarrow> st_pricing_mode st = PM_FALLBACK_ONLY)"

definition row_ok :: "environment \<Rightarrow> app_settings option \<Rightarrow> bool" where
  "row_ok env row = if_set row (settings_ok env)"

lemma row_ok_simps [simp]: "row_ok env None" "row_ok env (Some st) = settings_ok env st"
  by (simp_all add: row_ok_def if_set_def)

lemma default_nonneg: "default_thresholds dt = Some n \<Longrightarrow> 0 \<le> n"
  by (auto simp: default_thresholds_def split: if_splits)

lemma dom_default: "dom default_thresholds = UNIV"
  using default_thresholds_total by (simp add: thresholds_total_def default_settings_def)

lemma load_row_ok:
  assumes "row_ok env row" and "load_settings env row = Inr (row', st)"
  shows "row' = Some st" and "settings_ok env st"
proof -
  show "row' = Some st" using load_settings_stored [OF assms(2)] by simp
  show "settings_ok env st"
  proof (cases row)
    case None
    with assms(2) load_settings_stored [OF assms(2)] show ?thesis
      by (clarsimp simp: load_settings_ok settings_ok_def default_settings_def thresholds_total_def
          dom_default default_nonneg split: if_splits)
  next
    case (Some s)
    with assms show ?thesis by (auto simp: load_settings_def checked_settings_Inr)
  qed
qed

text \<open>Stored settings are read back without an error.\<close>

lemma load_row_total:
  assumes "row_ok env row" and "0 \<le> ev_pricing_cache_ttl env"
  shows "r_ok (load_settings env row)"
proof (cases row)
  case None
  with assms(2) show ?thesis by (simp add: load_settings_ok)
next
  case (Some st)
  with assms(1) show ?thesis by (simp add: load_settings_def checked_settings_def settings_ok_def)
qed

lemma merged_total: "thresholds_total st \<Longrightarrow> dom (merged_thresholds (st_thresholds_days st) ts) = UNIV"
  by (auto simp: thresholds_total_def merged_thresholds_def dom_def split: option.splits)

lemma merged_nonneg:
  assumes "merged_thresholds current ts dt = Some n" and "thresholds_are_non_negative (Some ts)"
    and "\<And>m. current dt = Some m \<Longrightarrow> 0 \<le> m"
  shows "0 \<le> n"
proof (cases "map_of ts (detector_type_value dt)")
  case None
  with assms show ?thesis by (simp add: merged_thresholds_def)
next
  case (Some m)
  then have "(detector_type_value dt, m) \<in> set ts" by (rule map_of_SomeD)
  moreover have "n = m" using assms(1) Some by (simp add: merged_thresholds_def)
  ultimately show ?thesis
    using assms(2) by (auto simp: thresholds_are_non_negative_def list_ex_iff)
qed

text \<open>A valid change of valid settings is accepted by the model of the settings.\<close>

lemma apply_changes_valid:
  assumes "settings_valid st" and "settings_patch_valid p"
  shows "settings_valid (apply_changes st p)"
  using assms
  by (auto simp: settings_valid_def settings_patch_valid_def apply_changes_def or_current_def if_set_def
      split: option.splits)

lemma apply_changes_ok:
  assumes "settings_ok env st" and "settings_patch_valid p"
  shows "settings_valid (apply_changes st p) \<and> thresholds_total (apply_changes st p) \<and>
     (\<forall>dt n. st_thresholds_days (apply_changes st p) dt = Some n \<longrightarrow> 0 \<le> n) \<and>
     st_max_region_concurrency (apply_changes st p) \<le> 8 \<and>
     (regions_are_valid (st_regions (apply_changes st p)) \<or>
      st_regions (apply_changes st p) = region_selection env)"
proof (intro conjI)
  show "settings_valid (apply_changes st p)"
    using assms apply_changes_valid by (simp add: settings_ok_def)
  show "thresholds_total (apply_changes st p)"
    using assms merged_total
    by (auto simp: thresholds_total_def settings_ok_def apply_changes_def split: option.splits)
  show "\<forall>dt n. st_thresholds_days (apply_changes st p) dt = Some n \<longrightarrow> 0 \<le> n"
    using assms merged_nonneg
    by (fastforce simp: settings_ok_def settings_patch_valid_def apply_changes_def split: option.splits)
  show "st_max_region_concurrency (apply_changes st p) \<le> 8"
    using assms
    by (auto simp: settings_ok_def settings_patch_valid_def apply_changes_def or_current_def if_set_def
        split: option.splits)
  show "regions_are_valid (st_regions (apply_changes st p)) \<or>
      st_regions (apply_changes st p) = region_selection env"
    using assms
    by (auto simp: settings_ok_def settings_patch_valid_def apply_changes_def split: option.splits)
qed

lemma patch_settings_ok:
  assumes "row_ok env row" and "patch_settings env row body = (row', r)"
  shows "row_ok env row'"
proof (cases r)
  case (Inl e)
  with assms patch_settings_failed show ?thesis by fastforce
next
  case (Inr updated)
  with assms(2) obtain row1 st where p: "settings_patch_valid body"
    and load: "load_settings env row = Inr (row1, st)"
    and up: "updated = (if ev_mode env = DEMO
        then (apply_changes st body)\<lparr>st_pricing_mode := PM_FALLBACK_ONLY\<rparr> else apply_changes st body)"
    and row': "row' = Some updated"
    by (auto simp: patch_settings_def require_def checked_settings_Inr save_settings_def
        split: sum.splits if_splits)
  from apply_changes_ok [OF load_row_ok(2) [OF assms(1) load] p] show ?thesis
    by (auto simp: row' up settings_ok_def settings_valid_def thresholds_total_def)
qed

text \<open>A change that passes the checks of the interface is always stored.\<close>

lemma patch_settings_accepted:
  assumes "row_ok env row" and "0 \<le> ev_pricing_cache_ttl env" and "settings_patch_valid body"
  shows "\<exists>updated. patch_settings env row body = (Some updated, Inr updated)"
proof -
  from load_row_total [OF assms(1,2)] obtain row1 st where load: "load_settings env row = Inr (row1, st)"
    by (auto simp: r_ok_iff)
  with load_row_ok(2) [OF assms(1) load] assms(3) apply_changes_valid show ?thesis
    by (simp add: patch_settings_def require_def checked_settings_def save_settings_def settings_ok_def)
qed

section \<open>Executing a scan that was started\<close>

lemma run_scan_given:
  assumes "run_scan P pricing st d ps requested (Some i) started finished = (ps', Inr (d', s'))"
  shows "\<exists>s. get_scan d i = Some s \<and> s_status s = SCAN_RUNNING \<and> s_started_at s' = s_started_at s"
proof -
  from assms obtain s where s: "get_scan d i = Some s" "s_status s = SCAN_RUNNING"
    by (auto simp: run_scan_def scan_row_def split: option.splits if_splits)
  then have "s_started_at s' = s_started_at s"
    using assms
    by (fastforce simp: run_scan_def scan_row_def fail_scan_def scan_regions_def finish_scan_def Let_def
        split: sum.splits py_exc.splits provider_error.splits if_splits prod.splits)
  with s show ?thesis by blast
qed

lemma mark_failed_inv: "scan_inv t d \<Longrightarrow> scan_inv t (mark_failed d i now e)"
  by (rule scan_inv_same [of _ d t])
    (auto simp: mark_failed_def fail_scan_def Let_def split: option.splits)

lemma execute_keeps_inv:
  assumes "scan_inv now (rn_db r)"
    and "\<forall>s \<in> set (running_rows (rn_db r)). scan_inv (s_started_at s) (rn_db r) \<and> s_started_at s \<le> now"
  shows "scan_inv now (rn_db (execute m built outcome now r i regions))"
proof -
  obtain r' exc where tried: "execute_try m built outcome now r i regions = (r', exc)" by fastforce
  have "scan_inv now (rn_db r')"
  proof (cases "rn_db r' = rn_db r")
    case True
    then show ?thesis using assms(1) by simp
  next
    case False
    with tried obtain g ps d' s' where "built = Inr g" and db: "rn_db r' = d'" and
      run: "run_scan (in_provider g) (in_pricing g) (in_settings g) (rn_db r) (in_state g) regions (Some i)
        now now = (ps, Inr (d', s'))"
      by (auto simp: execute_try_def Let_def split: sum.splits if_splits prod.splits)
        (metis prod.collapse)+
    from run_scan_given [OF run] obtain s where s: "get_scan (rn_db r) i = Some s"
      "s_status s = SCAN_RUNNING" "s_started_at s' = s_started_at s" by blast
    then have "s \<in> set (running_rows (rn_db r))"
      by (auto simp: running_rows_def get_scan_def find_Some_iff)
    with assms(2) have "scan_inv (s_started_at s) (rn_db r)" "s_started_at s \<le> now" by simp_all
    then show ?thesis using run_scan_keeps_inv [OF run] s(3) db by (simp add: max_def)
  qed
  then show ?thesis
    using tried mark_failed_inv by (auto simp: execute_def Let_def split: option.splits)
qed

section \<open>What a start of the process leaves\<close>

lemma seed_scan_row:
  assumes "seed_scan demo pricing st anchor ps d step = Inr (d1, s)" and "wf_scans d"
    and "scan_ids_used d"
  shows "\<exists>d2 s2. mark_seeded d1 s = Inr d2 \<and> db_scans d2 = db_scans d @ [s2] \<and> seeded_scan s2 \<and>
     wf_scans d2 \<and> scan_ids_used d2"
proof -
  from assms(1) obtain P where "snd (run_scan P pricing st d ps None None
      (anchor - snd step * us_per_day) (anchor - snd step * us_per_day)) = Inr (d1, s)"
    by (auto simp: seed_scan_def Let_def)
  then obtain ps' where run: "run_scan P pricing st d ps None None
      (anchor - snd step * us_per_day) (anchor - snd step * us_per_day) = (ps', Inr (d1, s))"
    by (metis prod.collapse)
  note app = run_scan_appends [OF run assms(2,3)]
  from mark_last_scan [OF app(1,2,4,5)] obtain d2 s2 where mark: "mark_seeded d1 s = Inr d2"
    and "db_scans d2 = db_scans d @ [s2]" "seeded_scan s2" "wf_scans d2" by blast
  moreover have "scan_ids_used d2" using app(3) mark_seeded_findings [OF mark] by (simp add: scan_ids_used_def)
  ultimately show ?thesis by blast
qed

lemma seed_loop_rows:
  assumes "seed_loop demo pricing st anchor ps steps d = (d', r)" and "wf_scans d" and "scan_ids_used d"
  shows "\<exists>ss. db_scans d' = db_scans d @ ss \<and> (\<forall>s \<in> set ss. seeded_scan s) \<and> wf_scans d' \<and>
     (ss = [] \<longrightarrow> d' = d)"
  using assms
proof (induction steps arbitrary: d)
  case Nil
  then show ?case by simp
next
  case (Cons step steps)
  show ?case
  proof (cases "seed_scan demo pricing st anchor ps d step")
    case (Inl e)
    with Cons.prems show ?thesis by simp
  next
    case (Inr ds)
    obtain d1 s where ds: "ds = (d1, s)" by fastforce
    with seed_scan_row [of demo pricing st anchor ps d step d1 s] Inr Cons.prems(2,3) obtain d2 s2 where
      mark: "mark_seeded d1 s = Inr d2" and
      d2: "db_scans d2 = db_scans d @ [s2]" "seeded_scan s2" "wf_scans d2" "scan_ids_used d2" by blast
    from Cons.IH [OF _ d2(3,4)] Cons.prems(1) Inr ds mark obtain ss where
      "db_scans d' = db_scans d2 @ ss" "\<forall>s \<in> set ss. seeded_scan s" "wf_scans d'" by auto
    with d2 show ?thesis by auto
  qed
qed

text \<open>The invariant of the tables between two steps.\<close>

definition tables_inv :: "instant \<Rightarrow> db \<Rightarrow> bool" where
  "tables_inv now d \<longleftrightarrow>
     scan_inv now d \<and> wf_scans d \<and> length (running_rows d) \<le> 1 \<and>
     (\<forall>s \<in> set (running_rows d). scan_inv (s_started_at s) d \<and> s_started_at s \<le> now) \<and>
     (db_scans d = [] \<longrightarrow> db_findings d = [])"

lemma scan_inv_mono: "scan_inv t d \<Longrightarrow> t \<le> t' \<Longrightarrow> scan_inv t' d"
  by (rule scan_inv_same [of d d t]) simp_all

lemma tables_inv_mono: "tables_inv t d \<Longrightarrow> t \<le> t' \<Longrightarrow> tables_inv t' d"
  using scan_inv_mono by (fastforce simp: tables_inv_def)

lemma seeded_tables_inv:
  assumes "seed_if_empty demo pricing env now ps row d = (row', d', r)" and "tables_inv now d"
  shows "tables_inv now d'"
proof (cases "db_scans d = []")
  case False
  with assms show ?thesis by (simp add: seed_only_once)
next
  case empty: True
  with assms(2) have fs: "db_findings d = []" and wf: "wf_scans d" by (auto simp: tables_inv_def)
  with assms(2) have obs: "db_observations d = []" by (auto simp: tables_inv_def scan_inv_def wf_db_def)
  then have used: "scan_ids_used d" by (simp add: scan_ids_used_def)
  have "scan_inv (now - 21 * us_per_day) d"
    using assms(2) fs by (simp add: tables_inv_def scan_inv_def)
  from seed_keeps_inv [OF assms(1) empty this] have inv: "scan_inv now d'"
    using scan_inv_mono [of "now - 2 * us_per_day" d' now] us_per_day_pos by simp
  from assms(1) empty consider (same) "d' = d"
    | (loop) st r' where "seed_loop demo pricing st now ps seed_steps d = (d', r')"
    by (auto simp: seed_if_empty_def Let_def split: prod.splits sum.splits)
  then show ?thesis
  proof cases
    case same
    then show ?thesis using assms(2) by simp
  next
    case loop
    from seed_loop_rows [OF loop wf used] obtain ss where
      ss: "db_scans d' = ss" "\<forall>s \<in> set ss. seeded_scan s" "wf_scans d'" "ss = [] \<longrightarrow> d' = d"
      using empty by auto
    then have "running_rows d' = []" by (auto simp: running_rows_def seeded_scan_def filter_empty_conv)
    then show ?thesis using ss fs inv by (auto simp: tables_inv_def)
  qed
qed

lemma seeded_row_ok:
  assumes "seed_if_empty demo pricing env now ps row d = (row', d', r)" and "row_ok env row"
  shows "row_ok env row'"
proof (cases "db_scans d = [] \<and> r_ok (load_settings env row)")
  case False
  with assms show ?thesis
    by (auto simp: seed_if_empty_def r_ok_iff split: if_splits sum.splits)
next
  case True
  then obtain row1 st where load: "load_settings env row = Inr (row1, st)" by (auto simp: r_ok_iff)
  with assms(1) True have
    "row' = Some (st\<lparr>st_demo_anchor_at := Some (utc now), st_pricing_mode := PM_FALLBACK_ONLY\<rparr>)"
    by (auto simp: seed_if_empty_def Let_def save_settings_def split: prod.splits)
  with load_row_ok(2) [OF assms(2) load] show ?thesis
    by (auto simp: settings_ok_def settings_valid_def thresholds_total_def)
qed

lemma startup_keeps:
  assumes "startup env opened demo pricing ps now row d = (row', d', res)"
    and "tables_inv now d" and "row_ok env row"
  shows "tables_inv now d'" and "row_ok env row'"
proof -
  have "tables_inv now d' \<and> row_ok env row'"
  proof (cases "load_settings env row")
    case (Inl e)
    with assms show ?thesis by (simp add: startup_def)
  next
    case (Inr x)
    then obtain row1 st where load: "load_settings env row = Inr (row1, st)" by (cases x) simp
    have row1: "row_ok env row1" using load_row_ok [OF assms(3) load] by simp
    obtain row2 d2 seeded where seed: "seed_if_empty demo pricing env now ps row1 d = (row2, d2, seeded)"
      by (metis prod.collapse)
    have "(d' = d \<and> row' = row1) \<or> (d' = d2 \<and> row' = row2)"
      using assms(1) load seed by (auto simp: startup_def split: sum.splits if_splits)
    with seeded_tables_inv [OF seed assms(2)] seeded_row_ok [OF seed row1] assms(2) row1
    show ?thesis by auto
  qed
  then show "tables_inv now d'" and "row_ok env row'" by simp_all
qed

section \<open>The application as a transition system\<close>

text \<open>
  A state with the time of its last step. \<open>Restart\<close> is a start of the process that may fail: then
  only its effect on the tables counts, until the next start. The state after a request does not
  depend on how floats are made, so \<open>float\<close> is the identity here.
\<close>

type_synonym app_context = "(json price_row list) api_context"

definition after_request :: "app_context \<Rightarrow> instant \<Rightarrow> request \<Rightarrow> api_state \<Rightarrow> api_state" where
  "after_request cx now req st = fst (handle (\<lambda>x. x) cx now req st)"

inductive app_reachable ::
  "app_context \<Rightarrow> (provider_choice \<Rightarrow> py_exc + cloud_provider) \<Rightarrow>
   (nat \<Rightarrow> datetime \<Rightarrow> py_exc + cloud_provider) \<Rightarrow> instant \<Rightarrow> api_state \<Rightarrow> bool"
  for cx opened demo where
  Installed: "db_scans d = [] \<Longrightarrow> db_findings d = [] \<Longrightarrow> db_observations d = [] \<Longrightarrow>
    app_reachable cx opened demo now (started_state None d new_identity_status)"
| Request: "app_reachable cx opened demo now st \<Longrightarrow> now \<le> now' \<Longrightarrow>
    app_reachable cx opened demo now' (after_request cx now' req st)"
| Thread: "app_reachable cx opened demo now st \<Longrightarrow> now \<le> now' \<Longrightarrow>
    rn_current (ap_runner st) = Some i \<Longrightarrow>
    app_reachable cx opened demo now' (scan_thread cx now' i regions st)"
| Restart: "app_reachable cx opened demo now st \<Longrightarrow> now \<le> now' \<Longrightarrow>
    startup (cx_env cx) opened demo (pricing :: (json price_row list) pricing) ps now'
      (ap_settings st) (ap_db st) = (row, d, res) \<Longrightarrow>
    app_reachable cx opened demo now' (started_state row d status)"

definition app_inv :: "environment \<Rightarrow> instant \<Rightarrow> api_state \<Rightarrow> bool" where
  "app_inv env now st \<longleftrightarrow>
     tables_inv now (ap_db st) \<and> runner_inv (ap_runner st) \<and> row_ok env (ap_settings st)"

lemma app_inv_installed:
  assumes "db_scans d = []" and "db_findings d = []" and "db_observations d = []"
  shows "app_inv env now (started_state None d status)"
  using assms
  by (simp add: app_inv_def started_state_def tables_inv_def scan_inv_def wf_db_def wf_findings_def
      counted_def wf_scans_def running_rows_def runner_inv_def)

lemma start_tables_inv:
  assumes "start_scan m r regions now = Inr (i, r')" and "tables_inv now (rn_db r)"
  shows "tables_inv now (rn_db r')"
proof -
  note row = start_scan_Inr [OF assms(1)]
  have wf: "wf_scans (rn_db r)" using assms(2) by (simp add: tables_inv_def)
  have inv: "scan_inv now (rn_db r')"
    using scan_inv_same [OF row(7,8), of now now] assms(2) row(4,5) by (simp add: tables_inv_def)
  have new: "s_id (new_scan i m regions now) = i" "s_started_at (new_scan i m regions now) = now"
    by (simp_all add: new_scan_def)
  have "wf_scans (rn_db r')" using wf row(4,5,6) new by (intro wf_scans_put [OF wf row(6)]) simp_all
  then show ?thesis
    using inv start_running [OF assms(1) wf] new row(6) by (auto simp: tables_inv_def put_scan_def)
qed

lemma put_scan_nonempty: "put_scan ss s \<noteq> []"
  by (auto simp: put_scan_def)

lemma execute_tables_inv:
  assumes "tables_inv now (rn_db r)" and "runner_inv r" and "rn_current r = Some i"
  shows "tables_inv now (rn_db (execute m (built :: py_exc + cached_ingredients) outcome now r i regions))"
    and "runner_inv (execute m (built :: py_exc + cached_ingredients) outcome now r i regions)"
proof -
  let ?r = "execute m built outcome now r i regions"
  have step: "runner_step r ?r" using assms(3) by (rule runner_step.Execute) simp
  then show inv: "runner_inv ?r" using runner_step_inv assms(2) by blast
  from assms(2,3) obtain s0 where s0: "get_scan (rn_db r) i = Some s0"
    and own: "\<forall>s \<in> set (running_rows (rn_db r)). s_id s = i" by (auto simp: runner_inv_def)
  from execute_row [OF s0] obtain s where row: "finished_row (rn_db r) (rn_db ?r) s" and id: "s_id s = i"
    by blast
  have "running_rows (rn_db ?r) = []"
    using finished_running [OF row] own id by (simp add: filter_empty_conv)
  moreover have "db_scans (rn_db ?r) \<noteq> []" using row put_scan_nonempty by (simp add: finished_row_def)
  moreover have "scan_inv now (rn_db ?r)"
    by (rule execute_keeps_inv) (use assms(1) in \<open>auto simp: tables_inv_def\<close>)
  ultimately show "tables_inv now (rn_db ?r)" using inv by (simp add: tables_inv_def runner_inv_def)
qed

lemma patch_tables_inv:
  assumes "service_patch d j status reason now = Inr (d', f)" and "tables_inv t d"
  shows "tables_inv t d'"
proof -
  have "db_findings d = [] \<Longrightarrow> False"
    using assms(1) by (auto simp: service_patch_def service_get_def get_finding_def)
  then have "db_scans d \<noteq> []" using assms(2) by (auto simp: tables_inv_def)
  then show ?thesis
    using assms(2) service_patch_inv(1) [OF _ assms(1)] patch_scans [OF assms(1)]
    by (auto simp: tables_inv_def wf_scans_def running_rows_def)
qed

lemma thread_inv:
  assumes "app_inv (cx_env cx) now st" and "rn_current (ap_runner st) = Some i"
  shows "app_inv (cx_env cx) now (scan_thread (cx :: app_context) now i regions st)"
proof -
  have "row_ok (cx_env cx) (case load_settings (cx_env cx) (ap_settings st) of
      Inl e \<Rightarrow> ap_settings st | Inr (row, settings) \<Rightarrow> row)"
    using assms(1) load_row_ok [of "cx_env cx" "ap_settings st"]
    by (auto simp: app_inv_def split: sum.splits)
  then show ?thesis
    using assms execute_tables_inv [of now "ap_runner st" i]
    by (simp add: app_inv_def scan_thread_def Let_def)
qed

lemma create_scan_inv:
  assumes "app_inv (cx_env cx) now st"
  shows "app_inv (cx_env cx) now (fst (create_scan fl (cx :: app_context) now body st))"
proof (cases "scan_create_valid body")
  case False
  then show ?thesis using assms by (simp add: create_scan_def)
next
  case valid: True
  show ?thesis
  proof (cases "start_scan (ev_mode (cx_env cx)) (ap_runner st) (ci_regions body) now")
    case (Inl e)
    then show ?thesis using assms valid by (simp add: create_scan_def)
  next
    case (Inr x)
    obtain i r where x: "x = (i, r)" by fastforce
    let ?st1 = "st\<lparr>ap_runner := r\<rparr>"
    have start: "start_scan (ev_mode (cx_env cx)) (ap_runner st) (ci_regions body) now = Inr (i, r)"
      using Inr x by simp
    have "runner_inv r"
      using runner_step_inv [OF runner_step.Start [OF start]] assms by (simp add: app_inv_def)
    then have inv1: "app_inv (cx_env cx) now ?st1"
      using assms start_tables_inv [OF start] by (simp add: app_inv_def)
    have "rn_current (ap_runner ?st1) = Some i" using start_scan_Inr(3) [OF start] by simp
    from thread_inv [OF inv1 this] have
      "app_inv (cx_env cx) now (scan_thread cx now i (ci_regions body) ?st1)" .
    with inv1 show ?thesis
      using valid start by (auto simp: create_scan_def Let_def split: option.splits)
  qed
qed

lemma patch_route_inv:
  assumes "app_inv (cx_env cx) now st"
  shows "app_inv (cx_env cx) now (fst (patch_finding_route fl cx now' i body st))"
proof (cases "finding_patch_valid body \<and> r_ok (service_patch (ap_db st) i (pi_status body) (pi_reason body) now')")
  case False
  then show ?thesis using assms by (auto simp: patch_finding_route_def split: sum.splits)
next
  case True
  then obtain d f where p: "service_patch (ap_db st) i (pi_status body) (pi_reason body) now' = Inr (d, f)"
    by (auto simp: r_ok_iff)
  have "runner_inv ((ap_runner st)\<lparr>rn_db := d\<rparr>)"
    using runner_step_inv [OF runner_step.Patch [OF p]] assms by (simp add: app_inv_def)
  with True p show ?thesis
    using assms patch_tables_inv [OF p] by (simp add: app_inv_def patch_finding_route_def)
qed

lemma settings_route_inv:
  assumes "app_inv (cx_env cx) now st"
  shows "app_inv (cx_env cx) now (fst (patch_settings_route cx body st))"
  using assms patch_settings_ok
  by (fastforce simp: app_inv_def patch_settings_route_def split: prod.splits)

lemma reading_inv:
  assumes "app_inv env now st" and "same_tables st st'"
  shows "app_inv env now st'"
  using assms by (auto simp: app_inv_def same_tables_def runner_inv_def)

lemma request_inv:
  assumes "app_inv (cx_env cx) now st"
  shows "app_inv (cx_env cx) now (after_request cx now req st)"
proof (cases "writes req")
  case False
  then show ?thesis
    using reading_inv [OF assms reading_same] by (simp add: after_request_def)
next
  case True
  then show ?thesis
    using create_scan_inv [OF assms] patch_route_inv [OF assms] settings_route_inv [OF assms]
    by (cases req) (simp_all add: writes_def after_request_def)
qed

lemma app_inv_mono: "app_inv env t st \<Longrightarrow> t \<le> t' \<Longrightarrow> app_inv env t' st"
  using tables_inv_mono by (auto simp: app_inv_def)

lemma reachable_app_inv:
  assumes "app_reachable cx opened demo now st"
  shows "app_inv (cx_env cx) now st"
  using assms
proof (induction rule: app_reachable.induct)
  case (Installed d now)
  then show ?case by (rule app_inv_installed)
next
  case (Request now st now' req)
  then show ?case using request_inv app_inv_mono by blast
next
  case (Thread now st now' i regions)
  then show ?case using thread_inv app_inv_mono by blast
next
  case (Restart now st now' pricing ps row d res status)
  from Restart.IH Restart.hyps(2) have "tables_inv now' (ap_db st)" "row_ok (cx_env cx) (ap_settings st)"
    using tables_inv_mono by (auto simp: app_inv_def)
  from startup_keeps [OF Restart.hyps(3) this] show ?case
    by (simp add: app_inv_def started_state_def runner_inv_def tables_inv_def)
qed

section \<open>A scan asked for by a request\<close>

lemma thread_closes:
  assumes "start_scan (ev_mode (cx_env cx)) r regions now = Inr (i, ap_runner st)"
  shows "closed (ap_db (scan_thread cx now' i regions st)) i \<and>
     rn_current (ap_runner (scan_thread cx now' i regions st)) = None"
  by (simp add: scan_thread_def Let_def start_execute_closed [OF assms])

lemma started_row:
  assumes "start_scan m r regions now = Inr (i, r')"
  shows "get_scan (rn_db r') i = Some (new_scan i m regions now)"
proof -
  have "s_id (new_scan i m regions now) = i" by (simp add: new_scan_def)
  then show ?thesis
    using get_put_scan [of "new_scan i m regions now" "db_scans (rn_db r)"]
    by (simp add: get_scan_def start_scan_Inr(6) [OF assms])
qed

lemma create_scan_refused:
  assumes "\<not> (scan_create_valid body \<and> rn_current (ap_runner st) = None \<and> running_rows (ap_db st) = [])"
  shows "\<exists>e. create_scan fl cx now body st = (st, Inl e) \<and>
     fst (error_response e) = (if scan_create_valid body then 409 else 422)"
  using assms
  by (auto simp: create_scan_def start_scan_def RequestValidationError_def ScanConflictError_def)

lemma create_scan_accepted:
  assumes "scan_create_valid body" and "rn_current (ap_runner st) = None" and "running_rows (ap_db st) = []"
  shows "\<exists>st' v. create_scan fl cx now body st = (st', Inr v) \<and>
     get_scan (ap_db st') (s_id (so_scan v)) = Some (so_scan v) \<and>
     (if ci_wait body
      then closed (ap_db st') (s_id (so_scan v)) \<and> rn_current (ap_runner st') = None
      else s_status (so_scan v) = SCAN_RUNNING \<and> rn_current (ap_runner st') = Some (s_id (so_scan v)) \<and>
        (\<forall>now'. closed (ap_db (scan_thread cx now' (s_id (so_scan v)) (ci_regions body) st')) (s_id (so_scan v)) \<and>
           rn_current (ap_runner (scan_thread cx now' (s_id (so_scan v)) (ci_regions body) st')) = None))"
proof -
  obtain i r where start: "start_scan (ev_mode (cx_env cx)) (ap_runner st) (ci_regions body) now = Inr (i, r)"
    using assms(2,3) by (auto simp: start_scan_def Let_def)
  let ?st1 = "st\<lparr>ap_runner := r\<rparr>"
  let ?st2 = "scan_thread cx now i (ci_regions body) ?st1"
  have start': "start_scan (ev_mode (cx_env cx)) (ap_runner st) (ci_regions body) now = Inr (i, ap_runner ?st1)"
    using start by simp
  have row: "get_scan (ap_db ?st1) i = Some (new_scan i (ev_mode (cx_env cx)) (ci_regions body) now)"
    using started_row [OF start] by simp
  have new: "s_id (new_scan i (ev_mode (cx_env cx)) (ci_regions body) now) = i"
    "s_status (new_scan i (ev_mode (cx_env cx)) (ci_regions body) now) = SCAN_RUNNING"
    by (simp_all add: new_scan_def)
  show ?thesis
  proof (cases "ci_wait body")
    case False
    then show ?thesis
      using assms(1) start row new thread_closes [OF start'] start_scan_Inr(3) [OF start]
      by (simp add: create_scan_def as_scan_out_def)
  next
    case True
    from thread_closes [OF start', of now] obtain s where s: "get_scan (ap_db ?st2) i = Some s"
      and closed: "closed (ap_db ?st2) i" "rn_current (ap_runner ?st2) = None" by (auto simp: closed_def)
    then have "s_id s = i" by (auto simp: get_scan_def find_Some_iff)
    then show ?thesis
      using True assms(1) start s closed by (simp add: create_scan_def as_scan_out_def)
  qed
qed

end
