(* ===== verification/ExampleApp.thy ===== *)
theory ExampleApp
  imports Example Application
begin

text \<open>
  A demo installation with the account of \<open>Example\<close>: its environment, its context, and the state
  right after the installation and with a finding stored.
\<close>

definition ex_environment :: environment where
  "ex_environment =
     \<lparr>ev_mode = DEMO, ev_database_url = lit ''sqlite:///cloudzombie.db'', ev_aws_profile = None,
      ev_aws_region_selection = None, ev_pricing_cache_ttl = 86400, ev_cors_origins = [],
      ev_demo_seed = True, ev_demo_fixture_path = None, ev_log_level = lit ''INFO''\<rparr>"

lemma ex_environment_simps [simp]:
  "ev_mode ex_environment = DEMO" "0 \<le> ev_pricing_cache_ttl ex_environment"
  "region_selection ex_environment = None"
  by (simp_all add: ex_environment_def region_selection_def)

definition ex_ingredients :: "app_settings \<Rightarrow> py_exc + cached_ingredients" where
  "ex_ingredients st =
     Inr \<lparr>in_provider = ex_provider, in_pricing = (\<lambda>s req. (s, snd (ex_pricing () req))),
          in_settings = st, in_state = []\<rparr>"

definition ex_context :: app_context where
  "ex_context =
     \<lparr>cx_env = ex_environment, cx_version = lit ''1.0'', cx_provider = ex_provider,
      cx_build = ex_ingredients\<rparr>"

lemma ex_context_env [simp]: "cx_env ex_context = ex_environment"
  by (simp add: ex_context_def)

definition ex_installed :: api_state where
  "ex_installed = started_state None empty_db new_identity_status"

definition ex_state :: api_state where
  "ex_state = started_state None ex_db new_identity_status"

lemma ex_installed_runner: "ap_runner ex_installed = ex_runner"
  by (simp add: ex_installed_def started_state_def ex_runner_def)

text \<open>A scan requested without waiting for it is the running one.\<close>

definition ex_scan_request :: request where
  "ex_scan_request = CreateScan \<lparr>ci_regions = None, ci_wait = False\<rparr>"

lemma ex_scan_requested:
  "ap_runner (after_request ex_context 0 ex_scan_request ex_installed) = ex_started"
proof -
  have valid: "scan_create_valid \<lparr>ci_regions = None, ci_wait = False\<rparr>"
    by (simp add: scan_create_valid_def regions_are_valid_def)
  have "get_scan (rn_db ex_started) 0 \<noteq> None"
    by (simp add: get_scan_def ex_started_def new_scan_def)
  with valid show ?thesis
    by (auto simp: after_request_def ex_scan_request_def create_scan_def ex_installed_runner ex_start
        split: option.splits)
qed

text \<open>A change of the settings: one threshold, and the minimum of observations.\<close>

definition ex_patch :: settings_patch_in where
  "ex_patch =
     \<lparr>sp_regions = None, sp_thresholds_days = Some [(lit ''unattached_ebs_volume'', 30)],
      sp_min_consecutive_observations = Some 3, sp_ignore_tag_key = None,
      sp_ignore_tag_value = None, sp_ignore_reason_tag_key = None, sp_pricing_mode = None,
      sp_pricing_cache_ttl_seconds = None, sp_max_region_concurrency = None\<rparr>"

lemma ex_patch_valid: "settings_patch_valid ex_patch"
  by (simp add: settings_patch_valid_def ex_patch_def if_set_def regions_are_valid_def
      thresholds_are_non_negative_def detector_types_def)

end
