(* ===== verification/Reports.thy ===== *)
theory Reports
  imports Api
begin

text \<open>
  What the interface says of a finding: the fields computed by \<open>as_finding_out\<close> agree with the plan
  and the script of the same finding, and the days until it becomes persistent are exact.
\<close>

lemma finding_out_Inr:
  assumes "as_finding_out fl f st now = Inr v"
  shows "\<exists>n. st_thresholds_days st (f_detector_type f) = Some n \<and> fo_threshold_days v = n \<and>
           fo_days_until_persistent v = days_until_persistent f n"
    and "fo_script_kind v = fst (script_kind_for f)"
    and "fo_script_unavailable_reason v = snd (script_kind_for f)"
    and "fo_script_available v \<longleftrightarrow> fst (script_kind_for f) = GUARDED_REMEDIATION"
    and "fo_observation_age_days v = td_days (f_last_observed_at f - f_streak_started_at f)"
    and "fo_first_observed_days_ago v = days_between (f_first_observed_at f) now"
    and "fo_last_observed_days_ago v = days_between (f_last_observed_at f) now"
  using assms script_kind_reason [of f]
  by (auto simp: as_finding_out_def threshold_for_def days_until_persistent_def Let_def
      split: option.splits prod.splits)

lemma finding_out_ok:
  "r_ok (as_finding_out fl f st now) \<longleftrightarrow> st_thresholds_days st (f_detector_type f) \<noteq> None"
  by (auto simp: as_finding_out_def threshold_for_def r_ok_bind Let_def split: option.splits prod.splits)

text \<open>The ages are ordered as the times are.\<close>

lemma days_between_mono: "s \<le> t \<Longrightarrow> days_between t now \<le> days_between s now"
  using td_days_mono [of "now - t" "now - s"] by (simp add: days_between_def)

lemma finding_out_ages:
  assumes "as_finding_out fl f st now = Inr v" and "lifecycle now f"
  shows "0 \<le> fo_observation_age_days v" and "0 \<le> fo_last_observed_days_ago v"
    and "fo_last_observed_days_ago v \<le> fo_first_observed_days_ago v"
    and "fo_observation_age_days v \<le> fo_first_observed_days_ago v"
proof -
  note out = finding_out_Inr(5,6,7) [OF assms(1)]
  from assms(2) have times: "f_first_observed_at f \<le> f_streak_started_at f"
    "f_streak_started_at f \<le> f_last_observed_at f" "f_last_observed_at f \<le> now"
    by (auto simp: lifecycle_def)
  then show "0 \<le> fo_observation_age_days v" and "0 \<le> fo_last_observed_days_ago v"
    by (simp_all add: out)
  show "fo_last_observed_days_ago v \<le> fo_first_observed_days_ago v"
    using times by (simp add: out days_between_mono)
  show "fo_observation_age_days v \<le> fo_first_observed_days_ago v"
    using times td_days_mono [of "f_last_observed_at f - f_streak_started_at f"
        "now - f_first_observed_at f"]
    by (simp add: out days_between_def)
qed

text \<open>The finding as a later observation of the same streak leaves it.\<close>

definition seen_after :: "int \<Rightarrow> int \<Rightarrow> finding \<Rightarrow> finding" where
  "seen_after days n f =
     f\<lparr>f_last_observed_at := f_last_observed_at f + days * us_per_day,
       f_consecutive_observations := n\<rparr>"

lemma td_days_add: "td_days (t + n * us_per_day) = td_days t + n"
  by (simp add: td_days_def us_per_day_def)

lemma days_until_exact:
  assumes "as_finding_out fl f st now = Inr v" and "fo_days_until_persistent v = Some k"
    and "st_min_consecutive_observations st \<le> n" and "0 \<le> days"
  shows "compute_persistence (seen_after days n f) st = Inr PERSISTENT \<longleftrightarrow> k \<le> days"
proof -
  from finding_out_Inr(1) [OF assms(1)] assms(2) obtain threshold where
    t: "st_thresholds_days st (f_detector_type f) = Some threshold"
    and k: "k = max (threshold - td_days (f_last_observed_at f - f_streak_started_at f)) 0"
    by (auto simp: days_until_persistent_def split: if_splits)
  have "f_last_observed_at f + days * us_per_day - f_streak_started_at f =
      (f_last_observed_at f - f_streak_started_at f) + days * us_per_day" by simp
  then have "td_days (f_last_observed_at f + days * us_per_day - f_streak_started_at f) =
      td_days (f_last_observed_at f - f_streak_started_at f) + days"
    by (simp only: td_days_add)
  with t k assms(3,4) show ?thesis
    by (auto simp: compute_persistence_def threshold_for_def persistence_of_def seen_after_def)
qed

text \<open>A script made for the finding has the kind and the reason that its report shows.\<close>

lemma script_out_agrees:
  assumes "as_finding_out fl f st now = Inr v" and "script_out_of f now' st = Inr g"
  shows "xo_kind g = fo_script_kind v \<and> xo_unavailable_reason g = fo_script_unavailable_reason v"
proof -
  from assms(2) obtain s where s: "script_for_finding st (utc now') f = Inr s"
    and g: "g = script_response s (snd (script_kind_for f))"
    by (auto simp: script_out_of_def split: prod.splits)
  have "gs_kind s = fst (script_kind_for f)" by (rule for_finding_kind [OF s])
  then show ?thesis by (simp add: g script_response_def finding_out_Inr(2,3) [OF assms(1)])
qed

lemma plan_agrees:
  assumes "as_finding_out fl f st now = Inr v" and "build_cleanup_plan f st now' = Inr p"
  shows "cl_script_kind p = fo_script_kind v \<and> cl_script_available p = fo_script_available v \<and>
     cl_script_unavailable_reason p = fo_script_unavailable_reason v \<and>
     oh_threshold_days (cl_observation_history p) = fo_threshold_days v \<and>
     oh_days_until_persistent (cl_observation_history p) = fo_days_until_persistent v"
  using finding_out_Inr [OF assms(1)] build_plan_script [OF assms(2)] by auto

end
