(* ===== verification/Schema.thy ===== *)
theory Schema
  imports ProviderBase
begin

text \<open>
  The database schema: the tables that \<open>app/persistence/models.py\<close> declares, and the migrations
  of \<open>alembic/versions\<close> as lists of operations on a schema. A migration applies to a schema or
  fails: a table must be new when it is created, what it refers to must exist, and nothing may
  refer to what is dropped. Names are those of the source, and indexes belong to their table.
\<close>

section \<open>Schemas\<close>

datatype column_type =
    CUuid
  | CString nat
  | CText
  | CBoolean
  | CInteger
  | CNumeric nat nat
  | CJson
  | CUtcDateTime

record column =
  cn_name :: string
  cn_type :: column_type
  cn_nullable :: bool
  cn_server_default :: "string option"

record foreign_key =
  fk_column :: string
  fk_table :: string
  fk_target :: string
  fk_ondelete :: "string option"

record table =
  tb_columns :: "column list"
  tb_primary_key :: "string list"
  tb_foreign_keys :: "foreign_key list"
  tb_uniques :: "(string \<times> string list) list"
  tb_indexes :: "(string \<times> string list) list"

type_synonym schema = "(string \<times> table) list"

definition a_column :: "string \<Rightarrow> column_type \<Rightarrow> bool \<Rightarrow> column" where
  "a_column name ty nullable =
     \<lparr>cn_name = name, cn_type = ty, cn_nullable = nullable, cn_server_default = None\<rparr>"

definition a_foreign_key :: "string \<Rightarrow> string \<Rightarrow> string \<Rightarrow> string option \<Rightarrow> foreign_key" where
  "a_foreign_key col tab target ondelete =
     \<lparr>fk_column = col, fk_table = tab, fk_target = target, fk_ondelete = ondelete\<rparr>"

definition column_names :: "table \<Rightarrow> string list" where
  "column_names t = map cn_name (tb_columns t)"

text \<open>The columns that the constraints and indexes of a table name.\<close>

definition used_columns :: "table \<Rightarrow> string set" where
  "used_columns t =
     set (tb_primary_key t) \<union> fk_column ` set (tb_foreign_keys t) \<union>
     (\<Union>(n, cs) \<in> set (tb_uniques t). set cs) \<union> (\<Union>(n, cs) \<in> set (tb_indexes t). set cs)"

definition has_column :: "schema \<Rightarrow> string \<Rightarrow> string \<Rightarrow> bool" where
  "has_column s tab col =
     (case map_of s tab of None \<Rightarrow> False | Some t \<Rightarrow> col \<in> set (column_names t))"

definition refers_to :: "schema \<Rightarrow> string \<Rightarrow> string \<Rightarrow> bool" where
  "refers_to s tab col \<longleftrightarrow>
     list_ex (\<lambda>(n, t). list_ex (\<lambda>k. fk_table k = tab \<and> fk_target k = col) (tb_foreign_keys t)) s"

definition refers_to_table :: "schema \<Rightarrow> string \<Rightarrow> bool" where
  "refers_to_table s tab \<longleftrightarrow>
     list_ex (\<lambda>(n, t). list_ex (\<lambda>k. fk_table k = tab) (tb_foreign_keys t)) s"

definition index_names :: "schema \<Rightarrow> string list" where
  "index_names s = concat (map (\<lambda>(n, t). map fst (tb_indexes t)) s)"

text \<open>Constraints name columns of their table, and foreign keys name columns of the schema.\<close>

definition wf_schema :: "schema \<Rightarrow> bool" where
  "wf_schema s \<longleftrightarrow>
     distinct (map fst s) \<and>
     list_all (\<lambda>(n, t). used_columns t \<subseteq> set (column_names t) \<and>
       list_all (\<lambda>k. has_column s (fk_table k) (fk_target k)) (tb_foreign_keys t)) s"

section \<open>Operations\<close>

datatype migration_op =
    CreateTable string table
  | DropTable string
  | CreateIndex string string "string list"
  | DropIndex string string
  | AddColumn string column
  | DropColumn string string

definition update_table :: "schema \<Rightarrow> string \<Rightarrow> (table \<Rightarrow> table) \<Rightarrow> schema" where
  "update_table s tab f = map (\<lambda>(n, t). (n, if n = tab then f t else t)) s"

text \<open>A column that is not null is added with a default for the rows that exist.\<close>

fun apply_op :: "migration_op \<Rightarrow> schema \<Rightarrow> schema option" where
  "apply_op (CreateTable tab t) s =
     (if tab \<notin> fst ` set s \<and> used_columns t \<subseteq> set (column_names t) \<and> tb_indexes t = [] \<and>
         list_all (\<lambda>k. has_column s (fk_table k) (fk_target k)) (tb_foreign_keys t)
      then Some (s @ [(tab, t)]) else None)"
| "apply_op (DropTable tab) s =
     (if tab \<in> fst ` set s \<and> \<not> refers_to_table s tab
      then Some (filter (\<lambda>(n, t). n \<noteq> tab) s) else None)"
| "apply_op (CreateIndex name tab cols) s =
     (case map_of s tab of
        None \<Rightarrow> None
      | Some t \<Rightarrow>
          if name \<notin> set (index_names s) \<and> set cols \<subseteq> set (column_names t)
          then Some (update_table s tab (\<lambda>t. t\<lparr>tb_indexes := tb_indexes t @ [(name, cols)]\<rparr>))
          else None)"
| "apply_op (DropIndex name tab) s =
     (case map_of s tab of
        None \<Rightarrow> None
      | Some t \<Rightarrow>
          if name \<in> fst ` set (tb_indexes t)
          then Some (update_table s tab
                 (\<lambda>t. t\<lparr>tb_indexes := filter (\<lambda>(n, cs). n \<noteq> name) (tb_indexes t)\<rparr>))
          else None)"
| "apply_op (AddColumn tab c) s =
     (case map_of s tab of
        None \<Rightarrow> None
      | Some t \<Rightarrow>
          if cn_name c \<notin> set (column_names t) \<and> (cn_nullable c \<or> cn_server_default c \<noteq> None)
          then Some (update_table s tab (\<lambda>t. t\<lparr>tb_columns := tb_columns t @ [c]\<rparr>))
          else None)"
| "apply_op (DropColumn tab name) s =
     (case map_of s tab of
        None \<Rightarrow> None
      | Some t \<Rightarrow>
          if name \<in> set (column_names t) \<and> name \<notin> used_columns t \<and> \<not> refers_to s tab name
          then Some (update_table s tab
                 (\<lambda>t. t\<lparr>tb_columns := filter (\<lambda>c. cn_name c \<noteq> name) (tb_columns t)\<rparr>))
          else None)"

fun migrate :: "migration_op list \<Rightarrow> schema \<Rightarrow> schema option" where
  "migrate [] s = Some s"
| "migrate (op # ops) s = (case apply_op op s of None \<Rightarrow> None | Some s' \<Rightarrow> migrate ops s')"

section \<open>The migrations\<close>

definition upgrade_0001 :: "migration_op list" where
  "upgrade_0001 =
     [CreateTable ''scans''
        \<lparr>tb_columns =
           [a_column ''id'' CUuid False,
            a_column ''mode'' (CString 16) False,
            a_column ''account_id'' (CString 32) True,
            a_column ''principal_arn'' (CString 512) True,
            a_column ''seeded'' CBoolean False,
            a_column ''started_at'' CUtcDateTime False,
            a_column ''finished_at'' CUtcDateTime True,
            a_column ''status'' (CString 16) False,
            a_column ''requested_regions'' CJson False,
            a_column ''completed_regions'' CJson False,
            a_column ''partial_regions'' CJson False,
            a_column ''failed_regions'' CJson False,
            a_column ''skipped_regions'' CJson False,
            a_column ''coverage'' CJson False,
            a_column ''new_findings'' CInteger False,
            a_column ''persistent_findings'' CInteger False,
            a_column ''resolved_findings'' CInteger False,
            a_column ''ignored_findings'' CInteger False,
            a_column ''estimated_exposure'' (CNumeric 12 4) False,
            a_column ''potential_exposure_low_confidence'' (CNumeric 12 4) False,
            a_column ''errors'' CJson False,
            a_column ''created_at'' CUtcDateTime False],
         tb_primary_key = [''id''],
         tb_foreign_keys = [],
         tb_uniques = [],
         tb_indexes = []\<rparr>,
      CreateTable ''settings''
        \<lparr>tb_columns =
           [a_column ''id'' CInteger False,
            a_column ''data'' CJson False],
         tb_primary_key = [''id''],
         tb_foreign_keys = [],
         tb_uniques = [],
         tb_indexes = []\<rparr>,
      CreateTable ''pricing_cache''
        \<lparr>tb_columns =
           [a_column ''cache_key'' (CString 512) False,
            a_column ''payload'' CJson False,
            a_column ''fetched_at'' CUtcDateTime False,
            a_column ''source'' (CString 64) False],
         tb_primary_key = [''cache_key''],
         tb_foreign_keys = [],
         tb_uniques = [],
         tb_indexes = []\<rparr>,
      CreateTable ''findings''
        \<lparr>tb_columns =
           [a_column ''id'' CUuid False,
            a_column ''account_id'' (CString 32) False,
            a_column ''region'' (CString 64) False,
            a_column ''resource_type'' (CString 64) False,
            a_column ''resource_id'' (CString 255) False,
            a_column ''detector_type'' (CString 64) False,
            a_column ''title'' (CString 512) False,
            a_column ''summary'' CText False,
            a_column ''resource_created_at'' CUtcDateTime True,
            a_column ''first_observed_at'' CUtcDateTime False,
            a_column ''last_observed_at'' CUtcDateTime False,
            a_column ''streak_started_at'' CUtcDateTime False,
            a_column ''observation_count'' CInteger False,
            a_column ''consecutive_observations'' CInteger False,
            a_column ''persistence_state'' (CString 32) False,
            a_column ''detection_confidence'' (CString 16) False,
            a_column ''remediation_risk'' (CString 16) False,
            a_column ''cost_confidence'' (CString 16) False,
            a_column ''estimated_monthly_cost'' (CNumeric 12 4) True,
            a_column ''cost_explanation'' CText False,
            a_column ''pricing_source'' (CString 64) False,
            a_column ''pricing_timestamp'' CUtcDateTime True,
            a_column ''cost_line_items'' CJson False,
            a_column ''evidence'' CJson False,
            a_column ''known_dependencies'' CJson False,
            a_column ''ownership'' CJson False,
            a_column ''related_resource_ids'' CJson False,
            a_column ''status'' (CString 16) False,
            a_column ''resolved_at'' CUtcDateTime True,
            a_column ''dismissed_at'' CUtcDateTime True,
            a_column ''dismiss_reason'' CText True,
            a_column ''ignore_reason'' CText True,
            a_column ''first_scan_id'' CUuid False,
            a_column ''last_scan_id'' CUuid False,
            a_column ''created_at'' CUtcDateTime False,
            a_column ''updated_at'' CUtcDateTime False],
         tb_primary_key = [''id''],
         tb_foreign_keys = [a_foreign_key ''first_scan_id'' ''scans'' ''id'' None,
           a_foreign_key ''last_scan_id'' ''scans'' ''id'' None],
         tb_uniques = [(''uq_finding_identity'',
            [''account_id'', ''region'', ''resource_type'', ''resource_id'', ''detector_type''])],
         tb_indexes = []\<rparr>,
      CreateIndex ''ix_findings_region'' ''findings'' [''region''],
      CreateIndex ''ix_findings_status'' ''findings'' [''status''],
      CreateTable ''finding_observations''
        \<lparr>tb_columns =
           [a_column ''id'' CUuid False,
            a_column ''finding_id'' CUuid False,
            a_column ''scan_id'' CUuid False,
            a_column ''observed_at'' CUtcDateTime False,
            a_column ''status_at_observation'' (CString 16) False,
            a_column ''persistence_state_at_observation'' (CString 32) False,
            a_column ''remediation_risk_at_observation'' (CString 16) False,
            a_column ''estimated_monthly_cost'' (CNumeric 12 4) True,
            a_column ''evidence'' CJson False],
         tb_primary_key = [''id''],
         tb_foreign_keys = [a_foreign_key ''finding_id'' ''findings'' ''id'' (Some ''CASCADE''),
           a_foreign_key ''scan_id'' ''scans'' ''id'' (Some ''CASCADE'')],
         tb_uniques = [(''uq_finding_observation_scan'', [''finding_id'', ''scan_id''])],
         tb_indexes = []\<rparr>,
      CreateIndex ''ix_finding_observations_finding_scan'' ''finding_observations''
        [''finding_id'', ''scan_id'']]"

definition downgrade_0001 :: "migration_op list" where
  "downgrade_0001 =
     [DropIndex ''ix_finding_observations_finding_scan'' ''finding_observations'',
      DropTable ''finding_observations'',
      DropIndex ''ix_findings_status'' ''findings'',
      DropIndex ''ix_findings_region'' ''findings'',
      DropTable ''findings'',
      DropTable ''pricing_cache'',
      DropTable ''settings'',
      DropTable ''scans'']"

definition upgrade_0002 :: "migration_op list" where
  "upgrade_0002 =
     [AddColumn ''finding_observations''
        ((a_column ''cost_confidence_at_observation'' (CString 16) False)
          \<lparr>cn_server_default := Some ''UNAVAILABLE''\<rparr>)]"

definition downgrade_0002 :: "migration_op list" where
  "downgrade_0002 =
     [DropColumn ''finding_observations'' ''cost_confidence_at_observation'']"

section \<open>The tables of the models\<close>

definition scans_table :: table where
  "scans_table =
     \<lparr>tb_columns =
        [a_column ''id'' CUuid False,
         a_column ''mode'' (CString 16) False,
         a_column ''account_id'' (CString 32) True,
         a_column ''principal_arn'' (CString 512) True,
         a_column ''seeded'' CBoolean False,
         a_column ''started_at'' CUtcDateTime False,
         a_column ''finished_at'' CUtcDateTime True,
         a_column ''status'' (CString 16) False,
         a_column ''requested_regions'' CJson False,
         a_column ''completed_regions'' CJson False,
         a_column ''partial_regions'' CJson False,
         a_column ''failed_regions'' CJson False,
         a_column ''skipped_regions'' CJson False,
         a_column ''coverage'' CJson False,
         a_column ''new_findings'' CInteger False,
         a_column ''persistent_findings'' CInteger False,
         a_column ''resolved_findings'' CInteger False,
         a_column ''ignored_findings'' CInteger False,
         a_column ''estimated_exposure'' (CNumeric 12 4) False,
         a_column ''potential_exposure_low_confidence'' (CNumeric 12 4) False,
         a_column ''errors'' CJson False,
         a_column ''created_at'' CUtcDateTime False],
      tb_primary_key = [''id''],
      tb_foreign_keys = [],
      tb_uniques = [],
      tb_indexes = []\<rparr>"

definition findings_table :: table where
  "findings_table =
     \<lparr>tb_columns =
        [a_column ''id'' CUuid False,
         a_column ''account_id'' (CString 32) False,
         a_column ''region'' (CString 64) False,
         a_column ''resource_type'' (CString 64) False,
         a_column ''resource_id'' (CString 255) False,
         a_column ''detector_type'' (CString 64) False,
         a_column ''title'' (CString 512) False,
         a_column ''summary'' CText False,
         a_column ''resource_created_at'' CUtcDateTime True,
         a_column ''first_observed_at'' CUtcDateTime False,
         a_column ''last_observed_at'' CUtcDateTime False,
         a_column ''streak_started_at'' CUtcDateTime False,
         a_column ''observation_count'' CInteger False,
         a_column ''consecutive_observations'' CInteger False,
         a_column ''persistence_state'' (CString 32) False,
         a_column ''detection_confidence'' (CString 16) False,
         a_column ''remediation_risk'' (CString 16) False,
         a_column ''cost_confidence'' (CString 16) False,
         a_column ''estimated_monthly_cost'' (CNumeric 12 4) True,
         a_column ''cost_explanation'' CText False,
         a_column ''pricing_source'' (CString 64) False,
         a_column ''pricing_timestamp'' CUtcDateTime True,
         a_column ''cost_line_items'' CJson False,
         a_column ''evidence'' CJson False,
         a_column ''known_dependencies'' CJson False,
         a_column ''ownership'' CJson False,
         a_column ''related_resource_ids'' CJson False,
         a_column ''status'' (CString 16) False,
         a_column ''resolved_at'' CUtcDateTime True,
         a_column ''dismissed_at'' CUtcDateTime True,
         a_column ''dismiss_reason'' CText True,
         a_column ''ignore_reason'' CText True,
         a_column ''first_scan_id'' CUuid False,
         a_column ''last_scan_id'' CUuid False,
         a_column ''created_at'' CUtcDateTime False,
         a_column ''updated_at'' CUtcDateTime False],
      tb_primary_key = [''id''],
      tb_foreign_keys = [a_foreign_key ''first_scan_id'' ''scans'' ''id'' None,
           a_foreign_key ''last_scan_id'' ''scans'' ''id'' None],
      tb_uniques = [(''uq_finding_identity'',
            [''account_id'', ''region'', ''resource_type'', ''resource_id'', ''detector_type''])],
      tb_indexes = [(''ix_findings_status'', [''status'']), (''ix_findings_region'', [''region''])]\<rparr>"

definition observations_table :: table where
  "observations_table =
     \<lparr>tb_columns =
        [a_column ''id'' CUuid False,
         a_column ''finding_id'' CUuid False,
         a_column ''scan_id'' CUuid False,
         a_column ''observed_at'' CUtcDateTime False,
         a_column ''status_at_observation'' (CString 16) False,
         a_column ''persistence_state_at_observation'' (CString 32) False,
         a_column ''remediation_risk_at_observation'' (CString 16) False,
         a_column ''estimated_monthly_cost'' (CNumeric 12 4) True,
         a_column ''cost_confidence_at_observation'' (CString 16) False,
         a_column ''evidence'' CJson False],
      tb_primary_key = [''id''],
      tb_foreign_keys = [a_foreign_key ''finding_id'' ''findings'' ''id'' (Some ''CASCADE''),
           a_foreign_key ''scan_id'' ''scans'' ''id'' (Some ''CASCADE'')],
      tb_uniques = [(''uq_finding_observation_scan'', [''finding_id'', ''scan_id''])],
      tb_indexes = [(''ix_finding_observations_finding_scan'', [''finding_id'', ''scan_id''])]\<rparr>"

definition settings_table :: table where
  "settings_table =
     \<lparr>tb_columns =
        [a_column ''id'' CInteger False,
         a_column ''data'' CJson False],
      tb_primary_key = [''id''],
      tb_foreign_keys = [],
      tb_uniques = [],
      tb_indexes = []\<rparr>"

definition pricing_cache_table :: table where
  "pricing_cache_table =
     \<lparr>tb_columns =
        [a_column ''cache_key'' (CString 512) False,
         a_column ''payload'' CJson False,
         a_column ''fetched_at'' CUtcDateTime False,
         a_column ''source'' (CString 64) False],
      tb_primary_key = [''cache_key''],
      tb_foreign_keys = [],
      tb_uniques = [],
      tb_indexes = []\<rparr>"

definition models_schema :: schema where
  "models_schema =
     [(''scans'', scans_table), (''findings'', findings_table),
      (''finding_observations'', observations_table), (''settings'', settings_table),
      (''pricing_cache'', pricing_cache_table)]"

section \<open>The migrations build the tables of the models\<close>

text \<open>
  Two tables are the same but for the order of their columns, constraints and indexes, and for
  the default that a migration gives to existing rows.
\<close>

definition same_table :: "table \<Rightarrow> table \<Rightarrow> bool" where
  "same_table t u \<longleftrightarrow>
     (\<lambda>c. c\<lparr>cn_server_default := None\<rparr>) ` set (tb_columns t) =
       (\<lambda>c. c\<lparr>cn_server_default := None\<rparr>) ` set (tb_columns u) \<and>
     length (tb_columns t) = length (tb_columns u) \<and>
     tb_primary_key t = tb_primary_key u \<and>
     set (tb_foreign_keys t) = set (tb_foreign_keys u) \<and>
     set (tb_uniques t) = set (tb_uniques u) \<and> set (tb_indexes t) = set (tb_indexes u)"

definition same_schema :: "schema \<Rightarrow> schema \<Rightarrow> bool" where
  "same_schema s s' \<longleftrightarrow>
     fst ` set s = fst ` set s' \<and>
     list_all (\<lambda>(n, t). case map_of s' n of None \<Rightarrow> False | Some u \<Rightarrow> same_table t u) s"

lemma migrations_same:
  "case migrate (upgrade_0001 @ upgrade_0002) [] of
     None \<Rightarrow> False | Some s \<Rightarrow> same_schema s models_schema \<and> wf_schema s"
  by code_simp

section \<open>Undoing an operation\<close>

fun inverse_op :: "migration_op \<Rightarrow> migration_op option" where
  "inverse_op (CreateTable tab t) = Some (DropTable tab)"
| "inverse_op (CreateIndex name tab cols) = Some (DropIndex name tab)"
| "inverse_op (AddColumn tab c) = Some (DropColumn tab (cn_name c))"
| "inverse_op op = None"

lemma fst_update_table [simp]: "map fst (update_table s tab f) = map fst s"
  by (simp add: update_table_def comp_def split_beta)

lemma set_update_table:
  "(n, u) \<in> set (update_table s tab f) \<longleftrightarrow> (\<exists>t. (n, t) \<in> set s \<and> u = (if n = tab then f t else t))"
  by (induction s) (auto simp: update_table_def)

lemma map_of_update_table:
  "map_of (update_table s tab f) n = (if n = tab then map_option f (map_of s n) else map_of s n)"
  by (induction s) (auto simp: update_table_def)

lemma update_table_twice:
  "update_table (update_table s tab f) tab g = update_table s tab (\<lambda>t. g (f t))"
  by (auto simp: update_table_def)

lemma update_table_id:
  "(\<And>t. (tab, t) \<in> set s \<Longrightarrow> f t = t) \<Longrightarrow> update_table s tab f = s"
  by (auto simp: update_table_def intro!: map_idI)

lemma wf_schemaD:
  assumes "wf_schema s" and "(n, t) \<in> set s"
  shows "map_of s n = Some t" and "used_columns t \<subseteq> set (column_names t)"
    and "k \<in> set (tb_foreign_keys t) \<Longrightarrow> has_column s (fk_table k) (fk_target k)"
  using assms by (auto simp: wf_schema_def list_all_iff)

text \<open>A change that keeps foreign keys and columns, and names only columns, keeps a schema well formed.\<close>

lemma wf_update_table:
  assumes "wf_schema s"
    and "\<And>t. (tab, t) \<in> set s \<Longrightarrow> tb_foreign_keys (f t) = tb_foreign_keys t \<and>
           set (column_names t) \<subseteq> set (column_names (f t)) \<and>
           used_columns (f t) \<subseteq> set (column_names (f t))"
  shows "wf_schema (update_table s tab f)"
proof -
  have cols: "has_column (update_table s tab f) n c" if "has_column s n c" for n c
    using that assms(2) [OF map_of_SomeD]
    by (fastforce simp: has_column_def map_of_update_table split: option.splits)
  have "used_columns u \<subseteq> set (column_names u) \<and>
      (\<forall>k \<in> set (tb_foreign_keys u). has_column (update_table s tab f) (fk_table k) (fk_target k))"
    if "(n, u) \<in> set (update_table s tab f)" for n u
  proof -
    from that obtain t where t: "(n, t) \<in> set s" and u: "u = (if n = tab then f t else t)"
      by (auto simp: set_update_table)
    from assms(2) [of t] t u wf_schemaD(2,3) [OF assms(1) t] cols show ?thesis by auto
  qed
  with assms(1) show ?thesis by (fastforce simp: wf_schema_def list_all_iff)
qed

lemma undo_create_table:
  assumes "wf_schema s" and "apply_op (CreateTable tab t) s = Some s'"
  shows "apply_op (DropTable tab) s' = Some s \<and> wf_schema s'"
proof -
  from assms(2) have new: "tab \<notin> fst ` set s" and cols: "used_columns t \<subseteq> set (column_names t)"
    and fks: "\<forall>k \<in> set (tb_foreign_keys t). has_column s (fk_table k) (fk_target k)"
    and s': "s' = s @ [(tab, t)]" by (auto simp: list_all_iff split: if_splits)
  have elsewhere: "fk_table k \<noteq> tab" if "has_column s (fk_table k) (fk_target k)" for k
    using that new map_of_eq_None_iff [of s tab] by (auto simp: has_column_def)
  have "\<not> refers_to_table s' tab"
  proof
    assume "refers_to_table s' tab"
    then obtain n u k where u: "(n, u) \<in> set s \<or> u = t" "k \<in> set (tb_foreign_keys u)" "fk_table k = tab"
      by (auto simp: refers_to_table_def list_ex_iff s')
    then have "has_column s (fk_table k) (fk_target k)" using fks wf_schemaD(3) [OF assms(1)] by blast
    with elsewhere u(3) show False by blast
  qed
  moreover have "filter (\<lambda>(n, t). n \<noteq> tab) s' = s"
    using new by (auto simp: s' filter_id_conv image_iff)
  moreover have "has_column s' n c" if "has_column s n c" for n c
    using that by (auto simp: has_column_def s' split: option.splits)
  then have "wf_schema s'"
    using assms(1) new cols fks by (auto simp: wf_schema_def list_all_iff s')
  ultimately show ?thesis by (simp add: s')
qed

lemma index_columns:
  "column_names (t\<lparr>tb_indexes := x\<rparr>) = column_names t"
  "used_columns (t\<lparr>tb_indexes := tb_indexes t @ [(name, cols)]\<rparr>) = used_columns t \<union> set cols"
  by (auto simp: column_names_def used_columns_def)

lemma undo_create_index:
  assumes "wf_schema s" and "apply_op (CreateIndex name tab cols) s = Some s'"
  shows "apply_op (DropIndex name tab) s' = Some s \<and> wf_schema s'"
proof -
  let ?f = "\<lambda>t. t\<lparr>tb_indexes := tb_indexes t @ [(name, cols)]\<rparr>"
  from assms(2) obtain t where t: "map_of s tab = Some t" and new: "name \<notin> set (index_names s)"
    and cols: "set cols \<subseteq> set (column_names t)" and s': "s' = update_table s tab ?f"
    by (auto split: option.splits if_splits)
  have only: "u = t" if "(tab, u) \<in> set s" for u using wf_schemaD(1) [OF assms(1) that] t by simp
  have fresh: "filter (\<lambda>(n, cs). n \<noteq> name) (tb_indexes u) = tb_indexes u" if "(tab, u) \<in> set s" for u
  proof -
    have "name \<notin> fst ` set (tb_indexes u)" using new that by (auto simp: index_names_def)
    then show ?thesis by (intro filter_True) force
  qed
  have "update_table s' tab (\<lambda>t. t\<lparr>tb_indexes := filter (\<lambda>(n, cs). n \<noteq> name) (tb_indexes t)\<rparr>) = s"
    unfolding s' update_table_twice by (rule update_table_id) (simp add: fresh)
  moreover have "wf_schema s'"
    unfolding s'
  proof (rule wf_update_table [OF assms(1)])
    fix u
    assume u: "(tab, u) \<in> set s"
    from wf_schemaD(2) [OF assms(1) u] only [OF u] cols show
      "tb_foreign_keys (?f u) = tb_foreign_keys u \<and>
       set (column_names u) \<subseteq> set (column_names (?f u)) \<and>
       used_columns (?f u) \<subseteq> set (column_names (?f u))"
      by (simp add: index_columns)
  qed
  ultimately show ?thesis by (simp add: t s' map_of_update_table)
qed

lemma undo_add_column:
  assumes "wf_schema s" and "apply_op (AddColumn tab c) s = Some s'"
  shows "apply_op (DropColumn tab (cn_name c)) s' = Some s \<and> wf_schema s'"
proof -
  let ?f = "\<lambda>t. t\<lparr>tb_columns := tb_columns t @ [c]\<rparr>"
  from assms(2) obtain t where t: "map_of s tab = Some t" and new: "cn_name c \<notin> set (column_names t)"
    and s': "s' = update_table s tab ?f"
    by (auto split: option.splits if_splits)
  have only: "u = t" if "(tab, u) \<in> set s" for u using wf_schemaD(1) [OF assms(1) that] t by simp
  have same: "used_columns (?f u) = used_columns u" "tb_foreign_keys (?f u) = tb_foreign_keys u" for u
    by (simp_all add: used_columns_def)
  have unused: "cn_name c \<notin> used_columns t"
    using new wf_schemaD(2) [OF assms(1) map_of_SomeD [OF t]] by blast
  have "update_table s' tab (\<lambda>t. t\<lparr>tb_columns := filter (\<lambda>x. cn_name x \<noteq> cn_name c) (tb_columns t)\<rparr>) = s"
    unfolding s' update_table_twice
  proof (rule update_table_id)
    fix u
    assume "(tab, u) \<in> set s"
    then have "u = t" by (rule only)
    moreover have "filter (\<lambda>x. cn_name x \<noteq> cn_name c) (tb_columns t) = tb_columns t"
      using new by (intro filter_True) (metis column_names_def image_eqI list.set_map)
    ultimately show "?f u\<lparr>tb_columns := filter (\<lambda>x. cn_name x \<noteq> cn_name c) (tb_columns (?f u))\<rparr> = u"
      by simp
  qed
  moreover have "\<not> refers_to s' tab (cn_name c)"
  proof
    assume "refers_to s' tab (cn_name c)"
    then obtain n u k where u: "(n, u) \<in> set s" "k \<in> set (tb_foreign_keys u)"
      and k: "fk_table k = tab" "fk_target k = cn_name c"
      by (auto simp: refers_to_def list_ex_iff s' set_update_table same split: if_splits)
    from wf_schemaD(3) [OF assms(1) u] k t new show False by (simp add: has_column_def)
  qed
  moreover have "wf_schema s'"
    unfolding s'
    by (rule wf_update_table [OF assms(1)])
      (use wf_schemaD(2) [OF assms(1)] in \<open>auto simp: same, auto simp: column_names_def\<close>)
  ultimately show ?thesis
    using unused same(1) [of t] by (simp add: t s' map_of_update_table column_names_def)
qed

lemma undo_op:
  assumes "wf_schema s" and "apply_op op s = Some s'" and "inverse_op op = Some op'"
  shows "apply_op op' s' = Some s \<and> wf_schema s'"
proof (cases op)
  case (CreateTable tab t)
  with assms undo_create_table [of s tab t s'] show ?thesis by (auto simp del: apply_op.simps)
next
  case (CreateIndex name tab cols)
  with assms undo_create_index [of s name tab cols s'] show ?thesis by (auto simp del: apply_op.simps)
next
  case (AddColumn tab c)
  with assms undo_add_column [of s tab c s'] show ?thesis by (auto simp del: apply_op.simps)
qed (use assms(3) in simp_all)

lemma migrate_append: "migrate (ops @ ops') s = Option.bind (migrate ops s) (migrate ops')"
  by (induction ops arbitrary: s) (auto split: option.splits)

lemma undo_migration:
  assumes "wf_schema s" and "migrate ops s = Some s'" and "map inverse_op ops = map Some ops'"
  shows "migrate (rev ops') s' = Some s \<and> wf_schema s'"
  using assms
proof (induction ops arbitrary: s ops')
  case (Cons op ops)
  from Cons.prems(3) obtain op' rest where ops': "ops' = op' # rest" "inverse_op op = Some op'"
    "map inverse_op ops = map Some rest" by (cases ops') auto
  from Cons.prems(2) obtain s1 where s1: "apply_op op s = Some s1" "migrate ops s1 = Some s'"
    by (auto split: option.splits)
  from undo_op [OF Cons.prems(1) s1(1) ops'(2)] have undone: "apply_op op' s1 = Some s" and wf: "wf_schema s1"
    by simp_all
  from Cons.IH [OF wf s1(2) ops'(3)] show ?case by (simp add: ops'(1) migrate_append undone)
qed simp

lemma downgrade_0001_undoes:
  "map inverse_op upgrade_0001 = map Some (rev downgrade_0001)"
  by (simp add: upgrade_0001_def downgrade_0001_def)

lemma downgrade_0002_undoes:
  "map inverse_op upgrade_0002 = map Some (rev downgrade_0002)"
  by (simp add: upgrade_0002_def downgrade_0002_def a_column_def)

end
