(* ===== verification/CommandLine.thy ===== *)
theory CommandLine
  imports Seeding Dashboard
begin

text \<open>
  The command line of \<open>app/cli.py\<close>. A command works on the stored tables (findings and scans, the
  settings row, and what the price cache holds) and returns the lines it prints, or the exception
  that ends it; \<open>click\<close> prints a \<open>ClickException\<close> and exits with 1. One reading of the
  clock serves a command. Making the engine and the tables, and the parsing of the arguments,
  are left out.
\<close>

section \<open>Tables and settings\<close>

record 's cli_tables =
  ct_db :: db
  ct_settings :: "app_settings option"
  ct_prices :: 's

record cli_output =
  co_lines :: "pystr list"
  co_exit :: int

definition ClickException :: "pystr \<Rightarrow> py_exc" where
  "ClickException m = PyExc (lit ''ClickException'') m"

definition printed :: "pystr list \<Rightarrow> cli_output" where
  "printed ls = \<lparr>co_lines = ls, co_exit = 0\<rparr>"

text \<open>\<open>_runtime\<close>: the settings are loaded, anchored in a demo, and committed.\<close>

definition runtime ::
  "environment \<Rightarrow> instant \<Rightarrow> 's cli_tables \<Rightarrow> py_exc + 's cli_tables \<times> app_settings" where
  "runtime env now ts =
     r_bind (load_settings env (ct_settings ts)) (\<lambda>(row, st).
       if ev_mode env = DEMO \<and> st_demo_anchor_at st = None
       then (let st' = st\<lparr>st_demo_anchor_at := Some (utc now)\<rparr>
             in Inr (ts\<lparr>ct_settings := save_settings row st'\<rparr>, st'))
       else Inr (ts\<lparr>ct_settings := row\<rparr>, st))"

section \<open>Tables of text\<close>

text \<open>\<open>s.ljust(w)\<close>.\<close>

definition ljust :: "nat \<Rightarrow> pystr \<Rightarrow> pystr" where
  "ljust w s = s @ replicate (w - length s) 32"

text \<open>\<open>max(len(headers[i]), *(len(row[i]) for row in rows))\<close> for every column.\<close>

definition column_width :: "pystr list \<Rightarrow> pystr list list \<Rightarrow> nat \<Rightarrow> nat" where
  "column_width headers rows i = fold max (map (\<lambda>row. length (row ! i)) rows) (length (headers ! i))"

definition column_widths :: "pystr list \<Rightarrow> pystr list list \<Rightarrow> nat list" where
  "column_widths headers rows = map (column_width headers rows) [0..<length headers]"

definition table_line :: "nat list \<Rightarrow> pystr list \<Rightarrow> pystr" where
  "table_line widths cells = join (lit '' | '') (map (\<lambda>(w, c). ljust w c) (zip widths cells))"

definition table_rule :: "nat list \<Rightarrow> pystr" where
  "table_rule widths = join (lit ''-+-'') (map (\<lambda>w. replicate w 45) widths)"

definition table_lines :: "pystr list \<Rightarrow> pystr list list \<Rightarrow> pystr list" where
  "table_lines headers rows =
     (let widths = column_widths headers rows
      in table_line widths headers # table_rule widths # map (table_line widths) rows)"

section \<open>The findings\<close>

text \<open>\<open>f"{amount:.2f}"\<close> of a decimal, rounded half to even.\<close>

definition cents :: "decimal \<Rightarrow> nat" where
  "cents d =
     (let c = nat \<bar>coeff d\<bar>
      in if - 2 \<le> expo d then c * 10 ^ nat (expo d + 2) else round_half_even c (nat (- 2 - expo d)))"

definition two_places :: "decimal \<Rightarrow> pystr" where
  "two_places d =
     (if coeff d < 0 then lit ''-'' else []) @ show_nat (cents d div 100) @ lit ''.'' @
     pad 2 (int (cents d mod 100))"

definition finding_headers :: "pystr list" where
  "finding_headers =
     map lit [''Resource'', ''Type'', ''Region'', ''Resource age'', ''First observed'', ''Observations'',
       ''Est. monthly'', ''Confidence'', ''Risk'', ''Status'']"

definition finding_row :: "instant \<Rightarrow> finding \<Rightarrow> pystr list" where
  "finding_row now f =
     [f_resource_id f, resource_type_value (f_resource_type f), f_region f,
      (case f_resource_created_at f of
         None \<Rightarrow> lit ''unknown''
       | Some t \<Rightarrow> show_int (days_between t now) @ lit '' days''),
      date_iso (f_first_observed_at f) @ lit '' ('' @
        show_int (days_between (f_first_observed_at f) now) @ lit '' days ago)'',
      show_int (f_observation_count f),
      (case f_estimated_monthly_cost f of None \<Rightarrow> lit ''-'' | Some c \<Rightarrow> lit ''$'' @ two_places c),
      cost_confidence_value (f_cost_confidence f), remediation_risk_value (f_remediation_risk f),
      finding_status_value (f_status f)]"

text \<open>\<open>order_by(Finding.region, Finding.resource_id)\<close>, by the code points.\<close>

definition list_all_findings :: "db \<Rightarrow> finding list" where
  "list_all_findings d = sort_key (\<lambda>f. (f_region f, f_resource_id f)) (db_findings d)"

definition print_findings :: "db \<Rightarrow> instant \<Rightarrow> pystr list" where
  "print_findings d now =
     table_lines finding_headers
       (map (finding_row now) (list_all_findings d))"

section \<open>Commands\<close>

definition demo_seed ::
  "(nat \<Rightarrow> datetime \<Rightarrow> py_exc + cloud_provider) \<Rightarrow> 'p pricing \<Rightarrow> 'p \<Rightarrow> environment \<Rightarrow> instant \<Rightarrow>
   's cli_tables \<Rightarrow> 's cli_tables \<times> (py_exc + cli_output)" where
  "demo_seed demo pricing ps env now ts =
     (case runtime env now ts of
        Inl e \<Rightarrow> (ts, Inl e)
      | Inr (ts1, st) \<Rightarrow>
          if ev_mode env \<noteq> DEMO
          then (ts1, Inl (ClickException (lit ''Demo seeding is available only in demo mode.'')))
          else (case seed_if_empty demo pricing env now ps (ct_settings ts1) (ct_db ts1) of
                  (row, d, r) \<Rightarrow>
                    (ts1\<lparr>ct_db := d, ct_settings := row\<rparr>,
                     r_bind r (\<lambda>seeded. Inr (printed
                       [if seeded then lit ''Demo history seeded.''
                        else lit ''Demo history already exists.''])))))"

text \<open>The reset deletes every row; \<open>no_prices\<close> is the empty price cache.\<close>

definition demo_reset ::
  "'s \<Rightarrow> environment \<Rightarrow> instant \<Rightarrow> bool \<Rightarrow> bool \<Rightarrow> 's cli_tables \<Rightarrow>
   's cli_tables \<times> (py_exc + cli_output)" where
  "demo_reset no_prices env now yes force ts =
     (if \<not> yes then (ts, Inl (ClickException (lit ''Refusing to reset without --yes.'')))
      else case runtime env now ts of
             Inl e \<Rightarrow> (ts, Inl e)
           | Inr (ts1, st) \<Rightarrow>
               if ev_mode env = LIVE \<and> \<not> force
               then (ts1, Inl (ClickException (lit ''Refusing to reset live mode without --force.'')))
               else (ts1\<lparr>ct_db := (ct_db ts1)\<lparr>db_scans := [], db_findings := [], db_observations := []\<rparr>,
                         ct_settings := None, ct_prices := no_prices\<rparr>,
                     Inr (printed [lit ''CloudZombie data reset.''])))"

definition upper_mode :: "mode \<Rightarrow> pystr" where
  "upper_mode m = (case m of LIVE \<Rightarrow> lit ''LIVE'' | DEMO \<Rightarrow> lit ''DEMO'')"

fun identity_type_value :: "identity_type \<Rightarrow> pystr" where
  "identity_type_value ID_ROLE = lit ''role''"
| "identity_type_value ID_USER = lit ''user''"
| "identity_type_value ID_ASSUMED_ROLE = lit ''assumed-role''"
| "identity_type_value ID_ROOT = lit ''root''"
| "identity_type_value ID_UNKNOWN = lit ''unknown''"

text \<open>Provider errors of the whole \<open>try\<close> block are reported, with exit status 1.\<close>

fun identity_failure :: "py_exc \<Rightarrow> py_exc + cli_output" where
  "identity_failure (Prov (ProviderCredentialsError m)) =
     Inr \<lparr>co_lines =
            [lit ''Identity check failed: AWS credentials could not be verified ('' @ m @ lit '').'',
             lit ''What you can do: configure a valid AWS profile or the standard AWS credential environment variables, then retry.''],
          co_exit = 1\<rparr>"
| "identity_failure (Prov e) =
     Inr \<lparr>co_lines =
            [lit ''Identity check failed: AWS provider error ('' @ provider_error_str e @ lit '').'',
             lit ''What you can do: verify AWS connectivity, region access, and permissions.''],
          co_exit = 1\<rparr>"
| "identity_failure e = Inl e"

definition identity_command ::
  "(provider_choice \<Rightarrow> py_exc + cloud_provider) \<Rightarrow> environment \<Rightarrow> instant \<Rightarrow> 's cli_tables \<Rightarrow>
   's cli_tables \<times> (py_exc + cli_output)" where
  "identity_command opened env now ts =
     (case runtime env now ts of
        Inl e \<Rightarrow> (ts, identity_failure e)
      | Inr (ts1, st) \<Rightarrow>
          (ts1,
           case r_bind (opened (snd (build_provider env st (utc now))))
                  (\<lambda>P. r_bind (get_identity P) (\<lambda>ident. Inr (P, ident))) of
             Inl e \<Rightarrow> identity_failure e
           | Inr (P, ident) \<Rightarrow>
               Inr (printed
                 [lit ''Mode: '' @ upper_mode (cp_mode P),
                  lit ''Account ID: '' @ id_account_id ident,
                  lit ''Principal ARN: '' @ id_principal_arn ident,
                  lit ''Identity type: '' @ identity_type_value (id_identity_type ident)])))"

fun upper_status :: "region_coverage_status \<Rightarrow> pystr" where
  "upper_status REGION_COMPLETE = lit ''COMPLETE''"
| "upper_status REGION_PARTIAL = lit ''PARTIAL''"
| "upper_status REGION_FAILED = lit ''FAILED''"
| "upper_status REGION_SKIPPED = lit ''SKIPPED''"

definition coverage_line :: "pystr \<times> region_coverage \<Rightarrow> pystr" where
  "coverage_line rc =
     fst rc @ lit ''  '' @ upper_status (rc_status (snd rc)) @
     (if rc_status (snd rc) = REGION_SKIPPED then lit '' - region not enabled'' else [])"

text \<open>\<open>result.coverage.items()\<close>, in the order of the regions.\<close>

definition coverage_items :: "scan \<Rightarrow> (pystr \<times> region_coverage) list" where
  "coverage_items s =
     List.map_filter (\<lambda>r. map_option (Pair r) (s_coverage s r)) (remdups (s_requested_regions s))"

definition scan_lines :: "scan \<Rightarrow> db \<Rightarrow> instant \<Rightarrow> pystr list" where
  "scan_lines s d now =
     [upper_mode (s_mode s) @ lit '' account '' @
        (if truthy (s_account_id s) then the (s_account_id s) else lit ''unavailable'')] @
     map coverage_line (coverage_items s) @ print_findings d now @
     [lit ''Totals: new '' @ show_int (s_new_findings s) @ lit '', persistent '' @
        show_int (s_persistent_findings s) @ lit '', resolved '' @ show_int (s_resolved_findings s),
      lit ''Estimated monthly list-price exposure: $'' @ two_places (s_estimated_exposure s)]"

definition scan_command ::
  "(provider_choice \<Rightarrow> py_exc + cloud_provider) \<Rightarrow> (cloud_provider \<Rightarrow> app_settings \<Rightarrow> 's pricing) \<Rightarrow>
   environment \<Rightarrow> instant \<Rightarrow> pystr list \<Rightarrow> 's cli_tables \<Rightarrow> 's cli_tables \<times> (py_exc + cli_output)" where
  "scan_command opened price env now regions ts =
     (case runtime env now ts of
        Inl e \<Rightarrow> (ts, Inl e)
      | Inr (ts1, st) \<Rightarrow>
          (case build_provider env st (utc now) of
             (st1, choice) \<Rightarrow>
               (case opened choice of
                  Inl e \<Rightarrow> (ts1, Inl e)
                | Inr P \<Rightarrow>
                    (case run_scan P (price P st1) st1 (ct_db ts1) (ct_prices ts1)
                            (if regions = [] then None else Some regions) None now now of
                       (ps, Inl e) \<Rightarrow> (ts1\<lparr>ct_prices := ps\<rparr>, Inl e)
                     | (ps, Inr (d, s)) \<Rightarrow>
                         (ts1\<lparr>ct_db := d, ct_prices := ps\<rparr>, Inr (printed (scan_lines s d now)))))))"

definition findings_command ::
  "environment \<Rightarrow> instant \<Rightarrow> 's cli_tables \<Rightarrow> 's cli_tables \<times> (py_exc + cli_output)" where
  "findings_command env now ts =
     (case runtime env now ts of
        Inl e \<Rightarrow> (ts, Inl e)
      | Inr (ts1, st) \<Rightarrow> (ts1, Inr (printed (print_findings (ct_db ts1) now))))"

section \<open>Reset and seed\<close>

lemma runtime_keeps: "runtime env now ts = Inr (ts1, st) \<Longrightarrow> ct_db ts1 = ct_db ts \<and> ct_prices ts1 = ct_prices ts"
  by (auto simp: runtime_def Let_def split: if_splits)

text \<open>A refused reset deletes nothing.\<close>

lemma reset_refused:
  assumes "\<not> yes \<or> (ev_mode env = LIVE \<and> \<not> force)"
    and "demo_reset no_prices env now yes force ts = (ts', r)"
  shows "\<not> r_ok r \<and> ct_db ts' = ct_db ts \<and> ct_prices ts' = ct_prices ts"
  using assms runtime_keeps
  by (fastforce simp: demo_reset_def split: if_splits sum.splits prod.splits)

lemma reset_done:
  assumes "demo_reset no_prices env now yes force ts = (ts', Inr out)"
  shows "yes \<and> (ev_mode env = LIVE \<longrightarrow> force) \<and> db_scans (ct_db ts') = [] \<and>
     db_findings (ct_db ts') = [] \<and> db_observations (ct_db ts') = [] \<and> ct_settings ts' = None \<and>
     ct_prices ts' = no_prices"
  using assms by (auto simp: demo_reset_def split: if_splits sum.splits prod.splits)

text \<open>Once there are scans, seeding again changes no table.\<close>

lemma seed_again:
  assumes "db_scans (ct_db ts) \<noteq> []"
  shows "ct_db (fst (demo_seed demo pricing ps env now ts)) = ct_db ts"
proof (cases "runtime env now ts")
  case (Inl e)
  then show ?thesis by (simp add: demo_seed_def)
next
  case (Inr x)
  obtain ts1 st where x: "x = (ts1, st)" by fastforce
  have "ct_db ts1 = ct_db ts" using runtime_keeps [of env now ts ts1 st] Inr x by simp
  then show ?thesis using Inr x assms by (simp add: demo_seed_def seed_only_once)
qed

lemma runtime_ok: "r_ok (runtime env now ts) \<longleftrightarrow> r_ok (load_settings env (ct_settings ts))"
  by (cases "load_settings env (ct_settings ts)") (auto simp: runtime_def Let_def r_ok_iff)

lemma reset_ok:
  assumes "r_ok (load_settings env (ct_settings ts))" and "ev_mode env = DEMO"
  shows "\<exists>ts1. demo_reset no_rows env now True force ts =
     (ts1, Inr (printed [lit ''CloudZombie data reset.'']))"
proof -
  obtain ts0 st where "runtime env now ts = Inr (ts0, st)"
    using assms(1) runtime_ok [of env now ts] by (auto simp: r_ok_iff)
  then show ?thesis using assms(2) by (simp add: demo_reset_def)
qed

text \<open>After a reset the settings are those of the environment.\<close>

lemma fresh_scan_settings:
  assumes "load_settings env None = Inr (row, st)"
    and "\<And>rs. region_selection env = Some rs \<Longrightarrow> distinct rs"
  shows "scan_settings st"
  using assms(1) assms(2) default_thresholds_total
  by (clarsimp simp: load_settings_ok scan_settings_def default_settings_def thresholds_total_def
      split: if_splits)

lemma reset_then_seed:
  assumes "demo_reset no_prices env now yes force ts = (ts1, Inr out)" and "ev_mode env = DEMO"
    and "0 \<le> ev_pricing_cache_ttl env"
    and "\<And>rs. region_selection env = Some rs \<Longrightarrow> distinct rs" and "scannable_data data"
  shows "\<exists>ts2. demo_seed (open_demo L data) pricing ps env now' ts1 =
       (ts2, Inr (printed [lit ''Demo history seeded.''])) \<and>
     map s_started_at (db_scans (ct_db ts2)) = map (\<lambda>days. now' - days * us_per_day) [21, 14, 7, 2] \<and>
     (\<forall>s \<in> set (db_scans (ct_db ts2)). seeded_scan s) \<and>
     scan_inv (now' - 2 * us_per_day) (ct_db ts2)"
proof -
  note empty = reset_done [OF assms(1)]
  have no_row: "ct_settings ts1 = None" using empty by simp
  obtain row st where load: "load_settings env None = Inr (row, st)"
    using assms(3) by (simp add: load_settings_ok)
  have st: "scan_settings st" by (rule fresh_scan_settings [OF load assms(4)])
  have anchor: "st_demo_anchor_at st = None" and valid: "settings_valid st"
    using load load_settings_stored [OF load] assms(3) by (auto simp: load_settings_ok default_settings_def)
  let ?st = "st\<lparr>st_demo_anchor_at := Some (utc now')\<rparr>"
  let ?ts = "ts1\<lparr>ct_settings := Some ?st\<rparr>"
  have run: "runtime env now' ts1 = Inr (?ts, ?st)"
    using load no_row anchor assms(2) by (simp add: runtime_def save_settings_def Let_def)
  have "settings_valid ?st" using valid by (simp add: settings_valid_def)
  then have "load_settings env (Some ?st) = Inr (Some ?st, ?st)"
    by (simp add: load_settings_def checked_settings_def)
  moreover have "scan_settings ?st" using st by (simp add: scan_settings_def thresholds_total_def)
  ultimately obtain d' st' where
    "seed_if_empty (open_demo L data) pricing env now' ps (Some ?st) (ct_db ts1) = (Some st', d', Inr True)"
    "map s_started_at (db_scans d') = map (\<lambda>days. now' - days * us_per_day) [21, 14, 7, 2]"
    "\<forall>s \<in> set (db_scans d'). seeded_scan s" "scan_inv (now' - 2 * us_per_day) d'"
    using seed_if_empty_ok [of "ct_db ts1" env "Some ?st" "Some ?st" ?st data L pricing now' ps] empty
      assms(5) by auto
  then show ?thesis using run assms(2) by (auto simp: demo_seed_def)
qed

section \<open>The columns of a table\<close>

definition line_width :: "nat list \<Rightarrow> nat" where
  "line_width ws = sum_list ws + 3 * (length ws - 1)"

lemma length_join:
  "ps \<noteq> [] \<Longrightarrow> length (join sep ps) = sum_list (map length ps) + length sep * (length ps - 1)"
  by (induction sep ps rule: join.induct) auto

lemma length_ljust: "length c \<le> w \<Longrightarrow> length (ljust w c) = w"
  by (simp add: ljust_def)

lemma fold_max_ge: "x \<le> fold max xs (x :: nat) \<and> (\<forall>y \<in> set xs. y \<le> fold max xs x)"
proof (induction xs arbitrary: x)
  case (Cons y xs)
  from Cons [of "max y x"] show ?case by auto
qed simp

lemma column_width_ge:
  "length (headers ! i) \<le> column_width headers rows i"
  "row \<in> set rows \<Longrightarrow> length (row ! i) \<le> column_width headers rows i"
  using fold_max_ge [of "length (headers ! i)" "map (\<lambda>row. length (row ! i)) rows"]
  by (auto simp: column_width_def)

text \<open>What stands at the column's place in a line: every cell starts where its column does.\<close>

definition column_start :: "nat list \<Rightarrow> nat \<Rightarrow> nat" where
  "column_start ws i = sum_list (take i ws) + 3 * i"

lemma join_at:
  "i < length ps \<Longrightarrow> \<exists>b. join sep ps = concat (map (\<lambda>p. p @ sep) (take i ps)) @ ps ! i @ b"
proof (induction ps arbitrary: i)
  case (Cons p ps)
  show ?case
  proof (cases i)
    case 0
    then show ?thesis by (cases ps) auto
  next
    case (Suc j)
    with Cons.prems have j: "j < length ps" by simp
    then obtain q qs where ps: "ps = q # qs" by (cases ps) auto
    from Cons.IH [OF j] obtain b where
      "join sep ps = concat (map (\<lambda>p. p @ sep) (take j ps)) @ ps ! j @ b" by blast
    then show ?thesis by (simp add: ps Suc)
  qed
qed simp

lemma drop_append_length: "drop (length a) (a @ b) = b"
  by simp

lemma take_append_length: "take (length a) (a @ b) = a"
  by simp

lemma length_prefix:
  "length (concat (map (\<lambda>p. p @ sep) qs)) = sum_list (map length qs) + length sep * length qs"
  by (induction qs) simp_all

lemma cell_at:
  assumes "length cells = length ws" and "\<forall>i < length ws. length (cells ! i) \<le> ws ! i" and "i < length ws"
  shows "take (length (cells ! i)) (drop (column_start ws i) (table_line ws cells)) = cells ! i"
proof -
  let ?ps = "map (\<lambda>(w, c). ljust w c) (zip ws cells)"
  have len: "length ?ps = length ws" using assms(1) by simp
  have nth: "?ps ! k = ljust (ws ! k) (cells ! k)" if "k < length ws" for k
    using that assms(1) by simp
  have lens: "map length ?ps = ws"
    by (rule nth_equalityI) (use assms(1,2) in \<open>auto simp: length_ljust\<close>)
  obtain b where b: "join (lit '' | '') ?ps =
      concat (map (\<lambda>p. p @ lit '' | '') (take i ?ps)) @ ?ps ! i @ b"
    using join_at [of i ?ps "lit '' | ''"] assms(1,3) by auto
  have "length (concat (map (\<lambda>p. p @ lit '' | '') (take i ?ps))) =
      sum_list (map length (take i ?ps)) + 3 * length (take i ?ps)"
    by (simp add: length_prefix)
  also have "\<dots> = column_start ws i"
    using assms(3) len lens by (simp add: column_start_def take_map [symmetric] del: take_map)
  finally have start: "length (concat (map (\<lambda>p. p @ lit '' | '') (take i ?ps))) = column_start ws i" .
  have "table_line ws cells =
      concat (map (\<lambda>p. p @ lit '' | '') (take i ?ps)) @ cells ! i @
        replicate (ws ! i - length (cells ! i)) 32 @ b"
    unfolding table_line_def b nth [OF assms(3)] ljust_def [of "ws ! i" "cells ! i"] by simp
  then show ?thesis by (simp only: start [symmetric] drop_append_length take_append_length)
qed

lemma line_of_cells:
  assumes "length cells = length ws" and "\<forall>i < length ws. length (cells ! i) \<le> ws ! i" and "ws \<noteq> []"
  shows "length (table_line ws cells) = line_width ws"
proof -
  have "map length (map (\<lambda>(w, c). ljust w c) (zip ws cells)) = ws"
    by (rule nth_equalityI) (use assms(1,2) in \<open>auto simp: length_ljust\<close>)
  moreover have "map (\<lambda>(w, c). ljust w c) (zip ws cells) \<noteq> []" using assms(1,3) by auto
  ultimately show ?thesis
    using assms(1) by (simp add: table_line_def length_join line_width_def)
qed

lemma rule_length: "ws \<noteq> [] \<Longrightarrow> length (table_rule ws) = line_width ws"
  by (simp add: table_rule_def length_join line_width_def comp_def)

text \<open>Every row fits the columns, so all lines have one length and the cells of a column line up.\<close>

lemma row_fits:
  assumes "row = headers \<or> row \<in> set rows" and "length row = length headers"
  shows "length row = length (column_widths headers rows)"
    and "\<forall>i < length (column_widths headers rows). length (row ! i) \<le> column_widths headers rows ! i"
  using assms column_width_ge by (auto simp: column_widths_def)

lemma table_aligned:
  assumes "\<forall>row \<in> set rows. length row = length headers" and "headers \<noteq> []"
  shows "\<forall>line \<in> set (table_lines headers rows). length line = line_width (column_widths headers rows)"
proof -
  let ?ws = "column_widths headers rows"
  have ne: "?ws \<noteq> []" using assms(2) by (simp add: column_widths_def)
  have "length (table_line ?ws row) = line_width ?ws" if "row = headers \<or> row \<in> set rows" for row
    using line_of_cells [OF row_fits [OF that] ne] that assms(1) by blast
  then show ?thesis using rule_length [OF ne] by (auto simp: table_lines_def Let_def)
qed

lemma finding_row_length: "length (finding_row now f) = length finding_headers"
  by (simp add: finding_row_def finding_headers_def)

end
