(* ===== verification/DemoFixture.thy ===== *)
theory DemoFixture
  imports Seeding
begin

text \<open>
  The shipped dataset, \<open>fixtures/demo/dataset.json\<close>, and that its history can be seeded.
\<close>

definition demo_volumes :: "json list" where
  "demo_volumes =
     [JDict [(lit ''volume_id'', JStr (lit ''vol-0a1b2c3d4e5f60001'')),
        (lit ''region'', JStr (lit ''eu-central-1'')),
        (lit ''steps'', JList [JInt 1, JInt 2, JInt 3, JInt 4, JInt 5]),
        (lit ''created_days_ago'', JInt 180), (lit ''state'', JStr (lit ''available'')),
        (lit ''volume_type'', JStr (lit ''gp3'')), (lit ''size_gib'', JInt 500),
        (lit ''iops'', JInt 3000), (lit ''throughput_mibps'', JInt 125),
        (lit ''encrypted'', JBool True), (lit ''snapshot_id'', JNull),
        (lit ''attachments'', JList []),
        (lit ''tags'', JDict [(lit ''Name'', JStr (lit ''analytics-cache''))]),
        (lit ''availability_zone'', JStr (lit ''eu-central-1a''))],
      JDict [(lit ''volume_id'', JStr (lit ''vol-0a1b2c3d4e5f60002'')),
        (lit ''region'', JStr (lit ''eu-central-1'')),
        (lit ''steps'', JList [JInt 1, JInt 2, JInt 3, JInt 4, JInt 5]),
        (lit ''created_days_ago'', JInt 120), (lit ''state'', JStr (lit ''available'')),
        (lit ''volume_type'', JStr (lit ''gp2'')), (lit ''size_gib'', JInt 100),
        (lit ''iops'', JInt 300), (lit ''throughput_mibps'', JNull), (lit ''encrypted'', JBool True),
        (lit ''snapshot_id'', JNull), (lit ''attachments'', JList []),
        (lit ''tags'', JDict [(lit ''aws:cloudformation:stack-name'', JStr (lit ''customer-api-prod'')),
          (lit ''aws:cloudformation:logical-id'', JStr (lit ''DataVolume''))]),
        (lit ''availability_zone'', JStr (lit ''eu-central-1b''))],
      JDict [(lit ''volume_id'', JStr (lit ''vol-0a1b2c3d4e5f60003'')),
        (lit ''region'', JStr (lit ''us-east-1'')), (lit ''steps'', JList [JInt 4, JInt 5]),
        (lit ''created_days_ago'', JInt 45), (lit ''state'', JStr (lit ''available'')),
        (lit ''volume_type'', JStr (lit ''gp3'')), (lit ''size_gib'', JInt 200),
        (lit ''iops'', JInt 6000), (lit ''throughput_mibps'', JInt 500),
        (lit ''encrypted'', JBool False), (lit ''snapshot_id'', JNull),
        (lit ''attachments'', JList []),
        (lit ''tags'', JDict [(lit ''Name'', JStr (lit ''burst-workspace'')),
          (lit ''hostile'', JStr (lit ''\"; echo hacked''))]),
        (lit ''availability_zone'', JStr (lit ''us-east-1a''))],
      JDict [(lit ''volume_id'', JStr (lit ''vol-0a1b2c3d4e5f60004'')),
        (lit ''region'', JStr (lit ''eu-central-1'')),
        (lit ''steps'', JList [JInt 1, JInt 2, JInt 3, JInt 4, JInt 5]),
        (lit ''created_days_ago'', JInt 90), (lit ''state'', JStr (lit ''available'')),
        (lit ''volume_type'', JStr (lit ''gp3'')), (lit ''size_gib'', JInt 50),
        (lit ''iops'', JInt 3000), (lit ''throughput_mibps'', JInt 125),
        (lit ''encrypted'', JBool True), (lit ''snapshot_id'', JNull),
        (lit ''attachments'', JList []),
        (lit ''tags'', JDict [(lit ''cloudzombie:ignore'', JStr (lit ''true'')),
          (lit ''cloudzombie:reason'', JStr (lit ''DR staging''))]),
        (lit ''availability_zone'', JStr (lit ''eu-central-1c''))],
      JDict [(lit ''volume_id'', JStr (lit ''vol-0a1b2c3d4e5f60009'')),
        (lit ''region'', JStr (lit ''us-east-1'')), (lit ''steps'', JList [JInt 1, JInt 2]),
        (lit ''created_days_ago'', JInt 70), (lit ''state'', JStr (lit ''available'')),
        (lit ''volume_type'', JStr (lit ''gp2'')), (lit ''size_gib'', JInt 20),
        (lit ''iops'', JInt 100), (lit ''throughput_mibps'', JNull),
        (lit ''encrypted'', JBool False), (lit ''snapshot_id'', JNull),
        (lit ''attachments'', JList []), (lit ''tags'', JDict []),
        (lit ''availability_zone'', JStr (lit ''us-east-1b''))],
      JDict [(lit ''volume_id'', JStr (lit ''vol-0a1b2c3d4e5f61001'')),
        (lit ''region'', JStr (lit ''eu-central-1'')),
        (lit ''steps'', JList [JInt 1, JInt 2, JInt 3, JInt 4, JInt 5]),
        (lit ''created_days_ago'', JInt 200), (lit ''state'', JStr (lit ''in-use'')),
        (lit ''volume_type'', JStr (lit ''gp3'')), (lit ''size_gib'', JInt 80),
        (lit ''iops'', JInt 3000), (lit ''throughput_mibps'', JInt 125),
        (lit ''encrypted'', JBool True), (lit ''snapshot_id'', JNull),
        (lit ''attachments'', JList
         [JDict [(lit ''instance_id'', JStr (lit ''i-0a1b2c3d4e5f60001'')),
            (lit ''device'', JStr (lit ''/dev/xvda'')), (lit ''state'', JStr (lit ''attached''))]]),
        (lit ''tags'', JDict []), (lit ''availability_zone'', JStr (lit ''eu-central-1a''))],
      JDict [(lit ''volume_id'', JStr (lit ''vol-0a1b2c3d4e5f61002'')),
        (lit ''region'', JStr (lit ''eu-central-1'')),
        (lit ''steps'', JList [JInt 1, JInt 2, JInt 3, JInt 4, JInt 5]),
        (lit ''created_days_ago'', JInt 150), (lit ''state'', JStr (lit ''in-use'')),
        (lit ''volume_type'', JStr (lit ''gp2'')), (lit ''size_gib'', JInt 200),
        (lit ''iops'', JInt 600), (lit ''throughput_mibps'', JNull), (lit ''encrypted'', JBool True),
        (lit ''snapshot_id'', JNull),
        (lit ''attachments'', JList
         [JDict [(lit ''instance_id'', JStr (lit ''i-0a1b2c3d4e5f60001'')),
            (lit ''device'', JStr (lit ''/dev/sdf'')), (lit ''state'', JStr (lit ''attached''))]]),
        (lit ''tags'', JDict []), (lit ''availability_zone'', JStr (lit ''eu-central-1a''))],
      JDict [(lit ''volume_id'', JStr (lit ''vol-0a1b2c3d4e5f61003'')),
        (lit ''region'', JStr (lit ''us-east-1'')),
        (lit ''steps'', JList [JInt 1, JInt 2, JInt 3, JInt 4, JInt 5]),
        (lit ''created_days_ago'', JInt 60), (lit ''state'', JStr (lit ''in-use'')),
        (lit ''volume_type'', JStr (lit ''gp3'')), (lit ''size_gib'', JInt 30),
        (lit ''iops'', JInt 3000), (lit ''throughput_mibps'', JInt 125),
        (lit ''encrypted'', JBool True), (lit ''snapshot_id'', JNull),
        (lit ''attachments'', JList
         [JDict [(lit ''instance_id'', JStr (lit ''i-0a1b2c3d4e5f60002'')),
            (lit ''device'', JStr (lit ''/dev/xvda'')), (lit ''state'', JStr (lit ''attached''))]]),
        (lit ''tags'', JDict []), (lit ''availability_zone'', JStr (lit ''us-east-1a''))]]"

definition demo_addresses :: "json list" where
  "demo_addresses =
     [JDict [(lit ''allocation_id'', JStr (lit ''eipalloc-0a1b2c3d4e5f60001'')),
        (lit ''region'', JStr (lit ''eu-central-1'')),
        (lit ''steps'', JList [JInt 1, JInt 2, JInt 3, JInt 4, JInt 5]),
        (lit ''public_ip'', JStr (lit ''203.0.113.10'')), (lit ''association_id'', JNull),
        (lit ''instance_id'', JNull), (lit ''network_interface_id'', JNull),
        (lit ''domain'', JStr (lit ''vpc'')), (lit ''tags'', JDict [])],
      JDict [(lit ''allocation_id'', JStr (lit ''eipalloc-0a1b2c3d4e5f60002'')),
        (lit ''region'', JStr (lit ''us-east-1'')), (lit ''steps'', JList [JInt 3, JInt 4, JInt 5]),
        (lit ''public_ip'', JStr (lit ''203.0.113.11'')), (lit ''association_id'', JNull),
        (lit ''instance_id'', JNull), (lit ''network_interface_id'', JNull),
        (lit ''domain'', JStr (lit ''vpc'')), (lit ''tags'', JDict [])],
      JDict [(lit ''allocation_id'', JStr (lit ''eipalloc-0a1b2c3d4e5f60003'')),
        (lit ''region'', JStr (lit ''eu-central-1'')),
        (lit ''steps'', JList [JInt 1, JInt 2, JInt 3, JInt 4, JInt 5]),
        (lit ''public_ip'', JStr (lit ''203.0.113.12'')),
        (lit ''association_id'', JStr (lit ''eipassoc-stopped'')),
        (lit ''instance_id'', JStr (lit ''i-0a1b2c3d4e5f60001'')),
        (lit ''network_interface_id'', JStr (lit ''eni-stopped'')),
        (lit ''domain'', JStr (lit ''vpc'')), (lit ''tags'', JDict [])],
      JDict [(lit ''allocation_id'', JStr (lit ''eipalloc-0a1b2c3d4e5f60004'')),
        (lit ''region'', JStr (lit ''us-east-1'')),
        (lit ''steps'', JList [JInt 1, JInt 2, JInt 3, JInt 4, JInt 5]),
        (lit ''public_ip'', JStr (lit ''203.0.113.13'')),
        (lit ''association_id'', JStr (lit ''eipassoc-running'')),
        (lit ''instance_id'', JStr (lit ''i-0a1b2c3d4e5f60003'')),
        (lit ''network_interface_id'', JStr (lit ''eni-running'')),
        (lit ''domain'', JStr (lit ''vpc'')), (lit ''tags'', JDict [])]]"

definition demo_instances :: "json list" where
  "demo_instances =
     [JDict [(lit ''instance_id'', JStr (lit ''i-0a1b2c3d4e5f60001'')),
        (lit ''region'', JStr (lit ''eu-central-1'')),
        (lit ''steps'', JList [JInt 1, JInt 2, JInt 3, JInt 4, JInt 5]),
        (lit ''created_days_ago'', JInt 200), (lit ''state'', JStr (lit ''stopped'')),
        (lit ''instance_type'', JStr (lit ''t3.large'')),
        (lit ''block_devices'', JList
         [JDict [(lit ''device_name'', JStr (lit ''/dev/xvda'')),
            (lit ''volume_id'', JStr (lit ''vol-0a1b2c3d4e5f61001'')),
            (lit ''status'', JStr (lit ''attached''))],
          JDict [(lit ''device_name'', JStr (lit ''/dev/sdf'')),
            (lit ''volume_id'', JStr (lit ''vol-0a1b2c3d4e5f61002'')),
            (lit ''status'', JStr (lit ''attached''))]]),
        (lit ''tags'', JDict [(lit ''Name'', JStr (lit ''batch-worker''))]),
        (lit ''platform'', JNull)],
      JDict [(lit ''instance_id'', JStr (lit ''i-0a1b2c3d4e5f60002'')),
        (lit ''region'', JStr (lit ''us-east-1'')),
        (lit ''steps'', JList [JInt 1, JInt 2, JInt 3, JInt 4, JInt 5]),
        (lit ''created_days_ago'', JInt 60), (lit ''state'', JStr (lit ''stopped'')),
        (lit ''instance_type'', JStr (lit ''t3.small'')),
        (lit ''block_devices'', JList
         [JDict [(lit ''device_name'', JStr (lit ''/dev/xvda'')),
            (lit ''volume_id'', JStr (lit ''vol-0a1b2c3d4e5f61003'')),
            (lit ''status'', JStr (lit ''attached''))]]),
        (lit ''tags'', JDict [(lit ''Name'', JStr (lit ''$(rm -rf /)'')),
          (lit ''aws:cloudformation:stack-name'', JStr (lit ''legacy-batch'')),
          (lit ''aws:cloudformation:logical-id'', JStr (lit ''Worker''))]),
        (lit ''platform'', JNull)],
      JDict [(lit ''instance_id'', JStr (lit ''i-0a1b2c3d4e5f60003'')),
        (lit ''region'', JStr (lit ''us-east-1'')),
        (lit ''steps'', JList [JInt 1, JInt 2, JInt 3, JInt 4, JInt 5]),
        (lit ''created_days_ago'', JInt 30), (lit ''state'', JStr (lit ''running'')),
        (lit ''instance_type'', JStr (lit ''t3.micro'')), (lit ''block_devices'', JList []),
        (lit ''tags'', JDict [(lit ''Name'', JStr (lit ''web''))]), (lit ''platform'', JNull)]]"

definition demo_snapshots :: "json list" where
  "demo_snapshots =
     [JDict [(lit ''snapshot_id'', JStr (lit ''snap-0a1b2c3d4e5f60001'')),
        (lit ''region'', JStr (lit ''eu-central-1'')),
        (lit ''steps'', JList [JInt 1, JInt 2, JInt 3, JInt 4, JInt 5]),
        (lit ''created_days_ago'', JInt 300),
        (lit ''volume_id'', JStr (lit ''vol-0deadbeef00000001'')),
        (lit ''owner_id'', JStr (lit ''123456789012'')), (lit ''state'', JStr (lit ''completed'')),
        (lit ''volume_size_gib'', JInt 200), (lit ''storage_tier'', JStr (lit ''standard'')),
        (lit ''encrypted'', JBool True),
        (lit ''description'', JStr (lit ''Legacy database backup'' @ [10] @ lit ''Do not delete without review'')),
        (lit ''tags'', JDict [])],
      JDict [(lit ''snapshot_id'', JStr (lit ''snap-0a1b2c3d4e5f60002'')),
        (lit ''region'', JStr (lit ''us-east-1'')),
        (lit ''steps'', JList [JInt 1, JInt 2, JInt 3, JInt 4, JInt 5]),
        (lit ''created_days_ago'', JInt 240),
        (lit ''volume_id'', JStr (lit ''vol-0deadbeef00000002'')),
        (lit ''owner_id'', JStr (lit ''123456789012'')), (lit ''state'', JStr (lit ''completed'')),
        (lit ''volume_size_gib'', JInt 80), (lit ''storage_tier'', JStr (lit ''standard'')),
        (lit ''encrypted'', JBool True), (lit ''description'', JStr (lit ''AMI root'')),
        (lit ''tags'', JDict [])],
      JDict [(lit ''snapshot_id'', JStr (lit ''snap-0a1b2c3d4e5f60003'')),
        (lit ''region'', JStr (lit ''eu-central-1'')),
        (lit ''steps'', JList [JInt 1, JInt 2, JInt 3, JInt 4, JInt 5]),
        (lit ''created_days_ago'', JInt 400),
        (lit ''volume_id'', JStr (lit ''vol-0deadbeef00000003'')),
        (lit ''owner_id'', JStr (lit ''123456789012'')), (lit ''state'', JStr (lit ''completed'')),
        (lit ''volume_size_gib'', JInt 500), (lit ''storage_tier'', JStr (lit ''archive'')),
        (lit ''encrypted'', JBool False), (lit ''description'', JStr (lit ''Shared archive'')),
        (lit ''tags'', JDict [])],
      JDict [(lit ''snapshot_id'', JStr (lit ''snap-0a1b2c3d4e5f60004'')),
        (lit ''region'', JStr (lit ''eu-central-1'')),
        (lit ''steps'', JList [JInt 1, JInt 2, JInt 3, JInt 4, JInt 5]),
        (lit ''created_days_ago'', JInt 20),
        (lit ''volume_id'', JStr (lit ''vol-0a1b2c3d4e5f60001'')),
        (lit ''owner_id'', JStr (lit ''123456789012'')), (lit ''state'', JStr (lit ''completed'')),
        (lit ''volume_size_gib'', JInt 500), (lit ''storage_tier'', JStr (lit ''standard'')),
        (lit ''encrypted'', JBool True), (lit ''description'', JStr (lit ''Current source'')),
        (lit ''tags'', JDict [])],
      JDict [(lit ''snapshot_id'', JStr (lit ''snap-0a1b2c3d4e5f60005'')),
        (lit ''region'', JStr (lit ''us-east-1'')),
        (lit ''steps'', JList [JInt 1, JInt 2, JInt 3, JInt 4, JInt 5]),
        (lit ''created_days_ago'', JInt 10), (lit ''volume_id'', JStr (lit ''vol-ffffffff'')),
        (lit ''owner_id'', JStr (lit ''123456789012'')), (lit ''state'', JStr (lit ''completed'')),
        (lit ''volume_size_gib'', JInt 10), (lit ''storage_tier'', JStr (lit ''standard'')),
        (lit ''encrypted'', JBool False), (lit ''description'', JStr (lit ''Placeholder source'')),
        (lit ''tags'', JDict [])]]"

definition demo_images :: "json list" where
  "demo_images =
     [JDict [(lit ''image_id'', JStr (lit ''ami-0a1b2c3d4e5f60001'')),
        (lit ''region'', JStr (lit ''us-east-1'')),
        (lit ''steps'', JList [JInt 1, JInt 2, JInt 3, JInt 4, JInt 5]),
        (lit ''name'', JStr (lit ''customer-api'')), (lit ''state'', JStr (lit ''available'')),
        (lit ''snapshot_ids'', JList
         [JStr (lit ''snap-0a1b2c3d4e5f60002'')]),
        (lit ''tags'', JDict [])]]"

definition demo_stack_resources :: "json list" where
  "demo_stack_resources =
     [JDict [(lit ''region'', JStr (lit ''eu-central-1'')),
        (lit ''steps'', JList [JInt 1, JInt 2, JInt 3, JInt 4, JInt 5]),
        (lit ''stack_name'', JStr (lit ''customer-api-prod'')),
        (lit ''stack_id'', JStr (lit ''arn:aws:cloudformation:eu-central-1:123456789012:stack/customer-api-prod/demo'')),
        (lit ''logical_id'', JStr (lit ''DataVolume'')),
        (lit ''physical_id'', JStr (lit ''vol-0a1b2c3d4e5f60002'')),
        (lit ''resource_type'', JStr (lit ''AWS::EC2::Volume'')),
        (lit ''resource_status'', JStr (lit ''CREATE_COMPLETE''))]]"

definition demo_faults :: "json list" where
  "demo_faults =
     [JDict [(lit ''region'', JStr (lit ''ap-southeast-2'')),
        (lit ''method'', JStr (lit ''list_snapshots'')),
        (lit ''kind'', JStr (lit ''access_denied''))]]"

definition demo_regions :: "json list" where
  "demo_regions =
     [JDict [(lit ''name'', JStr (lit ''eu-central-1'')),
        (lit ''opt_in_status'', JStr (lit ''opt-in-not-required''))],
      JDict [(lit ''name'', JStr (lit ''us-east-1'')),
        (lit ''opt_in_status'', JStr (lit ''opt-in-not-required''))],
      JDict [(lit ''name'', JStr (lit ''ap-southeast-2'')),
        (lit ''opt_in_status'', JStr (lit ''opt-in-not-required''))],
      JDict [(lit ''name'', JStr (lit ''me-south-1'')),
        (lit ''opt_in_status'', JStr (lit ''not-opted-in''))]]"

definition demo_dataset :: json where
  "demo_dataset =
     JDict
       [(lit ''account_id'', JStr (lit ''123456789012'')),
        (lit ''principal_arn'', JStr (lit ''arn:aws:sts::123456789012:assumed-role/CloudZombieDemo/session'')),
        (lit ''user_id'', JStr (lit ''AROADEMO:session'')),
        (lit ''regions'', JList demo_regions),
        (lit ''volumes'', JList demo_volumes),
        (lit ''addresses'', JList demo_addresses),
        (lit ''instances'', JList demo_instances),
        (lit ''snapshots'', JList demo_snapshots),
        (lit ''images'', JList demo_images),
        (lit ''snapshot_attributes'', JDict [(lit ''snap-0a1b2c3d4e5f60003'', JDict [(lit ''shared_user_ids'', JList
             [JStr (lit ''210987654321'')]),
            (lit ''shared_groups'', JList [])])]),
        (lit ''snapshot_locks'', JList []),
        (lit ''stack_resources'', JList demo_stack_resources),
        (lit ''faults'', JList demo_faults)]"

lemma demo_dataset_scannable: "scannable_data demo_dataset"
  by code_simp

end
