(* ===== verification/Spec2Isabelle.thy ===== *)
theory Spec2Isabelle
  imports ExampleAws ExamplePrices ExampleApp Reports Schema CommandLine DemoFixture
begin

text \<open>
  CloudZombie scans an AWS account for resources that cost money and do nothing (unattached
  volumes, unassociated addresses, stopped instances, snapshots without their volume), keeps a
  history of what it found in a database, and writes scripts that a person may run to clean up.
  This development models the backend (\<open>backend/app\<close>, Python) and proves what makes it correct.

  \<^bold>\<open>How the program works.\<close> A scan (\<open>scanner/engine.py\<close>) asks a read-only provider for the regions
  of the account and runs the four detectors (\<open>detectors\<close>) in each. A detector returns
  candidates; the ownership resolver (\<open>ownership\<close>) and the pricing service (\<open>pricing\<close>) enrich
  them. The history (\<open>scanner/history.py\<close>) then reconciles the candidates of each region and
  detector that was covered completely with the stored findings: it opens new ones, extends the
  streak of known ones, resolves those no longer observed, and classifies the risk of acting on
  each. The scan runner (\<open>services/scan_runner.py\<close>) lets one scan run at a time. From a finding
  the program derives a cleanup plan and, when the finding is eligible, a deleting script,
  otherwise an investigation script (\<open>remediation\<close>, \<open>services/script_service.py\<close>). The HTTP
  interface (\<open>api\<close>, \<open>main.py\<close>) and the command line (\<open>cli.py\<close>) offer all of this; in the demo
  mode a dataset takes the place of AWS.

  \<^bold>\<open>The theories.\<close>
  \<^item> \<open>Prelude\<close>: strings as lists of code points, exceptions as a sum, dictionaries, text of
    numbers. \<open>Enums\<close>: \<open>core/enums.py\<close>. \<open>PyTime\<close>: datetimes, \<open>core/clock.py\<close>, the UTC column of
    \<open>persistence/types.py\<close>, ISO texts. \<open>PyDecimal\<close>: \<open>decimal\<close> with its 28-digit context.
    \<open>Regex\<close>: \<open>re.fullmatch\<close> by derivatives, proved equal to the language of the pattern.
    \<open>Unicode\<close>: decimal digits and case folding.
  \<^item> \<open>ProviderBase\<close>: \<open>providers/base.py\<close>, \<open>providers/errors.py\<close>. \<open>Domain\<close>: \<open>models/domain.py\<close>.
  \<^item> \<open>Dependencies\<close>, \<open>Detectors\<close>, \<open>Ownership\<close>, \<open>Classification\<close>: the packages of these names, with
    the locale \<open>detector\<close> for what every detector promises, interpreted on all four.
  \<^item> \<open>Calculator\<close>, \<open>Pricing\<close>: \<open>pricing/calculator.py\<close>, \<open>fallback.py\<close> with its table,
    \<open>cache.py\<close>, \<open>service.py\<close>; the locale \<open>pricing_cache\<close> is interpreted on both caches.
    \<open>DecimalText\<close>, \<open>IsoTime\<close>, \<open>PyJson\<close>: the texts of decimals and datetimes and the JSON values
    that \<open>PriceApi\<close> (\<open>pricing/aws_api.py\<close>) reads and writes; \<open>PriceList\<close>, \<open>CacheKey\<close> and
    \<open>CachedPrices\<close>: reading price lists, the keys of the cache, answers from the cache, and the
    service with the cache it selects.
  \<^item> \<open>Persistence\<close>: the tables of \<open>persistence/models.py\<close> as lists of records and the queries of
    \<open>repositories.py\<close>; the locale \<open>keyed_store\<close> is interpreted on the table of findings.
    \<open>History\<close> and \<open>Lifecycle\<close>: \<open>scanner/history.py\<close>, its refinement of a map from keys to
    findings, and the invariant of the tables.
  \<^item> \<open>Engine\<close>, \<open>Scan\<close>, \<open>Runs\<close>: \<open>scanner/engine.py\<close>, what detection and reconciliation do, and
    what holds of a whole run. \<open>ScanRunner\<close>: the runner as a step relation, with starts,
    executions, changes of findings and restarts of the process.
  \<^item> \<open>Remediation\<close>: \<open>remediation/eligibility.py\<close>, \<open>plan.py\<close>, \<open>services/narrative.py\<close>.
    \<open>Validators\<close>, \<open>Templates\<close>, \<open>Generator\<close>: \<open>remediation/validators.py\<close> and
    \<open>remediation/scripts\<close>; \<open>ScriptSafety\<close> and \<open>BulkSafety\<close>: what every line of a script does.
    \<open>ScriptService\<close>, \<open>FindingService\<close>: the services of these names.
  \<^item> \<open>PyValue\<close>, \<open>AwsClient\<close>, \<open>AwsMapping\<close>, \<open>AwsProvider\<close>: \<open>providers/aws\<close>, from exceptions, retries,
    pages and the guard over the mapping of responses to the operations of the live provider;
    \<open>LiveProvider\<close>: its constructor and the wrappers it keeps per region.
    \<open>Memoizing\<close>: \<open>providers/memoizing.py\<close>, the provider of one scan.
  \<^item> \<open>Settings\<close>: \<open>core/config.py\<close>, \<open>services/settings_service.py\<close>, \<open>provider_factory.py\<close> and
    \<open>demo_seeder.py\<close>. \<open>Dashboard\<close>: \<open>services/overview_service.py\<close> and \<open>history_service.py\<close>.
    \<open>DemoProvider\<close>: \<open>providers/demo.py\<close>; \<open>DemoFixture\<close>: \<open>fixtures/demo/dataset.json\<close>;
    \<open>Seeding\<close>: what a dataset must hold for the seeder to succeed, and that it does then.
  \<^item> \<open>ApiModels\<close>, \<open>Api\<close>, \<open>Http\<close>: \<open>api/schemas.py\<close>; the routes of \<open>api/router.py\<close>, one
    definition each; and \<open>main.py\<close> with all requests behind \<open>handle\<close>, the exception handlers and
    the start of the process. \<open>Reports\<close>: what the interface says of a finding. \<open>Application\<close>: the
    states reachable by requests, scan threads and restarts, with their invariant.
  \<^item> \<open>CommandLine\<close>: the commands of \<open>cli.py\<close>. \<open>Schema\<close>: the migrations of \<open>alembic/versions\<close> as
    operations on schemas, beside the tables of \<open>persistence/models.py\<close>.
  \<^item> \<open>Example\<close>, \<open>ExampleAws\<close>, \<open>ExamplePrices\<close>, \<open>ExampleApp\<close>: an account with a few resources,
    scanned twice, an AWS of a few calls, price lists, and a demo installation, on which the
    properties are evaluated.

  \<^bold>\<open>State and effects.\<close> The database is the record \<open>db\<close> (findings, observations, scans, next id),
  passed and returned; an operation that raises returns \<open>Inl\<close> with the exception and no
  database, as the session rolls back. Ids are natural numbers, drawn in order, where the code
  draws UUIDs; their text is the canonical UUID. The clock is an argument. A provider is a
  record of functions, because a scan asks through a cache that answers a call once and for all
  (C36). Loops over lists are structural recursion or folds, so no fuel is needed; the one loop
  that may run for ever, over the pages of snapshot locks, is a partial function whose result
  \<open>None\<close> is that it does not end (C39). Decimals keep coefficient and exponent and round half even at 28 digits.

  \<^bold>\<open>What is proved.\<close> C1 to C3 and C15 to C20 say what scans and reconciliation do to the
  findings; C4 to C9 and C35 which scripts are made and what is in them; C10 and C11 how a demo
  and a database are set up; C12 what holds of the whole application at all times, C13 and C14
  what the runner guarantees; C21 to C23 what detection, ownership and classification decide;
  C24, C33 and C34 what overview, lists and reports say; C25 to C29 how prices are computed, read
  and cached; C30 to C32 what requests may change: nothing when they read or are refused, the
  status of a finding, the settings; C36 to C40 the live provider. Theorems about a scan have
  its successful return as a hypothesis; C19 gives conditions for it, which C10 discharges for
  the demo. Lemmas of the same kind that are not in the list, such as the round trip of
  timestamps and scan ids or the account ids outside ASCII, stand beside the properties.

  \<^bold>\<open>Bounds.\<close> Nothing runs on fuel. Decimals have 28 digits as Python's default context has; amounts
  are exact while they fit, which C25 has as a hypothesis. Datetimes of the price cache and the
  demo are checked against the years 1 to 9999; elsewhere instants are unbounded integers of
  microseconds.

  \<^bold>\<open>Not modelled.\<close> The frontend is TypeScript. Reading requests and writing responses as JSON,
  middleware, logging, the parsing of command lines, environment variables and fixture files,
  and making engines, sessions, tables and AWS sessions are work of the libraries. Threads and
  locks are left out: the regions of a scan share only the price cache, the runner's steps are
  atomic because the code holds its lock, and a request and the thread of a scan are whole
  steps, one after the other. The bounds of the database's column types are not modelled, nor is
  the bash semantics of the scripts: the properties of scripts are about their lines and the
  order of the calls in them. boto3, pydantic and SQLAlchemy are libraries: the client of AWS is
  a parameter, rows keep their values when stored, and where a query leaves the order of rows
  open the order of the table is taken. \<open>float\<close>, SHA-256 and the texts of lists and dictionaries
  are parameters. A value of the demo's dataset whose type is not that of its field is one error
  of the model; the shipped dataset has none.
\<close>

section \<open>What a scan does to the findings\<close>

text \<open>
  C1: For every detector whose cell a scan reports as complete, the active findings of that
  detector, account and region after the scan are exactly the resources the detector listed,
  whatever the database held before.
\<close>

theorem scan_mirror:
  assumes "run_scan P pricing st d ps requested scan_id started finished = (ps', Inr (d', s'))"
    and "wf_db d" and "distinct (s_requested_regions s')"
    and "det \<in> set detectors" and "cell_complete s' region (det_type det)"
    and "s_account_id s' = Some a" and "get_identity P = Inr ident" and "r_ok (list_regions P)"
  shows "\<exists>cs. det_scan det P region (context_of st ident (s_started_at s') region) = Inr cs \<and>
           (\<forall>rt rid. (\<exists>f. finding_at d' (a, region, rt, rid, det_type det) = Some f \<and> active f) \<longleftrightarrow>
              (a, region, rt, rid, det_type det) \<in> candidate_key ` set cs)"
proof -
  obtain cs where "det_scan det P region (context_of st ident (s_started_at s') region) = Inr cs"
    using run_scan_mirror [OF assms refl] by blast
  moreover from this have "(\<exists>f. finding_at d' (a, region, rt, rid, det_type det) = Some f \<and> active f) \<longleftrightarrow>
      (a, region, rt, rid, det_type det) \<in> candidate_key ` set cs" for rt rid
    using run_scan_mirror [OF assms refl, of rt rid] by auto
  ultimately show ?thesis by blast
qed

lemma scan_mirror_witness:
  "\<exists>d' s' f. ex_run empty_db 0 = ((), Inr (d', s')) \<and> finding_at d' ex_key = Some f \<and> active f"
proof -
  obtain d' s' where run: "ex_run empty_db 0 = ((), Inr (d', s'))" using ex_run_empty by blast
  note facts = ex_run_facts [OF run]
  have det: "hd detectors \<in> set detectors" and dt: "det_type (hd detectors) = UNATTACHED_EBS_VOLUME"
    and sc: "det_scan (hd detectors) = ebs_scan" by (simp_all add: detectors_def)
  from scan_mirror [OF run [unfolded ex_run_def] _ _ det _ facts(2) ex_provider_simps(1), of ex_region]
  have "\<exists>f. finding_at d' ex_key = Some f \<and> active f"
    using facts empty_db_wf ex_candidate_key by (auto simp: dt sc ex_ebs ex_key_def)
  then show ?thesis using run by blast
qed

text \<open>
  C2: A scan changes no finding outside the cells it reports as complete: a finding of another
  account, of a region or detector that failed or was skipped, stays as it was.
\<close>

theorem scan_leaves_unchanged:
  assumes "run_scan P pricing st d ps requested scan_id started finished = (ps', Inr (d', s'))"
    and "wf_db d" and "\<not> key_covered s' k"
  shows "finding_at d' k = finding_at d k"
  using assms by (rule run_scan_unchanged)

lemma scan_leaves_unchanged_witness:
  "\<exists>d' s'. ex_run empty_db 0 = ((), Inr (d', s')) \<and>
     finding_at d' (ex_account, ex_region, ELASTIC_IP, [], UNASSOCIATED_ELASTIC_IP) = None"
proof -
  obtain d' s' where run: "ex_run empty_db 0 = ((), Inr (d', s'))" using ex_run_empty by blast
  let ?k = "(ex_account, ex_region, ELASTIC_IP, [], UNASSOCIATED_ELASTIC_IP)"
  have "\<not> key_covered s' ?k" using ex_run_facts [OF run] by (simp add: key_covered_def)
  then have "finding_at d' ?k = finding_at empty_db ?k"
    by (rule scan_leaves_unchanged [OF run [unfolded ex_run_def] empty_db_wf])
  then show ?thesis using run by (simp add: finding_at_def empty_db_def get_by_identity_key)
qed

text \<open>
  C3: Every scan keeps the invariant of the tables: keys and ids are unique, every observation
  belongs to a finding, each finding's observation count is the number of its observation
  rows, its times are in order, it is resolved exactly when it has no current streak, and its
  remediation risk is the classification of its own stored ownership, dependencies and
  persistence.
\<close>

theorem scan_keeps_invariant:
  assumes "run_scan P pricing st d ps requested scan_id started finished = (ps', Inr (d', s'))"
    and "scan_inv now d" and "now \<le> s_started_at s'" and "s_started_at s' \<le> finished"
  shows "scan_inv finished d'"
  using run_scan_keeps_inv [OF assms(1,2,3)] assms(3,4) by (simp add: max_def split: if_splits)

lemma scan_keeps_invariant_witness:
  "\<exists>d' s'. ex_run empty_db 0 = ((), Inr (d', s')) \<and> scan_inv 0 d'"
proof -
  obtain d' s' where run: "ex_run empty_db 0 = ((), Inr (d', s'))" using ex_run_empty by blast
  with ex_run_facts(3) [OF run] have "scan_inv 0 d'"
    by (intro scan_keeps_invariant [OF run [unfolded ex_run_def] empty_db_inv [of 0]]) simp_all
  then show ?thesis using run by blast
qed

text \<open>
  C4: A finding may get a deleting script exactly when it is open, its detector is one of the
  two with a deleting body, it has met the persistence threshold, nothing ties it to a stack
  and no known dependency blocks it. The findings are those of any database that satisfies
  the invariant of C3.
\<close>

theorem guarded_eligibility:
  assumes "scan_inv now d" and "f \<in> set (db_findings d)"
  shows "fst (script_kind_for f) = GUARDED_REMEDIATION \<longleftrightarrow>
     f_status f = OPEN \<and> f_detector_type f \<in> {UNATTACHED_EBS_VOLUME, UNASSOCIATED_ELASTIC_IP} \<and>
     f_persistence_state f = PERSISTENT \<and> owner_status f = Some OWN_UNKNOWN \<and>
     \<not> blocking (f_known_dependencies f)"
  using assms by (intro guarded_iff) (simp add: scan_inv_def)

lemma guarded_eligibility_witness:
  "\<exists>d. scan_inv (day 20) d \<and> ex_finding \<in> set (db_findings d) \<and> f_status ex_finding = OPEN"
proof -
  have "ex_finding \<in> set (db_findings ex_db)" by (simp add: ex_db_def)
  from guarded_eligibility [OF ex_db_inv this] have "f_status ex_finding = OPEN"
    by (simp add: ex_finding_kind)
  then show ?thesis using ex_db_inv \<open>ex_finding \<in> set (db_findings ex_db)\<close> by blast
qed

section \<open>Scripts\<close>

text \<open>
  C5: Every line of an investigation script that the service returns is a comment, the one
  line that prints a command for a person, or calls the AWS command line only to describe
  or identify.
\<close>

theorem investigation_only_reads:
  assumes "script_for_finding st now f = Inr g" and "gs_kind g = INVESTIGATION"
    and "l \<in> set (splitlines (gs_content g))"
  shows "comment l \<or> l = printed_hint \<or> only_reads l"
proof -
  from assms(1) obtain a t sc k v where gen: "generate_script (fst (script_kind_for f))
      (f_detector_type f) a t (Some sc) now k v = Inr g" by (rule script_for_finding_Inr)
  with assms(2) have "generate_script INVESTIGATION (f_detector_type f) a t (Some sc) now k v = Inr g"
    by (simp add: generate_script_Inr)
  from investigation_harmless [OF this assms(3)] show ?thesis by (simp add: harmless_def)
qed

lemma investigation_only_reads_witness:
  "\<exists>g. script_for_finding default_settings (utc 0) ex_new_finding = Inr g \<and>
     gs_kind g = INVESTIGATION \<and>
     (\<forall>l \<in> set (splitlines (gs_content g)). comment l \<or> l = printed_hint \<or> only_reads l)"
proof -
  obtain g where g: "script_for_finding default_settings (utc 0) ex_new_finding = Inr g"
    using ex_new_script by blast
  have "gs_kind g = INVESTIGATION" using for_finding_kind [OF g] ex_new_finding_kind by simp
  with investigation_only_reads [OF g] show ?thesis using g by blast
qed



text \<open>
  C7: A bulk script acts on exactly the eligible findings of the account of the first eligible
  one, in the order of the request; every other finding of the request is reported as skipped
  with its reason; and there is no script when nothing is eligible.
\<close>

theorem bulk_script_selection:
  assumes "bulk_script st now fs = Inr r"
  shows "br_included r = map f_id (filter (selected (first_account fs)) fs) \<and>
     br_skipped r = map skip_entry (filter (Not \<circ> selected (first_account fs)) fs) \<and>
     (case br_script r of
        None \<Rightarrow> find eligible fs = None
      | Some g \<Rightarrow>
          main_lines (splitlines (gs_content g)) =
            [lit ''  require_aws_cli'', lit ''  verify_account''] @
            map call_for (filter (selected (first_account fs)) fs) @ [lit ''  bulk_summary''])"
  using bulk_script_Inr [OF assms] by (auto split: option.splits)

lemma bulk_script_selection_witness:
  "\<exists>r g. bulk_script default_settings (utc 0) [ex_new_finding, ex_finding] = Inr r \<and>
     br_script r = Some g \<and> br_included r = [5] \<and>
     br_skipped r = [(uuid_text 6, script_unavailable_text R_NEWLY_OBSERVED)]"
proof -
  let ?fs = "[ex_new_finding, ex_finding]"
  obtain r where r: "bulk_script default_settings (utc 0) ?fs = Inr r" using ex_bulk by blast
  have ids: "f_account_id ex_finding = ex_account" "f_id ex_finding = 5" "f_id ex_new_finding = 6"
    by (simp_all add: ex_finding_def ex_new_finding_def)
  have acct: "first_account ?fs = Some ex_account"
    by (simp add: first_account_def eligible_def ex_new_finding_kind ex_finding_kind ids)
  have sel: "selected (Some ex_account) ex_finding" "\<not> selected (Some ex_account) ex_new_finding"
    by (simp_all add: selected_def eligible_def ex_new_finding_kind ex_finding_kind ids)
  from bulk_script_selection [OF r] have *: "br_included r = [5]" "br_script r \<noteq> None"
    "br_skipped r = [(uuid_text 6, script_unavailable_text R_NEWLY_OBSERVED)]"
    by (auto simp: acct sel skip_entry_def skip_reason_def ex_new_finding_kind eligible_def
        ex_finding_kind ids split: option.splits)
  then show ?thesis using r by blast
qed

text \<open>
  C8: The script service always returns a script for a finding whose stored values validate,
  with an account and a region in ASCII, and it is of the kind eligibility decided.
\<close>

theorem script_returned:
  assumes "scriptable st f" and "aware now"
  shows "\<exists>g. script_for_finding st now f = Inr g \<and> gs_kind g = fst (script_kind_for f)"
  using script_for_finding_ok [OF assms] for_finding_kind by (auto simp: r_ok_iff)

lemma script_returned_witness:
  "\<exists>g. script_for_finding default_settings (utc 0) ex_finding = Inr g \<and>
     gs_kind g = GUARDED_REMEDIATION"
  using script_returned [OF ex_scriptable, of "utc 0"] ex_finding_kind by simp

text \<open>
  C9: Whatever the identifiers, a script that is returned is printable ASCII, its lines are
  those of the fixed templates, and every line that starts with \<open>readonly\<close> assigns a value
  made of letters, digits and \<open>_.:/+@-\<close>.
\<close>

theorem script_content_safe:
  assumes "generate_script kind d a t sc at' k v = Inr g"
  shows "(\<forall>c \<in> set (gs_content g). c = 10 \<or> printable c) \<and>
     splitlines (gs_content g) = script_lines kind d a t sc at' k v \<and>
     (\<forall>l \<in> set (splitlines (gs_content g)). starts_with l (lit ''readonly '') \<longrightarrow> readonly_ok l)"
proof -
  have "assert_safe (gs_content g) = Inr ()" using assms by (auto simp: generate_script_Inr)
  then show ?thesis
    using script_splitlines(1) [OF assms] by (auto simp: assert_safe_Inr list_all_iff)
qed

lemma script_content_safe_witness:
  "\<exists>a t sc k v g. generate_script GUARDED_REMEDIATION UNATTACHED_EBS_VOLUME a t sc (utc 0) k v = Inr g \<and>
     (\<forall>c \<in> set (gs_content g). c = 10 \<or> printable c)"
proof -
  obtain g0 where "script_for_finding default_settings (utc 0) ex_finding = Inr g0"
    using ex_script by blast
  then obtain a t sc k v where
    g: "generate_script GUARDED_REMEDIATION UNATTACHED_EBS_VOLUME a t (Some sc) (utc 0) k v = Inr g0"
    by (rule script_for_finding_Inr) (simp add: ex_finding_kind ex_finding_type)
  then show ?thesis using script_content_safe [OF g] by blast
qed

text \<open>
  The account validator accepts twelve decimal digits of any script, but no script is made
  for an account id outside ASCII: the last check of the generator refuses it.
\<close>

lemma non_ascii_account_refused:
  assumes "validate_account_id acct = Inr a" and "\<not> is_ascii acct"
  shows "\<not> r_ok (generate_script kind d a t sc at' k v)"
proof
  assume "r_ok (generate_script kind d a t sc at' k v)"
  then obtain g where g: "generate_script kind d a t sc at' k v = Inr g" by (auto simp: r_ok_iff)
  have "id_value a = acct" using assms(1) by (simp add: validate_account_id_iff)
  moreover have "lit ''# Expected account: '' @ id_value a \<in> set (script_lines kind d a t sc at' k v)"
    by (simp add: script_lines_def header_comments_simps)
  then have "clean (id_value a)"
    using script_splitlines(2) [OF g] by (auto simp: list_all_iff)
  ultimately show False
    using assms(2) by (auto simp: clean_def list_all_iff is_ascii_def printable_def)
qed

lemma non_ascii_account_refused_witness:
  "\<exists>a. validate_account_id (replicate 12 1632) = Inr a \<and>
     \<not> r_ok (generate_script INVESTIGATION UNATTACHED_EBS_VOLUME a
        \<lparr>tg_region = a, tg_resource_id = a\<rparr> None (utc 0) a a)"
proof -
  have "unicode_digit 1632" by (simp add: unicode_digit_def nd_zeros_def)
  then have v: "validate_account_id (replicate 12 1632) =
      Inr \<lparr>id_kind = K_ACCOUNT_ID, id_value = replicate 12 1632\<rparr>"
    by (simp add: validate_account_id_iff)
  have "\<not> is_ascii (replicate 12 1632)" by (simp add: is_ascii_def)
  from non_ascii_account_refused [OF v this] v show ?thesis by blast
qed

text \<open>
  The text of a scan's id reads back as the same id, and the scan id validator accepts it
  unchanged.
\<close>

lemma scan_id_round_trip:
  assumes "n < 16 ^ 32"
  shows "parse_uuid (uuid_text n) = Some n \<and>
     validate_scan_id (uuid_text n) = Inr \<lparr>id_kind = K_SCAN_ID, id_value = uuid_text n\<rparr>"
proof -
  have "n mod 16 ^ 32 = n" using assms by (rule mod_less)
  then show ?thesis using parse_uuid_text [of n] validate_scan_id_uuid [OF assms] by simp
qed

lemma scan_id_round_trip_witness: "parse_uuid (uuid_text 3735928559) = Some 3735928559"
  using scan_id_round_trip [of 3735928559] by simp

section \<open>Setting up and running scans\<close>



text \<open>
  C11: The migrations build, from an empty database, the tables that the models declare; and on
  any well-formed schema that a migration applies to, its downgrade gives the schema back.
\<close>

theorem schema_migrations:
  "(case migrate (upgrade_0001 @ upgrade_0002) [] of
      None \<Rightarrow> False | Some s \<Rightarrow> same_schema s models_schema \<and> wf_schema s) \<and>
   (wf_schema s \<longrightarrow> migrate upgrade_0001 s = Some s1 \<longrightarrow> migrate downgrade_0001 s1 = Some s) \<and>
   (wf_schema s \<longrightarrow> migrate upgrade_0002 s = Some s2 \<longrightarrow> migrate downgrade_0002 s2 = Some s)"
proof -
  have "migrate downgrade_0001 s1 = Some s" if "wf_schema s" "migrate upgrade_0001 s = Some s1"
    using undo_migration [OF that downgrade_0001_undoes] by simp
  moreover have "migrate downgrade_0002 s2 = Some s" if "wf_schema s" "migrate upgrade_0002 s = Some s2"
    using undo_migration [OF that downgrade_0002_undoes] by simp
  ultimately show ?thesis using migrations_same by blast
qed

lemma schema_migrations_witness:
  "\<exists>s1 s2. migrate upgrade_0001 [] = Some s1 \<and> migrate upgrade_0002 s1 = Some s2 \<and>
     migrate downgrade_0002 s2 = Some s1 \<and> migrate downgrade_0001 s1 = Some []"
proof -
  from schema_migrations [of "[]"] obtain s2 where
    "migrate (upgrade_0001 @ upgrade_0002) [] = Some s2"
    by (cases "migrate (upgrade_0001 @ upgrade_0002) []") simp_all
  then obtain s1 where up: "migrate upgrade_0001 [] = Some s1" "migrate upgrade_0002 s1 = Some s2"
    by (auto simp: migrate_append bind_eq_Some_conv)
  have e: "wf_schema []" by (simp add: wf_schema_def)
  have "wf_schema s1" using undo_migration [OF e up(1) downgrade_0001_undoes] by simp
  then show ?thesis using schema_migrations [of "[]" s1] schema_migrations [of s1 _ s2] e up by blast
qed

text \<open>
  C12: Whatever the order of requests, scan threads and starts of the process since the
  installation, and whatever provider, prices and dataset they meet: the tables keep the
  invariant of the scans, at most one scan is in the running state, a scan that the runner holds
  is stored and no other is running, and the stored settings are valid.
\<close>

theorem application_invariant:
  assumes "app_reachable cx opened demo now st"
  shows "scan_inv now (ap_db st) \<and> length (running_rows (ap_db st)) \<le> 1 \<and>
     (\<forall>i. rn_current (ap_runner st) = Some i \<longrightarrow>
        (\<exists>s. get_scan (ap_db st) i = Some s) \<and> (\<forall>s \<in> set (running_rows (ap_db st)). s_id s = i)) \<and>
     (\<forall>settings. ap_settings st = Some settings \<longrightarrow> settings_ok (cx_env cx) settings)"
  using reachable_app_inv [OF assms]
  by (auto simp: app_inv_def tables_inv_def runner_inv_def)

lemma application_invariant_witness:
  "\<exists>st. app_reachable ex_context (\<lambda>choice. Inr ex_provider) (\<lambda>step anchor. Inr ex_provider) 0 st \<and>
     rn_current (ap_runner st) = Some 0 \<and>
     length (running_rows (ap_db st)) \<le> 1 \<and> scan_inv 0 (ap_db st)"
proof -
  have "app_reachable ex_context (\<lambda>choice. Inr ex_provider) (\<lambda>step anchor. Inr ex_provider) 0 ex_installed"
    unfolding ex_installed_def by (rule app_reachable.Installed) (simp_all add: empty_db_def)
  then have r: "app_reachable ex_context (\<lambda>choice. Inr ex_provider) (\<lambda>step anchor. Inr ex_provider) 0 (after_request ex_context 0 ex_scan_request ex_installed)"
    by (rule app_reachable.Request) simp
  have "rn_current ex_started = Some 0" using start_scan_Inr(3) [OF ex_start] .
  with application_invariant [OF r] r ex_scan_requested show ?thesis by auto
qed

text \<open>
  From any state that satisfies the runner's invariant, such as an empty database, at most
  one scan is ever in the running state, whatever the order of starts, executions, changes of
  findings and restarts; and while the runner holds a scan, no other scan is running.
\<close>

lemma one_running_scan:
  assumes "reachable r0 r" and "runner_inv r0"
  shows "length (running_rows (rn_db r)) \<le> 1 \<and>
     (\<forall>i. rn_current r = Some i \<longrightarrow> (\<forall>s \<in> set (running_rows (rn_db r)). s_id s = i))"
  using reachable_inv [OF assms] by (simp add: runner_inv_def)

lemma one_running_scan_witness:
  "\<exists>r i. reachable ex_runner r \<and> rn_current r = Some i \<and> length (running_rows (rn_db r)) \<le> 1"
proof -
  have "runner_step ex_runner ex_started" by (rule Start [OF ex_start])
  then have r: "reachable ex_runner ex_started" using reach_refl reach_step by blast
  have "rn_current ex_started = Some 0" using start_scan_Inr(3) [OF ex_start] .
  with one_running_scan [OF r ex_runner_inv] show ?thesis using r by blast
qed

text \<open>
  C13: A request for a scan is accepted exactly when its regions are valid and no scan is
  running; otherwise it is answered with 422 or 409 and changes nothing. An accepted scan is
  stored, and it ends, whatever the provider, the settings or the pricing do: its row is closed
  and the runner is free when the answer was waited for, and after its thread otherwise.
\<close>

theorem scan_request_closes:
  "case create_scan fl cx now body st of
     (st', Inl e) \<Rightarrow>
       \<not> (scan_create_valid body \<and> rn_current (ap_runner st) = None \<and> running_rows (ap_db st) = []) \<and>
       st' = st \<and> fst (error_response e) = (if scan_create_valid body then 409 else 422)
   | (st', Inr v) \<Rightarrow>
       scan_create_valid body \<and> rn_current (ap_runner st) = None \<and> running_rows (ap_db st) = [] \<and>
       get_scan (ap_db st') (s_id (so_scan v)) = Some (so_scan v) \<and>
       (if ci_wait body
        then closed (ap_db st') (s_id (so_scan v)) \<and> rn_current (ap_runner st') = None
        else s_status (so_scan v) = SCAN_RUNNING \<and> rn_current (ap_runner st') = Some (s_id (so_scan v)) \<and>
          (\<forall>now'. closed (ap_db (scan_thread cx now' (s_id (so_scan v)) (ci_regions body) st')) (s_id (so_scan v)) \<and>
             rn_current (ap_runner (scan_thread cx now' (s_id (so_scan v)) (ci_regions body) st')) = None))"
proof (cases "scan_create_valid body \<and> rn_current (ap_runner st) = None \<and> running_rows (ap_db st) = []")
  case False
  from create_scan_refused [OF this, of fl cx now] False show ?thesis by auto
next
  case True
  then obtain st' v where "create_scan fl cx now body st = (st', Inr v)"
    using create_scan_accepted [of body st fl cx now] by blast
  with create_scan_accepted [of body st fl cx now] True show ?thesis by simp
qed

lemma scan_request_closes_witness:
  "\<exists>st' v. create_scan (\<lambda>x. x) ex_context 0 \<lparr>ci_regions = None, ci_wait = True\<rparr> ex_installed = (st', Inr v) \<and>
     closed (ap_db st') (s_id (so_scan v)) \<and> rn_current (ap_runner st') = None"
proof -
  have free: "scan_create_valid \<lparr>ci_regions = None, ci_wait = True\<rparr> \<and>
      rn_current (ap_runner ex_installed) = None \<and> running_rows (ap_db ex_installed) = []"
    by (simp add: scan_create_valid_def regions_are_valid_def ex_installed_runner ex_runner_def
        empty_db_def running_rows_def)
  from scan_request_closes [where fl = "\<lambda>x. x" and cx = ex_context and now = 0
      and body = "\<lparr>ci_regions = None, ci_wait = True\<rparr>" and st = ex_installed] free
  show ?thesis by (auto split: prod.splits sum.splits)
qed

text \<open>
  A scan that was started and executed is closed, whatever the provider, the settings or
  the pricing do: its row is no longer running and has an end time, and the runner is free.
\<close>

lemma started_scan_closes:
  assumes "start_scan m r regions now = Inr (i, r1)"
  shows "closed (rn_db (execute m built outcome now' r1 i regions)) i \<and>
     rn_current (execute m built outcome now' r1 i regions) = None"
  using start_execute_closed [OF assms] by blast

lemma started_scan_closes_witness:
  "closed (rn_db (execute DEMO (Inl ScanConflictError :: py_exc + cached_ingredients)
     (Inl ScanConflictError) (day 1) ex_started 0 None)) 0"
  using started_scan_closes [OF ex_start] by blast



section \<open>The history of a finding\<close>

text \<open>
  C15: Reconciling a complete cell refines the update of one map from keys to findings: each
  candidate's key is mapped to its observation, an active finding of the cell that was not
  observed is resolved, and every other key keeps its finding; the count of new findings is
  the number of candidates whose key was free, the count of resolved ones the number of
  active findings of the cell that were not observed.
\<close>

theorem reconcile_refines_map:
  assumes "wf_db d" and "reconcile d s region dt cs CELL_COMPLETE st t = Inr (d', r)"
  shows "wf_db d' \<and>
     (\<forall>c \<in> set cs. \<exists>i f. observe st dt s t c i (finding_at d (candidate_key c)) = Inr f \<and>
        finding_at d' (candidate_key c) = Some f) \<and>
     (\<forall>k. k \<notin> candidate_key ` set cs \<longrightarrow>
        finding_at d' k =
          (if key_in_cell (scan_account s) region dt k
           then map_option (resolve_if_active t) (finding_at d k) else finding_at d k)) \<and>
     rr_new r = int (length (filter (\<lambda>c. finding_at d (candidate_key c) = None) cs)) \<and>
     rr_resolved r = int (length (filter (lost (scan_account s) region dt cs) (db_findings d)))"
  using reconcile_refines [OF assms] reconcile_resolved_count [OF assms] by blast

lemma reconcile_refines_map_witness:
  "\<exists>d' r. reconcile ex_db ex_scan ex_region UNATTACHED_EBS_VOLUME [] CELL_COMPLETE default_settings (day 30)
       = Inr (d', r) \<and> rr_resolved r = 1 \<and>
     finding_at d' ex_key = Some (resolve_finding (day 30) ex_finding)"
proof -
  have wf: "wf_db ex_db" using ex_db_inv by (simp add: scan_inv_def)
  obtain d' r where rec: "reconcile ex_db ex_scan ex_region UNATTACHED_EBS_VOLUME [] CELL_COMPLETE
      default_settings (day 30) = Inr (d', r)" using ex_reconcile by blast
  have "finding_at ex_db ex_key = Some ex_finding" and "lost ex_account ex_region UNATTACHED_EBS_VOLUME [] ex_finding"
    and "active ex_finding" and "key_in_cell ex_account ex_region UNATTACHED_EBS_VOLUME ex_key"
    using ex_db_facts by auto
  moreover from reconcile_refines_map [OF wf rec] have "rr_resolved r =
      int (length (filter (lost ex_account ex_region UNATTACHED_EBS_VOLUME []) [ex_finding]))"
    and "\<forall>k. k \<notin> candidate_key ` set [] \<longrightarrow> finding_at d' k =
          (if key_in_cell ex_account ex_region UNATTACHED_EBS_VOLUME k
           then map_option (resolve_if_active (day 30)) (finding_at ex_db k) else finding_at ex_db k)"
    unfolding ex_scan_account ex_db_findings by blast+
  ultimately have "rr_resolved r = 1"
    and "finding_at d' ex_key = Some (resolve_finding (day 30) ex_finding)"
    by (simp_all add: resolve_if_active_def del: split_paired_All)
  then show ?thesis using rec by blast
qed

text \<open>
  C16: A reconciliation succeeds when its candidates have different keys and none of their
  findings was already observed by this scan; two candidates with one key make the second
  observation violate the unique constraint, and the whole scan fails with an integrity error.
\<close>

theorem reconcile_outcome:
  assumes "wf_db d" and "thresholds_total st"
  shows "(distinct (map candidate_key cs) \<and> unobserved d s cs \<longrightarrow>
            r_ok (reconcile d s region dt cs cov st t)) \<and>
         (\<not> distinct (map candidate_key cs) \<longrightarrow>
            reconcile d s region dt cs CELL_COMPLETE st t = Inl duplicate_observation)"
  using reconcile_ok [OF assms] reconcile_fails_duplicate [OF assms] by blast

lemma reconcile_outcome_witness:
  "reconcile empty_db ex_scan ex_region UNATTACHED_EBS_VOLUME [ex_candidate, ex_candidate] CELL_COMPLETE
     default_settings 0 = Inl duplicate_observation"
  using reconcile_outcome [OF empty_db_wf default_thresholds_total] by simp

text \<open>
  C17: An observation extends the current streak of a finding or, after a resolution, starts a
  new one; a dismissed finding stays dismissed; the finding is persistent exactly when the
  streak is at least as long as the detector's threshold in days and has at least the
  configured number of consecutive observations; and its risk is classified anew.
\<close>

theorem observation_of_finding:
  assumes "observe st dt s t c i (Some f0) = Inr f" and "f_detector_type f0 = fc_detector_type c"
  shows "f_first_observed_at f = f_first_observed_at f0 \<and> f_last_observed_at f = t \<and>
     f_observation_count f = f_observation_count f0 + 1 \<and>
     f_consecutive_observations f =
       (if f_status f0 = RESOLVED then 1 else f_consecutive_observations f0 + 1) \<and>
     f_streak_started_at f = (if f_status f0 = RESOLVED then t else f_streak_started_at f0) \<and>
     (f_status f0 = DISMISSED \<longrightarrow> f_status f = DISMISSED) \<and>
     (\<exists>threshold. st_thresholds_days st (fc_detector_type c) = Some threshold \<and>
        (f_persistence_state f = PERSISTENT \<longleftrightarrow>
           threshold * us_per_day \<le> t - f_streak_started_at f \<and>
           st_min_consecutive_observations st \<le> f_consecutive_observations f)) \<and>
     f_remediation_risk f =
       classify_remediation_risk dt (f_persistence_state f) (fc_ownership c)
         (fc_known_dependencies c)"
proof -
  have times: "f_last_observed_at f = t" using observe_times [OF assms(1)] by simp
  obtain threshold where th: "st_thresholds_days st (fc_detector_type c) = Some threshold"
    "f_persistence_state f = persistence_of threshold (st_min_consecutive_observations st) f"
    using observe_judgement [OF assms(1)] assms(2) by auto
  then have "f_persistence_state f = PERSISTENT \<longleftrightarrow>
      threshold * us_per_day \<le> t - f_streak_started_at f \<and>
      st_min_consecutive_observations st \<le> f_consecutive_observations f"
    using times by (simp add: persistence_of_def td_days_ge_iff)
  then show ?thesis
    using th(1) observe_times [OF assms(1)] observe_counts [OF assms(1)] observe_status [OF assms(1)]
      observe_judgement [OF assms(1)] assms(2) by auto
qed

lemma observation_of_finding_witness:
  "\<exists>f. observe default_settings UNATTACHED_EBS_VOLUME ex_scan (day 30) ex_candidate 9 (Some ex_finding) = Inr f \<and>
     f_observation_count f = 3 \<and> f_consecutive_observations f = 3"
proof -
  obtain f where f: "observe default_settings UNATTACHED_EBS_VOLUME ex_scan (day 30) ex_candidate 9
      (Some ex_finding) = Inr f" using observe_ok [OF default_thresholds_total] by blast
  have "f_detector_type ex_finding = fc_detector_type ex_candidate"
    by (simp add: ex_finding_type ex_candidate_type)
  from observation_of_finding [OF f this] show ?thesis using f by (simp add: ex_finding_def)
qed

text \<open>
  C18: No finding is lost: after a scan every finding that was stored is still stored under its
  key, with its id, its first observation and its dismissal, its count has not decreased, and
  a dismissed one has not been reopened.
\<close>

theorem scan_loses_nothing:
  assumes "run_scan P pricing st d ps requested scan_id started finished = (ps', Inr (d', s'))"
    and "wf_db d" and "distinct (s_requested_regions s')" and "finding_at d k = Some f0"
  shows "\<exists>f. finding_at d' k = Some f \<and> continues f0 f"
  using assms by (rule run_scan_continues)

lemma scan_loses_nothing_witness:
  "\<exists>d' s' f. ex_run ex_db (day 30) = ((), Inr (d', s')) \<and> finding_at d' ex_key = Some f \<and>
     continues ex_finding f"
proof -
  have wf: "wf_db ex_db" using ex_db_inv by (simp add: scan_inv_def)
  obtain d' s' where run: "ex_run ex_db (day 30) = ((), Inr (d', s'))" using ex_run_db by blast
  from scan_loses_nothing [OF run [unfolded ex_run_def] wf _ ex_db_facts(1)] ex_run_facts(1) [OF run]
  show ?thesis using run by simp
qed

text \<open>
  C19: A scan of all regions ends with a result, whatever part of the provider fails, as long
  as the identity is known, the failures are those of the provider, the configured regions are
  all different and each listing names a resource once.
\<close>

theorem scan_ends:
  assumes "r_ok (get_identity P)" and "provider_only (list_regions P)"
    and "thresholds_total st" and "0 < st_max_region_concurrency st" and "wf_db d"
    and "\<And>rs. requested = None \<Longrightarrow> st_regions st = Some rs \<Longrightarrow> distinct rs"
    and "\<forall>ob \<in> set (db_observations d). ob_scan_id ob \<noteq> db_next_id d"
    and "\<And>region ctx. lists_once P region ctx"
  shows "\<exists>ps' d' s'. run_scan P pricing st d ps requested None started finished = (ps', Inr (d', s'))"
  using assms by (rule run_scan_total)

lemma scan_ends_witness:
  "\<exists>ps' d' s'. run_scan ex_provider ex_pricing default_settings empty_db () None None 0 0 =
     (ps', Inr (d', s'))"
  by (rule scan_ends [OF _ _ default_thresholds_total _ empty_db_wf])
    (simp_all add: provider_only_def default_settings_def ex_lists_once empty_db_def)



section \<open>Judging a resource\<close>

text \<open>
  C21: The remediation risk is LOW exactly for a persistent, unowned, unblocked volume or
  address, HIGH exactly when a stack owns the resource or a known dependency blocks it, and it
  never decreases when the evidence of ownership grows, a dependency becomes blocking or the
  condition is newly observed.
\<close>

theorem remediation_risk_classes:
  "(classify_remediation_risk dt ps ow deps = RISK_LOW \<longleftrightarrow>
      dt \<in> {UNATTACHED_EBS_VOLUME, UNASSOCIATED_ELASTIC_IP} \<and> ps = PERSISTENT \<and>
      ow_status ow = OWN_UNKNOWN \<and> \<not> blocking deps) \<and>
   (classify_remediation_risk dt ps ow deps = RISK_HIGH \<longleftrightarrow>
      ow_status ow = OWN_CONFIRMED \<or> blocking deps) \<and>
   (ownership_rank (ow_status ow) \<le> ownership_rank (ow_status ow') \<and>
    (blocking deps \<longrightarrow> blocking deps') \<and> (ps' = PERSISTENT \<longrightarrow> ps = PERSISTENT) \<longrightarrow>
    classify_remediation_risk dt ps ow deps \<le> classify_remediation_risk dt ps' ow' deps')"
  using risk_monotone [of ow ow' deps deps' ps' ps dt]
  by (intro conjI risk_low_iff risk_high_iff) blast

lemma remediation_risk_classes_witness:
  "classify_remediation_risk UNATTACHED_EBS_VOLUME PERSISTENT default_ownership [] = RISK_LOW"
  using remediation_risk_classes [of UNATTACHED_EBS_VOLUME PERSISTENT default_ownership "[]"]
  by (simp add: default_ownership_def)

text \<open>
  C22: When the stack resources of a region can be listed, a resource is reported as owned by a
  stack exactly when a stack resource has its physical id; when they cannot, ownership is at
  most likely, and it is likely exactly when the resource carries a tag of CloudFormation.
\<close>

theorem ownership_evidence:
  assumes "resolver_inv P region rv" and "resolve P region rv c = (rv', Inr ow)"
  shows "case list_stack_resources P region of
     Inr rs \<Rightarrow> (ow_status ow = OWN_CONFIRMED \<longleftrightarrow>
                  (\<exists>r \<in> set rs. sr_physical_id r = Some (fc_resource_id c)))
   | Inl e \<Rightarrow> ow_status ow = (if carries_tags (fc_tags c) then OWN_LIKELY else OWN_UNKNOWN)"
  using resolve_confirmed_listed [OF assms(1) _ assms(2)] resolve_without_index [OF assms(1) _ assms(2)]
  by (auto split: sum.splits)

lemma ownership_evidence_witness:
  "\<exists>rv' ow. resolve ex_provider ex_region new_resolver ex_candidate = (rv', Inr ow) \<and>
     ow_status ow \<noteq> OWN_CONFIRMED"
proof -
  obtain rv' ow where r: "resolve ex_provider ex_region new_resolver ex_candidate = (rv', Inr ow)"
    using ex_resolve by blast
  have "fc_resource_id ex_candidate = ex_volume_id"
    using ex_candidate_key by (simp add: ex_candidate_def candidate_key_def)
  then have "sr_physical_id ex_stack \<noteq> Some (fc_resource_id ex_candidate)"
    by (simp add: ex_stack_def ex_volume_id_def ex_attached_id_def)
  with ownership_evidence [OF new_resolver_inv r] show ?thesis using r by simp
qed



text \<open>
  C24: In a database that satisfies the invariant of C3, the three risk counters of the
  overview add up to the number of open findings, and so do the counts by resource type; the
  history lists as many scans as asked for, in the order of their start.
\<close>

theorem overview_adds_up:
  fixes fl :: "decimal \<Rightarrow> 'f" and mode_text :: pystr and account_id :: "pystr option"
    and scan_running :: bool
  assumes "scan_inv now d"
  defines "ov \<equiv> build_overview fl d mode_text account_id scan_running"
  shows "ov_open_findings ov =
       ov_persistent_low_risk_candidates ov + ov_review_required ov + ov_high_risk ov \<and>
     ov_open_findings ov =
       (\<Sum>rt \<leftarrow> resource_types.
          case ov_findings_by_resource_type ov rt of None \<Rightarrow> 0 | Some n \<Rightarrow> n) \<and>
     length (history_points fl d limit) = min limit (length (db_scans d)) \<and>
     sorted (map pt_started_at (history_points fl d limit))"
proof -
  have "\<forall>f \<in> set (filter (\<lambda>f. f_status f = OPEN) (db_findings d)). judged f"
    using assms(1) by (simp add: scan_inv_def)
  from risk_partition [OF this] show ?thesis
    by (simp add: ov_def build_overview_def Let_def counter_total history_length history_sorted)
qed

lemma overview_adds_up_witness:
  "ov_open_findings (build_overview id ex_db (lit ''live'') None False) =
     ov_persistent_low_risk_candidates (build_overview id ex_db (lit ''live'') None False) +
     ov_review_required (build_overview id ex_db (lit ''live'') None False) +
     ov_high_risk (build_overview id ex_db (lit ''live'') None False)"
  using overview_adds_up [OF ex_db_inv, of id "lit ''live''" None False 0] by simp

section \<open>Prices\<close>

text \<open>
  C25: The amount computed for a volume is the exact sum of its line items, with no rounding,
  as long as every line fits the given number of digits; and each line is the product of its
  quantity and unit price.
\<close>

theorem volume_price_exact:
  assumes "calculate_ebs r up = Inr (amount, lines, notes)"
    and "\<forall>l \<in> set lines. fits k b (li_monthly_cost l)" and "0 \<le> b"
    and "int (length lines) * b < 10 ^ 28"
  shows "dec_val amount = (\<Sum>l \<leftarrow> lines. dec_val (li_monthly_cost l)) \<and>
     (\<forall>l \<in> set lines. li_monthly_cost l = dec_mul (li_quantity l) (li_unit_price l))"
proof -
  have "calculate (EbsVolumePricingRequest r) up = Inr (amount, lines, notes)"
    using assms(1) by simp
  from calculate_priced [OF this] show ?thesis
    using ebs_amount_exact(1) [OF assms] by (auto simp: priced_line_def)
qed

lemma volume_price_exact_witness:
  "\<exists>amount lines notes. calculate_ebs ex_gp2 ex_prices = Inr (amount, lines, notes) \<and>
     dec_val amount = (\<Sum>l \<leftarrow> lines. dec_val (li_monthly_cost l))"
proof -
  obtain amount texts where c: "calculate_ebs ex_gp2 ex_prices = Inr (amount, [ex_line], texts)"
    using ex_calculate by blast
  from volume_price_exact [OF c, of 2 1000] ex_line_fits show ?thesis using c by auto
qed

text \<open>
  C26: The lines of a tiered io2 price cover every provisioned operation once: when the tiers
  follow each other from zero without a gap, the billed quantities add up to the number of
  provisioned operations.
\<close>

theorem tiers_bill_once:
  assumes "contiguous 0 ts" and "0 \<le> n"
  shows "(\<Sum>l \<leftarrow> tier_lines n i ts. dec_val (li_quantity l)) = rat_of_int n"
  using assms by (rule tier_lines_total)

lemma tiers_bill_once_witness:
  "(\<Sum>l \<leftarrow> tier_lines 40000 1
      [\<lparr>it_begin = 0, it_end = Some 32000, it_unit_price = Dec 65 (- 3)\<rparr>,
       \<lparr>it_begin = 32000, it_end = None, it_unit_price = Dec 46 (- 3)\<rparr>]. dec_val (li_quantity l)) = 40000"
  using tiers_bill_once [of "[\<lparr>it_begin = 0, it_end = Some 32000, it_unit_price = Dec 65 (- 3)\<rparr>,
       \<lparr>it_begin = 32000, it_end = None, it_unit_price = Dec 46 (- 3)\<rparr>]" 40000 1] by simp

text \<open>
  The shipped price table prices every request about the seven known volume types, with
  the confidence of the table: LOW for a snapshot, MEDIUM otherwise.
\<close>

lemma shipped_table_prices:
  assumes "\<forall>r \<in> set (request_volumes req). er_volume_type r \<in> set volume_types"
  shows "\<exists>res amount. fallback_estimate fallback_prices req = Inr res \<and>
           pr_estimated_monthly_cost res = Some amount \<and> pr_source res = FALLBACK_TABLE \<and>
           pr_cost_confidence res = (if is_snapshot_request req then COST_LOW else COST_MEDIUM)"
  using fallback_prices_known [OF fallback_prices_complete assms] by blast

lemma shipped_table_prices_witness:
  "\<exists>res amount. fallback_estimate fallback_prices (ElasticIpPricingRequest ex_region) = Inr res \<and>
     pr_estimated_monthly_cost res = Some amount"
  using shipped_table_prices [of "ElasticIpPricingRequest ex_region"] by auto

text \<open>
  Whatever the price interface does, an estimate has an amount exactly when it is not
  marked unavailable, as long as that interface answers coherently; and when the interface
  fails, the estimate is the one of the fallback table, up to its warnings.
\<close>

lemma estimate_degrades:
  assumes "fallback_estimate table req = Inr r" and "st_pricing_mode st = PM_AUTO"
    and "\<And>s s' x. api s req = (s', Inr x) \<Longrightarrow> coherent x"
  shows "coherent (snd (estimate st (Some api) (fallback_backend table) s req)) \<and>
     ((\<forall>s. \<exists>s' e. api s req = (s', Inl e)) \<longrightarrow>
        (\<exists>w. snd (estimate st (Some api) (fallback_backend table) s req) = r\<lparr>pr_warnings := w\<rparr>))"
proof -
  have "coherent x" if "b \<in> set ([api] @ [fallback_backend table])" "b u req = (u', Inr x)" for b u u' x
    using that assms(3) fallback_coherent by (auto simp: fallback_backend_def)
  then have "coherent (snd (try_backends ([api] @ [fallback_backend table]) s req []))"
    by (rule try_backends_coherent)
  then have "coherent (snd (estimate st (Some api) (fallback_backend table) s req))"
    using assms(2) by (simp add: estimate_def del: try_backends.simps)
  moreover have "\<exists>w. snd (estimate st (Some api) (fallback_backend table) s req) = r\<lparr>pr_warnings := w\<rparr>"
    if "\<forall>s. \<exists>s' e. api s req = (s', Inl e)"
    by (rule estimate_fallback [OF _ _ assms(1)]) (use assms(2) that in auto)
  ultimately show ?thesis by blast
qed

lemma estimate_degrades_witness:
  "\<exists>r w. fallback_estimate fallback_prices (ElasticIpPricingRequest ex_region) = Inr r \<and>
     snd (estimate default_settings (Some (\<lambda>s q. (s, Inl (PricingLookupError []))))
            (fallback_backend fallback_prices) () (ElasticIpPricingRequest ex_region)) =
       r\<lparr>pr_warnings := w\<rparr>"
proof -
  have "\<forall>q \<in> set (request_volumes (ElasticIpPricingRequest ex_region)). er_volume_type q \<in> set volume_types"
    by simp
  from fallback_prices_known [OF fallback_prices_complete this] obtain r where
    r: "fallback_estimate fallback_prices (ElasticIpPricingRequest ex_region) = Inr r" by blast
  from estimate_degrades [OF r, of default_settings "\<lambda>s q. (s, Inl (PricingLookupError []))" "()"]
  show ?thesis using r by (auto simp: default_settings_def)
qed

text \<open>
  The price cache in the database behaves as the one in memory: a payload is returned
  until it is older than the time to live, from then on the key reads as absent, and storing
  under one key changes no other.
\<close>

lemma price_cache_law:
  "db_get ttl (db_set rows t key p) now key' =
     (if key' = key then if ttl_us ttl < now - t then None else Some p
      else db_get ttl rows now key') \<and>
   rows_abs (db_set rows t key p) = memory_set (rows_abs rows) t key p \<and>
   db_get ttl rows now key' = memory_get ttl (rows_abs rows) now key'"
  by (simp add: db_get_abs db_set_abs memory_get_def memory_set_def)

text \<open>
  C27: From price lists of the documented form the prices of a volume type are read exactly: the
  first price per GB-month of the storage products, the first IOPS and throughput prices among
  the system operations, and for io2 all IOPS dimensions as tiers in ascending order; a list
  that lacks what the type needs is refused with a lookup error.
\<close>

theorem price_list_read:
  assumes "lists E region t storage ops w w1 w2"
  shows "if complete_list t storage ops
    then volume_prices E region t w = (w2, Inr (listed_prices t (storage_price storage) ops))
    else \<exists>w' m. volume_prices E region t w = (w', Inl (PricingLookupError m))"
  using volume_prices_listed [OF assms] volume_prices_incomplete [OF assms] by simp

lemma price_list_read_witness:
  "complete_list (lit ''gp3'') ex_storage ex_operations \<and>
   volume_prices ex_env ex_region (lit ''gp3'') 0 =
     (0, Inr (listed_prices (lit ''gp3'') (storage_price ex_storage) ex_operations))"
  using price_list_read [OF ex_lists, of 0] ex_complete by simp

text \<open>
  C28: With the price interface in front of the shipped table, a request about known volume
  types always gets an amount: whatever the provider, the clock and the cache do, the result is
  priced, its confidence agrees with it, and it comes from the interface, or from the table with
  the interface's exception as its first warning.
\<close>

theorem service_always_prices:
  assumes "\<forall>r \<in> set (request_volumes req). er_volume_type r \<in> set volume_types"
    and "st_pricing_mode st = PM_AUTO"
  shows "case estimate st (Some (api_estimate E)) (fallback_backend fallback_prices) s req of
      (s', r) \<Rightarrow>
        pr_estimated_monthly_cost r \<noteq> None \<and> coherent r \<and>
        (case snd (api_estimate E s req) of
           Inr r' \<Rightarrow> r = r' \<and> pr_source r = AWS_PRICING_API
         | Inl e \<Rightarrow> pr_source r = FALLBACK_TABLE \<and> hd (pr_warnings r) = exc_text e)"
proof -
  obtain f where f: "fallback_estimate fallback_prices req = Inr f"
    and "pr_estimated_monthly_cost f \<noteq> None" "pr_source f = FALLBACK_TABLE"
    using fallback_prices_known [OF fallback_prices_complete assms(1)] by auto
  moreover have "coherent f" using f by (rule fallback_coherent)
  moreover have "r_ok (snd (api_estimate E s req)) \<Longrightarrow>
      coherent (projr (snd (api_estimate E s req))) \<and>
      pr_estimated_monthly_cost (projr (snd (api_estimate E s req))) \<noteq> None \<and>
      pr_source (projr (snd (api_estimate E s req))) = AWS_PRICING_API"
    using api_estimate_priced [of E s req "fst (api_estimate E s req)"]
    by (auto simp: r_ok_iff prod_eq_iff)
  ultimately show ?thesis
    using estimate_in_front [OF assms(2) f, of E s]
    by (simp add: split_beta split: sum.split) (auto simp: r_ok_iff)
qed

lemma service_always_prices_witness:
  "pr_estimated_monthly_cost
     (snd (estimate default_settings (Some (api_estimate ex_env)) (fallback_backend fallback_prices)
        (ex_time, []) (ElasticIpPricingRequest ex_region))) \<noteq> None"
  using service_always_prices [of "ElasticIpPricingRequest ex_region" default_settings ex_env
      "(ex_time, [])"]
  by (simp add: default_settings_def split_beta)

text \<open>
  C29: A request the price interface answered is answered the same way again from the cache:
  until the stored prices are older than the time to live, every request that loads the same
  prices is estimated from them, with the time of their retrieval and without a call of the
  provider, and always gets an amount; after that, the interface loads anew. Entries under other
  keys are not touched.
\<close>

theorem cached_price_repeats:
  assumes "pe_cache_get E = db_get ttl" and "pe_cache_set E = db_set"
    and "\<And>xs. set (pe_set_order E xs) = set xs"
    and "missed E w c req" and "loaded E w req = Inr p" and "in_calendar (fetched_time E w req)"
    and "loads_same req req'" and "api_estimate E (w, c) req = ((w', c'), r)"
  shows "r_ok r \<and> r = api_result req p (fetched_time E w req) \<and>
    (if snd (pe_now E u) - stored_time E w req \<le> ttl_us ttl
     then api_estimate E (u, c') req' =
            ((fst (pe_now E u), c'), api_result req' p (fetched_time E w req)) \<and>
          r_ok (api_result req' p (fetched_time E w req))
     else missed E u c' req') \<and>
    (\<forall>other. cache_key (pe_sha256 E) other \<noteq> cache_key (pe_sha256 E) req \<longrightarrow>
       missed E u c' other = missed E u c other)"
proof -
  have self: "loads_same req req" using identity_loads_same by blast
  have load: "load_prices E req (fst (pe_now E w)) = (after_load E w req, Inr p)"
    using assms(5) by (simp add: loaded_def after_load_def prod_eq_iff)
  have ok: "r_ok (api_result q p t)" if "loads_same req q" for q t
    using load_prices_suffice [OF load that assms(3)]
    by (auto simp: api_result_def Let_def r_ok_iff split_paired_all)
  have key: "cache_key (pe_sha256 E) req' = cache_key (pe_sha256 E) req"
    using assms(7) identity_loads_same [of req req'] by (simp add: cache_key_def)
  have c': "snd (fst (api_estimate E (w, c) req)) = c'" using assms(8) by simp
  have "r = api_result req p (fetched_time E w req)"
    using api_estimate_miss(1) [OF assms(4)] assms(5,8) by simp
  moreover have "api_estimate E (u, c') req' =
      ((fst (pe_now E u), c'), api_result req' p (fetched_time E w req))"
    if "snd (pe_now E u) - stored_time E w req \<le> ttl_us ttl"
    using db_payloads.repeated [OF assms(1,2,4,5) key that assms(6)] unfolding c' .
  moreover have "missed E u c' req'"
    if "\<not> snd (pe_now E u) - stored_time E w req \<le> ttl_us ttl"
    using db_payloads.expired [OF assms(1,2,4,5) key] that unfolding c' not_le by blast
  moreover have "missed E u c' other = missed E u c other"
    if "cache_key (pe_sha256 E) other \<noteq> cache_key (pe_sha256 E) req" for other
    using db_payloads.others [OF assms(1,2,4) that] unfolding c' missed_def by simp
  ultimately show ?thesis using ok [OF self] ok [OF assms(7)] by simp
qed

lemma cached_price_repeats_witness:
  "case api_estimate ex_env (ex_time, []) (ElasticIpPricingRequest ex_region) of
     ((w, c), r) \<Rightarrow>
       r_ok r \<and>
       api_estimate ex_env (ex_time + 9 * us_per_second, c) (ElasticIpPricingRequest ex_region) =
         ((ex_time + 10 * us_per_second, c), r)"
proof -
  obtain w c r where e: "api_estimate ex_env (ex_time, []) (ElasticIpPricingRequest ex_region) =
      ((w, c), r)" by (metis prod.exhaust)
  have cache: "pe_cache_get ex_env = db_get 60" "pe_cache_set ex_env = db_set"
    "set (pe_set_order ex_env xs) = set xs" for xs by (simp_all add: ex_env_def)
  have same: "loads_same (ElasticIpPricingRequest ex_region) (ElasticIpPricingRequest ex_region)"
    by simp
  have time: "in_calendar (fetched_time ex_env ex_time (ElasticIpPricingRequest ex_region))"
    by (simp add: ex_times)
  note again = cached_price_repeats [OF cache ex_missed ex_loaded time same e,
      of "ex_time + 9 * us_per_second", unfolded ex_times]
  have "pe_now ex_env (ex_time + 9 * us_per_second) =
      (ex_time + 10 * us_per_second, ex_time + 9 * us_per_second)"
    by (simp add: ex_env_def us_per_second_def)
  with again e show ?thesis by (simp add: ttl_us_def us_per_second_def)
qed

section \<open>Stored values and services\<close>

text \<open>
  A timestamp survives the database: whatever aware value is stored, and whether the driver
  returns it naive or in some zone, the value read back is the same instant in UTC; a naive
  value is refused.
\<close>

lemma timestamp_round_trip:
  "(case process_bind_param (Some d) of
      Inr (Some stored) \<Rightarrow>
        aware d \<and> (\<forall>e. driver_returns stored e \<longrightarrow>
          process_result_value (Some e) = Some (utc (instant_of d)))
    | Inr None \<Rightarrow> False
    | Inl _ \<Rightarrow> \<not> aware d)"
  using result_of_driver by (auto simp: process_bind_param_def astimezone_utc_def)

lemma timestamp_round_trip_witness:
  "process_result_value (Some \<lparr>wall = 0, utcoffset = None\<rparr>) = Some (utc 0)"
proof -
  have "driver_returns (utc 0) \<lparr>wall = wall (utc 0), utcoffset = None\<rparr>" by (rule driver_returns.sqlite)
  then show ?thesis
    using timestamp_round_trip [of "utc 0"]
    by (simp add: process_bind_param_def astimezone_utc_def) (simp add: utc_def instant_of_def)
qed

text \<open>
  C30: A request that only reads leaves findings, scans, observations, settings and the runner as
  they are; any request refused with a status of 4xx leaves the whole state as it is; and every
  exception is answered with one of six statuses.
\<close>

theorem reads_change_nothing:
  "(\<not> writes req \<longrightarrow> same_tables st (fst (handle fl cx now req st))) \<and>
   (refused (status_of req (snd (handle fl cx now req st))) \<longrightarrow> fst (handle fl cx now req st) = st) \<and>
   (\<forall>e. snd (handle fl cx now req st) = Inl e \<longrightarrow>
      status_of req (snd (handle fl cx now req st)) \<in> {404, 409, 422, 500, 502, 503})"
  using reading_same handle_refused error_codes by (auto simp: status_of_def)

lemma reads_change_nothing_witness:
  "\<not> writes (GetFinding 99) \<and> refused (status_of (GetFinding 99) (snd (handle (\<lambda>x. x) ex_context 0 (GetFinding 99) ex_state))) \<and>
   same_tables ex_state (fst (handle (\<lambda>x. x) ex_context 0 (GetFinding 99) ex_state)) \<and>
   fst (handle (\<lambda>x. x) ex_context 0 (GetFinding 99) ex_state) = ex_state"
proof -
  have "snd (handle (\<lambda>x. x) ex_context 0 (GetFinding 99) ex_state) = Inl (NotFoundError (lit ''Finding '' @ uuid_text 99 @ lit '' was not found.''))"
    by (simp add: wrapped_snd get_finding_route_def service_get_def get_finding_def ex_state_def
        started_state_def ex_db_def ex_finding_def)
  then have "refused (status_of (GetFinding 99) (snd (handle (\<lambda>x. x) ex_context 0 (GetFinding 99) ex_state)))"
    by (simp add: status_of_def NotFoundError_def refused_def)
  moreover have "\<not> writes (GetFinding 99)" by (simp add: writes_def)
  ultimately show ?thesis using reads_change_nothing [of "GetFinding 99" ex_state "\<lambda>x. x" ex_context 0] by blast
qed



text \<open>
  Dismissing a finding and opening it again restores it, except for the time of its last
  update.
\<close>

lemma dismiss_then_open:
  assumes "f_status f = OPEN" and "f_dismissed_at f = None" and "f_dismiss_reason f = None"
    and "patch_finding f (lit ''dismissed'') reason t = Inr g"
    and "patch_finding g (lit ''open'') reason' t' = Inr h"
  shows "h = f\<lparr>f_updated_at := t'\<rparr>"
  using assms by (rule patch_round_trip)

lemma dismiss_then_open_witness:
  "\<exists>g. patch_finding ex_finding (lit ''dismissed'') (Some (lit ''x'')) (day 21) = Inr g \<and>
     patch_finding g (lit ''open'') None (day 22) = Inr (ex_finding\<lparr>f_updated_at := day 22\<rparr>)"
proof -
  have f: "f_status ex_finding = OPEN" "f_dismissed_at ex_finding = None"
    "f_dismiss_reason ex_finding = None" by (simp_all add: ex_finding_def)
  obtain g where g: "patch_finding ex_finding (lit ''dismissed'') (Some (lit ''x'')) (day 21) = Inr g"
    using patch_ok_iff [of ex_finding "lit ''dismissed''"] f by (auto simp: r_ok_iff)
  then have "f_status g = DISMISSED" using f by (auto simp: patch_finding_def)
  then obtain h where h: "patch_finding g (lit ''open'') None (day 22) = Inr h"
    using patch_ok_iff [of g "lit ''open''"] by (auto simp: r_ok_iff)
  with dismiss_then_open [OF f g h] g show ?thesis by blast
qed





text \<open>
  The cleanup plan of a finding is made whenever its detector has a threshold, offers a
  deleting script exactly when eligibility does, repeats its reason otherwise, and never tells
  a negative number of days until the finding is persistent.
\<close>

lemma cleanup_plan_agrees:
  assumes "st_thresholds_days st (f_detector_type f) \<noteq> None"
  shows "\<exists>p. build_cleanup_plan f st now = Inr p \<and>
     cl_script_kind p = fst (script_kind_for f) \<and>
     cl_script_unavailable_reason p = snd (script_kind_for f) \<and>
     (cl_script_available p \<longleftrightarrow> fst (script_kind_for f) = GUARDED_REMEDIATION) \<and>
     (\<forall>k. oh_days_until_persistent (cl_observation_history p) = Some k \<longrightarrow> 0 \<le> k)"
proof -
  obtain p where p: "build_cleanup_plan f st now = Inr p"
    using build_plan_ok assms by (metis r_ok_iff)
  then show ?thesis using build_plan_script [OF p] days_until_nonneg by auto
qed

lemma cleanup_plan_agrees_witness:
  "\<exists>p. build_cleanup_plan ex_finding default_settings (day 30) = Inr p \<and> cl_script_available p"
proof -
  have "st_thresholds_days default_settings (f_detector_type ex_finding) \<noteq> None"
    using default_thresholds_total by (auto simp: thresholds_total_def)
  from cleanup_plan_agrees [OF this] show ?thesis by (auto simp: ex_finding_kind)
qed

text \<open>
  C34: What the interface reports of a finding is consistent: the report and the cleanup plan can
  be made whenever its detector has a threshold, they and every script made agree on the kind
  of script and on the reason, the ages are ordered, and the days until the finding is
  persistent are exact: seen so many days later with enough observations it is persistent, and
  not before.
\<close>

theorem finding_reports_agree:
  assumes "st_thresholds_days st (f_detector_type f) \<noteq> None" and "lifecycle now f"
  shows "\<exists>v p. as_finding_out fl f st now = Inr v \<and> build_cleanup_plan f st now = Inr p \<and>
     cl_script_kind p = fo_script_kind v \<and> cl_script_available p = fo_script_available v \<and>
     cl_script_unavailable_reason p = fo_script_unavailable_reason v \<and>
     oh_days_until_persistent (cl_observation_history p) = fo_days_until_persistent v \<and>
     (\<forall>g. script_out_of f now st = Inr g \<longrightarrow>
        xo_kind g = fo_script_kind v \<and> xo_unavailable_reason g = fo_script_unavailable_reason v) \<and>
     0 \<le> fo_observation_age_days v \<and> fo_observation_age_days v \<le> fo_first_observed_days_ago v \<and>
     0 \<le> fo_last_observed_days_ago v \<and> fo_last_observed_days_ago v \<le> fo_first_observed_days_ago v \<and>
     (\<forall>k days n. fo_days_until_persistent v = Some k \<longrightarrow> 0 \<le> days \<longrightarrow>
        st_min_consecutive_observations st \<le> n \<longrightarrow>
        (compute_persistence (seen_after days n f) st = Inr PERSISTENT \<longleftrightarrow> k \<le> days))"
proof -
  from assms(1) obtain v where v: "as_finding_out fl f st now = Inr v"
    using finding_out_ok by (metis r_ok_iff)
  from assms(1) obtain p where p: "build_cleanup_plan f st now = Inr p"
    using build_plan_ok by (metis r_ok_iff)
  show ?thesis
    using v p plan_agrees [OF v p] script_out_agrees [OF v] finding_out_ages [OF v assms(2)]
      days_until_exact [OF v] by (intro exI [of _ v] exI [of _ p]) simp
qed

lemma finding_reports_agree_witness:
  "\<exists>v p. as_finding_out (\<lambda>x. x) ex_finding default_settings (day 30) = Inr v \<and>
     build_cleanup_plan ex_finding default_settings (day 30) = Inr p \<and> cl_script_available p = fo_script_available v"
proof -
  have t: "st_thresholds_days default_settings (f_detector_type ex_finding) \<noteq> None"
    using default_thresholds_total by (auto simp: thresholds_total_def)
  have "lifecycle (day 30) ex_finding"
    by (simp add: lifecycle_def ex_finding_def day_def us_per_day_def)
  from finding_reports_agree [OF t this, of "\<lambda>x. x"] show ?thesis by blast
qed

text \<open>
  C35: The validator of resource ids accepts exactly the prefix of the resource's type followed
  by 8 or 17 lower-case hexadecimal digits, returns the text unchanged, and labels it with the
  kind the script generator expects of that type.
\<close>

theorem resource_id_language:
  "validate_resource_id rt v = Inr x \<longleftrightarrow>
     x = \<lparr>id_kind = resource_kind rt, id_value = v\<rparr> \<and>
     (\<exists>h. v = resource_prefix rt @ h \<and> (length h = 8 \<or> length h = 17) \<and> hex_text h)"
  by (rule validate_resource_id_iff)

section \<open>The live provider\<close>

text \<open>
  C36: Within a scan, a memoized call that was answered, with a value or with an error of the
  provider, is answered the same way again, whatever the provider behind would say by then:
  the later call changes nothing, so it does not reach that provider.
\<close>

theorem memo_answers_once:
  assumes "run_calls P cs s = (s', rs)" and "i < j" and "j < length cs" and "cs ! j = cs ! i"
    and "key_of_call (cs ! i) \<noteq> None" and "settled (rs ! i)"
  shows "rs ! j = rs ! i \<and>
     fst (run_calls P (take (Suc j) cs) s) = fst (run_calls P (take j cs) s)"
  using assms by (rule memo_again)

lemma memo_answers_once_witness:
  "snd (run_calls ex_live [C_regions, C_regions] (new_scoped 0)) ! 1 =
     Inl (Prov (ProviderTransientError (show_nat 0)))"
proof -
  obtain s' rs where run: "run_calls ex_live [C_regions, C_regions] (new_scoped 0) = (s', rs)"
    by fastforce
  with ex_live_replies have "rs ! 0 = Inl (Prov (ProviderTransientError (show_nat 0)))" by simp
  with memo_answers_once [OF run, of 0 1] run show ?thesis by simp
qed



text \<open>
  A guarded client sends only the allowed operations, and these only describe, get or
  list: any other call leaves the world as it is and raises. The guard never refuses what the
  wrappers ask for, so each wrapper behaves on a guarded client as on the client itself.
\<close>

lemma guard_only_reads:
  fixes models :: "pystr \<Rightarrow> op_model" and C :: "'w aws_client"
  assumes "models_ok models"
  defines "G \<equiv> guarded_client models C"
  shows "(\<forall>name kwargs w.
       if operation_name (models name) \<in> set allowed_operations
       then reading (operation_name (models name)) \<and>
         cl_call G name kwargs w = cl_call C name kwargs w \<and>
         cl_pages G name kwargs w = cl_pages C name kwargs w
       else fst (cl_call G name kwargs w) = w \<and> fst (cl_pages G name kwargs w) = w \<and>
         (\<exists>e. snd (cl_call G name kwargs w) = Inl e) \<and> (\<exists>e. snd (cl_pages G name kwargs w) = Inl e)) \<and>
     describe_regions G = describe_regions C \<and> describe_volumes G = describe_volumes C \<and>
     describe_addresses G = describe_addresses C \<and> describe_instances G = describe_instances C \<and>
     describe_snapshots G = describe_snapshots C \<and> describe_images G = describe_images C \<and>
     describe_snapshot_attribute G = describe_snapshot_attribute C \<and>
     describe_locked_snapshots G = describe_locked_snapshots C \<and>
     get_caller_identity G = get_caller_identity C \<and> get_products G = get_products C \<and>
     list_stacks G = list_stacks C \<and> stack_resources G = stack_resources C"
proof -
  have "if operation_name (models name) \<in> set allowed_operations
       then reading (operation_name (models name)) \<and>
         cl_call G name kwargs w = cl_call C name kwargs w \<and>
         cl_pages G name kwargs w = cl_pages C name kwargs w
       else fst (cl_call G name kwargs w) = w \<and> fst (cl_pages G name kwargs w) = w \<and>
         (\<exists>e. snd (cl_call G name kwargs w) = Inl e) \<and> (\<exists>e. snd (cl_pages G name kwargs w) = Inl e)"
    for name kwargs w
    using guard_call_cases [of "models name" "cl_call C name kwargs"]
      guard_call_cases [of "models name" "cl_pages C name kwargs"] allowed_reading
    by (auto simp: G_def guarded_client_def)
  moreover have "describe_regions G = describe_regions C \<and> describe_volumes G = describe_volumes C \<and>
     describe_addresses G = describe_addresses C \<and> describe_instances G = describe_instances C \<and>
     describe_snapshots G = describe_snapshots C \<and> describe_images G = describe_images C \<and>
     describe_snapshot_attribute G = describe_snapshot_attribute C \<and>
     describe_locked_snapshots G = describe_locked_snapshots C \<and>
     get_caller_identity G = get_caller_identity C \<and> get_products G = get_products C \<and>
     list_stacks G = list_stacks C \<and> stack_resources G = stack_resources C"
    by (simp add: G_def guarded_wrappers [OF assms(1)])
  ultimately show ?thesis by blast
qed

lemma guard_only_reads_witness:
  "fst (cl_call (guarded_client ex_models ex_client) (lit ''delete_volume'') [] 0) = 0"
  using conjunct1 [OF guard_only_reads [OF ex_models_ok, of ex_client],
      rule_format, of "lit ''delete_volume''" "[]" 0]
  by (simp add: ex_models_delete)

text \<open>
  C38: A wrapped call makes at most four attempts, the next one only after the last was
  throttled, with pauses of 0.5, 1 and 2 seconds, which is 3.5 seconds at most; it gives what
  the last attempt returned, and otherwise raises its exception as one of the provider.
\<close>

theorem retry_outcome:
  assumes "invoke meth operation region w = (w', slept, r)"
  defines "k \<equiv> length slept"
  shows "k \<le> 3 \<and> slept = take k [1 / 2, 1, 2] \<and> sum_list slept \<le> 7 / 2 \<and>
     (\<forall>i < k. too_fast (snd (meth (before_attempt meth i w)))) \<and>
     w' = before_attempt meth (Suc k) w \<and>
     (case snd (meth (before_attempt meth k w)) of
        Inr x \<Rightarrow> r = Inr x
      | Inl e \<Rightarrow> r = Inl (Prov (translate_client_error e operation region)) \<and>
          (throttled e \<longrightarrow> k = 3))"
proof -
  have slept: "slept = take k [1 / 2, 1, 2]"
    and out: "outcome_after meth operation region w k 3 w' r"
    using attempts_four [OF assms(1) [unfolded invoke_def]] by (auto simp: k_def)
  then have "k \<in> {0, 1, 2, 3}" by (auto simp: outcome_after_def)
  then have "sum_list slept \<le> 7 / 2" by (subst slept) (auto simp: numeral_2_eq_2 numeral_3_eq_3)
  with slept out show ?thesis by (simp add: outcome_after_def)
qed

lemma retry_outcome_witness:
  "too_fast (snd (ex_method 0)) \<and> sum_list [1 / 2, 1 :: rat] \<le> 7 / 2"
  using retry_outcome [OF ex_method_invoked] by auto

text \<open>
  C39: Listing the locks of snapshots returns the items of all pages in order when the
  endpoint's tokens come to an end; against an endpoint that sends a token with every page the
  loop never ends.
\<close>

theorem manual_pages:
  assumes "serves fetch key name pages" and "endless fetch' key'"
  shows "(\<exists>w'. paginate_manually fetch operation region key w =
       Some (w', [], Inr (listing key (concat pages)))) \<and>
     paginate_manually fetch' operation region key' w = None"
  using paginate_manually_serves [OF assms(1)] collect_pages_endless [OF assms(2)]
  by (simp add: paginate_manually_def)

lemma manual_pages_witness:
  "\<exists>w'. paginate_manually ex_fetch (lit ''ec2:DescribeLockedSnapshots'') None (lit ''Snapshots'') 0 =
     Some (w', [], Inr (listing (lit ''Snapshots'') [VInt 1, VInt 2, VInt 3]))"
  using manual_pages [OF ex_fetch_serves ex_endless_endless,
      of "lit ''ec2:DescribeLockedSnapshots''" None 0] by simp



end
